(* ===== verification/Prelude.thy ===== *)
theory Prelude
  imports Main "HOL-Library.Word" "HOL-Library.Monad_Syntax"
begin

text \<open>
  Shared vocabulary of the development: the machine integer types of the C sources, the
  predicate \<open>yields\<close> that says an operation returns and what its result satisfies, and
  generic facts on lists, sums over maps and updated functions.

  Every stateful operation of the model has a result of type \<open>'a option\<close>. The value
  \<open>None\<close> stands for behaviour that the C code must never show: an access to freed
  memory, an access outside a buffer, or a recursion that does not come back within its
  fuel. \<open>yields m Q\<close> excludes it.
\<close>

type_synonym u8 = "8 word"
type_synonym u16 = "16 word"
type_synonym u32 = "32 word"
type_synonym u64 = "64 word"

type_synonym addr = nat

section \<open>Results of operations\<close>

named_theorems yields_rules \<open>decomposition of a claim about a composed operation\<close>

definition yields :: "'a option \<Rightarrow> ('a \<Rightarrow> bool) \<Rightarrow> bool" where
  "yields m Q = (case m of None \<Rightarrow> False | Some x \<Rightarrow> Q x)"

lemma yields_Some [simp, yields_rules]: "yields (Some x) Q = Q x"
  by (simp add: yields_def)

lemma yields_None [simp]: "\<not> yields None Q"
  by (simp add: yields_def)

lemma yields_bind [yields_rules]: "yields (Option.bind m f) Q = yields m (\<lambda>x. yields (f x) Q)"
  by (cases m) simp_all

lemma yields_if [yields_rules]:
  "yields (if b then m else m') Q = ((b \<longrightarrow> yields m Q) \<and> (\<not> b \<longrightarrow> yields m' Q))"
  by simp

lemma yields_mono: "yields m P \<Longrightarrow> (\<And>x. P x \<Longrightarrow> Q x) \<Longrightarrow> yields m Q"
  by (cases m) simp_all

lemma yields_iff_ex: "yields m Q \<longleftrightarrow> (\<exists>x. m = Some x \<and> Q x)"
  by (cases m) simp_all

lemma yieldsE:
  assumes "yields m Q"
  obtains x where "m = Some x" and "Q x"
  using assms by (auto simp: yields_iff_ex)

lemma yields_pair_mono:
  assumes "yields m (\<lambda>(x, y). P x y)" and "\<And>x y. m = Some (x, y) \<Longrightarrow> P x y \<Longrightarrow> Q x y"
  shows "\<exists>x y. m = Some (x, y) \<and> Q x y"
  using assms by (auto elim!: yieldsE)

lemma yields_pairE:
  assumes "yields m (\<lambda>(x, y). P x y)"
  obtains x y where "m = Some (x, y)" and "P x y"
  using assms by (auto elim!: yieldsE)

lemma yields_bindI: "yields m P \<Longrightarrow> (\<And>x. P x \<Longrightarrow> yields (f x) Q) \<Longrightarrow> yields (Option.bind m f) Q"
  by (cases m) simp_all

lemma yields_conjI: "yields m P \<Longrightarrow> yields m Q \<Longrightarrow> yields m (\<lambda>x. P x \<and> Q x)"
  by (cases m) simp_all

section \<open>Lists\<close>

lemma remove1_count_list: "count_list (remove1 x xs) y = (if x = y then count_list xs y - 1 else count_list xs y)"
  by (induction xs) auto

lemma count_list_pos: "x \<in> set xs \<longleftrightarrow> 0 < count_list xs x"
  by (induction xs) auto

lemma count_list_zero: "x \<notin> set xs \<Longrightarrow> count_list xs x = 0"
  by (induction xs) auto

lemma count_list_append: "count_list (xs @ ys) x = count_list xs x + count_list ys x"
  by (induction xs) auto

lemma sum_list_remove1:
  "x \<in> set xs \<Longrightarrow> sum_list (map f (remove1 x xs)) = sum_list (map f xs) - (f x :: int)"
  by (induction xs) auto

lemma sum_list_map_cong: "(\<And>x. x \<in> set xs \<Longrightarrow> f x = g x) \<Longrightarrow> sum_list (map f xs) = sum_list (map g xs)"
  by (induction xs) auto

lemma sum_list_nonneg_int: "(\<And>x. x \<in> set xs \<Longrightarrow> (0::int) \<le> f x) \<Longrightarrow> 0 \<le> sum_list (map f xs)"
  by (induction xs) fastforce+

lemma member_le_sum_list_int:
  "x \<in> set xs \<Longrightarrow> (\<And>y. y \<in> set xs \<Longrightarrow> (0::int) \<le> f y) \<Longrightarrow> f x \<le> sum_list (map f xs)"
proof (induction xs)
  case Nil
  then show ?case by simp
next
  case (Cons y ys)
  have "0 \<le> sum_list (map f ys)"
    using Cons.prems(2) by (intro sum_list_nonneg_int) auto
  moreover have "0 \<le> f y" using Cons.prems(2) by simp
  ultimately show ?case using Cons by (cases "x = y") force+
qed

lemma distinct_set_singleton: "distinct xs \<Longrightarrow> set xs = {x} \<Longrightarrow> xs = [x]"
  by (cases xs rule: remdups_adj.cases) auto

section \<open>Words\<close>

lemma unat_of_nat_u32: "n < 2 ^ 32 \<Longrightarrow> unat (of_nat n :: u32) = n"
  by (simp add: unsigned_of_nat take_bit_nat_eq_self)

lemma unat_of_nat_u16: "n < 2 ^ 16 \<Longrightarrow> unat (of_nat n :: u16) = n"
  by (simp add: unsigned_of_nat take_bit_nat_eq_self)

lemma unat_of_nat_u64: "n < 2 ^ 64 \<Longrightarrow> unat (of_nat n :: u64) = n"
  by (simp add: unsigned_of_nat take_bit_nat_eq_self)

end
