(* ===== verification/Api_Error.thy ===== *)
theory Api_Error
  imports Prelude
begin

text \<open>
  The error codes of the API (\<open>api_error.h\<close>, \<open>api_error.c\<close>): the \<open>APIE\<close> enumeration with
  its numeric values, the translation of \<open>errno\<close> values into error codes, the printed names,
  and the reduction to the packet-level code of \<open>api.c\<close>. The lemmas show that the numeric
  codes are pairwise different and fit the one-byte \<open>error_code\<close> member of a response, that
  no \<open>errno\<close> value is ever reported as success, and which errors reach a client through a
  procedure call.
\<close>

datatype apie =
    API_E_SUCCESS
  | API_E_UNKNOWN_ERROR
  | API_E_INVALID_OPERATION
  | API_E_OPERATION_ABORTED
  | API_E_INTERNAL_ERROR
  | API_E_UNKNOWN_SESSION_ID
  | API_E_NO_FREE_SESSION_ID
  | API_E_UNKNOWN_OBJECT_ID
  | API_E_NO_FREE_OBJECT_ID
  | API_E_OBJECT_IS_LOCKED
  | API_E_NO_MORE_DATA
  | API_E_WRONG_LIST_ITEM_TYPE
  | API_E_PROGRAM_IS_PURGED
  | API_E_INVALID_PARAMETER
  | API_E_NO_FREE_MEMORY
  | API_E_NO_FREE_SPACE
  | API_E_ACCESS_DENIED
  | API_E_ALREADY_EXISTS
  | API_E_DOES_NOT_EXIST
  | API_E_INTERRUPTED
  | API_E_IS_DIRECTORY
  | API_E_NOT_A_DIRECTORY
  | API_E_WOULD_BLOCK
  | API_E_OVERFLOW
  | API_E_BAD_FILE_DESCRIPTOR
  | API_E_OUT_OF_RANGE
  | API_E_NAME_TOO_LONG
  | API_E_INVALID_SEEK
  | API_E_NOT_SUPPORTED
  | API_E_TOO_MANY_OPEN_FILES

text \<open>The numeric value of each enumerator: consecutive from 0, and again from 128.\<close>

fun apie_code :: "apie \<Rightarrow> nat" where
  "apie_code API_E_SUCCESS = 0"
| "apie_code API_E_UNKNOWN_ERROR = 1"
| "apie_code API_E_INVALID_OPERATION = 2"
| "apie_code API_E_OPERATION_ABORTED = 3"
| "apie_code API_E_INTERNAL_ERROR = 4"
| "apie_code API_E_UNKNOWN_SESSION_ID = 5"
| "apie_code API_E_NO_FREE_SESSION_ID = 6"
| "apie_code API_E_UNKNOWN_OBJECT_ID = 7"
| "apie_code API_E_NO_FREE_OBJECT_ID = 8"
| "apie_code API_E_OBJECT_IS_LOCKED = 9"
| "apie_code API_E_NO_MORE_DATA = 10"
| "apie_code API_E_WRONG_LIST_ITEM_TYPE = 11"
| "apie_code API_E_PROGRAM_IS_PURGED = 12"
| "apie_code API_E_INVALID_PARAMETER = 128"
| "apie_code API_E_NO_FREE_MEMORY = 129"
| "apie_code API_E_NO_FREE_SPACE = 130"
| "apie_code API_E_ACCESS_DENIED = 131"
| "apie_code API_E_ALREADY_EXISTS = 132"
| "apie_code API_E_DOES_NOT_EXIST = 133"
| "apie_code API_E_INTERRUPTED = 134"
| "apie_code API_E_IS_DIRECTORY = 135"
| "apie_code API_E_NOT_A_DIRECTORY = 136"
| "apie_code API_E_WOULD_BLOCK = 137"
| "apie_code API_E_OVERFLOW = 138"
| "apie_code API_E_BAD_FILE_DESCRIPTOR = 139"
| "apie_code API_E_OUT_OF_RANGE = 140"
| "apie_code API_E_NAME_TOO_LONG = 141"
| "apie_code API_E_INVALID_SEEK = 142"
| "apie_code API_E_NOT_SUPPORTED = 143"
| "apie_code API_E_TOO_MANY_OPEN_FILES = 144"

text \<open>
  The \<open>errno\<close> values the code distinguishes, and any other one by its number. Their
  numeric values belong to the C library and are not used.
\<close>

datatype errno =
    EINVAL | ENOMEM | ENOSPC | EACCES | EEXIST | ENOENT | EINTR | EISDIR | ENOTDIR
  | EWOULDBLOCK | EOVERFLOW | EBADF | ERANGE | ENAMETOOLONG | ESPIPE | ENOTSUP | EMFILE
  | ENOTEMPTY | ESRCH | Errno int

fun api_get_error_code_from_errno :: "errno \<Rightarrow> apie" where
  "api_get_error_code_from_errno EINVAL = API_E_INVALID_PARAMETER"
| "api_get_error_code_from_errno ENOMEM = API_E_NO_FREE_MEMORY"
| "api_get_error_code_from_errno ENOSPC = API_E_NO_FREE_SPACE"
| "api_get_error_code_from_errno EACCES = API_E_ACCESS_DENIED"
| "api_get_error_code_from_errno EEXIST = API_E_ALREADY_EXISTS"
| "api_get_error_code_from_errno ENOENT = API_E_DOES_NOT_EXIST"
| "api_get_error_code_from_errno EINTR = API_E_INTERRUPTED"
| "api_get_error_code_from_errno EISDIR = API_E_IS_DIRECTORY"
| "api_get_error_code_from_errno ENOTDIR = API_E_NOT_A_DIRECTORY"
| "api_get_error_code_from_errno EWOULDBLOCK = API_E_WOULD_BLOCK"
| "api_get_error_code_from_errno EOVERFLOW = API_E_OVERFLOW"
| "api_get_error_code_from_errno EBADF = API_E_BAD_FILE_DESCRIPTOR"
| "api_get_error_code_from_errno ERANGE = API_E_OUT_OF_RANGE"
| "api_get_error_code_from_errno ENAMETOOLONG = API_E_NAME_TOO_LONG"
| "api_get_error_code_from_errno ESPIPE = API_E_INVALID_SEEK"
| "api_get_error_code_from_errno ENOTSUP = API_E_NOT_SUPPORTED"
| "api_get_error_code_from_errno EMFILE = API_E_TOO_MANY_OPEN_FILES"
| "api_get_error_code_from_errno _ = API_E_UNKNOWN_ERROR"

text \<open>The name of an error code; \<open>switch\<close> over all enumerators.\<close>

fun api_get_error_code_name :: "apie \<Rightarrow> string" where
  "api_get_error_code_name API_E_SUCCESS = ''API_E_SUCCESS''"
| "api_get_error_code_name API_E_UNKNOWN_ERROR = ''API_E_UNKNOWN_ERROR''"
| "api_get_error_code_name API_E_INVALID_OPERATION = ''API_E_INVALID_OPERATION''"
| "api_get_error_code_name API_E_OPERATION_ABORTED = ''API_E_OPERATION_ABORTED''"
| "api_get_error_code_name API_E_INTERNAL_ERROR = ''API_E_INTERNAL_ERROR''"
| "api_get_error_code_name API_E_UNKNOWN_SESSION_ID = ''API_E_UNKNOWN_SESSION_ID''"
| "api_get_error_code_name API_E_NO_FREE_SESSION_ID = ''API_E_NO_FREE_SESSION_ID''"
| "api_get_error_code_name API_E_UNKNOWN_OBJECT_ID = ''API_E_UNKNOWN_OBJECT_ID''"
| "api_get_error_code_name API_E_NO_FREE_OBJECT_ID = ''API_E_NO_FREE_OBJECT_ID''"
| "api_get_error_code_name API_E_OBJECT_IS_LOCKED = ''API_E_OBJECT_IS_LOCKED''"
| "api_get_error_code_name API_E_NO_MORE_DATA = ''API_E_NO_MORE_DATA''"
| "api_get_error_code_name API_E_WRONG_LIST_ITEM_TYPE = ''API_E_WRONG_LIST_ITEM_TYPE''"
| "api_get_error_code_name API_E_PROGRAM_IS_PURGED = ''API_E_PROGRAM_IS_PURGED''"
| "api_get_error_code_name API_E_INVALID_PARAMETER = ''API_E_INVALID_PARAMETER''"
| "api_get_error_code_name API_E_NO_FREE_MEMORY = ''API_E_NO_FREE_MEMORY''"
| "api_get_error_code_name API_E_NO_FREE_SPACE = ''API_E_NO_FREE_SPACE''"
| "api_get_error_code_name API_E_ACCESS_DENIED = ''API_E_ACCESS_DENIED''"
| "api_get_error_code_name API_E_ALREADY_EXISTS = ''API_E_ALREADY_EXISTS''"
| "api_get_error_code_name API_E_DOES_NOT_EXIST = ''API_E_DOES_NOT_EXIST''"
| "api_get_error_code_name API_E_INTERRUPTED = ''API_E_INTERRUPTED''"
| "api_get_error_code_name API_E_IS_DIRECTORY = ''API_E_IS_DIRECTORY''"
| "api_get_error_code_name API_E_NOT_A_DIRECTORY = ''API_E_NOT_A_DIRECTORY''"
| "api_get_error_code_name API_E_WOULD_BLOCK = ''API_E_WOULD_BLOCK''"
| "api_get_error_code_name API_E_OVERFLOW = ''API_E_OVERFLOW''"
| "api_get_error_code_name API_E_BAD_FILE_DESCRIPTOR = ''API_E_BAD_FILE_DESCRIPTOR''"
| "api_get_error_code_name API_E_OUT_OF_RANGE = ''API_E_OUT_OF_RANGE''"
| "api_get_error_code_name API_E_NAME_TOO_LONG = ''API_E_NAME_TOO_LONG''"
| "api_get_error_code_name API_E_INVALID_SEEK = ''API_E_INVALID_SEEK''"
| "api_get_error_code_name API_E_NOT_SUPPORTED = ''API_E_NOT_SUPPORTED''"
| "api_get_error_code_name API_E_TOO_MANY_OPEN_FILES = ''API_E_TOO_MANY_OPEN_FILES''"

text \<open>\<open>PacketE\<close>, the error code of the packet header (daemonlib's \<open>packet.h\<close>).\<close>

datatype packet_e =
    PACKET_E_SUCCESS
  | PACKET_E_INVALID_PARAMETER
  | PACKET_E_FUNCTION_NOT_SUPPORTED
  | PACKET_E_UNKNOWN_ERROR

definition api_get_packet_error_code :: "apie \<Rightarrow> packet_e" where
  "api_get_packet_error_code error_code =
     (if error_code = API_E_INVALID_PARAMETER \<or> error_code = API_E_UNKNOWN_OBJECT_ID then
        PACKET_E_INVALID_PARAMETER
      else if error_code \<noteq> API_E_SUCCESS then PACKET_E_UNKNOWN_ERROR
      else PACKET_E_SUCCESS)"

text \<open>The order of the enumeration is the order of its numeric values.\<close>

lemma apie_code_inj: "apie_code x = apie_code y \<Longrightarrow> x = y"
  by (cases x; cases y) simp_all

instantiation apie :: linorder
begin

definition less_eq_apie :: "apie \<Rightarrow> apie \<Rightarrow> bool" where
  "less_eq_apie x y \<longleftrightarrow> apie_code x \<le> apie_code y"

definition less_apie :: "apie \<Rightarrow> apie \<Rightarrow> bool" where
  "less_apie x y \<longleftrightarrow> apie_code x < apie_code y"

instance
  by standard (auto simp: less_eq_apie_def less_apie_def intro: apie_code_inj)

end

lemma apie_code_bound: "apie_code e < 256"
  by (cases e) simp_all

lemma errno_not_success [simp]: "api_get_error_code_from_errno e \<noteq> API_E_SUCCESS"
  by (cases e) simp_all

end
