(* ===== verification/State.thy ===== *)
theory State
  imports Api_Error
begin

unbundle bit_operations_syntax

text \<open>
  The state of the daemon: the structs of \<open>object.h\<close>, \<open>session.h\<close>, \<open>string.h\<close>, \<open>list.h\<close>,
  \<open>file.h\<close>, \<open>directory.h\<close> and \<open>process.h\<close> as records, the C heap as partial functions from
  addresses, and the static variables of \<open>inventory.c\<close>. An address that is not in the
  domain of its heap is freed (or was never allocated); reading it is \<open>None\<close>.

  Code outside the repository answers through \<open>answers\<close>: every call of the C library, the
  kernel or daemonlib that can fail takes the next answer, \<open>Inl\<close> an \<open>errno\<close> value or \<open>Inr\<close> a
  result. Theorems hold for every list of answers. What the code does to the outside world is
  appended to \<open>trace\<close>. Log output is not modelled.
\<close>

section \<open>Enumerations and constants\<close>

datatype object_type =
    OBJECT_TYPE_ANY
  | OBJECT_TYPE_STRING
  | OBJECT_TYPE_LIST
  | OBJECT_TYPE_FILE
  | OBJECT_TYPE_DIRECTORY
  | OBJECT_TYPE_PROCESS
  | OBJECT_TYPE_PROGRAM

fun object_type_code :: "object_type \<Rightarrow> int" where
  "object_type_code OBJECT_TYPE_ANY = -1"
| "object_type_code OBJECT_TYPE_STRING = 0"
| "object_type_code OBJECT_TYPE_LIST = 1"
| "object_type_code OBJECT_TYPE_FILE = 2"
| "object_type_code OBJECT_TYPE_DIRECTORY = 3"
| "object_type_code OBJECT_TYPE_PROCESS = 4"
| "object_type_code OBJECT_TYPE_PROGRAM = 5"

text \<open>The loops \<open>for (type = OBJECT_TYPE_STRING; type <= OBJECT_TYPE_PROGRAM; ++type)\<close> run over:\<close>

definition object_types :: "object_type list" where
  "object_types = [OBJECT_TYPE_STRING, OBJECT_TYPE_LIST, OBJECT_TYPE_FILE,
     OBJECT_TYPE_DIRECTORY, OBJECT_TYPE_PROCESS, OBJECT_TYPE_PROGRAM]"

definition object_is_valid_type :: "object_type \<Rightarrow> bool" where
  "object_is_valid_type t = (case t of
       OBJECT_TYPE_STRING \<Rightarrow> True | OBJECT_TYPE_LIST \<Rightarrow> True | OBJECT_TYPE_FILE \<Rightarrow> True
     | OBJECT_TYPE_DIRECTORY \<Rightarrow> True | OBJECT_TYPE_PROCESS \<Rightarrow> True
     | OBJECT_TYPE_PROGRAM \<Rightarrow> True | _ \<Rightarrow> False)"

definition OBJECT_CREATE_FLAG_INTERNAL :: u32 where "OBJECT_CREATE_FLAG_INTERNAL = 0x0001"
definition OBJECT_CREATE_FLAG_EXTERNAL :: u32 where "OBJECT_CREATE_FLAG_EXTERNAL = 0x0002"
definition OBJECT_CREATE_FLAG_LOCKED :: u32 where "OBJECT_CREATE_FLAG_LOCKED = 0x0004"

definition FILE_FLAG_TEMPORARY :: u32 where "FILE_FLAG_TEMPORARY = 0x0100"
definition FILE_EVENT_READABLE :: u16 where "FILE_EVENT_READABLE = 0x0001"
definition FILE_EVENT_WRITABLE :: u16 where "FILE_EVENT_WRITABLE = 0x0002"

definition INT32_MAX :: u32 where "INT32_MAX = 0x7FFFFFFF"
definition OBJECT_ID_ZERO :: u16 where "OBJECT_ID_ZERO = 0"
definition OBJECT_ID_MAX :: nat where "OBJECT_ID_MAX = 65535"
definition SESSION_ID_ZERO :: u16 where "SESSION_ID_ZERO = 0"
definition SESSION_ID_MAX :: nat where "SESSION_ID_MAX = 65535"
definition SESSION_MAX_LIFETIME :: u32 where "SESSION_MAX_LIFETIME = 3600"

datatype file_type =
    FILE_TYPE_UNKNOWN | FILE_TYPE_REGULAR | FILE_TYPE_DIRECTORY | FILE_TYPE_CHARACTER
  | FILE_TYPE_BLOCK | FILE_TYPE_FIFO | FILE_TYPE_SYMLINK | FILE_TYPE_SOCKET | FILE_TYPE_PIPE

datatype process_state =
    PROCESS_STATE_UNKNOWN | PROCESS_STATE_RUNNING | PROCESS_STATE_ERROR
  | PROCESS_STATE_EXITED | PROCESS_STATE_KILLED | PROCESS_STATE_STOPPED

section \<open>Structs\<close>

text \<open>
  I/O handles. A \<open>Pipe\<close> of daemonlib is a number; its members \<open>read_handle\<close> and \<open>write_handle\<close>
  are the two ends.
\<close>

datatype handle = Fd int | Pipe_read_handle int | Pipe_write_handle int

text \<open>
  A string buffer is the block of memory behind \<open>char *buffer\<close>, one entry per allocated byte;
  \<open>None\<close> is a byte that was never written.
\<close>

record string_obj =
  str_buffer :: "char option list"
  str_length :: u32
  str_allocated :: u32

record list_obj =
  items :: "addr list"

text \<open>
  A file object. The function pointers \<open>read\<close>, \<open>write\<close> and \<open>seek\<close> are set together, to the
  functions for files or to those for pipes; \<open>file_is_pipe_ops\<close> says to which.
\<close>

record file_obj =
  file_type :: file_type
  file_name :: addr
  file_flags :: u32
  file_events :: u16
  file_fd :: int
  file_pipe :: int
  file_async_read_eventfd :: int
  file_async_read_in_progress :: bool
  file_length_to_read_async :: u64
  file_is_pipe_ops :: bool

record directory_obj =
  dir_name :: addr
  dir_name_length :: nat
  dir_dp :: int
  dir_buffer :: string

record process_obj =
  proc_executable :: addr
  proc_arguments :: addr
  proc_environment :: addr
  proc_working_directory :: addr
  proc_uid :: u32
  proc_gid :: u32
  proc_pid :: int
  proc_stdin :: addr
  proc_stdout :: addr
  proc_stderr :: addr
  proc_release_on_death :: bool
  proc_state_changed :: "addr option"
  proc_state :: process_state
  proc_timestamp :: u64
  proc_exit_code :: u8
  proc_state_change_pipe :: int

datatype payload =
    P_String string_obj
  | P_List list_obj
  | P_File file_obj
  | P_Directory directory_obj
  | P_Process process_obj

fun payload_type :: "payload \<Rightarrow> object_type" where
  "payload_type (P_String _) = OBJECT_TYPE_STRING"
| "payload_type (P_List _) = OBJECT_TYPE_LIST"
| "payload_type (P_File _) = OBJECT_TYPE_FILE"
| "payload_type (P_Directory _) = OBJECT_TYPE_DIRECTORY"
| "payload_type (P_Process _) = OBJECT_TYPE_PROCESS"

text \<open>
  \<open>struct _Object\<close>, together with the struct it is the base of (\<open>payload\<close>). The sentinel of
  the doubly linked list of external references is the list of their addresses, in order.
\<close>

record object =
  obj_id :: u16
  obj_type :: object_type
  internal_reference_count :: int
  external_references :: "addr list"
  external_reference_count :: int
  lock_count :: int
  payload :: payload

record external_reference =
  ref_object :: addr
  ref_session :: addr
  ref_count :: int

record session =
  session_id :: u16
  session_timer_delay :: u64
  session_references :: "addr list"
  session_reference_count :: int

section \<open>The daemon\<close>

datatype event =
    Ev_event_add_source handle
  | Ev_event_remove_source handle
  | Ev_close int
  | Ev_closedir int
  | Ev_unlink string
  | Ev_pipe_destroy int
  | Ev_kill int int
  | Ev_thread_join addr
  | Ev_timer_configure addr u64
  | Ev_timer_destroy addr
  | Ev_async_file_read_callback u16 apie "char list"
  | Ev_async_file_write_callback u16 apie u8
  | Ev_file_events_occurred_callback u16 u16
  | Ev_process_state_changed_callback u16 process_state u64 u8
  | Ev_process_state_changed addr
  | Ev_open string u32 u32
  | Ev_write handle "char list"
  | Ev_lseek int int int
  | Ev_mkdir string u32
  | Ev_rewinddir int
  | Ev_thread_create addr
  | Ev_exec string "string list" "string list"
  | Ev_rename string string
  | Ev_fchmod int u32
  | Ev_acl_add_user string string string
  | Ev_conf_file_write string
  | Ev_timer_create addr
  | Ev_observation_timer_create nat
  | Ev_observation_timer_start nat u64 u64
  | Ev_observation_timer_destroy nat
  | Ev_timer_start addr u64 u64
  | Ev_program_process_spawned_callback u16
  | Ev_program_scheduler_state_changed_callback u16

text \<open>
  What the code takes from daemonlib and from the process it runs in: the macro
  \<open>GROW_ALLOCATION\<close>, the two predicates on \<open>errno\<close>, the two flags of a pipe, the bounded
  copying and appending of C strings (the length of the target block first), the effective user
  and group of the daemon, what \<open>robust_snprintf\<close> sets \<open>errno\<close> to when its text does not fit,
  the name and the number of an \<open>errno\<close> value, and the test for the end of a C string (with or
  without regard to the case).
\<close>

record daemonlib =
  grow_allocation :: "u32 \<Rightarrow> u32"
  errno_interrupted :: "errno \<Rightarrow> bool"
  errno_would_block :: "errno \<Rightarrow> bool"
  PIPE_FLAG_NON_BLOCKING_READ :: u32
  PIPE_FLAG_NON_BLOCKING_WRITE :: u32
  string_copy :: "nat \<Rightarrow> string \<Rightarrow> string"
  string_append :: "nat \<Rightarrow> string \<Rightarrow> string \<Rightarrow> string"
  geteuid :: u32
  getegid :: u32
  errno_truncated :: errno
  get_errno_name :: "errno \<Rightarrow> string"
  errno_number :: "errno \<Rightarrow> int"
  string_ends_with :: "string \<Rightarrow> string \<Rightarrow> bool \<Rightarrow> bool"

record apid =
  objs :: "addr \<Rightarrow> object option"
  refs :: "addr \<Rightarrow> external_reference option"
  sess :: "addr \<Rightarrow> session option"
  next_addr :: addr
  objects :: "object_type \<Rightarrow> addr list"
  sessions :: "addr list"
  stock_strings :: "addr list"
  next_object_id :: u16
  next_session_id :: u16
  lib :: daemonlib
  answers :: "(errno + int) list"
  trace :: "event list"

text \<open>The daemon after \<open>inventory_init\<close>: no sessions, no objects, both ID counters at 1.\<close>

definition initial_apid :: "daemonlib \<Rightarrow> (errno + int) list \<Rightarrow> apid" where
  "initial_apid dl rs = \<lparr>objs = Map.empty, refs = Map.empty, sess = Map.empty, next_addr = 0,
     objects = (\<lambda>_. []), sessions = [], stock_strings = [], next_object_id = 1,
     next_session_id = 1, lib = dl, answers = rs, trace = []\<rparr>"

section \<open>Memory and the outside world\<close>

text \<open>One call of code outside the repository; without further answers it succeeds with 0.\<close>

definition ask :: "apid \<Rightarrow> (errno + int) \<times> apid" where
  "ask s = (case answers s of [] \<Rightarrow> (Inr 0, s) | r # rs \<Rightarrow> (r, s\<lparr>answers := rs\<rparr>))"

definition emit :: "event \<Rightarrow> apid \<Rightarrow> apid" where
  "emit e s = s\<lparr>trace := trace s @ [e]\<rparr>"

definition put_obj :: "addr \<Rightarrow> object \<Rightarrow> apid \<Rightarrow> apid" where
  "put_obj a ob s = s\<lparr>objs := (objs s)(a := Some ob)\<rparr>"

definition free_obj :: "addr \<Rightarrow> apid \<Rightarrow> apid" where
  "free_obj a s = s\<lparr>objs := (objs s)(a := None)\<rparr>"

definition put_ref :: "addr \<Rightarrow> external_reference \<Rightarrow> apid \<Rightarrow> apid" where
  "put_ref r er s = s\<lparr>refs := (refs s)(r := Some er)\<rparr>"

definition free_ref :: "addr \<Rightarrow> apid \<Rightarrow> apid" where
  "free_ref r s = s\<lparr>refs := (refs s)(r := None)\<rparr>"

definition put_sess :: "addr \<Rightarrow> session \<Rightarrow> apid \<Rightarrow> apid" where
  "put_sess a se s = s\<lparr>sess := (sess s)(a := Some se)\<rparr>"

definition free_sess :: "addr \<Rightarrow> apid \<Rightarrow> apid" where
  "free_sess a s = s\<lparr>sess := (sess s)(a := None)\<rparr>"

definition put_objects :: "object_type \<Rightarrow> addr list \<Rightarrow> apid \<Rightarrow> apid" where
  "put_objects t as s = s\<lparr>objects := (objects s)(t := as)\<rparr>"

text \<open>
  \<open>calloc\<close> and \<open>malloc\<close>: the null pointer (\<open>None\<close>) when the answer is an error, otherwise an
  address that was never used before.
\<close>

definition calloc :: "apid \<Rightarrow> addr option \<times> apid" where
  "calloc s = (case ask s of
       (Inl _, s) \<Rightarrow> (None, s)
     | (Inr _, s) \<Rightarrow> (Some (next_addr s), s\<lparr>next_addr := Suc (next_addr s)\<rparr>))"

text \<open>\<open>free\<close> of the struct of an object; freeing it twice is not defined.\<close>

definition heap_free :: "addr \<Rightarrow> apid \<Rightarrow> apid option" where
  "heap_free a s = do { _ \<leftarrow> objs s a; Some (free_obj a s) }"

lemmas memory_defs = put_obj_def free_obj_def put_ref_def free_ref_def put_sess_def free_sess_def
  put_objects_def emit_def

lemma emit_fields [simp]:
  "objs (emit e s) = objs s" "refs (emit e s) = refs s" "sess (emit e s) = sess s"
  "next_addr (emit e s) = next_addr s" "objects (emit e s) = objects s"
  "sessions (emit e s) = sessions s" "stock_strings (emit e s) = stock_strings s"
  "next_object_id (emit e s) = next_object_id s" "next_session_id (emit e s) = next_session_id s"
  "lib (emit e s) = lib s" "answers (emit e s) = answers s" "trace (emit e s) = trace s @ [e]"
  by (simp_all add: emit_def)

lemma free_sess_fields [simp]:
  "objs (free_sess a s) = objs s" "refs (free_sess a s) = refs s" "sess (free_sess a s) = (sess s)(a := None)"
  "next_addr (free_sess a s) = next_addr s" "objects (free_sess a s) = objects s"
  "sessions (free_sess a s) = sessions s" "stock_strings (free_sess a s) = stock_strings s" "lib (free_sess a s) = lib s"
  by (simp_all add: free_sess_def)

text \<open>The zeroed base of a freshly allocated object, before \<open>object_create\<close> fills it in.\<close>

definition zero_object :: "payload \<Rightarrow> object" where
  "zero_object p = \<lparr>obj_id = 0, obj_type = payload_type p, internal_reference_count = 0,
     external_references = [], external_reference_count = 0, lock_count = 0, payload = p\<rparr>"

lemma set_object_types [simp]: "set object_types = UNIV - {OBJECT_TYPE_ANY}"
  by (auto simp: object_types_def intro: object_type.exhaust)

lemma distinct_object_types [simp]: "distinct object_types"
  by (simp add: object_types_def)

lemma payload_type_not_any [simp]: "payload_type p \<noteq> OBJECT_TYPE_ANY"
  by (cases p) simp_all

end
