(* ===== verification/Object.thy ===== *)
theory Object
  imports State
begin

text \<open>
  Reference counting and destruction of objects: \<open>object.c\<close>, the parts of \<open>inventory.c\<close> that
  register and remove objects, and the destroy functions of the object types, which release
  the objects an object refers to and so recur into \<open>object_remove_internal_reference\<close>.
  The recursion is cut by fuel; \<open>Invariant\<close> shows that the fuel chosen in
  \<open>object_remove_internal_reference\<close> is always enough.
\<close>

section \<open>Counters\<close>

definition object_add_internal_reference :: "addr \<Rightarrow> apid \<Rightarrow> apid option" where
  "object_add_internal_reference a s = do {
     ob \<leftarrow> objs s a;
     Some (put_obj a (ob\<lparr>internal_reference_count := internal_reference_count ob + 1\<rparr>) s)
   }"

definition object_lock :: "addr \<Rightarrow> apid \<Rightarrow> apid option" where
  "object_lock a s = do {
     ob \<leftarrow> objs s a;
     Some (put_obj a (ob\<lparr>lock_count := lock_count ob + 1\<rparr>) s)
   }"

definition object_unlock :: "addr \<Rightarrow> apid \<Rightarrow> apid option" where
  "object_unlock a s = do {
     ob \<leftarrow> objs s a;
     if lock_count ob = 0 then Some s
     else Some (put_obj a (ob\<lparr>lock_count := lock_count ob - 1\<rparr>) s)
   }"

section \<open>Object IDs and the inventory\<close>

text \<open>The two inner loops of \<open>inventory_get_next_object_id\<close>: is the candidate in use?\<close>

primrec object_id_collision_in :: "apid \<Rightarrow> u16 \<Rightarrow> addr list \<Rightarrow> bool option" where
  "object_id_collision_in s candidate [] = Some False"
| "object_id_collision_in s candidate (a # as) = do {
     ob \<leftarrow> objs s a;
     if candidate = obj_id ob then Some True else object_id_collision_in s candidate as
   }"

primrec object_id_collision :: "apid \<Rightarrow> u16 \<Rightarrow> object_type list \<Rightarrow> bool option" where
  "object_id_collision s candidate [] = Some False"
| "object_id_collision s candidate (t # ts) = do {
     collision \<leftarrow> object_id_collision_in s candidate (objects s t);
     if collision then Some True else object_id_collision s candidate ts
   }"

primrec inventory_get_next_object_id_loop ::
    "nat \<Rightarrow> apid \<Rightarrow> ((apie + u16) \<times> apid) option" where
  "inventory_get_next_object_id_loop 0 s = Some (Inl API_E_NO_FREE_OBJECT_ID, s)"
| "inventory_get_next_object_id_loop (Suc n) s = (
     let next = (if next_object_id s = OBJECT_ID_ZERO then 1 else next_object_id s);
         candidate = next;
         s = s\<lparr>next_object_id := next + 1\<rparr>
     in do {
       collision \<leftarrow> object_id_collision s candidate object_types;
       if \<not> collision then Some (Inr candidate, s)
       else inventory_get_next_object_id_loop n s
     })"

definition inventory_get_next_object_id :: "apid \<Rightarrow> ((apie + u16) \<times> apid) option" where
  "inventory_get_next_object_id = inventory_get_next_object_id_loop OBJECT_ID_MAX"

definition inventory_add_object :: "addr \<Rightarrow> apid \<Rightarrow> (apie \<times> apid) option" where
  "inventory_add_object a s = do {
     (r, s) \<leftarrow> inventory_get_next_object_id s;
     case r of
       Inl e \<Rightarrow> Some (e, s)
     | Inr i \<Rightarrow> do {
         ob \<leftarrow> objs s a;
         let s = put_obj a (ob\<lparr>obj_id := i\<rparr>) s;
         case ask s of
           (Inl en, s) \<Rightarrow> Some (api_get_error_code_from_errno en, s)
         | (Inr _, s) \<Rightarrow>
             Some (API_E_SUCCESS, put_objects (obj_type ob) (objects s (obj_type ob) @ [a]) s)
       }
   }"

text \<open>
  \<open>inventory_remove_object\<close>, with the item destructor of the array as an argument.
  \<open>array_remove\<close> runs the destructor on the item and takes that item out of the array.
\<close>

definition inventory_remove_object_with ::
    "(addr \<Rightarrow> apid \<Rightarrow> apid option) \<Rightarrow> addr \<Rightarrow> apid \<Rightarrow> apid option" where
  "inventory_remove_object_with destroy a s = do {
     ob \<leftarrow> objs s a;
     if a \<in> set (objects s (obj_type ob)) then do {
       s \<leftarrow> destroy a s;
       Some (put_objects (obj_type ob) (remove1 a (objects s (obj_type ob))) s)
     } else Some s
   }"

section \<open>External references\<close>

text \<open>The loop over the external references of an object that looks for the one of a session.\<close>

primrec find_external_reference :: "apid \<Rightarrow> addr \<Rightarrow> addr list \<Rightarrow> addr option option" where
  "find_external_reference s sa [] = Some None"
| "find_external_reference s sa (r # rs) = do {
     er \<leftarrow> refs s r;
     if ref_session er = sa then Some (Some r) else find_external_reference s sa rs
   }"

definition object_add_external_reference ::
    "addr \<Rightarrow> addr \<Rightarrow> apid \<Rightarrow> (apie \<times> apid) option" where
  "object_add_external_reference a sa s = do {
     ob \<leftarrow> objs s a;
     found \<leftarrow> find_external_reference s sa (external_references ob);
     case found of
       Some r \<Rightarrow> do {
         er \<leftarrow> refs s r;
         se \<leftarrow> sess s sa;
         let s = put_ref r (er\<lparr>ref_count := ref_count er + 1\<rparr>) s;
         let s = put_obj a (ob\<lparr>external_reference_count := external_reference_count ob + 1\<rparr>) s;
         let s = put_sess sa (se\<lparr>session_reference_count := session_reference_count se + 1\<rparr>) s;
         Some (API_E_SUCCESS, s)
       }
     | None \<Rightarrow>
         (case calloc s of
            (None, s) \<Rightarrow> Some (API_E_NO_FREE_MEMORY, s)
          | (Some r, s) \<Rightarrow> do {
              se \<leftarrow> sess s sa;
              let s = put_obj a (ob\<lparr>external_references := external_references ob @ [r],
                        external_reference_count := external_reference_count ob + 1\<rparr>) s;
              let s = put_sess sa (se\<lparr>session_references := session_references se @ [r],
                        session_reference_count := session_reference_count se + 1\<rparr>) s;
              Some (API_E_SUCCESS,
                put_ref r \<lparr>ref_object = a, ref_session = sa, ref_count = 1\<rparr> s)
            })
   }"

text \<open>The two \<open>node_remove\<close> calls that take a reference out of both lists it is linked into.\<close>

definition node_remove :: "addr \<Rightarrow> external_reference \<Rightarrow> apid \<Rightarrow> apid option" where
  "node_remove r er s = do {
     ob \<leftarrow> objs s (ref_object er);
     se \<leftarrow> sess s (ref_session er);
     let s = put_obj (ref_object er)
               (ob\<lparr>external_references := remove1 r (external_references ob)\<rparr>) s;
     Some (put_sess (ref_session er)
       (se\<lparr>session_references := remove1 r (session_references se)\<rparr>) s)
   }"

text \<open>The count of a reference is taken out of both counters.\<close>

definition subtract_reference_count :: "external_reference \<Rightarrow> apid \<Rightarrow> apid option" where
  "subtract_reference_count er s = do {
     ob \<leftarrow> objs s (ref_object er);
     se \<leftarrow> sess s (ref_session er);
     let s = put_obj (ref_object er)
               (ob\<lparr>external_reference_count := external_reference_count ob - ref_count er\<rparr>) s;
     Some (put_sess (ref_session er)
       (se\<lparr>session_reference_count := session_reference_count se - ref_count er\<rparr>) s)
   }"

text \<open>The loop of \<open>object_destroy\<close> that drops the external references still there.\<close>

primrec object_drop_external_references :: "nat \<Rightarrow> addr \<Rightarrow> apid \<Rightarrow> apid option" where
  "object_drop_external_references 0 a s = do {
     ob \<leftarrow> objs s a;
     if external_references ob = [] then Some s else None
   }"
| "object_drop_external_references (Suc n) a s = do {
     ob \<leftarrow> objs s a;
     case external_references ob of
       [] \<Rightarrow> Some s
     | r # _ \<Rightarrow> do {
         er \<leftarrow> refs s r;
         s \<leftarrow> node_remove r er s;
         s \<leftarrow> subtract_reference_count er s;
         object_drop_external_references n a (free_ref r s)
       }
   }"

section \<open>Destroy functions\<close>

text \<open>
  The argument \<open>release\<close> stands for \<open>object_remove_internal_reference\<close>, which is defined in
  terms of these functions below.
\<close>

definition unlock_and_release :: "(addr \<Rightarrow> apid \<Rightarrow> apid option) \<Rightarrow> addr \<Rightarrow> apid \<Rightarrow> apid option" where
  "unlock_and_release release a s = do {
     s \<leftarrow> object_unlock a s;
     release a s
   }"

text \<open>The C string at the start of a buffer: the bytes before the first null byte.\<close>

fun c_string :: "char option list \<Rightarrow> string option" where
  "c_string [] = None"
| "c_string (None # _) = None"
| "c_string (Some c # cs) =
     (if c = CHR 0x00 then Some [] else do { xs \<leftarrow> c_string cs; Some (c # xs) })"

definition the_string :: "apid \<Rightarrow> addr \<Rightarrow> string_obj option" where
  "the_string s a = do {
     ob \<leftarrow> objs s a;
     case payload ob of P_String so \<Rightarrow> Some so | _ \<Rightarrow> None
   }"

definition string_chars :: "apid \<Rightarrow> addr \<Rightarrow> string option" where
  "string_chars s a = do { so \<leftarrow> the_string s a; c_string (str_buffer so) }"

definition string_destroy :: "addr \<Rightarrow> apid \<Rightarrow> apid option" where
  "string_destroy a s = heap_free a s"

primrec list_destroy_items ::
    "(addr \<Rightarrow> apid \<Rightarrow> apid option) \<Rightarrow> addr list \<Rightarrow> apid \<Rightarrow> apid option" where
  "list_destroy_items release [] s = Some s"
| "list_destroy_items release (item # is) s = do {
     s \<leftarrow> unlock_and_release release item s;
     list_destroy_items release is s
   }"

definition list_destroy ::
    "(addr \<Rightarrow> apid \<Rightarrow> apid option) \<Rightarrow> list_obj \<Rightarrow> addr \<Rightarrow> apid \<Rightarrow> apid option" where
  "list_destroy release lo a s = do {
     s \<leftarrow> list_destroy_items release (items lo) s;
     heap_free a s
   }"

definition file_destroy ::
    "(addr \<Rightarrow> apid \<Rightarrow> apid option) \<Rightarrow> file_obj \<Rightarrow> addr \<Rightarrow> apid \<Rightarrow> apid option" where
  "file_destroy release f a s = do {
     let s = (if file_async_read_in_progress f
              then emit (Ev_event_remove_source (Fd (file_async_read_eventfd f))) s else s);
     s \<leftarrow> (if file_type f = FILE_TYPE_PIPE then do {
            let s = (if file_events f AND FILE_EVENT_READABLE \<noteq> 0
                     then emit (Ev_event_remove_source (Pipe_read_handle (file_pipe f))) s else s);
            let s = (if file_events f AND FILE_EVENT_WRITABLE \<noteq> 0
                     then emit (Ev_event_remove_source (Pipe_write_handle (file_pipe f))) s else s);
            Some (emit (Ev_pipe_destroy (file_pipe f)) s)
          } else do {
            s \<leftarrow> (if file_flags f AND FILE_FLAG_TEMPORARY \<noteq> 0 then do {
                   name \<leftarrow> string_chars s (file_name f);
                   Some (emit (Ev_unlink name) s)
                 } else Some s);
            Some (emit (Ev_close (file_fd f)) s)
          });
     let s = emit (Ev_close (file_async_read_eventfd f)) s;
     s \<leftarrow> unlock_and_release release (file_name f) s;
     heap_free a s
   }"

definition directory_destroy ::
    "(addr \<Rightarrow> apid \<Rightarrow> apid option) \<Rightarrow> directory_obj \<Rightarrow> addr \<Rightarrow> apid \<Rightarrow> apid option" where
  "directory_destroy release d a s = do {
     let s = emit (Ev_closedir (dir_dp d)) s;
     s \<leftarrow> unlock_and_release release (dir_name d) s;
     heap_free a s
   }"

fun process_state_is_alive :: "process_state \<Rightarrow> bool" where
  "process_state_is_alive PROCESS_STATE_UNKNOWN = True"
| "process_state_is_alive PROCESS_STATE_RUNNING = True"
| "process_state_is_alive PROCESS_STATE_ERROR = False"
| "process_state_is_alive PROCESS_STATE_EXITED = False"
| "process_state_is_alive PROCESS_STATE_KILLED = False"
| "process_state_is_alive PROCESS_STATE_STOPPED = True"

text \<open>
  \<open>process_destroy\<close> up to the release of its references: a child process that is still alive
  is killed, and the thread that waits for it is joined unless the kill failed for another
  reason than a vanished process.
\<close>

definition process_destroy_child :: "process_obj \<Rightarrow> addr \<Rightarrow> apid \<Rightarrow> apid" where
  "process_destroy_child p a s = (
     let s = emit (Ev_event_remove_source (Pipe_read_handle (proc_state_change_pipe p))) s;
         (stuck, s) =
           (if process_state_is_alive (proc_state p) then
              (case ask (emit (Ev_kill (proc_pid p) 9) s) of
                 (Inl en, s) \<Rightarrow> (en \<noteq> ESRCH, s)
               | (Inr _, s) \<Rightarrow> (False, s))
            else (False, s));
         s = (if \<not> stuck then emit (Ev_thread_join a) s else s)
     in emit (Ev_pipe_destroy (proc_state_change_pipe p)) s)"

definition process_destroy ::
    "(addr \<Rightarrow> apid \<Rightarrow> apid option) \<Rightarrow> process_obj \<Rightarrow> addr \<Rightarrow> apid \<Rightarrow> apid option" where
  "process_destroy release p a s = do {
     let s = process_destroy_child p a s;
     s \<leftarrow> release (proc_stderr p) s;
     s \<leftarrow> release (proc_stdout p) s;
     s \<leftarrow> release (proc_stdin p) s;
     s \<leftarrow> unlock_and_release release (proc_working_directory p) s;
     s \<leftarrow> unlock_and_release release (proc_environment p) s;
     s \<leftarrow> unlock_and_release release (proc_arguments p) s;
     s \<leftarrow> unlock_and_release release (proc_executable p) s;
     heap_free a s
   }"

text \<open>The call \<open>object->destroy(object)\<close>.\<close>

definition payload_destroy ::
    "(addr \<Rightarrow> apid \<Rightarrow> apid option) \<Rightarrow> addr \<Rightarrow> apid \<Rightarrow> apid option" where
  "payload_destroy release a s = do {
     ob \<leftarrow> objs s a;
     case payload ob of
       P_String _ \<Rightarrow> string_destroy a s
     | P_List lo \<Rightarrow> list_destroy release lo a s
     | P_File f \<Rightarrow> file_destroy release f a s
     | P_Directory d \<Rightarrow> directory_destroy release d a s
     | P_Process p \<Rightarrow> process_destroy release p a s
   }"

definition object_destroy_with ::
    "(addr \<Rightarrow> apid \<Rightarrow> apid option) \<Rightarrow> addr \<Rightarrow> apid \<Rightarrow> apid option" where
  "object_destroy_with release a s = do {
     ob \<leftarrow> objs s a;
     s \<leftarrow> object_drop_external_references (length (external_references ob)) a s;
     payload_destroy release a s
   }"

section \<open>Releasing references\<close>

primrec object_remove_internal_reference_fuel :: "nat \<Rightarrow> addr \<Rightarrow> apid \<Rightarrow> apid option" where
  "object_remove_internal_reference_fuel 0 = (\<lambda>a s. None)"
| "object_remove_internal_reference_fuel (Suc n) = (\<lambda>a s. do {
     ob \<leftarrow> objs s a;
     if internal_reference_count ob = 0 then Some s
     else do {
       let ob = ob\<lparr>internal_reference_count := internal_reference_count ob - 1\<rparr>;
       let s = put_obj a ob s;
       if internal_reference_count ob = 0 \<and> external_reference_count ob = 0
       then inventory_remove_object_with
              (object_destroy_with (object_remove_internal_reference_fuel n)) a s
       else Some s
     }
   })"

text \<open>
  Every destruction takes one object out of the heap, and every object has an address below
  \<open>next_addr\<close>, so this fuel is enough.
\<close>

definition object_remove_internal_reference :: "addr \<Rightarrow> apid \<Rightarrow> apid option" where
  "object_remove_internal_reference a s =
     object_remove_internal_reference_fuel (Suc (next_addr s)) a s"

definition object_destroy :: "addr \<Rightarrow> apid \<Rightarrow> apid option" where
  "object_destroy a s =
     object_destroy_with (object_remove_internal_reference_fuel (Suc (next_addr s))) a s"

definition inventory_remove_object :: "addr \<Rightarrow> apid \<Rightarrow> apid option" where
  "inventory_remove_object = inventory_remove_object_with object_destroy"

definition object_remove_external_reference :: "addr \<Rightarrow> addr \<Rightarrow> apid \<Rightarrow> apid option" where
  "object_remove_external_reference a sa s = do {
     ob \<leftarrow> objs s a;
     if external_reference_count ob = 0 then Some s
     else do {
       found \<leftarrow> find_external_reference s sa (external_references ob);
       case found of
         None \<Rightarrow> Some s
       | Some r \<Rightarrow> do {
           er \<leftarrow> refs s r;
           se \<leftarrow> sess s sa;
           let er = er\<lparr>ref_count := ref_count er - 1\<rparr>;
           let ob = ob\<lparr>external_reference_count := external_reference_count ob - 1\<rparr>;
           let se = se\<lparr>session_reference_count := session_reference_count se - 1\<rparr>;
           let s = put_sess sa se (put_obj a ob (put_ref r er s));
           s \<leftarrow> (if ref_count er = 0 then do {
                  s \<leftarrow> node_remove r er s;
                  Some (free_ref r s)
                } else Some s);
           ob \<leftarrow> objs s a;
           if internal_reference_count ob = 0 \<and> external_reference_count ob = 0
           then inventory_remove_object a s
           else Some s
         }
     }
   }"

definition object_release :: "addr \<Rightarrow> addr \<Rightarrow> apid \<Rightarrow> (apie \<times> apid) option" where
  "object_release a sa s = do {
     ob \<leftarrow> objs s a;
     if external_reference_count ob = 0 then Some (API_E_INVALID_OPERATION, s)
     else do {
       s \<leftarrow> object_remove_external_reference a sa s;
       Some (API_E_SUCCESS, s)
     }
   }"

definition object_release_unchecked :: "addr \<Rightarrow> addr \<Rightarrow> apid \<Rightarrow> (packet_e \<times> apid) option" where
  "object_release_unchecked a sa s = do {
     (e, s) \<leftarrow> object_release a sa s;
     Some (if e = API_E_SUCCESS then PACKET_E_SUCCESS else PACKET_E_UNKNOWN_ERROR, s)
   }"

section \<open>Creation\<close>

text \<open>
  \<open>object_create\<close> on the base of a struct that was just allocated at \<open>a\<close>. \<open>session\<close> may be
  the null pointer.
\<close>

definition object_create ::
    "addr \<Rightarrow> object_type \<Rightarrow> addr option \<Rightarrow> u32 \<Rightarrow> apid \<Rightarrow> (apie \<times> apid) option" where
  "object_create a t session create_flags s = do {
     ob \<leftarrow> objs s a;
     let s = put_obj a (ob\<lparr>obj_id := OBJECT_ID_ZERO, obj_type := t, internal_reference_count := 0,
               external_references := [], external_reference_count := 0, lock_count := 0\<rparr>) s;
     if create_flags AND (OBJECT_CREATE_FLAG_INTERNAL OR OBJECT_CREATE_FLAG_EXTERNAL) = 0 then
       Some (API_E_INTERNAL_ERROR, s)
     else if create_flags AND OBJECT_CREATE_FLAG_EXTERNAL \<noteq> 0 \<and> session = None then
       Some (API_E_INTERNAL_ERROR, s)
     else if create_flags AND OBJECT_CREATE_FLAG_LOCKED \<noteq> 0 \<and>
             create_flags AND OBJECT_CREATE_FLAG_INTERNAL = 0 then
       Some (API_E_INTERNAL_ERROR, s)
     else do {
       s \<leftarrow> (if create_flags AND OBJECT_CREATE_FLAG_INTERNAL \<noteq> 0
             then object_add_internal_reference a s else Some s);
       (error_code, s) \<leftarrow> (if create_flags AND OBJECT_CREATE_FLAG_EXTERNAL \<noteq> 0
             then do { sa \<leftarrow> session; object_add_external_reference a sa s }
             else Some (API_E_SUCCESS, s));
       if error_code \<noteq> API_E_SUCCESS then Some (error_code, s)
       else do {
         s \<leftarrow> (if create_flags AND OBJECT_CREATE_FLAG_LOCKED \<noteq> 0
               then object_lock a s else Some s);
         inventory_add_object a s
       }
     }
   }"

end
