(* ===== verification/Invariant.thy ===== *)
theory Invariant
  imports Object
begin

text \<open>
  The well-formedness of the object graph. \<open>inv R L D s\<close> says that in state \<open>s\<close> the heap, the
  inventory arrays, the two lists every external reference is linked into, and all counters
  agree. \<open>R a\<close> is the number of internal references to \<open>a\<close> that are held outside the object
  graph (by local variables of the caller, by the stock string array, by a child process that
  is still running), \<open>L a\<close> the number of those that also hold a lock, and \<open>D\<close> the set of
  objects whose destroy function is running: their own references count as held by the caller.
\<close>

section \<open>References held by objects\<close>

text \<open>
  The internal references an object holds, in the order its destroy function releases them,
  each with a flag that says whether it also holds a lock.
\<close>

fun holds :: "payload \<Rightarrow> (addr \<times> bool) list" where
  "holds (P_String _) = []"
| "holds (P_List lo) = map (\<lambda>i. (i, True)) (items lo)"
| "holds (P_File f) = [(file_name f, True)]"
| "holds (P_Directory d) = [(dir_name d, True)]"
| "holds (P_Process p) =
     [(proc_stderr p, False), (proc_stdout p, False), (proc_stdin p, False),
      (proc_working_directory p, True), (proc_environment p, True),
      (proc_arguments p, True), (proc_executable p, True)]"

definition cnt_refs :: "(addr \<times> bool) list \<Rightarrow> addr \<Rightarrow> nat" where
  "cnt_refs hs b = count_list (map fst hs) b"

definition cnt_locks :: "(addr \<times> bool) list \<Rightarrow> addr \<Rightarrow> nat" where
  "cnt_locks hs b = count_list (map fst (filter snd hs)) b"

definition holds_of :: "(addr \<Rightarrow> object option) \<Rightarrow> addr set \<Rightarrow> addr \<Rightarrow> (addr \<times> bool) list" where
  "holds_of h D a = (case h a of None \<Rightarrow> [] | Some ob \<Rightarrow> if a \<in> D then [] else holds (payload ob))"

definition held :: "apid \<Rightarrow> addr set \<Rightarrow> addr \<Rightarrow> nat" where
  "held s D b = (\<Sum>a<next_addr s. cnt_refs (holds_of (objs s) D a) b)"

definition held_locks :: "apid \<Rightarrow> addr set \<Rightarrow> addr \<Rightarrow> nat" where
  "held_locks s D b = (\<Sum>a<next_addr s. cnt_locks (holds_of (objs s) D a) b)"

section \<open>Well-formed states\<close>

definition string_wf :: "string_obj \<Rightarrow> bool" where
  "string_wf so \<longleftrightarrow>
     unat (str_allocated so) = length (str_buffer so) \<and>
     unat (str_length so) < length (str_buffer so) \<and>
     str_length so \<le> INT32_MAX \<and>
     (\<forall>i<unat (str_length so). \<exists>c. str_buffer so ! i = Some c \<and> c \<noteq> CHR 0x00) \<and>
     str_buffer so ! unat (str_length so) = Some (CHR 0x00)"

definition is_type :: "apid \<Rightarrow> object_type \<Rightarrow> addr \<Rightarrow> bool" where
  "is_type s t a \<longleftrightarrow> (\<exists>ob. objs s a = Some ob \<and> obj_type ob = t)"

fun payload_wf :: "apid \<Rightarrow> payload \<Rightarrow> bool" where
  "payload_wf s (P_String so) = string_wf so"
| "payload_wf s (P_List lo) = (length (items lo) \<le> 65535)"
| "payload_wf s (P_File f) = is_type s OBJECT_TYPE_STRING (file_name f)"
| "payload_wf s (P_Directory d) = is_type s OBJECT_TYPE_STRING (dir_name d)"
| "payload_wf s (P_Process p) =
     (is_type s OBJECT_TYPE_STRING (proc_executable p) \<and>
      is_type s OBJECT_TYPE_LIST (proc_arguments p) \<and>
      is_type s OBJECT_TYPE_LIST (proc_environment p) \<and>
      is_type s OBJECT_TYPE_STRING (proc_working_directory p) \<and>
      is_type s OBJECT_TYPE_FILE (proc_stdin p) \<and>
      is_type s OBJECT_TYPE_FILE (proc_stdout p) \<and>
      is_type s OBJECT_TYPE_FILE (proc_stderr p))"

definition heap_bounded :: "apid \<Rightarrow> bool" where
  "heap_bounded s \<longleftrightarrow>
     (\<forall>a. objs s a \<noteq> None \<longrightarrow> a < next_addr s) \<and>
     (\<forall>r. refs s r \<noteq> None \<longrightarrow> r < next_addr s) \<and>
     (\<forall>sa. sess s sa \<noteq> None \<longrightarrow> sa < next_addr s)"

definition object_wf :: "apid \<Rightarrow> object \<Rightarrow> bool" where
  "object_wf s ob \<longleftrightarrow>
     obj_type ob = payload_type (payload ob) \<and> obj_id ob \<noteq> OBJECT_ID_ZERO \<and>
     0 < internal_reference_count ob + external_reference_count ob \<and>
     payload_wf s (payload ob)"

definition inventory_ok :: "addr set \<Rightarrow> apid \<Rightarrow> bool" where
  "inventory_ok D s \<longleftrightarrow>
     (\<forall>t. distinct (objects s t)) \<and>
     (\<forall>t a. a \<in> set (objects s t) \<and> a \<notin> D \<longrightarrow> is_type s t a) \<and>
     (\<forall>a ob. objs s a = Some ob \<and> a \<notin> D \<longrightarrow>
        a \<in> set (objects s (obj_type ob)) \<and> object_wf s ob) \<and>
     (\<forall>a b oa ob. objs s a = Some oa \<and> objs s b = Some ob \<and> a \<notin> D \<and> b \<notin> D \<and>
        obj_id oa = obj_id ob \<longrightarrow> a = b)"

definition refs_total :: "apid \<Rightarrow> addr list \<Rightarrow> int" where
  "refs_total s rs = (\<Sum>r\<leftarrow>rs. case refs s r of None \<Rightarrow> 0 | Some er \<Rightarrow> ref_count er)"

definition session_of :: "apid \<Rightarrow> addr \<Rightarrow> addr" where
  "session_of s r = (case refs s r of None \<Rightarrow> 0 | Some er \<Rightarrow> ref_session er)"

definition references_ok :: "apid \<Rightarrow> bool" where
  "references_ok s \<longleftrightarrow>
     (\<forall>a ob. objs s a = Some ob \<longrightarrow>
        distinct (external_references ob) \<and>
        (\<forall>r\<in>set (external_references ob). \<exists>er. refs s r = Some er \<and> ref_object er = a) \<and>
        inj_on (session_of s) (set (external_references ob)) \<and>
        external_reference_count ob = refs_total s (external_references ob)) \<and>
     (\<forall>sa se. sess s sa = Some se \<longrightarrow>
        distinct (session_references se) \<and>
        (\<forall>r\<in>set (session_references se). \<exists>er. refs s r = Some er \<and> ref_session er = sa) \<and>
        session_reference_count se = refs_total s (session_references se)) \<and>
     (\<forall>r er. refs s r = Some er \<longrightarrow>
        0 < ref_count er \<and>
        ((\<exists>ob. objs s (ref_object er) = Some ob \<and> r \<in> set (external_references ob)) \<longleftrightarrow>
         (\<exists>se. sess s (ref_session er) = Some se \<and> r \<in> set (session_references se))))"

text \<open>
  A reference is linked into both lists or into none; the latter only while it is being freed.
\<close>

definition refs_linked :: "apid \<Rightarrow> bool" where
  "refs_linked s \<longleftrightarrow> (\<forall>r er. refs s r = Some er \<longrightarrow>
     (\<exists>se. sess s (ref_session er) = Some se \<and> r \<in> set (session_references se)))"

definition sessions_ok :: "apid \<Rightarrow> bool" where
  "sessions_ok s \<longleftrightarrow>
     distinct (sessions s) \<and>
     (\<forall>sa. sa \<in> set (sessions s) \<longleftrightarrow> sess s sa \<noteq> None) \<and>
     (\<forall>sa se. sess s sa = Some se \<longrightarrow> session_id se \<noteq> SESSION_ID_ZERO) \<and>
     (\<forall>sa sb sea seb. sess s sa = Some sea \<and> sess s sb = Some seb \<and>
        session_id sea = session_id seb \<longrightarrow> sa = sb)"

definition counts_ok :: "(addr \<Rightarrow> nat) \<Rightarrow> (addr \<Rightarrow> nat) \<Rightarrow> addr set \<Rightarrow> apid \<Rightarrow> bool" where
  "counts_ok R L D s \<longleftrightarrow>
     (\<forall>b ob. objs s b = Some ob \<and> b \<notin> D \<longrightarrow>
        internal_reference_count ob = int (R b + held s D b) \<and>
        lock_count ob = int (L b + held_locks s D b)) \<and>
     (\<forall>b. 0 < R b + held s D b \<longrightarrow> objs s b \<noteq> None \<and> b \<notin> D) \<and>
     (\<forall>b. L b \<le> R b)"

definition inv :: "(addr \<Rightarrow> nat) \<Rightarrow> (addr \<Rightarrow> nat) \<Rightarrow> addr set \<Rightarrow> apid \<Rightarrow> bool" where
  "inv R L D s \<longleftrightarrow> heap_bounded s \<and> inventory_ok D s \<and> references_ok s \<and> sessions_ok s \<and>
     counts_ok R L D s"

lemmas inv_defs = inv_def heap_bounded_def inventory_ok_def references_ok_def sessions_ok_def
  counts_ok_def

section \<open>What releasing references may change\<close>

definition same_but_counts :: "object \<Rightarrow> object \<Rightarrow> bool" where
  "same_but_counts ob ob' \<longleftrightarrow>
     ob' = ob\<lparr>internal_reference_count := internal_reference_count ob',
              lock_count := lock_count ob'\<rparr>"

text \<open>\<open>releases D s s'\<close>: only counters changed and objects outside \<open>D\<close> were destroyed.\<close>

definition releases :: "addr set \<Rightarrow> apid \<Rightarrow> apid \<Rightarrow> bool" where
  "releases D s s' \<longleftrightarrow>
     refs s' = refs s \<and> sess s' = sess s \<and> next_addr s' = next_addr s \<and>
     sessions s' = sessions s \<and> stock_strings s' = stock_strings s \<and>
     next_object_id s' = next_object_id s \<and> next_session_id s' = next_session_id s \<and>
     lib s' = lib s \<and>
     (\<forall>t. set (objects s' t) \<subseteq> set (objects s t)) \<and>
     (\<forall>t. \<forall>a\<in>D. a \<in> set (objects s t) \<longrightarrow> a \<in> set (objects s' t)) \<and>
     (\<forall>a\<in>D. objs s' a = objs s a) \<and>
     (\<forall>a ob'. objs s' a = Some ob' \<longrightarrow> (\<exists>ob. objs s a = Some ob \<and> same_but_counts ob ob'))"

lemma same_but_counts_refl [simp]: "same_but_counts ob ob"
  by (simp add: same_but_counts_def)

lemma same_but_counts_trans: "same_but_counts x y \<Longrightarrow> same_but_counts y z \<Longrightarrow> same_but_counts x z"
  unfolding same_but_counts_def by (cases x; cases y; cases z) simp

lemma same_but_countsD:
  "same_but_counts ob ob' \<Longrightarrow> payload ob' = payload ob \<and> obj_id ob' = obj_id ob \<and>
     obj_type ob' = obj_type ob \<and> external_references ob' = external_references ob \<and>
     external_reference_count ob' = external_reference_count ob"
  unfolding same_but_counts_def by (cases ob; cases ob') simp

lemma releases_refl [simp]: "releases D s s"
  by (auto simp: releases_def)

lemma releasesD:
  assumes "releases D s s'"
  shows "objs s' a = Some ob' \<Longrightarrow> \<exists>ob. objs s a = Some ob \<and> same_but_counts ob ob'"
    and "a \<in> set (objects s' t) \<Longrightarrow> a \<in> set (objects s t)"
    and "a \<in> D \<Longrightarrow> a \<in> set (objects s t) \<Longrightarrow> a \<in> set (objects s' t)"
    and "a \<in> D \<Longrightarrow> objs s' a = objs s a"
  using assms unfolding releases_def by auto

lemma releases_trans:
  assumes "releases D s s'" "releases D s' s''"
  shows "releases D s s''"
proof -
  note A = releasesD [OF assms(1)] and B = releasesD [OF assms(2)]
  have "\<exists>ob. objs s a = Some ob \<and> same_but_counts ob ob''" if "objs s'' a = Some ob''" for a ob''
    using B(1) [OF that] A(1) same_but_counts_trans by blast
  moreover have "refs s'' = refs s" "sess s'' = sess s" "next_addr s'' = next_addr s"
    "sessions s'' = sessions s" "stock_strings s'' = stock_strings s"
    "next_object_id s'' = next_object_id s" "next_session_id s'' = next_session_id s" "lib s'' = lib s"
    using assms by (simp_all add: releases_def)
  moreover have "set (objects s'' t) \<subseteq> set (objects s t)" for t
    using A(2) B(2) by blast
  moreover have "a \<in> set (objects s'' t)" if "a \<in> D" "a \<in> set (objects s t)" for a t
    by (rule B(3) [OF that(1) A(3) [OF that]])
  moreover have "objs s'' a = objs s a" if "a \<in> D" for a
    using A(4) [OF that] B(4) [OF that] by (rule trans [rotated])
  ultimately show ?thesis unfolding releases_def by blast
qed

lemma releases_mono: "releases D' s s' \<Longrightarrow> D \<subseteq> D' \<Longrightarrow> releases D s s'"
  unfolding releases_def by blast

lemma releases_dom: "releases D s s' \<Longrightarrow> dom (objs s') \<subseteq> dom (objs s)"
  unfolding releases_def by blast

lemma releases_type: "releases D s s' \<Longrightarrow> is_type s' t a \<Longrightarrow> is_type s t a"
  unfolding releases_def is_type_def by (metis same_but_countsD)

section \<open>Counting\<close>

lemma cnt_refs_simps [simp]:
  "cnt_refs [] b = 0"
  "cnt_refs (h # hs) b = (if fst h = b then 1 else 0) + cnt_refs hs b"
  "cnt_locks [] b = 0"
  "cnt_locks (h # hs) b = (if fst h = b \<and> snd h then 1 else 0) + cnt_locks hs b"
  by (simp_all add: cnt_refs_def cnt_locks_def)

lemma cnt_locks_le: "cnt_locks hs b \<le> cnt_refs hs b"
  by (induction hs) auto

lemma sum_update_nat:
  fixes f g :: "nat \<Rightarrow> nat"
  assumes "a < n" and "\<And>x. x \<noteq> a \<Longrightarrow> g x = f x"
  shows "(\<Sum>x<n. g x) + f a = (\<Sum>x<n. f x) + g a"
proof -
  have "(\<Sum>x<n. g x) = g a + (\<Sum>x\<in>{..<n} - {a}. g x)"
    using assms(1) by (simp add: sum.remove)
  moreover have "(\<Sum>x<n. f x) = f a + (\<Sum>x\<in>{..<n} - {a}. f x)"
    using assms(1) by (simp add: sum.remove)
  moreover have "(\<Sum>x\<in>{..<n} - {a}. g x) = (\<Sum>x\<in>{..<n} - {a}. f x)"
    using assms(2) by (intro sum.cong) auto
  ultimately show ?thesis by simp
qed

text \<open>A change of one object changes what is held by that object's own references only.\<close>

lemma held_change:
  assumes "a < next_addr s" and "next_addr s' = next_addr s"
    and "\<And>x. x \<noteq> a \<Longrightarrow> holds_of (objs s') D' x = holds_of (objs s) D x"
  shows "held s' D' b + cnt_refs (holds_of (objs s) D a) b =
           held s D b + cnt_refs (holds_of (objs s') D' a) b"
    and "held_locks s' D' b + cnt_locks (holds_of (objs s) D a) b =
           held_locks s D b + cnt_locks (holds_of (objs s') D' a) b"
  unfolding held_def held_locks_def assms(2)
  using assms by (intro sum_update_nat; simp)+

lemma held_same:
  assumes "next_addr s' = next_addr s" and "holds_of (objs s') D' = holds_of (objs s) D"
  shows "held s' D' = held s D" and "held_locks s' D' = held_locks s D"
  using assms by (auto simp: held_def held_locks_def fun_eq_iff)

lemma held_member:
  assumes "objs s a = Some ob" "a \<notin> D" "a < next_addr s"
  shows "cnt_refs (holds (payload ob)) b \<le> held s D b"
    and "cnt_locks (holds (payload ob)) b \<le> held_locks s D b"
proof -
  have "cnt_refs (holds_of (objs s) D a) b \<le> held s D b"
    and "cnt_locks (holds_of (objs s) D a) b \<le> held_locks s D b"
    unfolding held_def held_locks_def using assms(3) by (auto intro!: member_le_sum)
  then show "cnt_refs (holds (payload ob)) b \<le> held s D b"
    and "cnt_locks (holds (payload ob)) b \<le> held_locks s D b"
    using assms by (simp_all add: holds_of_def)
qed

lemma held_locks_le: "held_locks s D b \<le> held s D b"
  by (simp add: held_def held_locks_def sum_mono cnt_locks_le)

end
