(* ===== verification/Release.thy ===== *)
theory Release
  imports Invariant
begin

text \<open>
  Releasing references keeps the invariant: the updates the reference counting code makes
  keep \<open>inv\<close>, and \<open>object_remove_internal_reference\<close> returns, with the references of every
  object it destroys released in turn.
\<close>

section \<open>Updates that keep the invariant\<close>

text \<open>Fields the invariant does not read.\<close>

lemma inv_frame:
  assumes "objs s' = objs s" "refs s' = refs s" "sess s' = sess s" "next_addr s' = next_addr s"
    "objects s' = objects s" "sessions s' = sessions s"
  shows "inv R L D s' = inv R L D s"
proof -
  have 1: "is_type s' = is_type s"
    by (auto simp: is_type_def fun_eq_iff assms)
  have 2: "payload_wf s' p = payload_wf s p" for p
    by (cases p) (simp_all add: 1)
  have 3: "object_wf s' = object_wf s"
    by (auto simp: object_wf_def fun_eq_iff 2)
  have 4: "held s' D = held s D" "held_locks s' D = held_locks s D"
    by (auto intro: held_same simp: assms)
  have 5: "refs_total s' = refs_total s" "session_of s' = session_of s"
    by (auto simp: refs_total_def session_of_def fun_eq_iff assms)
  show ?thesis
    unfolding inv_defs 1 3 4 5 assms by (rule refl)
qed

lemma inv_emit [simp]: "inv R L D (emit e s) = inv R L D s"
  by (rule inv_frame) (simp_all add: emit_def)

lemma inv_answers [simp]: "inv R L D (s\<lparr>answers := x\<rparr>) = inv R L D s"
  by (rule inv_frame) simp_all

lemma releases_emit [simp]: "releases D s (emit e s') = releases D s s'"
  by (simp add: releases_def emit_def)

lemma releases_answers [simp]: "releases D s (s'\<lparr>answers := x\<rparr>) = releases D s s'"
  by (simp add: releases_def)

lemma ask_cases:
  obtains r rs where "ask s = (r, s\<lparr>answers := rs\<rparr>)"
proof (cases "answers s")
  case Nil
  then have "ask s = (Inr 0, s\<lparr>answers := []\<rparr>)"
    by (cases s) (simp add: ask_def)
  then show ?thesis by (rule that)
qed (simp add: ask_def that)

lemma inv_ask: "ask s = (r, s') \<Longrightarrow> inv R L D s' = inv R L D s"
  by (rule ask_cases [of s]) auto

text \<open>An object whose counters alone change.\<close>

lemma is_type_put:
  "objs s a = Some ob \<Longrightarrow> obj_type ob' = obj_type ob \<Longrightarrow> is_type (put_obj a ob' s) = is_type s"
  by (auto simp: is_type_def put_obj_def fun_eq_iff)

lemma payload_wf_cong: "is_type s' = is_type s \<Longrightarrow> payload_wf s' p = payload_wf s p"
  by (cases p) simp_all

lemma put_counts_facts:
  assumes "objs s a = Some ob" "same_but_counts ob ob'"
  shows "heap_bounded (put_obj a ob' s) = heap_bounded s"
    and "references_ok (put_obj a ob' s) = references_ok s"
    and "sessions_ok (put_obj a ob' s) = sessions_ok s"
    and "held (put_obj a ob' s) D = held s D"
    and "held_locks (put_obj a ob' s) D = held_locks s D"
    and "is_type (put_obj a ob' s) = is_type s"
proof -
  note same = same_but_countsD [OF assms(2)]
  let ?s = "put_obj a ob' s"
  have rt: "refs_total ?s = refs_total s" "session_of ?s = session_of s"
    by (auto simp: refs_total_def session_of_def put_obj_def fun_eq_iff)
  show "heap_bounded ?s = heap_bounded s"
    using assms(1) by (auto simp: heap_bounded_def put_obj_def)
  have refs: "(\<exists>o'. objs ?s x = Some o' \<and> r \<in> set (external_references o')) =
        (\<exists>o'. objs s x = Some o' \<and> r \<in> set (external_references o'))" for x r
    using assms(1) same by (auto simp: put_obj_def)
  have objs: "(\<forall>o'. objs ?s x = Some o' \<longrightarrow> P x (external_references o') (external_reference_count o')) =
        (\<forall>o'. objs s x = Some o' \<longrightarrow> P x (external_references o') (external_reference_count o'))" for x P
    using assms(1) same by (cases "x = a") (simp_all add: put_obj_def)
  show "references_ok ?s = references_ok s"
    unfolding references_ok_def refs rt
    using objs [of _ "\<lambda>x rs n. distinct rs \<and> (\<forall>r\<in>set rs. \<exists>er. refs s r = Some er \<and> ref_object er = x) \<and>
        inj_on (session_of s) (set rs) \<and> n = refs_total s rs"]
    by (simp add: put_obj_def)
  show "sessions_ok ?s = sessions_ok s"
    by (simp add: sessions_ok_def put_obj_def)
  have "holds_of (objs ?s) D = holds_of (objs s) D"
    using assms(1) same by (auto simp: holds_of_def put_obj_def fun_eq_iff)
  then show "held ?s D = held s D" "held_locks ?s D = held_locks s D"
    by (auto intro: held_same simp: put_obj_def)
  show "is_type ?s = is_type s"
    using assms(1) same by (intro is_type_put) auto
qed


lemma inventory_ok_put_counts:
  assumes "objs s a = Some ob" "same_but_counts ob ob'" "inventory_ok D s"
    and "a \<notin> D \<Longrightarrow> 0 < internal_reference_count ob' + external_reference_count ob'"
  shows "inventory_ok D (put_obj a ob' s)"
proof -
  note same = same_but_countsD [OF assms(2)]
  let ?s = "put_obj a ob' s"
  have types: "is_type ?s = is_type s"
    by (rule put_counts_facts(6) [OF assms(1,2)])
  have wf: "object_wf ?s o' \<longleftrightarrow> object_wf s o'" for o'
    by (simp add: object_wf_def payload_wf_cong [OF types])
  have ob': "object_wf s ob'" if "a \<notin> D"
    using assms that same unfolding inventory_ok_def object_wf_def by auto
  have get: "objs ?s x = Some o' \<Longrightarrow> \<exists>oo. objs s x = Some oo \<and> obj_type o' = obj_type oo \<and>
      obj_id o' = obj_id oo \<and> (x \<notin> D \<longrightarrow> object_wf s oo \<longrightarrow> object_wf s o')" for x o'
    using assms(1) same ob' by (cases "x = a") (simp_all add: put_obj_def)
  have arrays: "objects ?s = objects s" by (simp add: put_obj_def)
  have live: "\<And>x o'. objs s x = Some o' \<Longrightarrow> x \<notin> D \<Longrightarrow> x \<in> set (objects s (obj_type o')) \<and> object_wf s o'"
    and ids: "\<And>x y ox oy. objs s x = Some ox \<Longrightarrow> objs s y = Some oy \<Longrightarrow> x \<notin> D \<Longrightarrow> y \<notin> D \<Longrightarrow>
      obj_id ox = obj_id oy \<Longrightarrow> x = y"
    using assms(3) unfolding inventory_ok_def by blast+
  have "x \<in> set (objects s (obj_type o')) \<and> object_wf s o'" if "objs ?s x = Some o'" "x \<notin> D" for x o'
    using get [OF that(1)] that(2) live by fastforce
  moreover have "x = y" if "objs ?s x = Some ox" "objs ?s y = Some oy" "x \<notin> D" "y \<notin> D"
      "obj_id ox = obj_id oy" for x y ox oy
    using get [OF that(1)] get [OF that(2)] that(3-) ids by fastforce
  ultimately show ?thesis
    using assms(3) unfolding inventory_ok_def wf types arrays by blast
qed

lemma inv_put_counts:
  assumes "inv R L D s" "objs s a = Some ob" "a \<notin> D"
    and "ob' = ob\<lparr>internal_reference_count := int (R' a + held s D a),
                   lock_count := int (L' a + held_locks s D a)\<rparr>"
    and "\<And>b. b \<noteq> a \<Longrightarrow> R' b = R b \<and> L' b = L b" and "L' a \<le> R' a"
    and "0 < int (R' a + held s D a) + external_reference_count ob"
  shows "inv R' L' D (put_obj a ob' s)"
proof -
  have same: "same_but_counts ob ob'"
    by (simp add: same_but_counts_def assms(4))
  note facts = put_counts_facts [OF assms(2) same]
  have old: "counts_ok R L D s" and "inventory_ok D s"
    using assms(1) by (simp_all add: inv_def)
  have "inventory_ok D (put_obj a ob' s)"
    using assms(2,4,7) same \<open>inventory_ok D s\<close> by (intro inventory_ok_put_counts) auto
  moreover have "internal_reference_count o' = int (R' b + held s D b) \<and>
      lock_count o' = int (L' b + held_locks s D b)" if "objs (put_obj a ob' s) b = Some o'" "b \<notin> D" for b o'
  proof (cases "b = a")
    case True
    then show ?thesis using that(1) assms(4) by (auto simp: put_obj_def)
  next
    case False
    then have "objs s b = Some o'" using that(1) by (simp add: put_obj_def)
    then show ?thesis using old that(2) assms(5) [OF False] by (simp add: counts_ok_def)
  qed
  moreover have "objs (put_obj a ob' s) b \<noteq> None \<and> b \<notin> D" if "0 < R' b + held s D b" for b
    using that old assms(3,5) by (cases "b = a") (auto simp: put_obj_def counts_ok_def)
  moreover have "L' b \<le> R' b" for b
    using old assms(5,6) by (cases "b = a") (auto simp: counts_ok_def)
  ultimately show ?thesis
    using assms(1) unfolding inv_def facts counts_ok_def by blast
qed

lemma releases_put_counts:
  assumes "objs s a = Some ob" "same_but_counts ob ob'" "a \<notin> D"
  shows "releases D s (put_obj a ob' s)"
  using assms by (auto simp: releases_def put_obj_def)

text \<open>The counters of an object are never negative.\<close>

lemma refs_total_nonneg: "references_ok s \<Longrightarrow> 0 \<le> refs_total s rs"
  unfolding refs_total_def references_ok_def
  by (intro sum_list_nonneg_int) (auto split: option.splits intro: less_imp_le)

lemma inv_counts:
  assumes "inv R L D s" "objs s a = Some ob" "a \<notin> D"
  shows "internal_reference_count ob = int (R a + held s D a)"
    and "lock_count ob = int (L a + held_locks s D a)"
    and "0 \<le> external_reference_count ob"
    and "L a \<le> R a" and "a < next_addr s"
    and "0 < internal_reference_count ob + external_reference_count ob"
proof -
  have c: "counts_ok R L D s" and i: "inventory_ok D s" and r: "references_ok s" and h: "heap_bounded s"
    using assms(1) by (simp_all add: inv_def)
  show "internal_reference_count ob = int (R a + held s D a)"
    and "lock_count ob = int (L a + held_locks s D a)" and "L a \<le> R a"
    using c assms(2,3) by (simp_all add: counts_ok_def)
  show "0 \<le> external_reference_count ob"
    using r assms(2) refs_total_nonneg [OF r] unfolding references_ok_def by metis
  show "a < next_addr s" using h assms(2) unfolding heap_bounded_def by blast
  show "0 < internal_reference_count ob + external_reference_count ob"
    using i assms(2,3) unfolding inventory_ok_def object_wf_def by blast
qed

lemma inv_live:
  assumes "inv R L D s" "0 < R a"
  obtains ob where "objs s a = Some ob" "a \<notin> D"
  using assms unfolding inv_def counts_ok_def by (metis add_gr_0 not_None_eq)

lemma external_count_zero:
  assumes "references_ok s" "objs s a = Some ob" "external_reference_count ob = 0"
  shows "external_references ob = []"
proof (rule ccontr)
  assume "external_references ob \<noteq> []"
  then obtain r rs where rs: "external_references ob = r # rs"
    by (cases "external_references ob") auto
  with assms obtain er where "refs s r = Some er" and "0 < ref_count er"
    unfolding references_ok_def by (metis list.set_intros(1))
  moreover have "0 \<le> refs_total s rs" by (rule refs_total_nonneg [OF assms(1)])
  moreover have "external_reference_count ob = refs_total s (r # rs)"
    using assms(1,2) rs unfolding references_ok_def by metis
  ultimately show False using assms(3) by (simp add: refs_total_def)
qed

section \<open>Beginning and end of a destruction\<close>

definition add_refs :: "(addr \<Rightarrow> nat) \<Rightarrow> (addr \<times> bool) list \<Rightarrow> addr \<Rightarrow> nat" where
  "add_refs R hs b = R b + cnt_refs hs b"

definition add_locks :: "(addr \<Rightarrow> nat) \<Rightarrow> (addr \<times> bool) list \<Rightarrow> addr \<Rightarrow> nat" where
  "add_locks L hs b = L b + cnt_locks hs b"

lemma held_insert:
  assumes "objs s a = Some ob" "a \<notin> D" "a < next_addr s"
  shows "held s (insert a D) b + cnt_refs (holds (payload ob)) b = held s D b"
    and "held_locks s (insert a D) b + cnt_locks (holds (payload ob)) b = held_locks s D b"
proof -
  have "holds_of (objs s) (insert a D) x = holds_of (objs s) D x" if "x \<noteq> a" for x
    using that by (auto simp: holds_of_def split: option.splits)
  from held_change [OF assms(3) refl this]
  show "held s (insert a D) b + cnt_refs (holds (payload ob)) b = held s D b"
    and "held_locks s (insert a D) b + cnt_locks (holds (payload ob)) b = held_locks s D b"
    using assms by (simp_all add: holds_of_def)
qed

text \<open>An object nobody else refers to may begin to be destroyed.\<close>

lemma inv_dying:
  assumes "inv R L D s" "objs s a = Some ob" "a \<notin> D" "held s D a = 0"
  shows "inv (add_refs (R(a := 0)) (holds (payload ob))) (add_locks (L(a := 0)) (holds (payload ob)))
           (insert a D) s"
proof -
  have c: "counts_ok R L D s" and "inventory_ok D s"
    using assms(1) by (simp_all add: inv_def)
  then have "inventory_ok (insert a D) s"
    unfolding inventory_ok_def by blast
  note split = held_insert [OF assms(2,3) inv_counts(5) [OF assms(1-3)]]
  have refs: "add_refs (R(a := 0)) (holds (payload ob)) b + held s (insert a D) b =
      (if b = a then 0 else R b + held s D b)" for b
    using split(1) [of b] assms(4) by (auto simp: add_refs_def)
  have locks: "add_locks (L(a := 0)) (holds (payload ob)) b + held_locks s (insert a D) b =
      L b + held_locks s D b" if "b \<noteq> a" for b
    using split(2) [of b] that by (auto simp: add_locks_def)
  have le: "add_locks (L(a := 0)) (holds (payload ob)) b \<le> add_refs (R(a := 0)) (holds (payload ob)) b" for b
    using c by (simp add: counts_ok_def add_refs_def add_locks_def cnt_locks_le add_mono)
  have "counts_ok (add_refs (R(a := 0)) (holds (payload ob))) (add_locks (L(a := 0)) (holds (payload ob)))
      (insert a D) s"
    unfolding counts_ok_def refs
    using c by (auto simp: counts_ok_def locks le simp del: of_nat_add)
  then show ?thesis
    using assms(1) \<open>inventory_ok (insert a D) s\<close> by (simp add: inv_def)
qed

text \<open>The counters of a dying object are free to change.\<close>

lemma inv_put_dying:
  assumes "inv R L D s" "objs s a = Some ob" "a \<in> D" "same_but_counts ob ob'"
  shows "inv R L D (put_obj a ob' s)"
proof -
  note facts = put_counts_facts [OF assms(2,4)]
  have "inventory_ok D (put_obj a ob' s)"
    using assms by (intro inventory_ok_put_counts) (auto simp: inv_def)
  moreover have "counts_ok R L D (put_obj a ob' s)"
    using assms(1,3) unfolding counts_ok_def facts inv_def by (auto simp: put_obj_def)
  ultimately show ?thesis
    using assms(1) unfolding inv_def facts by simp
qed

lemma payload_wf_objs:
  assumes "payload_wf s p"
    and "\<And>b. 0 < cnt_refs (holds p) b \<Longrightarrow> is_type s' (the (map_option obj_type (objs s b))) b \<or> objs s' b = objs s b"
  shows "payload_wf s' p"
proof -
  have "is_type s' t b" if "is_type s t b" "0 < cnt_refs (holds p) b" for t b
    using that(1) assms(2) [OF that(2)] by (auto simp: is_type_def)
  with assms(1) show ?thesis by (cases p) auto
qed

lemma inv_free:
  assumes "inv R L (insert a D) s" "objs s a = Some ob" "a \<notin> D" "external_references ob = []"
    and "\<And>t'. a \<in> set (objects s t') \<Longrightarrow> t' = t"
  shows "inv R L D (put_objects t (remove1 a (objects s t)) (free_obj a s))"
proof -
  let ?s = "put_objects t (remove1 a (objects s t)) (free_obj a s)"
  have c: "counts_ok R L (insert a D) s" and i: "inventory_ok (insert a D) s"
    and h: "heap_bounded s" and r: "references_ok s" and se: "sessions_ok s"
    using assms(1) by (simp_all add: inv_def)
  have bound: "a < next_addr s" using h assms(2) by (auto simp: heap_bounded_def)
  have same: "held ?s D = held s (insert a D)" "held_locks ?s D = held_locks s (insert a D)"
    by (rule held_same; auto simp: memory_defs holds_of_def fun_eq_iff split: option.splits)+
  have dist: "distinct (objects s t')" for t' using i by (simp add: inventory_ok_def)
  have members: "x \<in> set (objects ?s t') \<longleftrightarrow> x \<in> set (objects s t') \<and> x \<noteq> a" for x t'
    using dist [of t] assms(5) by (auto simp: memory_defs)
  have objs: "objs ?s x = Some o' \<longleftrightarrow> objs s x = Some o' \<and> x \<noteq> a" for x o'
    by (simp add: memory_defs)
  have types: "is_type ?s t' x \<longleftrightarrow> is_type s t' x \<and> x \<noteq> a" for t' x
    by (auto simp: is_type_def objs)
  have notheld: "cnt_refs (holds (payload o')) a = 0" if "objs s x = Some o'" "x \<notin> insert a D" for x o'
  proof -
    have "cnt_refs (holds (payload o')) a \<le> held s (insert a D) a"
      using that h by (intro held_member) (auto simp: heap_bounded_def)
    moreover have "held s (insert a D) a = 0"
      using c by (auto simp: counts_ok_def)
    ultimately show ?thesis by simp
  qed
  have wf: "object_wf ?s o'" if "objs s x = Some o'" "x \<notin> insert a D" for x o'
  proof -
    have "payload_wf ?s (payload o')"
    proof (rule payload_wf_objs)
      show "payload_wf s (payload o')"
        using i that by (auto simp: inventory_ok_def object_wf_def)
      show "is_type ?s (the (map_option obj_type (objs s b))) b \<or> objs ?s b = objs s b"
        if "0 < cnt_refs (holds (payload o')) b" for b
        using notheld [OF \<open>objs s x = Some o'\<close> \<open>x \<notin> insert a D\<close>] that
        by (cases "b = a") (auto simp: memory_defs)
    qed
    then show ?thesis
      using i that by (auto simp: inventory_ok_def object_wf_def)
  qed
  have "heap_bounded ?s"
    using h by (auto simp: heap_bounded_def memory_defs)
  moreover have "inventory_ok D ?s"
  proof -
    have "distinct (objects ?s t')" for t'
      using dist by (simp add: memory_defs)
    moreover have "is_type ?s t' x" if "x \<in> set (objects ?s t')" "x \<notin> D" for t' x
      using i that unfolding inventory_ok_def types members by blast
    moreover have "x \<in> set (objects ?s (obj_type o')) \<and> object_wf ?s o'"
      if "objs ?s x = Some o'" "x \<notin> D" for x o'
      using i that wf unfolding inventory_ok_def members objs by blast
    moreover have "x = y" if "objs ?s x = Some ox" "objs ?s y = Some oy" "x \<notin> D" "y \<notin> D"
      "obj_id ox = obj_id oy" for x y ox oy
      using i that unfolding inventory_ok_def objs by blast
    ultimately show ?thesis unfolding inventory_ok_def by blast
  qed
  moreover have "references_ok ?s"
  proof -
    have rt: "refs_total ?s = refs_total s" "session_of ?s = session_of s"
      by (auto simp: refs_total_def session_of_def memory_defs fun_eq_iff)
    have rs: "refs ?s = refs s" "sess ?s = sess s" by (simp_all add: memory_defs)
    have other: "(\<exists>o'. (objs s x = Some o' \<and> x \<noteq> a) \<and> q \<in> set (external_references o')) \<longleftrightarrow>
        (\<exists>o'. objs s x = Some o' \<and> q \<in> set (external_references o'))" for x q
      using assms(2,4) by auto
    show ?thesis
      using r unfolding references_ok_def rt rs objs other by blast
  qed
  moreover have "sessions_ok ?s"
    using se by (simp add: sessions_ok_def memory_defs)
  moreover have "counts_ok R L D ?s"
    using c unfolding counts_ok_def same by (auto simp: memory_defs)
  ultimately show ?thesis by (simp add: inv_def)
qed

section \<open>The contract of a release\<close>

text \<open>
  What \<open>object_remove_internal_reference\<close> promises its callers while at most \<open>n\<close> objects can
  still be destroyed: given a reference that the caller holds and that is not locked, it
  returns, that reference is gone, and nothing else the caller refers to has changed.
\<close>

definition release_spec :: "nat \<Rightarrow> (addr \<Rightarrow> apid \<Rightarrow> apid option) \<Rightarrow> bool" where
  "release_spec n release \<longleftrightarrow> (\<forall>R L D s a.
     inv R L D s \<and> L a < R a \<and> card (dom (objs s) - D) < n \<longrightarrow>
     yields (release a s) (\<lambda>s'. inv (R(a := R a - 1)) L D s' \<and> releases D s s'))"

lemma release_specD:
  "release_spec n release \<Longrightarrow> inv R L D s \<Longrightarrow> L a < R a \<Longrightarrow> card (dom (objs s) - D) < n \<Longrightarrow>
     yields (release a s) (\<lambda>s'. inv (R(a := R a - 1)) L D s' \<and> releases D s s')"
  unfolding release_spec_def by blast

lemma inv_finite: "inv R L D s \<Longrightarrow> finite (dom (objs s))"
  by (rule finite_subset [of _ "{..<next_addr s}"]) (auto simp: inv_def heap_bounded_def)

lemma releases_card:
  assumes "inv R L D' s" "releases D s s'"
  shows "card (dom (objs s') - E) \<le> card (dom (objs s) - E)"
  using inv_finite [OF assms(1)] releases_dom [OF assms(2)] by (intro card_mono) auto

lemma inv_unlock:
  assumes "inv R L D s" "0 < L a"
  shows "yields (object_unlock a s) (\<lambda>s'. inv R (L(a := L a - 1)) D s' \<and> releases D s s')"
proof -
  have le: "L a \<le> R a" using assms(1) by (simp add: inv_def counts_ok_def)
  with assms obtain ob where ob: "objs s a = Some ob" "a \<notin> D"
    by (metis inv_live less_le_trans)
  note counts = inv_counts [OF assms(1) ob]
  let ?ob = "ob\<lparr>lock_count := lock_count ob - 1\<rparr>"
  have same: "same_but_counts ob ?ob" by (simp add: same_but_counts_def)
  have "inv R (L(a := L a - 1)) D (put_obj a ?ob s)"
    using assms ob counts le
    by (intro inv_put_counts [OF assms(1) ob]) (auto simp: of_nat_diff)
  moreover have "releases D s (put_obj a ?ob s)"
    by (rule releases_put_counts [OF ob(1) same ob(2)])
  moreover have "lock_count ob \<noteq> 0" using counts(2) assms(2) by simp
  ultimately show ?thesis by (simp add: object_unlock_def ob(1))
qed

lemma unlock_and_release_spec:
  assumes "release_spec n release" "inv R L D s" "0 < L a" "card (dom (objs s) - D) < n"
  shows "yields (unlock_and_release release a s)
     (\<lambda>s'. inv (R(a := R a - 1)) (L(a := L a - 1)) D s' \<and> releases D s s')"
  unfolding unlock_and_release_def
proof (rule yields_bindI [OF inv_unlock [OF assms(2,3)]])
  fix s1 assume s1: "inv R (L(a := L a - 1)) D s1 \<and> releases D s s1"
  have "L a \<le> R a" using assms(2) by (simp add: inv_def counts_ok_def)
  then have "(L(a := L a - 1)) a < R a" using assms(3) by simp
  moreover have "card (dom (objs s1) - D) < n"
    using releases_card [OF assms(2), of D s1 D] s1 assms(4) by simp
  ultimately show "yields (release a s1) (\<lambda>s'. inv (R(a := R a - 1)) (L(a := L a - 1)) D s' \<and> releases D s s')"
    using release_specD [OF assms(1)] s1 by (blast intro: yields_mono releases_trans)
qed

text \<open>The releases of a destroy function, in order.\<close>

primrec release_held ::
    "(addr \<Rightarrow> apid \<Rightarrow> apid option) \<Rightarrow> (addr \<times> bool) list \<Rightarrow> apid \<Rightarrow> apid option" where
  "release_held release [] s = Some s"
| "release_held release (h # hs) s = do {
     s \<leftarrow> (if snd h then unlock_and_release release (fst h) s else release (fst h) s);
     release_held release hs s
   }"

lemma add_refs_Cons: "(add_refs R (h # hs))(fst h := add_refs R (h # hs) (fst h) - 1) = add_refs R hs"
  by (auto simp: add_refs_def fun_eq_iff)

lemma add_locks_Cons:
  "(add_locks L (h # hs))(fst h := add_locks L (h # hs) (fst h) - 1) = add_locks L hs" if "snd h"
  using that by (auto simp: add_locks_def fun_eq_iff)

lemma add_locks_skip: "add_locks L (h # hs) = add_locks L hs" if "\<not> snd h"
  using that by (auto simp: add_locks_def fun_eq_iff)

lemma release_held_spec:
  assumes "release_spec n release"
  shows "inv (add_refs R hs) (add_locks L hs) D s \<Longrightarrow> card (dom (objs s) - D) < n \<Longrightarrow>
    (\<And>b. L b \<le> R b) \<Longrightarrow>
    yields (release_held release hs s) (\<lambda>s'. inv R L D s' \<and> releases D s s')"
proof (induction hs arbitrary: s)
  case Nil
  then show ?case by (simp add: add_refs_def add_locks_def)
next
  case (Cons h hs)
  have step: "yields (if snd h then unlock_and_release release (fst h) s else release (fst h) s)
      (\<lambda>s'. inv (add_refs R hs) (add_locks L hs) D s' \<and> releases D s s')"
  proof (cases "snd h")
    case True
    have "0 < add_locks L (h # hs) (fst h)" using True by (simp add: add_locks_def)
    from unlock_and_release_spec [OF assms Cons.prems(1) this Cons.prems(2)]
    show ?thesis unfolding add_refs_Cons add_locks_Cons [OF True] using True by simp
  next
    case False
    have "add_locks L (h # hs) (fst h) < add_refs R (h # hs) (fst h)"
      using False Cons.prems(3) [of "fst h"] cnt_locks_le [of hs "fst h"]
      by (simp add: add_locks_def add_refs_def)
    from release_specD [OF assms Cons.prems(1) this Cons.prems(2)]
    show ?thesis unfolding add_refs_Cons add_locks_skip [OF False] using False by simp
  qed
  show ?case
  proof (simp only: release_held.simps, rule yields_bindI [OF step])
    fix s1 assume s1: "inv (add_refs R hs) (add_locks L hs) D s1 \<and> releases D s s1"
    then have "card (dom (objs s1) - D) < n"
      using releases_card [OF Cons.prems(1), of D s1 D] Cons.prems(2) by simp
    with s1 Cons show "yields (release_held release hs s1) (\<lambda>s'. inv R L D s' \<and> releases D s s')"
      by (blast intro: yields_mono releases_trans)
  qed
qed

section \<open>Destroy functions\<close>

text \<open>What every destroy function does before it releases the references of its object.\<close>

lemma list_destroy_items_held:
  "list_destroy_items release is s = release_held release (map (\<lambda>i. (i, True)) is) s"
  by (induction "is" arbitrary: s) simp_all

definition only_emits :: "apid \<Rightarrow> apid \<Rightarrow> bool" where
  "only_emits s s' \<longleftrightarrow> s' = s\<lparr>answers := answers s', trace := trace s'\<rparr>"

lemma only_emits_refl [simp, intro]: "only_emits s s"
  by (simp add: only_emits_def)

lemma only_emits_trans: "only_emits s s' \<Longrightarrow> only_emits s' s'' \<Longrightarrow> only_emits s s''"
  unfolding only_emits_def by (cases s; cases s'; cases s'') simp

lemma only_emits_emit [simp, intro]: "only_emits s s' \<Longrightarrow> only_emits s (emit e s')"
  unfolding only_emits_def emit_def by (cases s; cases s') simp

lemma only_emits_answers [simp, intro]: "only_emits s s' \<Longrightarrow> only_emits s (s'\<lparr>answers := x\<rparr>)"
  unfolding only_emits_def by (cases s; cases s') simp

lemma only_emits_ask: "only_emits s s' \<Longrightarrow> ask s' = (r, s'') \<Longrightarrow> only_emits s s''"
  by (rule ask_cases [of s']) auto

lemma only_emits_fields:
  assumes "only_emits s s'"
  shows "objs s' = objs s" "refs s' = refs s" "sess s' = sess s" "next_addr s' = next_addr s"
    "objects s' = objects s" "sessions s' = sessions s" "stock_strings s' = stock_strings s"
    "next_object_id s' = next_object_id s" "next_session_id s' = next_session_id s" "lib s' = lib s"
  using assms unfolding only_emits_def by (cases s; cases s'; simp)+

lemma only_emits_inv: "only_emits s s' \<Longrightarrow> inv R L D s' = inv R L D s"
  by (rule inv_frame) (rule only_emits_fields; assumption)+

lemma only_emits_releases: "only_emits s s' \<Longrightarrow> releases D s s'"
  by (simp add: only_emits_fields releases_def)

text \<open>The characters of a well-formed string object are the C string in its buffer.\<close>

definition string_value :: "string_obj \<Rightarrow> string" where
  "string_value so = map the (take (unat (str_length so)) (str_buffer so))"

lemma c_string_take:
  "n < length xs \<Longrightarrow> (\<And>i. i < n \<Longrightarrow> \<exists>c. xs ! i = Some c \<and> c \<noteq> CHR 0x00) \<Longrightarrow>
     xs ! n = Some (CHR 0x00) \<Longrightarrow> c_string xs = Some (map the (take n xs))"
proof (induction n arbitrary: xs)
  case 0
  then show ?case by (cases xs) auto
next
  case (Suc n)
  then obtain x ys where xs: "xs = x # ys" by (cases xs) auto
  have "\<exists>c. ys ! i = Some c \<and> c \<noteq> CHR 0x00" if "i < n" for i
    using Suc.prems(2) [of "Suc i"] that xs by simp
  then have "c_string ys = Some (map the (take n ys))"
    using Suc.prems xs by (intro Suc.IH) auto
  moreover obtain c where "x = Some c" "c \<noteq> CHR 0x00"
    using Suc.prems(2) [of 0] xs by auto
  ultimately show ?case using xs by simp
qed

lemma c_string_wf: "string_wf so \<Longrightarrow> c_string (str_buffer so) = Some (string_value so)"
  unfolding string_value_def by (rule c_string_take) (auto simp: string_wf_def)

lemma live_string:
  assumes "inv R L D s" "is_type s OBJECT_TYPE_STRING a" "a \<notin> D"
  obtains ob so where "objs s a = Some ob" "payload ob = P_String so" "string_wf so"
proof -
  obtain ob where ob: "objs s a = Some ob" "obj_type ob = OBJECT_TYPE_STRING"
    using assms(2) by (auto simp: is_type_def)
  then have wf: "object_wf s ob"
    using assms(1,3) unfolding inv_def inventory_ok_def by blast
  then obtain so where "payload ob = P_String so"
    using ob(2) by (cases "payload ob") (auto simp: object_wf_def)
  with ob wf show ?thesis by (intro that [of ob so]) (auto simp: object_wf_def)
qed

lemma string_chars_live:
  assumes "inv R L D s" "is_type s OBJECT_TYPE_STRING a" "a \<notin> D"
  obtains x where "string_chars s a = Some x"
proof -
  obtain ob so where "objs s a = Some ob" "payload ob = P_String so" "string_wf so"
    by (rule live_string [OF assms])
  then show ?thesis
    by (intro that [of "string_value so"]) (simp add: string_chars_def the_string_def c_string_wf)
qed

text \<open>What a destroy function does before it releases the references of its object.\<close>

fun payload_prepare :: "addr \<Rightarrow> payload \<Rightarrow> apid \<Rightarrow> apid option" where
  "payload_prepare a (P_String so) s = Some s"
| "payload_prepare a (P_List lo) s = Some s"
| "payload_prepare a (P_File f) s = do {
     let s = (if file_async_read_in_progress f
              then emit (Ev_event_remove_source (Fd (file_async_read_eventfd f))) s else s);
     s \<leftarrow> (if file_type f = FILE_TYPE_PIPE then do {
            let s = (if file_events f AND FILE_EVENT_READABLE \<noteq> 0
                     then emit (Ev_event_remove_source (Pipe_read_handle (file_pipe f))) s else s);
            let s = (if file_events f AND FILE_EVENT_WRITABLE \<noteq> 0
                     then emit (Ev_event_remove_source (Pipe_write_handle (file_pipe f))) s else s);
            Some (emit (Ev_pipe_destroy (file_pipe f)) s)
          } else do {
            s \<leftarrow> (if file_flags f AND FILE_FLAG_TEMPORARY \<noteq> 0 then do {
                   name \<leftarrow> string_chars s (file_name f);
                   Some (emit (Ev_unlink name) s)
                 } else Some s);
            Some (emit (Ev_close (file_fd f)) s)
          });
     Some (emit (Ev_close (file_async_read_eventfd f)) s)
   }"
| "payload_prepare a (P_Directory d) s = Some (emit (Ev_closedir (dir_dp d)) s)"
| "payload_prepare a (P_Process p) s = Some (process_destroy_child p a s)"

lemma payload_destroy_steps:
  assumes "objs s a = Some ob"
  shows "payload_destroy release a s = do {
      s \<leftarrow> payload_prepare a (payload ob) s;
      s \<leftarrow> release_held release (holds (payload ob)) s;
      heap_free a s
    }"
proof (cases "payload ob")
  case (P_File f)
  then show ?thesis
    using assms by (simp add: payload_destroy_def file_destroy_def Let_def cong: option.case_cong)
qed (use assms in \<open>simp_all add: payload_destroy_def string_destroy_def list_destroy_def
       list_destroy_items_held directory_destroy_def process_destroy_def Let_def\<close>)

lemma process_destroy_child_emits: "only_emits s (process_destroy_child p a s)"
proof -
  let ?s = "emit (Ev_kill (proc_pid p) 9)
      (emit (Ev_event_remove_source (Pipe_read_handle (proc_state_change_pipe p))) s)"
  obtain r rs where "ask ?s = (r, ?s\<lparr>answers := rs\<rparr>)" by (rule ask_cases)
  then show ?thesis
    by (cases r) (simp_all add: process_destroy_child_def Let_def)
qed

lemma string_chars_emit [simp]: "string_chars (emit e s) = string_chars s"
  by (auto simp: string_chars_def the_string_def emit_def fun_eq_iff)

lemma payload_prepare_spec:
  assumes "inv R L D s" "payload_wf s p" "\<And>b. 0 < cnt_refs (holds p) b \<Longrightarrow> b \<notin> D"
  shows "yields (payload_prepare a p s) (only_emits s)"
proof (cases p)
  case (P_File f)
  have "file_name f \<notin> D" using assms(3) [of "file_name f"] P_File by simp
  moreover have "is_type s OBJECT_TYPE_STRING (file_name f)" using assms(2) P_File by simp
  ultimately obtain x where "string_chars s (file_name f) = Some x"
    using string_chars_live [OF assms(1)] by blast
  then show ?thesis
    using P_File by (simp add: yields_bind Let_def)
next
  case (P_Process p)
  then show ?thesis by (simp add: process_destroy_child_emits)
qed simp_all

section \<open>A release returns\<close>

lemma releases_is_type_live:
  assumes "releases D s s'" "is_type s t a" "objs s' a \<noteq> None"
  shows "is_type s' t a"
proof -
  obtain ob' where ob': "objs s' a = Some ob'" using assms(3) by auto
  then obtain ob where "objs s a = Some ob" "same_but_counts ob ob'"
    using assms(1) unfolding releases_def by blast
  with ob' assms(2) show ?thesis by (auto simp: is_type_def dest: same_but_countsD)
qed

lemma payload_destroy_spec:
  assumes "release_spec n release" "inv (add_refs R hs) (add_locks L hs) D s" "a \<in> D"
    and "objs s a = Some ob" "hs = holds (payload ob)" "payload_wf s (payload ob)"
    and "card (dom (objs s) - D) < n" "\<And>b. L b \<le> R b"
  shows "yields (payload_destroy release a s)
     (\<lambda>s'. \<exists>s1. s' = free_obj a s1 \<and> inv R L D s1 \<and> releases D s s1)"
proof -
  have "b \<notin> D" if "0 < cnt_refs (holds (payload ob)) b" for b
    using assms(2,5) that unfolding inv_def counts_ok_def by (auto simp: add_refs_def)
  from payload_prepare_spec [OF assms(2,6) this]
  have prepare: "yields (payload_prepare a (payload ob) s) (only_emits s)" .
  show ?thesis
    unfolding payload_destroy_steps [OF assms(4)]
  proof (rule yields_bindI [OF prepare])
    fix s0 assume s0: "only_emits s s0"
    have "yields (release_held release hs s0) (\<lambda>s'. inv R L D s' \<and> releases D s0 s')"
      using assms(2,7,8) s0
      by (intro release_held_spec [OF assms(1)]) (simp_all add: only_emits_inv only_emits_fields)
    then have "yields (release_held release hs s0) (\<lambda>s'. inv R L D s' \<and> releases D s s')"
      using only_emits_releases [OF s0] by (blast intro: yields_mono releases_trans)
    then show "yields (release_held release (holds (payload ob)) s0 \<bind> heap_free a)
        (\<lambda>s'. \<exists>s1. s' = free_obj a s1 \<and> inv R L D s1 \<and> releases D s s1)"
      unfolding assms(5) [symmetric]
    proof (rule yields_bindI)
      fix s1 assume s1: "inv R L D s1 \<and> releases D s s1"
      then have "objs s1 a = Some ob" using assms(3,4) by (simp add: releases_def)
      with s1 show "yields (heap_free a s1) (\<lambda>s'. \<exists>s1. s' = free_obj a s1 \<and> inv R L D s1 \<and> releases D s s1)"
        by (auto simp: heap_free_def)
    qed
  qed
qed

text \<open>
  Removing an object that nobody refers to any more from the inventory destroys it; every
  reference it held is released.
\<close>

definition dying :: "(addr \<Rightarrow> nat) \<Rightarrow> (addr \<Rightarrow> nat) \<Rightarrow> addr set \<Rightarrow> addr \<Rightarrow> apid \<Rightarrow> bool" where
  "dying R L D a s \<longleftrightarrow> a \<notin> D \<and> (\<exists>ob. objs s a = Some ob \<and>
     inv (add_refs R (holds (payload ob))) (add_locks L (holds (payload ob))) (insert a D) s \<and>
     external_references ob = [] \<and> payload_wf s (payload ob) \<and>
     (\<forall>t. a \<in> set (objects s t) \<longleftrightarrow> t = obj_type ob)) \<and> (\<forall>b. L b \<le> R b)"

lemma inventory_remove_dying_spec:
  assumes "release_spec n release" "dying R L D a s" "card (dom (objs s) - insert a D) < n"
  shows "yields (inventory_remove_object_with (object_destroy_with release) a s)
     (\<lambda>s'. inv R L D s' \<and> releases D s s')"
proof -
  let ?D = "insert a D"
  obtain ob where a: "a \<notin> D" and ob: "objs s a = Some ob"
    and inv: "inv (add_refs R (holds (payload ob))) (add_locks L (holds (payload ob))) ?D s"
    and ext: "external_references ob = []" and wf: "payload_wf s (payload ob)"
    and array: "\<And>t. a \<in> set (objects s t) \<longleftrightarrow> t = obj_type ob" and le: "\<And>b. L b \<le> R b"
    using assms(2) unfolding dying_def by blast
  have "yields (payload_destroy release a s)
     (\<lambda>s'. \<exists>s1. s' = free_obj a s1 \<and> inv R L ?D s1 \<and> releases ?D s s1)"
    by (rule payload_destroy_spec [OF assms(1) inv _ ob refl wf assms(3) le]) simp
  then have "yields (object_destroy_with release a s)
     (\<lambda>s'. \<exists>s1. s' = free_obj a s1 \<and> inv R L ?D s1 \<and> releases ?D s s1)"
    using ext by (simp add: object_destroy_with_def ob)
  then show ?thesis
  proof (elim yieldsE exE conjE)
    fix s' s1
    assume run: "object_destroy_with release a s = Some s'" "s' = free_obj a s1"
      and s1: "inv R L ?D s1" "releases ?D s s1"
    let ?t = "obj_type ob"
    have arrays: "set (objects s1 t) \<subseteq> set (objects s t)" for t
      using s1(2) by (auto simp: releases_def)
    have "inv R L D (put_objects ?t (remove1 a (objects s1 ?t)) (free_obj a s1))"
      using s1 ob a ext array arrays by (intro inv_free [of _ _ _ _ _ ob]) (auto simp: releases_def)
    moreover have "releases D s (put_objects ?t (remove1 a (objects s1 ?t)) (free_obj a s1))"
    proof (rule releases_trans)
      show "releases D s s1" by (rule releases_mono [OF s1(2)]) blast
      show "releases D s1 (put_objects ?t (remove1 a (objects s1 ?t)) (free_obj a s1))"
      proof -
        let ?u = "put_objects ?t (remove1 a (objects s1 ?t)) (free_obj a s1)"
        have arr: "objects ?u t = (if t = ?t then remove1 a (objects s1 t) else objects s1 t)" for t
          by (simp add: memory_defs)
        have "set (objects ?u t) \<subseteq> set (objects s1 t)" for t
          by (simp add: arr set_remove1_subset)
        moreover have "b \<in> set (objects ?u t)" if "b \<in> D" "b \<in> set (objects s1 t)" for b t
        proof -
          have "b \<noteq> a" using a that by auto
          then show ?thesis using that by (cases "t = ?t") (simp_all add: arr in_set_remove1)
        qed
        moreover have "objs ?u b = objs s1 b" if "b \<in> D" for b using a that by (auto simp: memory_defs)
        moreover have "\<exists>ob. objs s1 b = Some ob \<and> same_but_counts ob ob'" if "objs ?u b = Some ob'" for b ob'
          using that by (auto simp: memory_defs split: if_splits)
        ultimately show ?thesis unfolding releases_def by (simp add: memory_defs)
      qed
    qed
    moreover have "a \<in> set (objects s ?t)"
      using array by simp
    ultimately show ?thesis
      using run ob by (simp add: inventory_remove_object_with_def memory_defs)
  qed
qed

lemma inv_arrays:
  assumes "inv R L D s" "objs s a = Some ob" "a \<notin> D"
  shows "a \<in> set (objects s t) \<longleftrightarrow> t = obj_type ob" and "object_wf s ob"
proof -
  have live: "a \<in> set (objects s (obj_type ob))" and "object_wf s ob"
    using assms unfolding inv_def inventory_ok_def by blast+
  then show "object_wf s ob" by simp
  have "is_type s t a" if "a \<in> set (objects s t)"
    using that assms unfolding inv_def inventory_ok_def by blast
  with assms(2) live show "a \<in> set (objects s t) \<longleftrightarrow> t = obj_type ob"
    by (auto simp: is_type_def)
qed

lemma card_remove_live:
  assumes "inv R L D s" "objs s a \<noteq> None" "a \<notin> D" "card (dom (objs s) - D) \<le> n"
    and "dom (objs s') = dom (objs s)"
  shows "card (dom (objs s') - insert a D) < n"
proof -
  have "a \<in> dom (objs s) - D" using assms(2,3) by auto
  then have "card (dom (objs s) - D - {a}) < card (dom (objs s) - D)"
    using inv_finite [OF assms(1)] by (intro card_Diff1_less) auto
  moreover have "dom (objs s') - insert a D = dom (objs s) - D - {a}"
    using assms(5) by auto
  ultimately show ?thesis using assms(4) by simp
qed

lemma dying_put_counts:
  assumes "inv R L D s" "objs s a = Some ob0" "a \<notin> D" "held s D a = 0" "L a = 0"
    and "same_but_counts ob0 ob" "external_references ob0 = []"
  shows "dying (R(a := 0)) L D a (put_obj a ob s)"
proof -
  let ?s = "put_obj a ob s"
  note same = same_but_countsD [OF assms(6)]
  have L: "L(a := 0) = L" using assms(5) by auto
  have le: "L b \<le> (R(a := 0)) b" for b
    using assms(1,5) by (cases "b = a") (auto simp: inv_def counts_ok_def)
  have "inv (add_refs (R(a := 0)) (holds (payload ob))) (add_locks L (holds (payload ob))) (insert a D) s"
    using inv_dying [OF assms(1-4)] same L by simp
  then have inv: "inv (add_refs (R(a := 0)) (holds (payload ob))) (add_locks L (holds (payload ob))) (insert a D) ?s"
    by (rule inv_put_dying) (use assms(2,6) in simp_all)
  have "payload_wf ?s (payload ob)"
    using inv_arrays(2) [OF assms(1-3)] same payload_wf_cong [OF is_type_put [OF assms(2)], of ob]
    by (simp add: object_wf_def)
  moreover have "objects ?s = objects s" "objs ?s a = Some ob"
    by (simp_all add: put_obj_def)
  ultimately show ?thesis
    using inv le same assms(3,7) inv_arrays(1) [OF assms(1-3)] by (simp add: dying_def)
qed

theorem release_fuel_spec: "release_spec n (object_remove_internal_reference_fuel n)"
proof (induction n)
  case 0
  then show ?case by (simp add: release_spec_def)
next
  case (Suc n)
  show ?case
    unfolding release_spec_def
  proof (intro allI impI, elim conjE)
    fix R L D s a
    assume inv: "inv R L D s" and lt: "L a < R a" and card: "card (dom (objs s) - D) < Suc n"
    obtain ob where ob: "objs s a = Some ob" "a \<notin> D"
      using inv lt by (metis inv_live less_nat_zero_code neq0_conv)
    note counts = inv_counts [OF inv ob]
    let ?ob = "ob\<lparr>internal_reference_count := internal_reference_count ob - 1\<rparr>"
    have same: "same_but_counts ob ?ob" by (simp add: same_but_counts_def)
    have irc: "internal_reference_count ob \<noteq> 0" using counts(1) lt by simp
    show "yields (object_remove_internal_reference_fuel (Suc n) a s)
       (\<lambda>s'. inv (R(a := R a - 1)) L D s' \<and> releases D s s')"
    proof (cases "internal_reference_count ?ob = 0 \<and> external_reference_count ?ob = 0")
      case True
      have zero: "R a = 1" "held s D a = 0" "L a = 0"
        using True counts(1) lt by simp_all
      have "external_references ob = []"
        using inv True ob by (intro external_count_zero) (auto simp: inv_def)
      then have "dying (R(a := 0)) L D a (put_obj a ?ob s)"
        using zero same by (intro dying_put_counts [OF inv ob]) simp_all
      moreover have "card (dom (objs (put_obj a ?ob s)) - insert a D) < n"
        using card ob by (intro card_remove_live [OF inv]) (auto simp: put_obj_def)
      ultimately have "yields (inventory_remove_object_with
          (object_destroy_with (object_remove_internal_reference_fuel n)) a (put_obj a ?ob s))
          (\<lambda>s'. inv (R(a := 0)) L D s' \<and> releases D (put_obj a ?ob s) s')"
        by (rule inventory_remove_dying_spec [OF Suc])
      moreover have "releases D s (put_obj a ?ob s)"
        by (rule releases_put_counts [OF ob(1) same ob(2)])
      ultimately have "yields (inventory_remove_object_with
          (object_destroy_with (object_remove_internal_reference_fuel n)) a (put_obj a ?ob s))
          (\<lambda>s'. inv (R(a := 0)) L D s' \<and> releases D s s')"
        by (blast intro: yields_mono releases_trans)
      then show ?thesis using True ob irc zero by simp
    next
      case False
      have "inv (R(a := R a - 1)) L D (put_obj a ?ob s)"
        using False counts lt
        by (intro inv_put_counts [OF inv ob]) (auto simp: of_nat_diff)
      moreover have "releases D s (put_obj a ?ob s)"
        by (rule releases_put_counts [OF ob(1) same ob(2)])
      ultimately show ?thesis using False ob irc by (auto simp: Let_def)
    qed
  qed
qed

text \<open>The fuel of \<open>object_remove_internal_reference\<close> is enough.\<close>

lemma card_live_less: "inv R L D s \<Longrightarrow> card (dom (objs s) - E) < Suc (next_addr s)"
proof -
  assume "inv R L D s"
  then have "dom (objs s) - E \<subseteq> {..<next_addr s}"
    by (auto simp: inv_def heap_bounded_def)
  from card_mono [OF _ this] show ?thesis by simp
qed

lemma remove_internal_reference_spec:
  assumes "inv R L D s" "L a < R a"
  shows "yields (object_remove_internal_reference a s)
     (\<lambda>s'. inv (R(a := R a - 1)) L D s' \<and> releases D s s')"
  unfolding object_remove_internal_reference_def
  by (rule release_specD [OF release_fuel_spec assms card_live_less [OF assms(1)]])

lemma remove_object_spec:
  assumes "dying R L D a s"
  shows "yields (inventory_remove_object a s) (\<lambda>s'. inv R L D s' \<and> releases D s s')"
proof -
  obtain R' L' where "inv R' L' (insert a D) s"
    using assms unfolding dying_def by blast
  from inventory_remove_dying_spec [OF release_fuel_spec assms card_live_less [OF this]]
  show ?thesis
    unfolding inventory_remove_object_def inventory_remove_object_with_def object_destroy_def .
qed

end
