(* ===== verification/References.thy ===== *)
theory References
  imports Release
begin

text \<open>
  External references: a session and an object are connected by one \<open>ExternalReference\<close> with a
  count, linked into a list on either side. The three updates the code makes (changing a
  count, linking a new reference, unlinking one) keep the invariant; from them follow the
  specifications of \<open>object_add_external_reference\<close> and \<open>object_remove_external_reference\<close>.
\<close>

section \<open>Views of the invariant\<close>

lemma references_okD_object:
  assumes "references_ok s" "objs s a = Some ob"
  shows "distinct (external_references ob)"
    and "r \<in> set (external_references ob) \<Longrightarrow> \<exists>er. refs s r = Some er \<and> ref_object er = a"
    and "inj_on (session_of s) (set (external_references ob))"
    and "external_reference_count ob = refs_total s (external_references ob)"
  using assms unfolding references_ok_def by blast+

lemma references_okD_session:
  assumes "references_ok s" "sess s sa = Some se"
  shows "distinct (session_references se)"
    and "r \<in> set (session_references se) \<Longrightarrow> \<exists>er. refs s r = Some er \<and> ref_session er = sa"
    and "session_reference_count se = refs_total s (session_references se)"
  using assms unfolding references_ok_def by blast+

lemma references_okD_ref:
  assumes "references_ok s" "refs s r = Some er"
  shows "0 < ref_count er"
    and "(\<exists>ob. objs s (ref_object er) = Some ob \<and> r \<in> set (external_references ob)) \<longleftrightarrow>
         (\<exists>se. sess s (ref_session er) = Some se \<and> r \<in> set (session_references se))"
  using assms unfolding references_ok_def by blast+

lemma references_okI:
  assumes "\<And>a ob. objs s a = Some ob \<Longrightarrow> distinct (external_references ob)"
    and "\<And>a ob r. objs s a = Some ob \<Longrightarrow> r \<in> set (external_references ob) \<Longrightarrow>
           \<exists>er. refs s r = Some er \<and> ref_object er = a"
    and "\<And>a ob. objs s a = Some ob \<Longrightarrow> inj_on (session_of s) (set (external_references ob))"
    and "\<And>a ob. objs s a = Some ob \<Longrightarrow>
           external_reference_count ob = refs_total s (external_references ob)"
    and "\<And>sa se. sess s sa = Some se \<Longrightarrow> distinct (session_references se)"
    and "\<And>sa se r. sess s sa = Some se \<Longrightarrow> r \<in> set (session_references se) \<Longrightarrow>
           \<exists>er. refs s r = Some er \<and> ref_session er = sa"
    and "\<And>sa se. sess s sa = Some se \<Longrightarrow>
           session_reference_count se = refs_total s (session_references se)"
    and "\<And>r er. refs s r = Some er \<Longrightarrow> 0 < ref_count er"
    and "\<And>r er. refs s r = Some er \<Longrightarrow>
           (\<exists>ob. objs s (ref_object er) = Some ob \<and> r \<in> set (external_references ob)) \<longleftrightarrow>
           (\<exists>se. sess s (ref_session er) = Some se \<and> r \<in> set (session_references se))"
  shows "references_ok s"
  unfolding references_ok_def by (intro conjI allI impI ballI) (rule assms; assumption)+

lemma refs_total_cong:
  "(\<And>r. r \<in> set rs \<Longrightarrow> refs s' r = refs s r) \<Longrightarrow> refs_total s' rs = refs_total s rs"
  unfolding refs_total_def by (rule sum_list_map_cong) simp

lemma refs_total_simps [simp]:
  "refs_total s [] = 0"
  "refs_total s (r # rs) = (case refs s r of None \<Rightarrow> 0 | Some er \<Rightarrow> ref_count er) + refs_total s rs"
  "refs_total s (rs @ rs') = refs_total s rs + refs_total s rs'"
  by (simp_all add: refs_total_def)

lemma refs_total_update:
  assumes "refs s r = Some er" "refs s' = (refs s)(r := Some er')" "distinct rs"
  shows "refs_total s' rs = refs_total s rs + (if r \<in> set rs then ref_count er' - ref_count er else 0)"
  using assms(3) by (induction rs) (auto simp: assms(1,2))

lemma refs_total_remove1:
  "refs s r = Some er \<Longrightarrow> r \<in> set rs \<Longrightarrow> refs_total s (remove1 r rs) = refs_total s rs - ref_count er"
  unfolding refs_total_def by (simp add: sum_list_remove1)

text \<open>How many references session \<open>sa\<close> has to object \<open>a\<close>: what clients see of all this.\<close>

definition ext_count :: "apid \<Rightarrow> addr \<Rightarrow> addr \<Rightarrow> int" where
  "ext_count s a sa = (case objs s a of None \<Rightarrow> 0
     | Some ob \<Rightarrow> refs_total s (filter (\<lambda>r. session_of s r = sa) (external_references ob)))"

text \<open>Changes of the external references of an object leave the rest of it alone.\<close>

lemma external_frame:
  assumes "inv R L D s" "objs s a = Some ob"
    and "ob' = ob\<lparr>external_references := x, external_reference_count := n\<rparr>"
    and "objs s' = (objs s)(a := Some ob')" "objects s' = objects s" "next_addr s' = next_addr s"
    and "a \<notin> D \<Longrightarrow> 0 < internal_reference_count ob + n"
  shows "inventory_ok D s'" and "counts_ok R L D s'" and "is_type s' = is_type s"
proof -
  show types: "is_type s' = is_type s"
    using assms(2-4) by (auto simp: is_type_def fun_eq_iff)
  have wf: "object_wf s' o' \<longleftrightarrow> object_wf s o'" for o'
    by (simp add: object_wf_def payload_wf_cong [OF types])
  have i: "inventory_ok D s" using assms(1) by (simp add: inv_def)
  have get: "objs s' y = Some o' \<Longrightarrow> \<exists>oo. objs s y = Some oo \<and> obj_type o' = obj_type oo \<and>
      obj_id o' = obj_id oo \<and> (y \<notin> D \<longrightarrow> object_wf s oo \<longrightarrow> object_wf s o')" for y o'
    using assms(2-4,7) by (cases "y = a") (auto simp: object_wf_def)
  have live: "\<And>x o'. objs s x = Some o' \<Longrightarrow> x \<notin> D \<Longrightarrow> x \<in> set (objects s (obj_type o')) \<and> object_wf s o'"
    and ids: "\<And>x y ox oy. objs s x = Some ox \<Longrightarrow> objs s y = Some oy \<Longrightarrow> x \<notin> D \<Longrightarrow> y \<notin> D \<Longrightarrow>
      obj_id ox = obj_id oy \<Longrightarrow> x = y"
    using i unfolding inventory_ok_def by blast+
  have "y \<in> set (objects s (obj_type o')) \<and> object_wf s o'" if "objs s' y = Some o'" "y \<notin> D" for y o'
    using get [OF that(1)] that(2) live by fastforce
  moreover have "y = z" if "objs s' y = Some oy" "objs s' z = Some oz" "y \<notin> D" "z \<notin> D"
      "obj_id oy = obj_id oz" for y z oy oz
    using get [OF that(1)] get [OF that(2)] that(3-) ids by fastforce
  ultimately show "inventory_ok D s'"
    using i unfolding inventory_ok_def wf types assms(5) by blast
  have "holds_of (objs s') D = holds_of (objs s) D"
    using assms(2-4) by (auto simp: holds_of_def fun_eq_iff)
  then have same: "held s' D = held s D" "held_locks s' D = held_locks s D"
    by (auto intro: held_same simp: assms(6))
  have c: "counts_ok R L D s" using assms(1) by (simp add: inv_def)
  have "internal_reference_count o' = int (R b + held s D b) \<and>
      lock_count o' = int (L b + held_locks s D b)" if "objs s' b = Some o'" "b \<notin> D" for b o'
    using that c assms(2-4) by (cases "b = a") (auto simp: counts_ok_def)
  moreover have "objs s' b \<noteq> None \<and> b \<notin> D" if "0 < R b + held s D b" for b
    using that c assms(4) by (auto simp: counts_ok_def)
  ultimately show "counts_ok R L D s'"
    using c unfolding counts_ok_def same by blast
qed

lemma sessions_frame:
  assumes "sessions_ok s" "sess s sa = Some se"
    and "se' = se\<lparr>session_references := x, session_reference_count := n\<rparr>"
    and "sess s' = (sess s)(sa := Some se')" "sessions s' = sessions s"
  shows "sessions_ok s'"
proof -
  have get: "sess s' y = Some se'' \<Longrightarrow> \<exists>oo. sess s y = Some oo \<and> session_id se'' = session_id oo" for y se''
    using assms(2-4) by (cases "y = sa") auto
  have "y = z" if "sess s' y = Some sy" "sess s' z = Some sz" "session_id sy = session_id sz" for y z sy sz
    using get [OF that(1)] get [OF that(2)] that(3) assms(1) unfolding sessions_ok_def by metis
  moreover have "session_id sy \<noteq> SESSION_ID_ZERO" if "sess s' y = Some sy" for y sy
    using get [OF that] assms(1) unfolding sessions_ok_def by metis
  moreover have "y \<in> set (sessions s') \<longleftrightarrow> sess s' y \<noteq> None" for y
    using assms(1,2,4,5) by (auto simp: sessions_ok_def)
  moreover have "distinct (sessions s')" using assms(1,5) by (simp add: sessions_ok_def)
  ultimately show ?thesis unfolding sessions_ok_def by blast
qed

section \<open>Changing the count of a reference\<close>

lemma inv_bump:
  assumes "inv R L D s" "refs s r = Some er" "objs s (ref_object er) = Some ob"
    and "sess s (ref_session er) = Some se" "0 < ref_count er + d"
    and "ref_object er \<notin> D \<Longrightarrow> 0 < internal_reference_count ob + (external_reference_count ob + d)"
    and "s' = put_sess (ref_session er) (se\<lparr>session_reference_count := session_reference_count se + d\<rparr>)
         (put_obj (ref_object er) (ob\<lparr>external_reference_count := external_reference_count ob + d\<rparr>)
           (put_ref r (er\<lparr>ref_count := ref_count er + d\<rparr>) s))"
    and "r \<in> set (external_references ob)"
  shows "inv R L D s'"
    and "ext_count s' b sb = ext_count s b sb + (if b = ref_object er \<and> sb = ref_session er then d else 0)"
proof -
  let ?a = "ref_object er" and ?sa = "ref_session er"
  let ?er = "er\<lparr>ref_count := ref_count er + d\<rparr>"
  let ?ob = "ob\<lparr>external_reference_count := external_reference_count ob + d\<rparr>"
  let ?se = "se\<lparr>session_reference_count := session_reference_count se + d\<rparr>"
  have h: "heap_bounded s" and r: "references_ok s" and so: "sessions_ok s"
    using assms(1) by (simp_all add: inv_def)
  have fields: "objs s' = (objs s)(?a := Some ?ob)" "refs s' = (refs s)(r := Some ?er)"
    "sess s' = (sess s)(?sa := Some ?se)" "objects s' = objects s" "next_addr s' = next_addr s"
    "sessions s' = sessions s"
    by (simp_all add: assms(7) memory_defs)
  have ob': "?ob = ob\<lparr>external_references := external_references ob,
      external_reference_count := external_reference_count ob + d\<rparr>" by simp
  note frame = external_frame [OF assms(1,3) ob' fields(1,4,5) assms(6)]
  have se': "?se = se\<lparr>session_references := session_references se,
      session_reference_count := session_reference_count se + d\<rparr>" by simp
  note sframe = sessions_frame [OF so assms(4) se' fields(3,6)]
  have mem: "r \<in> set (external_references ob)" "r \<in> set (session_references se)"
    using references_okD_ref [OF r assms(2)] assms(3,4,8) by auto
  have session_of: "session_of s' = session_of s"
    using assms(2) by (auto simp: session_of_def fields fun_eq_iff)
  have total: "refs_total s' rs = refs_total s rs + (if r \<in> set rs then d else 0)" if "distinct rs" for rs
    using refs_total_update [OF assms(2) fields(2) that] by simp
  have object: "\<exists>oo. objs s x = Some oo \<and> external_references o' = external_references oo \<and>
      external_reference_count o' = external_reference_count oo + (if x = ?a then d else 0)"
    if "objs s' x = Some o'" for x o'
    using that assms(3) by (cases "x = ?a") (auto simp: fields)
  have session: "\<exists>oo. sess s x = Some oo \<and> session_references o' = session_references oo \<and>
      session_reference_count o' = session_reference_count oo + (if x = ?sa then d else 0)"
    if "sess s' x = Some o'" for x o'
    using that assms(4) by (cases "x = ?sa") (auto simp: fields)
  have ref: "\<exists>e. refs s x = Some e \<and> ref_object e' = ref_object e \<and> ref_session e' = ref_session e"
    if "refs s' x = Some e'" for x e'
    using that assms(2) by (cases "x = r") (auto simp: fields)
  have ref': "\<exists>e'. refs s' x = Some e' \<and> ref_object e' = ref_object e \<and> ref_session e' = ref_session e"
    if "refs s x = Some e" for x e
    using that assms(2) by (cases "x = r") (auto simp: fields)
  have "references_ok s'"
  proof (rule references_okI)
    fix a o' assume "objs s' a = Some o'"
    then obtain oo where oo: "objs s a = Some oo" "external_references o' = external_references oo"
      "external_reference_count o' = external_reference_count oo + (if a = ?a then d else 0)"
      using object by blast
    note o = references_okD_object [OF r oo(1)]
    show "distinct (external_references o')" using o(1) oo(2) by simp
    show "inj_on (session_of s') (set (external_references o'))"
      using o(3) oo(2) session_of by simp
    show "\<exists>er. refs s' r' = Some er \<and> ref_object er = a" if "r' \<in> set (external_references o')" for r'
      using o(2) [of r'] that oo(2) ref' by fastforce
    have "r \<in> set (external_references oo) \<longleftrightarrow> a = ?a"
      using o(2) [of r] assms(2,3) mem(1) oo(1) by auto
    then show "external_reference_count o' = refs_total s' (external_references o')"
      using o(4) oo(2,3) total [OF o(1)] by auto
  next
    fix sa o' assume "sess s' sa = Some o'"
    then obtain oo where oo: "sess s sa = Some oo" "session_references o' = session_references oo"
      "session_reference_count o' = session_reference_count oo + (if sa = ?sa then d else 0)"
      using session by blast
    note o = references_okD_session [OF r oo(1)]
    show "distinct (session_references o')" using o(1) oo(2) by simp
    show "\<exists>er. refs s' r' = Some er \<and> ref_session er = sa" if "r' \<in> set (session_references o')" for r'
      using o(2) [of r'] that oo(2) ref' by fastforce
    have "r \<in> set (session_references oo) \<longleftrightarrow> sa = ?sa"
      using o(2) [of r] assms(2,4) mem(2) oo(1) by auto
    then show "session_reference_count o' = refs_total s' (session_references o')"
      using o(3) oo(2,3) total [OF o(1)] by auto
  next
    fix x e' assume e': "refs s' x = Some e'"
    then show "0 < ref_count e'"
      using assms(5) references_okD_ref(1) [OF r, of x] by (cases "x = r") (auto simp: fields)
    obtain e where e: "refs s x = Some e" "ref_object e' = ref_object e" "ref_session e' = ref_session e"
      using ref [OF e'] by blast
    note R = references_okD_ref [OF r e(1)]
    have "(\<exists>o'. objs s' y = Some o' \<and> x \<in> set (external_references o')) \<longleftrightarrow>
        (\<exists>o'. objs s y = Some o' \<and> x \<in> set (external_references o'))" for y
      using assms(3) by (auto simp: fields)
    moreover have "(\<exists>o'. sess s' y = Some o' \<and> x \<in> set (session_references o')) \<longleftrightarrow>
        (\<exists>o'. sess s y = Some o' \<and> x \<in> set (session_references o'))" for y
      using assms(4) by (auto simp: fields)
    ultimately show "(\<exists>ob. objs s' (ref_object e') = Some ob \<and> x \<in> set (external_references ob)) \<longleftrightarrow>
        (\<exists>se. sess s' (ref_session e') = Some se \<and> x \<in> set (session_references se))"
      using R(2) e(2,3) by simp
  qed
  moreover have "heap_bounded s'"
    using h assms(2-4) by (auto simp: heap_bounded_def fields)
  ultimately show "inv R L D s'"
    using frame sframe by (simp add: inv_def)
  show "ext_count s' b sb = ext_count s b sb + (if b = ?a \<and> sb = ?sa then d else 0)"
  proof (cases "objs s b")
    case None
    then show ?thesis using assms(3) by (auto simp: ext_count_def fields)
  next
    case (Some ob2)
    let ?f = "filter (\<lambda>r. session_of s r = sb) (external_references ob2)"
    have "r \<in> set (external_references ob2) \<longleftrightarrow> b = ?a"
      using references_okD_object(2) [OF r Some, of r] assms(2,3) mem(1) Some by auto
    moreover have "session_of s r = ?sa" by (simp add: session_of_def assms(2))
    ultimately have "r \<in> set ?f \<longleftrightarrow> b = ?a \<and> sb = ?sa" by auto
    moreover have "distinct ?f" using references_okD_object(1) [OF r Some] by simp
    moreover have "ext_count s' b sb = refs_total s' ?f"
      using Some assms(3) by (auto simp: ext_count_def fields session_of)
    ultimately show ?thesis using Some total [of ?f] by (simp add: ext_count_def)
  qed
qed

section \<open>Linking a new reference\<close>

lemma inv_link:
  assumes "inv R L D s" "refs s r = None" "r < next_addr s" "objs s a = Some ob" "sess s sa = Some se"
    and "\<And>q. q \<in> set (external_references ob) \<Longrightarrow> session_of s q \<noteq> sa"
    and "er = \<lparr>ref_object = a, ref_session = sa, ref_count = 1\<rparr>"
    and "ob' = ob\<lparr>external_references := external_references ob @ [r],
                  external_reference_count := external_reference_count ob + 1\<rparr>"
    and "se' = se\<lparr>session_references := session_references se @ [r],
                  session_reference_count := session_reference_count se + 1\<rparr>"
    and "objs s' = (objs s)(a := Some ob')" "refs s' = (refs s)(r := Some er)"
    "sess s' = (sess s)(sa := Some se')" "objects s' = objects s" "next_addr s' = next_addr s"
    "sessions s' = sessions s"
    and "a \<notin> D \<Longrightarrow> 0 < internal_reference_count ob + (external_reference_count ob + 1)"
  shows "inv R L D s'"
    and "ext_count s' b sb = ext_count s b sb + (if b = a \<and> sb = sa then 1 else 0)"
proof -
  note fields = assms(10-15)
  have h: "heap_bounded s" and r: "references_ok s" and so: "sessions_ok s"
    using assms(1) by (simp_all add: inv_def)
  note frame = external_frame [OF assms(1,4,8) fields(1,4,5) assms(16)]
  note sframe = sessions_frame [OF so assms(5,9) fields(3,6)]
  have fresh: "r \<notin> set (external_references oo)" if "objs s x = Some oo" for x oo
    using references_okD_object(2) [OF r that, of r] assms(2) by auto
  have sfresh: "r \<notin> set (session_references oo)" if "sess s x = Some oo" for x oo
    using references_okD_session(2) [OF r that, of r] assms(2) by auto
  have total: "refs_total s' rs = refs_total s rs" if "r \<notin> set rs" for rs
    using that by (intro refs_total_cong) (auto simp: fields)
  have session_of: "session_of s' q = (if q = r then sa else session_of s q)" for q
    by (simp add: session_of_def fields assms(7))
  have "references_ok s'"
  proof (rule references_okI)
    fix x o' assume x: "objs s' x = Some o'"
    then obtain oo where oo: "objs s x = Some oo" "external_references o' = external_references oo @ (if x = a then [r] else [])"
      "external_reference_count o' = external_reference_count oo + (if x = a then 1 else 0)"
      using assms(4,8) by (cases "x = a") (auto simp: fields)
    note o = references_okD_object [OF r oo(1)] and f = fresh [OF oo(1)]
    show "distinct (external_references o')" using o(1) oo(2) f by simp
    show "\<exists>e. refs s' q = Some e \<and> ref_object e = x" if "q \<in> set (external_references o')" for q
      using o(2) [of q] that oo(2) assms(7) f by (cases "q = r") (auto simp: fields split: if_splits)
    have "inj_on (session_of s') (set (external_references oo))"
      using o(3) f by (auto simp: session_of inj_on_def)
    moreover have "sa \<notin> session_of s' ` set (external_references oo)" if "x = a"
      using assms(4,6) oo(1) that f by (auto simp: session_of)
    ultimately show "inj_on (session_of s') (set (external_references o'))"
      using f by (cases "x = a") (simp_all add: oo(2), simp add: session_of)
    show "external_reference_count o' = refs_total s' (external_references o')"
      using o(4) oo(2,3) total [OF f] by (simp add: fields assms(7))
  next
    fix x o' assume x: "sess s' x = Some o'"
    then obtain oo where oo: "sess s x = Some oo" "session_references o' = session_references oo @ (if x = sa then [r] else [])"
      "session_reference_count o' = session_reference_count oo + (if x = sa then 1 else 0)"
      using assms(5,9) by (cases "x = sa") (auto simp: fields)
    note o = references_okD_session [OF r oo(1)] and f = sfresh [OF oo(1)]
    show "distinct (session_references o')" using o(1) oo(2) f by simp
    show "\<exists>e. refs s' q = Some e \<and> ref_session e = x" if "q \<in> set (session_references o')" for q
      using o(2) [of q] that oo(2) assms(7) f by (cases "q = r") (auto simp: fields split: if_splits)
    show "session_reference_count o' = refs_total s' (session_references o')"
      using o(3) oo(2,3) total [OF f] by (simp add: fields assms(7))
  next
    fix q e assume e: "refs s' q = Some e"
    show "0 < ref_count e"
      using e references_okD_ref(1) [OF r, of q] assms(7) by (cases "q = r") (auto simp: fields)
    have "(\<exists>o'. objs s' y = Some o' \<and> q \<in> set (external_references o')) \<longleftrightarrow>
        (\<exists>o'. objs s y = Some o' \<and> q \<in> set (external_references o'))" if "q \<noteq> r" for y
      using assms(4,8) that by (auto simp: fields)
    moreover have "(\<exists>o'. sess s' y = Some o' \<and> q \<in> set (session_references o')) \<longleftrightarrow>
        (\<exists>o'. sess s y = Some o' \<and> q \<in> set (session_references o'))" if "q \<noteq> r" for y
      using assms(5,9) that by (auto simp: fields)
    ultimately show "(\<exists>ob. objs s' (ref_object e) = Some ob \<and> q \<in> set (external_references ob)) \<longleftrightarrow>
        (\<exists>se. sess s' (ref_session e) = Some se \<and> q \<in> set (session_references se))"
      using e references_okD_ref(2) [OF r, of q] assms(7-9) by (cases "q = r") (auto simp: fields)
  qed
  moreover have "heap_bounded s'"
    using h assms(3-5) by (auto simp: heap_bounded_def fields)
  ultimately show "inv R L D s'"
    using frame sframe by (simp add: inv_def)
  show "ext_count s' b sb = ext_count s b sb + (if b = a \<and> sb = sa then 1 else 0)"
  proof (cases "objs s b")
    case None
    then show ?thesis using assms(4) by (auto simp: ext_count_def fields)
  next
    case (Some ob2)
    have "r \<notin> set (external_references ob2)" by (rule fresh [OF Some])
    then have old: "filter (\<lambda>r. session_of s' r = sb) (external_references ob2) =
        filter (\<lambda>r. session_of s r = sb) (external_references ob2)"
      by (intro filter_cong) (auto simp: session_of)
    have "refs_total s' (filter (\<lambda>r. session_of s r = sb) (external_references ob2)) =
        refs_total s (filter (\<lambda>r. session_of s r = sb) (external_references ob2))"
      using \<open>r \<notin> set (external_references ob2)\<close> by (intro total) simp
    then show ?thesis
      using Some assms(4,7,8) old session_of [of r] by (auto simp: ext_count_def fields)
  qed
qed

section \<open>Unlinking a reference\<close>

lemma inv_unlink:
  assumes "inv R L D s" "refs s r = Some er" "objs s (ref_object er) = Some ob"
    and "sess s (ref_session er) = Some se"
    and "ob' = ob\<lparr>external_references := remove1 r (external_references ob),
                  external_reference_count := external_reference_count ob - ref_count er\<rparr>"
    and "se' = se\<lparr>session_references := remove1 r (session_references se),
                  session_reference_count := session_reference_count se - ref_count er\<rparr>"
    and "objs s' = (objs s)(ref_object er := Some ob')" "refs s' = refs s"
    "sess s' = (sess s)(ref_session er := Some se')" "objects s' = objects s" "next_addr s' = next_addr s"
    "sessions s' = sessions s"
    and "ref_object er \<notin> D \<Longrightarrow> 0 < internal_reference_count ob + (external_reference_count ob - ref_count er)"
    and "r \<in> set (external_references ob)"
  shows "inv R L D s'"
    and "ext_count s' b sb = ext_count s b sb -
           (if b = ref_object er \<and> sb = ref_session er then ref_count er else 0)"
    and "sess s' sb = Some se2 \<Longrightarrow> r \<notin> set (session_references se2)"
proof -
  let ?a = "ref_object er" and ?sa = "ref_session er"
  note fields = assms(7-12)
  have h: "heap_bounded s" and r: "references_ok s" and so: "sessions_ok s"
    using assms(1) by (simp_all add: inv_def)
  note frame = external_frame [OF assms(1,3,5) fields(1,4,5) assms(13)]
  note sframe = sessions_frame [OF so assms(4,6) fields(3,6)]
  have mem: "r \<in> set (external_references ob)" "r \<in> set (session_references se)"
    using references_okD_ref [OF r assms(2)] assms(3,4,14) by auto
  have session_of: "session_of s' q = session_of s q" if "q \<noteq> r" for q
    using that by (simp add: session_of_def fields)
  have total: "refs_total s' rs = refs_total s rs" if "r \<notin> set rs" for rs
    using that by (intro refs_total_cong) (auto simp: fields)
  have total1: "refs_total s' (remove1 r rs) = refs_total s rs - ref_count er" if "distinct rs" "r \<in> set rs" for rs
    using that by (simp add: total refs_total_remove1 [OF assms(2)])
  have "references_ok s'"
  proof (rule references_okI)
    fix x o' assume x: "objs s' x = Some o'"
    then obtain oo where oo: "objs s x = Some oo"
      "external_references o' = (if x = ?a then remove1 r (external_references oo) else external_references oo)"
      "external_reference_count o' = external_reference_count oo - (if x = ?a then ref_count er else 0)"
      using assms(3,5) by (cases "x = ?a") (auto simp: fields)
    note o = references_okD_object [OF r oo(1)]
    have at: "r \<in> set (external_references oo) \<longleftrightarrow> x = ?a"
      using o(2) [of r] assms(2,3) mem(1) oo(1) by auto
    have set': "set (external_references o') = set (external_references oo) - {r}"
      using o(1) at by (simp add: oo(2))
    show "distinct (external_references o')" using o(1) oo(2) by simp
    show "\<exists>e. refs s' q = Some e \<and> ref_object e = x" if "q \<in> set (external_references o')" for q
      using o(2) [of q] that set' by (simp add: fields)
    show "inj_on (session_of s') (set (external_references o'))"
      using o(3) by (auto simp: set' session_of inj_on_def)
    show "external_reference_count o' = refs_total s' (external_references o')"
      using o(1,4) oo(2,3) total total1 at by simp
  next
    fix x o' assume x: "sess s' x = Some o'"
    then obtain oo where oo: "sess s x = Some oo"
      "session_references o' = (if x = ?sa then remove1 r (session_references oo) else session_references oo)"
      "session_reference_count o' = session_reference_count oo - (if x = ?sa then ref_count er else 0)"
      using assms(4,6) by (cases "x = ?sa") (auto simp: fields)
    note o = references_okD_session [OF r oo(1)]
    have at: "r \<in> set (session_references oo) \<longleftrightarrow> x = ?sa"
      using o(2) [of r] assms(2,4) mem(2) oo(1) by auto
    have set': "set (session_references o') = set (session_references oo) - {r}"
      using o(1) at by (simp add: oo(2))
    show "distinct (session_references o')" using o(1) oo(2) by simp
    show "\<exists>e. refs s' q = Some e \<and> ref_session e = x" if "q \<in> set (session_references o')" for q
      using o(2) [of q] that set' by (simp add: fields)
    show "session_reference_count o' = refs_total s' (session_references o')"
      using o(1,3) oo(2,3) total total1 at by simp
  next
    fix q e assume e: "refs s' q = Some e"
    then have q: "refs s q = Some e" by (simp add: fields)
    note R = references_okD_ref [OF r q]
    show "0 < ref_count e" by (rule R(1))
    have dist: "distinct (external_references ob)" "distinct (session_references se)"
      using references_okD_object(1) [OF r assms(3)] references_okD_session(1) [OF r assms(4)] by auto
    have "(\<exists>o'. objs s' y = Some o' \<and> q \<in> set (external_references o')) \<longleftrightarrow>
        (\<exists>o'. objs s y = Some o' \<and> q \<in> set (external_references o')) \<and> (y = ?a \<longrightarrow> q \<noteq> r)" for y
      using assms(3,5) dist by (auto simp: fields)
    moreover have "(\<exists>o'. sess s' y = Some o' \<and> q \<in> set (session_references o')) \<longleftrightarrow>
        (\<exists>o'. sess s y = Some o' \<and> q \<in> set (session_references o')) \<and> (y = ?sa \<longrightarrow> q \<noteq> r)" for y
      using assms(4,6) dist by (auto simp: fields)
    ultimately show "(\<exists>ob. objs s' (ref_object e) = Some ob \<and> q \<in> set (external_references ob)) \<longleftrightarrow>
        (\<exists>se. sess s' (ref_session e) = Some se \<and> q \<in> set (session_references se))"
      using R(2) q assms(2) by (cases "q = r") simp_all
  qed
  moreover have "heap_bounded s'"
    using h assms(2-4) by (auto simp: heap_bounded_def fields)
  ultimately show "inv R L D s'"
    using frame sframe by (simp add: inv_def)
  show "ext_count s' b sb = ext_count s b sb - (if b = ?a \<and> sb = ?sa then ref_count er else 0)"
  proof (cases "objs s b")
    case None
    then show ?thesis using assms(3) by (auto simp: ext_count_def fields)
  next
    case (Some ob2)
    let ?f = "filter (\<lambda>r. session_of s r = sb) (external_references ob2)"
    have "r \<in> set (external_references ob2) \<longleftrightarrow> b = ?a"
      using references_okD_object(2) [OF r Some, of r] assms(2,3) mem(1) Some by auto
    moreover have "session_of s r = ?sa" by (simp add: session_of_def assms(2))
    ultimately have mem_f: "r \<in> set ?f \<longleftrightarrow> b = ?a \<and> sb = ?sa" by auto
    have "refs_total s' xs = refs_total s xs" "session_of s' = session_of s" for xs
      by (auto simp: refs_total_def session_of_def fields fun_eq_iff)
    then have "ext_count s' b sb = refs_total s (if b = ?a then remove1 r ?f else ?f)"
      using Some assms(3,5) by (auto simp: ext_count_def fields filter_remove1)
    then show ?thesis
      using Some mem_f refs_total_remove1 [OF assms(2), of ?f]
      by (auto simp: ext_count_def remove1_idem)
  qed
  show "r \<notin> set (session_references se2)" if "sess s' sb = Some se2"
  proof (cases "sb = ?sa")
    case True
    then show ?thesis
      using that assms(6) references_okD_session(1) [OF r assms(4)] by (auto simp: fields)
  next
    case False
    then show ?thesis
      using that references_okD_session(2) [OF r, of sb se2 r] assms(2) by (auto simp: fields)
  qed
qed

text \<open>A reference that is in no list may be freed.\<close>

lemma inv_free_ref:
  assumes "inv R L D s" "refs s r = Some er"
    and "\<And>se. sess s (ref_session er) = Some se \<Longrightarrow> r \<notin> set (session_references se)"
  shows "inv R L D (free_ref r s)" and "ext_count (free_ref r s) b sb = ext_count s b sb"
proof -
  let ?s = "free_ref r s"
  have r: "references_ok s" using assms(1) by (simp add: inv_def)
  have types: "is_type ?s = is_type s" by (simp add: is_type_def free_ref_def fun_eq_iff)
  have wf: "object_wf ?s = object_wf s"
    by (simp add: object_wf_def fun_eq_iff payload_wf_cong [OF types])
  have held: "held ?s D = held s D" "held_locks ?s D = held_locks s D"
    by (rule held_same; simp add: free_ref_def)+
  have fields: "objs ?s = objs s" "sess ?s = sess s" "refs ?s = (refs s)(r := None)"
    by (simp_all add: free_ref_def)
  have object: "r \<notin> set (external_references ob)" if "objs s a = Some ob" for a ob
    using references_okD_object(2) [OF r that, of r] references_okD_ref(2) [OF r assms(2)] assms(2,3) that
    by auto
  have session: "r \<notin> set (session_references se)" if "sess s a = Some se" for a se
    using references_okD_session(2) [OF r that, of r] assms(2,3) that by auto
  have total: "refs_total ?s rs = refs_total s rs" "inj_on (session_of ?s) (set rs) = inj_on (session_of s) (set rs)"
    if "r \<notin> set rs" for rs
    using that by (auto intro!: refs_total_cong inj_on_cong simp: fields session_of_def)
  have "references_ok ?s"
  proof (rule references_okI)
    fix a ob assume "objs ?s a = Some ob"
    then have ob: "objs s a = Some ob" by (simp add: fields)
    note o = references_okD_object [OF r ob] and f = object [OF ob]
    show "distinct (external_references ob)" by (rule o(1))
    show "\<exists>er. refs ?s q = Some er \<and> ref_object er = a" if "q \<in> set (external_references ob)" for q
      using o(2) [OF that] that f by (auto simp: fields)
    show "inj_on (session_of ?s) (set (external_references ob))"
      using o(3) total(2) [OF f] by simp
    show "external_reference_count ob = refs_total ?s (external_references ob)"
      using o(4) total(1) [OF f] by simp
  next
    fix sa se assume "sess ?s sa = Some se"
    then have se: "sess s sa = Some se" by (simp add: fields)
    note o = references_okD_session [OF r se] and f = session [OF se]
    show "distinct (session_references se)" by (rule o(1))
    show "\<exists>er. refs ?s q = Some er \<and> ref_session er = sa" if "q \<in> set (session_references se)" for q
      using o(2) [OF that] that f by (auto simp: fields)
    show "session_reference_count se = refs_total ?s (session_references se)"
      using o(3) total(1) [OF f] by simp
  next
    fix q e assume "refs ?s q = Some e"
    then have "refs s q = Some e" by (simp add: fields split: if_splits)
    note R = references_okD_ref [OF r this]
    show "0 < ref_count e" by (rule R(1))
    show "(\<exists>ob. objs ?s (ref_object e) = Some ob \<and> q \<in> set (external_references ob)) \<longleftrightarrow>
        (\<exists>se. sess ?s (ref_session e) = Some se \<and> q \<in> set (session_references se))"
      using R(2) by (simp add: fields)
  qed
  moreover have "heap_bounded ?s" using assms(1) by (auto simp: inv_def heap_bounded_def free_ref_def)
  moreover have "inventory_ok D ?s"
    using assms(1) unfolding inv_def inventory_ok_def wf types by (simp add: free_ref_def)
  moreover have "sessions_ok ?s" using assms(1) by (simp add: inv_def sessions_ok_def free_ref_def)
  moreover have "counts_ok R L D ?s"
    using assms(1) unfolding inv_def counts_ok_def held by (simp add: free_ref_def)
  ultimately show "inv R L D ?s" by (simp add: inv_def)
  show "ext_count ?s b sb = ext_count s b sb"
  proof (cases "objs s b")
    case (Some ob)
    let ?f = "filter (\<lambda>q. session_of s q = sb) (external_references ob)"
    have f: "r \<notin> set (external_references ob)" by (rule object [OF Some])
    then have "filter (\<lambda>q. session_of ?s q = sb) (external_references ob) = ?f"
      by (intro filter_cong) (auto simp: session_of_def fields)
    moreover have "refs_total ?s ?f = refs_total s ?f" using f by (intro total) simp
    ultimately show ?thesis using Some by (simp add: ext_count_def fields)
  qed (simp add: ext_count_def fields)
qed

text \<open>Memory for a new object, reference or session.\<close>

lemma inv_next_addr:
  assumes "inv R L D s"
  shows "inv R L D (s\<lparr>next_addr := Suc (next_addr s)\<rparr>)"
proof -
  let ?s = "s\<lparr>next_addr := Suc (next_addr s)\<rparr>"
  have "objs s (next_addr s) = None"
    using assms unfolding inv_def heap_bounded_def by (metis less_irrefl)
  then have held: "held ?s D = held s D" "held_locks ?s D = held_locks s D"
    by (auto simp: held_def held_locks_def holds_of_def fun_eq_iff)
  have types: "is_type ?s = is_type s" by (simp add: is_type_def fun_eq_iff)
  have wf: "object_wf ?s = object_wf s"
    by (simp add: object_wf_def fun_eq_iff payload_wf_cong [OF types])
  have rt: "refs_total ?s = refs_total s" "session_of ?s = session_of s"
    by (simp_all add: refs_total_def session_of_def fun_eq_iff)
  have "heap_bounded ?s" using assms by (auto simp: inv_def heap_bounded_def intro: less_SucI)
  moreover have "inventory_ok D ?s"
    using assms unfolding inv_def inventory_ok_def wf types by simp
  moreover have "references_ok ?s"
    using assms unfolding inv_def references_ok_def rt by simp
  moreover have "sessions_ok ?s" using assms by (simp add: inv_def sessions_ok_def)
  moreover have "counts_ok R L D ?s"
    using assms unfolding inv_def counts_ok_def held by simp
  ultimately show ?thesis by (simp add: inv_def)
qed

section \<open>Specifications\<close>

lemma find_external_reference_spec:
  assumes "\<And>q. q \<in> set rs \<Longrightarrow> refs s q \<noteq> None"
  shows "yields (find_external_reference s sa rs) (\<lambda>found. case found of
       None \<Rightarrow> \<forall>q\<in>set rs. session_of s q \<noteq> sa
     | Some r \<Rightarrow> r \<in> set rs \<and> session_of s r = sa)"
  using assms
proof (induction rs)
  case (Cons r rs)
  obtain er where er: "refs s r = Some er" using Cons.prems [of r] by auto
  show ?case
  proof (cases "ref_session er = sa")
    case False
    have "yields (find_external_reference s sa rs) (\<lambda>found. case found of
        None \<Rightarrow> \<forall>q\<in>set rs. session_of s q \<noteq> sa | Some r \<Rightarrow> r \<in> set rs \<and> session_of s r = sa)"
      using Cons by simp
    then have "yields (find_external_reference s sa rs) (\<lambda>found. case found of
        None \<Rightarrow> \<forall>q\<in>set (r # rs). session_of s q \<noteq> sa
      | Some q \<Rightarrow> q \<in> set (r # rs) \<and> session_of s q = sa)"
      by (rule yields_mono) (use False er in \<open>auto simp: session_of_def split: option.splits\<close>)
    then show ?thesis using False er by simp
  qed (use er in \<open>simp add: session_of_def\<close>)
qed simp

lemma find_external_reference_ok:
  assumes "references_ok s" "objs s a = Some ob"
  obtains (none) "find_external_reference s sa (external_references ob) = Some None"
      "\<And>q. q \<in> set (external_references ob) \<Longrightarrow> session_of s q \<noteq> sa" "ext_count s a sa = 0"
  | (found) r er se where "find_external_reference s sa (external_references ob) = Some (Some r)"
      "r \<in> set (external_references ob)" "refs s r = Some er" "ref_object er = a"
      "ref_session er = sa" "sess s sa = Some se" "ext_count s a sa = ref_count er"
proof -
  note o = references_okD_object [OF assms]
  have "refs s q \<noteq> None" if "q \<in> set (external_references ob)" for q
    using o(2) [OF that] by auto
  from find_external_reference_spec [OF this] obtain found where
    f: "find_external_reference s sa (external_references ob) = Some found"
    and P: "case found of None \<Rightarrow> \<forall>q\<in>set (external_references ob). session_of s q \<noteq> sa
       | Some r \<Rightarrow> r \<in> set (external_references ob) \<and> session_of s r = sa"
    by (blast elim: yieldsE)
  show ?thesis
  proof (cases found)
    case None
    then have "filter (\<lambda>r. session_of s r = sa) (external_references ob) = []"
      using P by (simp add: filter_empty_conv)
    then show ?thesis
      using None f P assms(2) by (intro none) (auto simp: ext_count_def)
  next
    case (Some r)
    with P have r: "r \<in> set (external_references ob)" "session_of s r = sa" by auto
    obtain er where er: "refs s r = Some er" "ref_object er = a" using o(2) [OF r(1)] by blast
    then have "ref_session er = sa" using r(2) by (simp add: session_of_def)
    moreover obtain se where "sess s sa = Some se"
      using references_okD_ref(2) [OF assms(1) er(1)] unfolding er(2) \<open>ref_session er = sa\<close>
      using assms(2) r(1) by blast
    moreover have "q = r" if "q \<in> set (external_references ob)" "session_of s q = sa" for q
      using inj_onD [OF o(3), of q r] that r by simp
    then have "set (filter (\<lambda>r. session_of s r = sa) (external_references ob)) = {r}"
      using r unfolding set_filter by blast
    then have "filter (\<lambda>r. session_of s r = sa) (external_references ob) = [r]"
      using o(1) by (intro distinct_set_singleton) simp_all
    then have "ext_count s a sa = ref_count er"
      using assms(2) er(1) by (simp add: ext_count_def)
    ultimately show ?thesis using Some f r(1) er by (intro found) auto
  qed
qed

lemma refs_linked_frame:
  assumes "refs_linked s" "\<And>r er. refs s' r = Some er \<Longrightarrow> \<exists>er'. refs s r = Some er' \<and> ref_session er' = ref_session er"
    and "\<And>r er sa se. refs s' r = Some er \<Longrightarrow> sess s sa = Some se \<Longrightarrow> r \<in> set (session_references se) \<Longrightarrow>
           \<exists>se'. sess s' sa = Some se' \<and> r \<in> set (session_references se')"
  shows "refs_linked s'"
  using assms unfolding refs_linked_def by (metis option.sel)

lemma releases_refs_linked: "releases D s s' \<Longrightarrow> refs_linked s' = refs_linked s"
  by (simp add: releases_def refs_linked_def)

lemma releases_ext_count:
  assumes "references_ok s" "references_ok s'" "releases D s s'"
  shows "ext_count s' b sb = ext_count s b sb"
proof -
  have same: "refs s' = refs s" "sess s' = sess s" using assms(3) by (simp_all add: releases_def)
  then have rt: "refs_total s' = refs_total s" "session_of s' = session_of s"
    by (simp_all add: refs_total_def session_of_def fun_eq_iff)
  show ?thesis
  proof (cases "objs s' b")
    case (Some ob')
    then obtain ob where "objs s b = Some ob" "same_but_counts ob ob'"
      using assms(3) unfolding releases_def by blast
    then show ?thesis using Some by (simp add: ext_count_def rt same_but_countsD)
  next
    case None
    have "external_references ob = []" if ob: "objs s b = Some ob" for ob
    proof (rule ccontr)
      assume "external_references ob \<noteq> []"
      then obtain r where r: "r \<in> set (external_references ob)" by (meson last_in_set)
      then obtain er where er: "refs s r = Some er" "ref_object er = b"
        using references_okD_object(2) [OF assms(1) ob] by blast
      then show False
        using references_okD_ref(2) [OF assms(1) er(1)] references_okD_ref(2) [OF assms(2), of r er]
          ob r None same by auto
    qed
    then show ?thesis using None by (auto simp: ext_count_def split: option.splits)
  qed
qed

end
