(* ===== verification/Object_Contract.thy ===== *)
theory Object_Contract
  imports References
begin

text \<open>
  The contract of \<open>object.c\<close>: every operation on references and locks returns, keeps the
  invariant, and changes the counters it names and nothing else. An object is destroyed exactly
  when its last reference goes.
\<close>

section \<open>Frames\<close>

lemma ext_count_cong:
  "objs s' = objs s \<Longrightarrow> refs s' = refs s \<Longrightarrow> ext_count s' = ext_count s"
proof -
  assume same: "objs s' = objs s" "refs s' = refs s"
  then have "refs_total s' = refs_total s" "session_of s' = session_of s"
    by (simp_all add: refs_total_def session_of_def fun_eq_iff)
  then show ?thesis unfolding ext_count_def [abs_def] by (simp only: same)
qed

lemma ext_count_objs:
  assumes "refs s' = refs s" "map_option external_references (objs s' b) = map_option external_references (objs s b)"
  shows "ext_count s' b sb = ext_count s b sb"
proof -
  have rt: "refs_total s' = refs_total s" "session_of s' = session_of s"
    by (simp_all add: refs_total_def session_of_def fun_eq_iff assms(1))
  show ?thesis
    using assms(2) unfolding ext_count_def rt by (cases "objs s b"; cases "objs s' b") auto
qed

lemma ext_count_frames [simp]:
  "ext_count (s\<lparr>answers := x\<rparr>) = ext_count s"
  "ext_count (s\<lparr>next_addr := n\<rparr>) = ext_count s"
  "ext_count (emit e s) = ext_count s"
  by (rule ext_count_cong; simp add: emit_def)+

lemma refs_linked_frames [simp]:
  "refs_linked (s\<lparr>answers := x\<rparr>) = refs_linked s"
  "refs_linked (s\<lparr>next_addr := n\<rparr>) = refs_linked s"
  "refs_linked (emit e s) = refs_linked s"
  by (simp_all add: refs_linked_def emit_def)

lemma refs_linked_bump:
  assumes "refs_linked s" "refs s q = Some er" "sess s sa = Some se"
    and "refs s' = (refs s)(q := Some er')" "ref_session er' = ref_session er"
    and "sess s' = (sess s)(sa := Some se')" "session_references se' = session_references se"
  shows "refs_linked s'"
  unfolding refs_linked_def
proof (intro allI impI)
  fix r e assume "refs s' r = Some e"
  then obtain e0 where "refs s r = Some e0" "ref_session e = ref_session e0"
    using assms(2,4,5) by (cases "r = q") auto
  then obtain se0 where "sess s (ref_session e) = Some se0" "r \<in> set (session_references se0)"
    using assms(1) unfolding refs_linked_def by auto
  then show "\<exists>se. sess s' (ref_session e) = Some se \<and> r \<in> set (session_references se)"
    using assms(3,6,7) by (cases "ref_session e = sa") auto
qed

lemma refs_linked_link:
  assumes "refs_linked s" "sess s sa = Some se"
    and "refs s' = (refs s)(q := Some er')" "ref_session er' = sa"
    and "sess s' = (sess s)(sa := Some se')" "session_references se' = session_references se @ [q]"
  shows "refs_linked s'"
  unfolding refs_linked_def
proof (intro allI impI)
  fix r e assume e: "refs s' r = Some e"
  show "\<exists>se. sess s' (ref_session e) = Some se \<and> r \<in> set (session_references se)"
  proof (cases "r = q")
    case False
    then have "refs s r = Some e" using e assms(3) by simp
    then obtain se0 where "sess s (ref_session e) = Some se0" "r \<in> set (session_references se0)"
      using assms(1) unfolding refs_linked_def by auto
    then show ?thesis using assms(2,5,6) by (cases "ref_session e = sa") auto
  qed (use e assms(3-6) in auto)
qed

lemma calloc_cases:
  obtains (failed) rs where "calloc s = (None, s\<lparr>answers := rs\<rparr>)"
  | (memory) rs where "calloc s = (Some (next_addr s), s\<lparr>answers := rs, next_addr := Suc (next_addr s)\<rparr>)"
proof -
  obtain r rs where ask: "ask s = (r, s\<lparr>answers := rs\<rparr>)" by (rule ask_cases)
  show ?thesis
  proof (cases r)
    case Inl
    then show ?thesis using ask by (intro failed [of rs]) (simp add: calloc_def)
  next
    case Inr
    then show ?thesis using ask by (intro memory [of rs]) (simp add: calloc_def)
  qed
qed

lemma inv_calloc [simp]:
  "inv R L D s \<Longrightarrow> inv R L D (s\<lparr>answers := rs, next_addr := Suc (next_addr s)\<rparr>)"
  using inv_next_addr [of R L D "s\<lparr>answers := rs\<rparr>"] by simp

lemma fresh_addr:
  assumes "inv R L D s"
  shows "objs s (next_addr s) = None" "refs s (next_addr s) = None" "sess s (next_addr s) = None"
  using assms unfolding inv_def heap_bounded_def by (metis less_irrefl)+

section \<open>Internal references and locks\<close>

lemma add_internal_reference_spec:
  assumes "inv R L D s" "objs s a \<noteq> None" "a \<notin> D"
  shows "yields (object_add_internal_reference a s)
     (\<lambda>s'. inv (R(a := R a + 1)) L D s' \<and> releases D s s' \<and> dom (objs s') = dom (objs s))"
proof -
  obtain ob where ob: "objs s a = Some ob" using assms(2) by auto
  note counts = inv_counts [OF assms(1) ob assms(3)]
  let ?ob = "ob\<lparr>internal_reference_count := internal_reference_count ob + 1\<rparr>"
  have "inv (R(a := R a + 1)) L D (put_obj a ?ob s)"
    using counts by (intro inv_put_counts [OF assms(1) ob assms(3)]) auto
  moreover have "releases D s (put_obj a ?ob s)"
    by (rule releases_put_counts [OF ob _ assms(3)]) (simp add: same_but_counts_def)
  ultimately show ?thesis
    using ob by (auto simp: object_add_internal_reference_def put_obj_def)
qed

lemma lock_spec:
  assumes "inv R L D s" "L a < R a"
  shows "yields (object_lock a s)
     (\<lambda>s'. inv R (L(a := L a + 1)) D s' \<and> releases D s s' \<and> dom (objs s') = dom (objs s))"
proof -
  obtain ob where ob: "objs s a = Some ob" "a \<notin> D"
    using assms by (metis inv_live less_nat_zero_code neq0_conv)
  note counts = inv_counts [OF assms(1) ob]
  let ?ob = "ob\<lparr>lock_count := lock_count ob + 1\<rparr>"
  have "inv R (L(a := L a + 1)) D (put_obj a ?ob s)"
    using counts assms(2) by (intro inv_put_counts [OF assms(1) ob]) auto
  moreover have "releases D s (put_obj a ?ob s)"
    by (rule releases_put_counts [OF ob(1) _ ob(2)]) (simp add: same_but_counts_def)
  ultimately show ?thesis
    using ob by (auto simp: object_lock_def put_obj_def)
qed

section \<open>External references\<close>

lemma add_external_reference_spec:
  assumes "inv R L D s" "objs s a = Some ob" "sess s sa \<noteq> None"
  shows "yields (object_add_external_reference a sa s) (\<lambda>(e, s').
     inv R L D s' \<and> (refs_linked s \<longrightarrow> refs_linked s') \<and> (e = API_E_SUCCESS \<or> e = API_E_NO_FREE_MEMORY) \<and>
     (\<forall>b sb. ext_count s' b sb =
        ext_count s b sb + (if e = API_E_SUCCESS \<and> b = a \<and> sb = sa then 1 else 0)))"
proof -
  have r: "references_ok s" using assms(1) by (simp add: inv_def)
  have pos: "0 < internal_reference_count ob + (external_reference_count ob + 1)" if "a \<notin> D"
    using inv_counts(6) [OF assms(1,2) that] by simp
  from r assms(2) show ?thesis
  proof (cases rule: find_external_reference_ok [where sa = sa])
    case (found q er se)
    let ?s = "put_sess sa (se\<lparr>session_reference_count := session_reference_count se + 1\<rparr>)
        (put_obj a (ob\<lparr>external_reference_count := external_reference_count ob + 1\<rparr>)
          (put_ref q (er\<lparr>ref_count := ref_count er + 1\<rparr>) s))"
    have "0 < ref_count er + 1" using references_okD_ref(1) [OF r found(3)] by simp
    note bump = inv_bump [OF assms(1) found(3), of ob se 1 ?s, unfolded found(4,5),
        OF assms(2) found(6) this pos refl found(2)]
    have "refs_linked ?s" if "refs_linked s"
      by (rule refs_linked_bump [OF that found(3,6), where er' = "er\<lparr>ref_count := ref_count er + 1\<rparr>"
            and se' = "se\<lparr>session_reference_count := session_reference_count se + 1\<rparr>"]) (simp_all add: memory_defs)
    then show ?thesis
      using found assms(2) bump by (simp add: object_add_external_reference_def Let_def)
  next
    case none
    show ?thesis
    proof (cases rule: calloc_cases [of s])
      case (failed rs)
      then show ?thesis using none assms(1,2) by (simp add: object_add_external_reference_def)
    next
      case (memory rs)
      let ?s1 = "s\<lparr>answers := rs, next_addr := Suc (next_addr s)\<rparr>"
      let ?er = "\<lparr>ref_object = a, ref_session = sa, ref_count = 1\<rparr>"
      let ?ob = "ob\<lparr>external_references := external_references ob @ [next_addr s],
          external_reference_count := external_reference_count ob + 1\<rparr>"
      obtain se where se: "sess s sa = Some se" using assms(3) by auto
      let ?se = "se\<lparr>session_references := session_references se @ [next_addr s],
          session_reference_count := session_reference_count se + 1\<rparr>"
      let ?s = "put_ref (next_addr s) ?er (put_sess sa ?se (put_obj a ?ob ?s1))"
      have inv1: "inv R L D ?s1" using assms(1) by simp
      have "session_of ?s1 q \<noteq> sa" if "q \<in> set (external_references ob)" for q
        using none(2) [OF that] by (simp add: session_of_def)
      note link = inv_link [OF inv1, of "next_addr s" a ob sa se ?er ?ob ?se ?s]
      have "inv R L D ?s \<and> ext_count ?s b sb = ext_count s b sb + (if b = a \<and> sb = sa then 1 else 0)" for b sb
        using link(1) link(2) [of b sb] se assms(2) pos fresh_addr(2) [OF assms(1)]
          \<open>\<And>q. q \<in> set (external_references ob) \<Longrightarrow> session_of ?s1 q \<noteq> sa\<close>
        by (simp add: memory_defs)
      moreover have "refs_linked ?s" if "refs_linked s"
        by (rule refs_linked_link [OF that se, where er' = ?er and se' = ?se]) (simp_all add: memory_defs)
      ultimately show ?thesis
        using none memory assms(2) se by (simp add: object_add_external_reference_def Let_def)
    qed
  qed
qed

text \<open>What else changes: the list and count of references of that one object.\<close>

definition same_but_externals :: "object \<Rightarrow> object \<Rightarrow> bool" where
  "same_but_externals ob ob' \<longleftrightarrow> ob' = ob\<lparr>external_references := external_references ob',
     external_reference_count := external_reference_count ob'\<rparr>"

lemma same_but_externals_fields:
  assumes "same_but_externals ob ob'"
  shows "payload ob' = payload ob" "obj_type ob' = obj_type ob" "obj_id ob' = obj_id ob"
    "internal_reference_count ob' = internal_reference_count ob" "lock_count ob' = lock_count ob"
  using assms unfolding same_but_externals_def by (cases ob; cases ob'; simp)+

lemma add_external_reference_frame:
  assumes "object_add_external_reference a sa s = Some (e, s')" "objs s a = Some ob"
  shows "\<exists>ob'. objs s' = (objs s)(a := Some ob') \<and> same_but_externals ob ob'"
    and "objects s' = objects s" "sessions s' = sessions s" "stock_strings s' = stock_strings s" "lib s' = lib s"
    and "next_object_id s' = next_object_id s" "dom (sess s') = dom (sess s)"
proof -
  let ?P = "\<lambda>s'. (\<exists>ob'. objs s' = (objs s)(a := Some ob') \<and> same_but_externals ob ob') \<and>
    objects s' = objects s \<and> sessions s' = sessions s \<and> stock_strings s' = stock_strings s \<and> lib s' = lib s \<and>
    next_object_id s' = next_object_id s \<and> dom (sess s') = dom (sess s)"
  obtain found where f: "find_external_reference s sa (external_references ob) = Some found"
    using assms by (auto simp: object_add_external_reference_def split: bind_splits)
  have "?P s'"
  proof (cases found)
    case (Some q)
    then obtain er se where "refs s q = Some er" and se: "sess s sa = Some se"
      and s': "s' = put_sess sa (se\<lparr>session_reference_count := session_reference_count se + 1\<rparr>)
        (put_obj a (ob\<lparr>external_reference_count := external_reference_count ob + 1\<rparr>)
          (put_ref q (er\<lparr>ref_count := ref_count er + 1\<rparr>) s))"
      using assms f by (auto simp: object_add_external_reference_def Let_def split: bind_splits)
    show ?thesis using se by (auto simp: s' memory_defs same_but_externals_def)
  next
    case None
    note f = f [unfolded None]
    show ?thesis
    proof (cases rule: calloc_cases [of s])
      case (failed rs)
      then have "s' = s\<lparr>answers := rs\<rparr>"
        using assms f by (auto simp: object_add_external_reference_def)
      moreover have "objs s = (objs s)(a := Some ob)" using assms(2) by auto
      moreover have "same_but_externals ob ob" by (simp add: same_but_externals_def)
      ultimately show ?thesis by auto
    next
      case (memory rs)
      then show ?thesis
        using assms f by (auto simp: object_add_external_reference_def memory_defs Let_def same_but_externals_def split: bind_splits if_splits)
    qed
  qed
  then show "\<exists>ob'. objs s' = (objs s)(a := Some ob') \<and> same_but_externals ob ob'"
    and "objects s' = objects s" "sessions s' = sessions s" "stock_strings s' = stock_strings s" "lib s' = lib s"
    and "next_object_id s' = next_object_id s" "dom (sess s') = dom (sess s)"
    by blast+
qed

text \<open>The two \<open>node_remove\<close> calls and the subtraction of the count, as one update.\<close>

lemma unlink_steps:
  assumes "inv R L D s" "refs s r = Some er" "objs s (ref_object er) = Some ob"
    and "r \<in> set (external_references ob)"
    and "ref_object er \<notin> D \<Longrightarrow> 0 < internal_reference_count ob + (external_reference_count ob - ref_count er)"
  obtains s1 ob1 where "(do { s \<leftarrow> node_remove r er s; subtract_reference_count er s }) = Some s1"
    and "inv R L D s1"
    and "\<And>b sb. ext_count s1 b sb = ext_count s b sb -
           (if b = ref_object er \<and> sb = ref_session er then ref_count er else 0)"
    and "\<And>sb se. sess s1 sb = Some se \<Longrightarrow> r \<notin> set (session_references se)"
    and "refs s1 = refs s" "objs s1 = (objs s)(ref_object er := Some ob1)"
    and "ob1 = ob\<lparr>external_references := remove1 r (external_references ob),
           external_reference_count := external_reference_count ob - ref_count er\<rparr>"
    and "objects s1 = objects s" "next_addr s1 = next_addr s"
    and "\<exists>se se1. sess s (ref_session er) = Some se \<and> sess s1 = (sess s)(ref_session er := Some se1) \<and>
           session_references se1 = remove1 r (session_references se)"
proof -
  have r: "references_ok s" using assms(1) by (simp add: inv_def)
  obtain se where se: "sess s (ref_session er) = Some se"
    using references_okD_ref(2) [OF r assms(2)] assms(3,4) by auto
  let ?ob = "ob\<lparr>external_references := remove1 r (external_references ob),
      external_reference_count := external_reference_count ob - ref_count er\<rparr>"
  let ?se = "se\<lparr>session_references := remove1 r (session_references se),
      session_reference_count := session_reference_count se - ref_count er\<rparr>"
  let ?s = "put_sess (ref_session er) ?se (put_obj (ref_object er) ?ob s)"
  have run: "(do { s \<leftarrow> node_remove r er s; subtract_reference_count er s }) = Some ?s"
    using assms(3) se by (simp add: node_remove_def subtract_reference_count_def memory_defs Let_def)
  have "objs ?s = (objs s)(ref_object er := Some ?ob)" "refs ?s = refs s"
    "sess ?s = (sess s)(ref_session er := Some ?se)" "objects ?s = objects s"
    "next_addr ?s = next_addr s" "sessions ?s = sessions s"
    by (simp_all add: memory_defs)
  note unlink = inv_unlink [OF assms(1-3) se refl refl this assms(5,4)]
  have "\<exists>se' se1. sess s (ref_session er) = Some se' \<and> sess ?s = (sess s)(ref_session er := Some se1) \<and>
      session_references se1 = remove1 r (session_references se')"
    by (rule exI [of _ se], rule exI [of _ ?se]) (simp add: se memory_defs)
  then show ?thesis
    by (intro that [OF run unlink(1) unlink(2) unlink(3)]) (simp_all add: memory_defs)
qed

text \<open>Once the last external reference is gone an object nobody else holds can be removed.\<close>

lemma dying_after_unlink:
  assumes "inv R L D s" "objs s a = Some ob" "a \<notin> D" "internal_reference_count ob = 0"
    and "inv R' L' (insert a D) s1"
    and "R' = add_refs R (holds (payload ob))" "L' = add_locks L (holds (payload ob))"
    and "objs s1 = (objs s)(a := Some ob1)" "ob1 = ob\<lparr>external_references := [], external_reference_count := n\<rparr>"
    and "objects s1 = objects s"
  shows "dying R L D a s1"
proof -
  have types: "is_type s1 = is_type s"
    using assms(2,8,9) by (auto simp: is_type_def fun_eq_iff)
  have "object_wf s ob" by (rule inv_arrays(2) [OF assms(1-3)])
  then have "payload_wf s1 (payload ob)" by (simp add: object_wf_def payload_wf_cong [OF types])
  moreover have "\<forall>b. L b \<le> R b" using assms(1) by (simp add: inv_def counts_ok_def)
  moreover have "\<forall>t. a \<in> set (objects s1 t) \<longleftrightarrow> t = obj_type ob"
    using inv_arrays(1) [OF assms(1-3)] assms(10) by simp
  ultimately show ?thesis
    using assms(3,5-9) by (simp add: dying_def)
qed

lemma inv_dying_zero:
  assumes "inv R L D s" "objs s a = Some ob" "a \<notin> D" "internal_reference_count ob = 0"
  shows "inv (add_refs R (holds (payload ob))) (add_locks L (holds (payload ob))) (insert a D) s"
proof -
  have R: "R a = 0" "held s D a = 0" using inv_counts(1) [OF assms(1-3)] assms(4) by simp_all
  then have "L a = 0" using inv_counts(4) [OF assms(1-3)] by simp
  then have "R(a := 0) = R" "L(a := 0) = L" using R by auto
  then show ?thesis using inv_dying [OF assms(1-3) R(2)] by simp
qed

lemma refs_linked_unlink:
  assumes "refs_linked s" "refs s r = Some er" "sess s (ref_session er) = Some se"
    and "refs s' = (refs s)(r := None)"
    and "sess s' = (sess s)(ref_session er := Some se')" "session_references se' = remove1 r (session_references se)"
  shows "refs_linked s'"
  unfolding refs_linked_def
proof (intro allI impI)
  fix q e assume "refs s' q = Some e"
  then have q: "q \<noteq> r" "refs s q = Some e" using assms(4) by (auto split: if_splits)
  then obtain se0 where "sess s (ref_session e) = Some se0" "q \<in> set (session_references se0)"
    using assms(1) unfolding refs_linked_def by auto
  then show "\<exists>se. sess s' (ref_session e) = Some se \<and> q \<in> set (session_references se)"
    using q assms(3,5,6) by (cases "ref_session e = ref_session er") auto
qed

text \<open>
  \<open>object_remove_external_reference\<close> takes one reference of the session away, if it has one,
  and destroys the object when that was the last reference of all.
\<close>

lemma remove_external_reference_spec:
  assumes "inv R L D s" "objs s a = Some ob" "a \<notin> D"
  shows "yields (object_remove_external_reference a sa s) (\<lambda>s'.
     inv R L D s' \<and> (refs_linked s \<longrightarrow> refs_linked s') \<and>
     (\<forall>b sb. ext_count s' b sb =
        ext_count s b sb - (if b = a \<and> sb = sa \<and> 0 < ext_count s a sa then 1 else 0)))"
proof -
  have r: "references_ok s" using assms(1) by (simp add: inv_def)
  from r assms(2) show ?thesis
  proof (cases rule: find_external_reference_ok [where sa = sa])
    case none
    then show ?thesis
      using assms by (simp add: object_remove_external_reference_def)
  next
    case (found q er se)
    have pos: "0 < ref_count er" by (rule references_okD_ref(1) [OF r found(3)])
    have total: "ref_count er \<le> external_reference_count ob"
    proof -
      have "ref_count er = (case refs s q of None \<Rightarrow> 0 | Some er \<Rightarrow> ref_count er)"
        using found(3) by simp
      also have "\<dots> \<le> refs_total s (external_references ob)"
        unfolding refs_total_def using found(2) references_okD_ref(1) [OF r]
        by (intro member_le_sum_list_int) (auto split: option.splits intro: less_imp_le)
      finally show ?thesis using references_okD_object(4) [OF r assms(2)] by simp
    qed
    let ?er = "er\<lparr>ref_count := ref_count er - 1\<rparr>"
    let ?ob = "ob\<lparr>external_reference_count := external_reference_count ob - 1\<rparr>"
    let ?se = "se\<lparr>session_reference_count := session_reference_count se - 1\<rparr>"
    let ?s0 = "put_sess sa ?se (put_obj a ?ob (put_ref q ?er s))"
    show ?thesis
    proof (cases "ref_count er = 1")
      case False
      have more: "0 < ref_count er + -1" using pos False by simp
      have live: "0 < internal_reference_count ob + (external_reference_count ob + -1)"
        using inv_counts(1) [OF assms] total more by simp
      have s0: "?s0 = put_sess sa (se\<lparr>session_reference_count := session_reference_count se + -1\<rparr>)
          (put_obj a (ob\<lparr>external_reference_count := external_reference_count ob + -1\<rparr>)
            (put_ref q (er\<lparr>ref_count := ref_count er + -1\<rparr>) s))" by simp
      note bump = inv_bump [OF assms(1) found(3), of ob se "-1" ?s0, unfolded found(4,5),
          OF assms(2) found(6) more live s0 found(2)]
      have linked: "refs_linked ?s0" if "refs_linked s"
        by (rule refs_linked_bump [OF that found(3,6), where er' = ?er and se' = ?se]) (simp_all add: memory_defs)
      have "\<not> (internal_reference_count ob = 0 \<and> external_reference_count ob - 1 = 0)"
        using live by simp
      moreover have "objs ?s0 a = Some ?ob" by (simp add: memory_defs)
      ultimately show ?thesis
        using found False assms(2) bump linked pos total
        by (simp add: object_remove_external_reference_def Let_def)
    next
      case True
      let ?ob1 = "ob\<lparr>external_references := remove1 q (external_references ob),
          external_reference_count := external_reference_count ob - 1\<rparr>"
      let ?se1 = "se\<lparr>session_references := remove1 q (session_references se),
          session_reference_count := session_reference_count se - 1\<rparr>"
      let ?s1 = "put_sess sa ?se1 (put_obj a ?ob1 s)"
      let ?s2 = "free_ref q ?s1"
      have ob1: "?ob1 = ob\<lparr>external_references := remove1 q (external_references ob),
          external_reference_count := external_reference_count ob - ref_count er\<rparr>"
        and se1: "?se1 = se\<lparr>session_references := remove1 q (session_references se),
          session_reference_count := session_reference_count se - ref_count er\<rparr>"
        using True by simp_all
      have fields: "objs ?s1 = (objs s)(ref_object er := Some ?ob1)" "refs ?s1 = refs s"
        "sess ?s1 = (sess s)(ref_session er := Some ?se1)" "objects ?s1 = objects s"
        "next_addr ?s1 = next_addr s" "sessions ?s1 = sessions s"
        by (simp_all add: memory_defs found(4,5))
      have run: "node_remove q ?er ?s0 = Some (put_ref q ?er ?s1)"
        using found(4,5) by (cases s, cases ob, cases se) (simp add: node_remove_def memory_defs Let_def)
      have free: "free_ref q (put_ref q ?er ?s1) = ?s2" by (simp add: memory_defs)
      have linked: "refs_linked ?s2" if "refs_linked s"
        by (rule refs_linked_unlink [OF that found(3), of se, where se' = ?se1])
           (simp_all add: memory_defs found(5,6))
      let ?R = "add_refs R (holds (payload ob))" and ?L = "add_locks L (holds (payload ob))"
      have prems: "objs s (ref_object er) = Some ob" "sess s (ref_session er) = Some se"
        "refs ?s1 q = Some er"
        by (simp_all add: found(3-6) assms(2) memory_defs)
      have unlink: "inv R' L' D' ?s1" "\<And>b sb. ext_count ?s1 b sb = ext_count s b sb -
            (if b = a \<and> sb = sa then 1 else 0)"
        "\<And>sb se2. sess ?s1 sb = Some se2 \<Longrightarrow> q \<notin> set (session_references se2)"
        if inv': "inv R' L' D' s" and pos': "a \<notin> D' \<Longrightarrow> 0 < internal_reference_count ob + (external_reference_count ob - 1)"
        for R' L' D'
      proof -
        have pos: "ref_object er \<notin> D' \<Longrightarrow> 0 < internal_reference_count ob + (external_reference_count ob - ref_count er)"
          using pos' found(4) True by simp
        note u = inv_unlink [OF inv' found(3) prems(1,2) ob1 se1 fields pos found(2)]
        show "inv R' L' D' ?s1" using u(1) by blast
        show "ext_count ?s1 b sb = ext_count s b sb - (if b = a \<and> sb = sa then 1 else 0)" for b sb
          using u(2) [of b sb] found(4,5) True by simp
        show "q \<notin> set (session_references se2)" if "sess ?s1 sb = Some se2" for sb se2
          using u(3) [of sb se2] that by blast
      qed
      have ext2: "ext_count s a sa = 1" using found(7) True by simp
      have objs2: "objs ?s2 a = Some ?ob1" by (simp add: memory_defs)
      have form: "object_remove_external_reference a sa s =
          (if internal_reference_count ob = 0 \<and> external_reference_count ob = 1
           then inventory_remove_object a ?s2 else Some ?s2)"
      proof -
        have "external_reference_count ob \<noteq> 0" using total True by simp
        moreover have "objs (free_ref q (put_ref q ?er ?s1)) a = Some ?ob1" by (simp add: memory_defs)
        moreover have "ref_count ?er = 0" using True by simp
        ultimately show ?thesis
          unfolding object_remove_external_reference_def
          using found(1,3,6) assms(2) run free by (simp add: Let_def)
      qed
      show ?thesis
      proof (cases "internal_reference_count ob = 0 \<and> external_reference_count ob = 1")
        case False
        then have "0 < internal_reference_count ob + (external_reference_count ob - 1)"
          using inv_counts(1) [OF assms] total True by auto
        note u = unlink [OF assms(1) this]
        have "inv R L D ?s2" "ext_count ?s2 b sb = ext_count ?s1 b sb" for b sb
          by (rule inv_free_ref [OF u(1) prems(3) u(3)]; simp)+
        then show ?thesis
          unfolding form if_not_P [OF False] using u(2) linked ext2 by simp
      next
        case last: True
        have "inv ?R ?L (insert a D) s" by (rule inv_dying_zero [OF assms]) (use last in simp)
        note u = unlink [OF this, simplified]
        have free_inv: "inv ?R ?L (insert a D) ?s2" and free_ext: "ext_count ?s2 b sb = ext_count ?s1 b sb" for b sb
          by (rule inv_free_ref [OF u(1) prems(3) u(3)]; simp)+
        have "external_references ?ob1 = []"
          using external_count_zero [of ?s2 a ?ob1] free_inv objs2 last by (simp add: inv_def)
        then have "dying R L D a ?s2"
          using last objs2
          by (intro dying_after_unlink [OF assms _ free_inv refl refl, of ?ob1 0]) (simp_all add: memory_defs)
        note remove = remove_object_spec [OF this]
        have "yields (inventory_remove_object a ?s2) (\<lambda>s'. inv R L D s' \<and> (refs_linked s \<longrightarrow> refs_linked s') \<and>
            (\<forall>b sb. ext_count s' b sb = ext_count ?s2 b sb))"
        proof (rule yields_mono [OF remove])
          fix s' assume s': "inv R L D s' \<and> releases D ?s2 s'"
          then have "references_ok s'" "references_ok ?s2" using free_inv by (simp_all add: inv_def)
          then show "inv R L D s' \<and> (refs_linked s \<longrightarrow> refs_linked s') \<and>
              (\<forall>b sb. ext_count s' b sb = ext_count ?s2 b sb)"
            using s' linked releases_refs_linked [of D ?s2 s'] releases_ext_count [of ?s2 s' D] by blast
        qed
        then show ?thesis
          unfolding form if_P [OF last] using u(2) ext2 free_ext by simp
      qed
    qed
  qed
qed

end
