(* ===== verification/Identifiers.thy ===== *)
theory Identifiers
  imports Invariant
begin

text \<open>
  Allocation of 16 bit identifiers. \<open>inventory_get_next_object_id\<close> and
  \<open>inventory_get_next_session_id\<close> are the same loop over different arrays: a counter that wraps
  around and skips the reserved value 0, tried \<open>65535\<close> times. The locale states the loop once;
  its lemmas show that an allocated identifier is not zero and not in use, and that the
  allocation fails only if every one of the 65535 identifiers is in use.
\<close>

section \<open>The cycle of candidates\<close>

definition skip_zero :: "u16 \<Rightarrow> u16" where
  "skip_zero i = (if i = 0 then 1 else i)"

primrec nth_candidate :: "u16 \<Rightarrow> nat \<Rightarrow> u16" where
  "nth_candidate i 0 = skip_zero i"
| "nth_candidate i (Suc k) = nth_candidate (skip_zero i + 1) k"

lemma skip_zero_not_zero [simp]: "skip_zero i \<noteq> 0"
  by (simp add: skip_zero_def)

lemma nth_candidate_not_zero [simp]: "nth_candidate i k \<noteq> 0"
  by (induction k arbitrary: i) simp_all

lemma u16_below: "unat (x :: u16) < 65536"
  by (rule order_less_le_trans [OF unsigned_less]) simp

lemma unat_skip_zero_Suc:
  "unat (skip_zero (skip_zero i + 1)) = Suc (unat (skip_zero i) mod 65535)"
proof -
  define c where "c = skip_zero i"
  have pos: "0 < unat c" unfolding c_def by (simp add: unat_gt_0)
  have c: "unat c < 65536" by (rule u16_below)
  have "unat (c + 1) = (unat c + 1) mod 65536"
    by (simp add: unat_word_ariths)
  have "unat (skip_zero (c + 1)) = Suc (unat c mod 65535)"
  proof (cases "unat c = 65535")
    case True
    then have "unat (c + 1) = 0" using \<open>unat (c + 1) = _\<close> by simp
    then have "c + 1 = 0" by (simp only: unat_eq_zero)
    then show ?thesis using True by (simp add: skip_zero_def)
  next
    case False
    then have u: "unat (c + 1) = Suc (unat c)" using \<open>unat (c + 1) = _\<close> c by simp
    then have "c + 1 \<noteq> 0" by (metis nat.discI unat_0)
    then show ?thesis using u False c by (simp add: skip_zero_def)
  qed
  then show ?thesis by (simp add: c_def)
qed

lemma unat_nth_candidate: "unat (nth_candidate i k) = Suc ((unat (skip_zero i) - 1 + k) mod 65535)"
proof (induction k arbitrary: i)
  case 0
  have "0 < unat (skip_zero i)" by (simp add: unat_gt_0)
  then show ?case using u16_below [of "skip_zero i"] by simp
next
  case (Suc k)
  have "0 < unat (skip_zero i)" by (simp add: unat_gt_0)
  have "unat (nth_candidate i (Suc k)) = Suc ((unat (skip_zero i) mod 65535 + k) mod 65535)"
    using Suc [of "skip_zero i + 1"] by (simp add: unat_skip_zero_Suc)
  also have "\<dots> = Suc ((unat (skip_zero i) + k) mod 65535)"
    by (simp add: mod_add_left_eq)
  also have "unat (skip_zero i) + k = unat (skip_zero i) - 1 + Suc k"
    using \<open>0 < unat (skip_zero i)\<close> by simp
  finally show ?case .
qed

text \<open>The 65535 candidates that one allocation tries are all identifiers there are.\<close>

lemma candidates_exhaust:
  assumes "j \<noteq> 0"
  shows "\<exists>k<65535. nth_candidate i k = j"
proof -
  define a where "a = unat (skip_zero i) - 1"
  define b where "b = unat j - 1"
  have "0 < unat j" using assms by (simp add: unat_gt_0)
  then have b: "b < 65535" "Suc b = unat j" using u16_below [of j] by (auto simp: b_def)
  have a: "a < 65535" using u16_below [of "skip_zero i"] by (simp add: a_def)
  define k where "k = (b + (65535 - a)) mod 65535"
  have "(a + k) mod 65535 = (a + (b + (65535 - a))) mod 65535"
    unfolding k_def by (simp add: mod_add_right_eq)
  also have "\<dots> = b" using a b by simp
  finally have "unat (nth_candidate i k) = unat j"
    unfolding unat_nth_candidate a_def [symmetric] using b by simp
  then have "nth_candidate i k = j" by (simp add: word_unat_eq_iff)
  moreover have "k < 65535" by (simp add: k_def)
  ultimately show ?thesis by blast
qed

section \<open>The allocation loop\<close>

locale id_allocator =
  fixes loop :: "nat \<Rightarrow> 's \<Rightarrow> ((apie + u16) \<times> 's) option"
    and counter :: "'s \<Rightarrow> u16"
    and set_counter :: "u16 \<Rightarrow> 's \<Rightarrow> 's"
    and used :: "'s \<Rightarrow> u16 \<Rightarrow> bool"
    and live :: "'s \<Rightarrow> bool"
    and full :: apie
  assumes loop_zero: "loop 0 s = Some (Inl full, s)"
    and loop_step: "live s \<Longrightarrow> loop (Suc n) s =
          (let c = skip_zero (counter s); s' = set_counter (c + 1) s
           in if used s c then loop n s' else Some (Inr c, s'))"
    and counter_set: "counter (set_counter i s) = i"
    and set_set: "set_counter i (set_counter j s) = set_counter i s"
    and set_id: "set_counter (counter s) s = s"
    and used_set: "used (set_counter i s) = used s"
    and live_set: "live (set_counter i s) = live s"
begin

lemma loop_result:
  "live s \<Longrightarrow> (\<exists>k<n. \<not> used s (nth_candidate (counter s) k) \<and>
       loop n s = Some (Inr (nth_candidate (counter s) k), set_counter (nth_candidate (counter s) k + 1) s) \<and>
       (\<forall>m<k. used s (nth_candidate (counter s) m)))
   \<or> ((\<forall>k<n. used s (nth_candidate (counter s) k)) \<and> (\<exists>i. loop n s = Some (Inl full, set_counter i s)))"
proof (induction n arbitrary: s)
  case 0
  then show ?case using loop_zero set_id by (metis not_less_zero)
next
  case (Suc n)
  let ?c = "skip_zero (counter s)"
  let ?s = "set_counter (?c + 1) s"
  have cand: "nth_candidate (counter s) (Suc k) = nth_candidate (counter ?s) k" for k
    by (simp add: counter_set)
  show ?case
  proof (cases "used s ?c")
    case False
    then have "loop (Suc n) s = Some (Inr (nth_candidate (counter s) 0), set_counter (nth_candidate (counter s) 0 + 1) s)"
      by (simp add: loop_step [OF Suc.prems] Let_def)
    then show ?thesis using False by (intro disjI1 exI [of _ 0]) simp
  next
    case True
    then have run: "loop (Suc n) s = loop n ?s"
      by (simp add: loop_step [OF Suc.prems] Let_def)
    have "live ?s" using Suc.prems by (simp add: live_set)
    from Suc.IH [OF this] show ?thesis
    proof (elim disjE exE conjE)
      fix k assume k: "k < n" "\<not> used ?s (nth_candidate (counter ?s) k)"
        and r: "loop n ?s = Some (Inr (nth_candidate (counter ?s) k), set_counter (nth_candidate (counter ?s) k + 1) ?s)"
        and before: "\<forall>m<k. used ?s (nth_candidate (counter ?s) m)"
      have "used s (nth_candidate (counter s) m)" if "m < Suc k" for m
        using that True before by (cases m) (simp_all add: used_set counter_set)
      then show ?thesis
        using k r run by (intro disjI1 exI [of _ "Suc k"]) (simp add: cand [symmetric] used_set set_set)
    next
      fix i assume all: "\<forall>k<n. used ?s (nth_candidate (counter ?s) k)" and r: "loop n ?s = Some (Inl full, set_counter i ?s)"
      have "used s (nth_candidate (counter s) m)" if "m < Suc n" for m
        using that True all by (cases m) (simp_all add: used_set counter_set)
      then show ?thesis using r run by (auto simp: set_set)
    qed
  qed
qed

text \<open>An allocation finds an identifier if and only if one is free.\<close>

lemma allocate:
  assumes "live s"
  shows "yields (loop 65535 s) (\<lambda>(r, s'). (\<exists>i. s' = set_counter i s) \<and> (case r of
       Inr i \<Rightarrow> i \<noteq> 0 \<and> \<not> used s i
     | Inl e \<Rightarrow> e = full \<and> (\<forall>i. i \<noteq> 0 \<longrightarrow> used s i)))"
  using loop_result [OF assms, of 65535]
proof (elim disjE exE conjE)
  fix i assume "\<forall>k<65535. used s (nth_candidate (counter s) k)" "loop 65535 s = Some (Inl full, set_counter i s)"
  moreover from this(1) have "used s j" if "j \<noteq> 0" for j
    using candidates_exhaust [OF that, of "counter s"] by auto
  ultimately show ?thesis by auto
qed auto

end

section \<open>Object IDs\<close>

definition objects_live :: "apid \<Rightarrow> bool" where
  "objects_live s \<longleftrightarrow> (\<forall>t a. a \<in> set (objects s t) \<longrightarrow> objs s a \<noteq> None)"

definition has_id :: "apid \<Rightarrow> u16 \<Rightarrow> addr \<Rightarrow> bool" where
  "has_id s i a \<longleftrightarrow> map_option obj_id (objs s a) = Some i"

lemma has_id_counter [simp]: "has_id (s\<lparr>next_object_id := j\<rparr>) = has_id s"
  by (simp add: has_id_def fun_eq_iff)

definition object_id_used :: "apid \<Rightarrow> u16 \<Rightarrow> bool" where
  "object_id_used s i \<longleftrightarrow>
     (\<exists>t\<in>set object_types. \<exists>a\<in>set (objects s t). has_id s i a)"

lemma object_id_collision_in_eq:
  "(\<And>a. a \<in> set as \<Longrightarrow> objs s a \<noteq> None) \<Longrightarrow>
     object_id_collision_in s i as = Some (\<exists>a\<in>set as. has_id s i a)"
proof (induction as)
  case (Cons a as)
  then obtain ob where "objs s a = Some ob" by auto
  then show ?case using Cons by (auto simp: has_id_def)
qed simp

lemma object_id_collision_eq:
  "objects_live s \<Longrightarrow> object_id_collision s i ts =
     Some (\<exists>t\<in>set ts. \<exists>a\<in>set (objects s t). has_id s i a)"
proof (induction ts)
  case (Cons t ts)
  have "object_id_collision_in s i (objects s t) =
      Some (\<exists>a\<in>set (objects s t). has_id s i a)"
    using Cons.prems by (intro object_id_collision_in_eq) (auto simp: objects_live_def)
  then show ?case using Cons by simp
qed simp

interpretation object_ids: id_allocator inventory_get_next_object_id_loop next_object_id
  "\<lambda>i s. s\<lparr>next_object_id := i\<rparr>" object_id_used objects_live API_E_NO_FREE_OBJECT_ID
proof unfold_locales
  fix s :: apid and n
  assume live: "objects_live s"
  have "objects_live (s\<lparr>next_object_id := i\<rparr>)" for i
    using live by (simp add: objects_live_def)
  from object_id_collision_eq [OF this]
  show "inventory_get_next_object_id_loop (Suc n) s =
      (let c = skip_zero (next_object_id s); s' = s\<lparr>next_object_id := c + 1\<rparr>
       in if object_id_used s c then inventory_get_next_object_id_loop n s' else Some (Inr c, s'))"
    by (simp add: Let_def skip_zero_def OBJECT_ID_ZERO_def object_id_used_def)
qed (simp_all add: object_id_used_def objects_live_def fun_eq_iff)

lemma get_next_object_id_spec:
  assumes "objects_live s"
  shows "yields (inventory_get_next_object_id s) (\<lambda>(r, s'). (\<exists>i. s' = s\<lparr>next_object_id := i\<rparr>) \<and> (case r of
       Inr i \<Rightarrow> i \<noteq> 0 \<and> \<not> object_id_used s i
     | Inl e \<Rightarrow> e = API_E_NO_FREE_OBJECT_ID \<and> (\<forall>i. i \<noteq> 0 \<longrightarrow> object_id_used s i)))"
  using object_ids.allocate [OF assms] by (simp add: inventory_get_next_object_id_def OBJECT_ID_MAX_def)

end
