(* ===== verification/Create.thy ===== *)
theory Create
  imports Object_Contract Identifiers
begin

text \<open>
  Creation of objects. While an object is under construction it is in the heap but not in the
  inventory, and the references its payload holds still count as held by the caller.
  \<open>object_create\<close> turns it into an object of the inventory, or fails and leaves the object to
  the caller, who frees it.
\<close>

section \<open>Objects under construction\<close>

definition constructing :: "(addr \<Rightarrow> nat) \<Rightarrow> (addr \<Rightarrow> nat) \<Rightarrow> addr \<Rightarrow> object \<Rightarrow> apid \<Rightarrow> bool" where
  "constructing R L a ob s \<longleftrightarrow>
     inv (add_refs R (holds (payload ob))) (add_locks L (holds (payload ob))) {a} s \<and>
     objs s a = Some ob \<and> obj_type ob = payload_type (payload ob) \<and> payload_wf s (payload ob) \<and>
     (\<forall>t. a \<notin> set (objects s t)) \<and> (\<forall>b. L b \<le> R b)"

lemma references_ok_put:
  assumes r: "references_ok s" and ob: "objs s a = Some ob"
    and same: "external_references ob' = external_references ob"
      "external_reference_count ob' = external_reference_count ob"
  shows "references_ok (put_obj a ob' s)"
proof -
  let ?s = "put_obj a ob' s"
  have rt: "refs_total ?s = refs_total s" "session_of ?s = session_of s"
    by (auto simp: refs_total_def session_of_def put_obj_def fun_eq_iff)
  have fields: "refs ?s = refs s" "sess ?s = sess s"
    by (simp_all add: put_obj_def)
  have object: "\<exists>oo. objs s x = Some oo \<and> external_references o' = external_references oo \<and>
      external_reference_count o' = external_reference_count oo" if "objs ?s x = Some o'" for x o'
    using that ob same by (cases "x = a") (auto simp: put_obj_def)
  show ?thesis
  proof (rule references_okI)
    fix x o' assume "objs ?s x = Some o'"
    then obtain oo where oo: "objs s x = Some oo" "external_references o' = external_references oo"
      "external_reference_count o' = external_reference_count oo" using object by blast
    note o = references_okD_object [OF r oo(1)]
    show "distinct (external_references o')" using o(1) oo(2) by simp
    show "\<exists>er. refs ?s q = Some er \<and> ref_object er = x" if "q \<in> set (external_references o')" for q
      using o(2) [of q] that oo(2) by (simp add: fields)
    show "inj_on (session_of ?s) (set (external_references o'))" using o(3) oo(2) rt by simp
    show "external_reference_count o' = refs_total ?s (external_references o')" using o(4) oo rt by simp
  next
    fix sa se assume "sess ?s sa = Some se"
    then have "sess s sa = Some se" by (simp add: fields)
    note o = references_okD_session [OF r this]
    show "distinct (session_references se)" by (rule o(1))
    show "\<exists>er. refs ?s q = Some er \<and> ref_session er = sa" if "q \<in> set (session_references se)" for q
      using o(2) [OF that] by (simp add: fields)
    show "session_reference_count se = refs_total ?s (session_references se)" using o(3) rt by simp
  next
    fix q e assume "refs ?s q = Some e"
    then have "refs s q = Some e" by (simp add: fields)
    note R = references_okD_ref [OF r this]
    show "0 < ref_count e" by (rule R(1))
    have "(\<exists>o'. objs ?s y = Some o' \<and> q \<in> set (external_references o')) \<longleftrightarrow>
        (\<exists>o'. objs s y = Some o' \<and> q \<in> set (external_references o'))" for y
      using ob same by (auto simp: put_obj_def)
    then show "(\<exists>ob. objs ?s (ref_object e) = Some ob \<and> q \<in> set (external_references ob)) \<longleftrightarrow>
        (\<exists>se. sess ?s (ref_session e) = Some se \<and> q \<in> set (session_references se))"
      using R(2) by (simp add: fields)
  qed
qed

lemma inv_put_in_D:
  assumes "inv R L D s" "objs s a = Some ob" "a \<in> D" "obj_type ob' = obj_type ob"
    and "external_references ob' = external_references ob"
    and "external_reference_count ob' = external_reference_count ob"
  shows "inv R L D (put_obj a ob' s)"
proof -
  let ?s = "put_obj a ob' s"
  have types: "is_type ?s = is_type s" by (rule is_type_put [OF assms(2,4)])
  have wf: "object_wf ?s o' \<longleftrightarrow> object_wf s o'" for o'
    by (simp add: object_wf_def payload_wf_cong [OF types])
  have "holds_of (objs ?s) D = holds_of (objs s) D"
    using assms(3) by (auto simp: put_obj_def holds_of_def fun_eq_iff split: option.splits)
  then have held: "held ?s D = held s D" "held_locks ?s D = held_locks s D"
    by (auto intro: held_same simp: put_obj_def)
  have other: "objs ?s x = objs s x" if "x \<notin> D" for x
    using that assms(3) by (auto simp: put_obj_def)
  have fields: "refs ?s = refs s" "sess ?s = sess s" "objects ?s = objects s" "sessions ?s = sessions s"
    "next_addr ?s = next_addr s"
    by (simp_all add: put_obj_def)
  have "references_ok ?s"
    by (rule references_ok_put [OF _ assms(2,5,6)]) (use assms(1) in \<open>simp add: inv_def\<close>)
  moreover have "heap_bounded ?s"
    using assms(1,2) by (auto simp: inv_def heap_bounded_def put_obj_def)
  moreover have "inventory_ok D ?s"
    using assms(1) unfolding inv_def inventory_ok_def wf types fields by (metis other)
  moreover have "sessions_ok ?s" using assms(1) by (simp add: inv_def sessions_ok_def fields)
  moreover have "counts_ok R L D ?s"
    using assms(1) unfolding inv_def counts_ok_def held by (metis other)
  ultimately show ?thesis by (simp add: inv_def)
qed

text \<open>
  A new payload for an object: references move between the object and the caller, so that for
  every object the references held inside and outside together stay the same.
\<close>

lemma inv_put_payload:
  assumes "inv R L D s" "objs s a = Some ob" "a \<notin> D" "payload_type p' = payload_type (payload ob)"
    and "payload_wf s p'"
    and "\<And>b. R' b + cnt_refs (holds p') b = R b + cnt_refs (holds (payload ob)) b"
    and "\<And>b. L' b + cnt_locks (holds p') b = L b + cnt_locks (holds (payload ob)) b"
    and "\<And>b. L' b \<le> R' b"
  shows "inv R' L' D (put_obj a (ob\<lparr>payload := p'\<rparr>) s)"
proof -
  let ?ob = "ob\<lparr>payload := p'\<rparr>" and ?s = "put_obj a (ob\<lparr>payload := p'\<rparr>) s"
  have c: "counts_ok R L D s" and i: "inventory_ok D s" using assms(1) by (simp_all add: inv_def)
  have bound: "a < next_addr s" by (rule inv_counts(5) [OF assms(1-3)])
  have types: "is_type ?s = is_type s" by (rule is_type_put [OF assms(2)]) simp
  have wf: "object_wf ?s o' \<longleftrightarrow> object_wf s o'" for o'
    by (simp add: object_wf_def payload_wf_cong [OF types])
  have fields: "refs ?s = refs s" "sess ?s = sess s" "objects ?s = objects s" "sessions ?s = sessions s"
    "next_addr ?s = next_addr s"
    by (simp_all add: put_obj_def)
  have "holds_of (objs ?s) D x = holds_of (objs s) D x" if "x \<noteq> a" for x
    using that by (simp add: holds_of_def put_obj_def)
  from held_change [OF bound fields(5) this]
  have held: "held ?s D b + cnt_refs (holds (payload ob)) b = held s D b + cnt_refs (holds p') b"
    "held_locks ?s D b + cnt_locks (holds (payload ob)) b = held_locks s D b + cnt_locks (holds p') b" for b
    using assms(2,3) by (simp_all add: holds_of_def put_obj_def)
  have total: "R' b + held ?s D b = R b + held s D b" "L' b + held_locks ?s D b = L b + held_locks s D b" for b
    using held [of b] assms(6,7) [of b] by simp_all
  have wf_ob: "object_wf s ?ob"
    using inv_arrays(2) [OF assms(1-3)] assms(4,5) by (simp add: object_wf_def)
  have get: "\<exists>oo. objs s x = Some oo \<and> obj_type o' = obj_type oo \<and> obj_id o' = obj_id oo \<and>
      internal_reference_count o' = internal_reference_count oo \<and> lock_count o' = lock_count oo \<and>
      (object_wf s oo \<longrightarrow> object_wf s o')" if "objs ?s x = Some o'" for x o'
    using that assms(2) wf_ob by (cases "x = a") (auto simp: put_obj_def)
  have live: "\<And>x o'. objs s x = Some o' \<Longrightarrow> x \<notin> D \<Longrightarrow> x \<in> set (objects s (obj_type o')) \<and> object_wf s o'"
    and ids: "\<And>x y ox oy. objs s x = Some ox \<Longrightarrow> objs s y = Some oy \<Longrightarrow> x \<notin> D \<Longrightarrow> y \<notin> D \<Longrightarrow>
      obj_id ox = obj_id oy \<Longrightarrow> x = y"
    using i unfolding inventory_ok_def by blast+
  have "x \<in> set (objects s (obj_type o')) \<and> object_wf s o'" if "objs ?s x = Some o'" "x \<notin> D" for x o'
    using get [OF that(1)] that(2) live by fastforce
  moreover have "x = y" if "objs ?s x = Some ox" "objs ?s y = Some oy" "x \<notin> D" "y \<notin> D"
      "obj_id ox = obj_id oy" for x y ox oy
    using get [OF that(1)] get [OF that(2)] that(3-) ids by fastforce
  ultimately have "inventory_ok D ?s"
    using i unfolding inventory_ok_def wf types fields by blast
  moreover have "references_ok ?s"
    by (rule references_ok_put [OF _ assms(2)]) (use assms(1) in \<open>simp_all add: inv_def\<close>)
  moreover have "heap_bounded ?s"
    using assms(1,2) by (auto simp: inv_def heap_bounded_def put_obj_def)
  moreover have "sessions_ok ?s" using assms(1) by (simp add: inv_def sessions_ok_def fields)
  moreover have "counts_ok R' L' D ?s"
  proof -
    have "internal_reference_count o' = int (R b + held s D b) \<and> lock_count o' = int (L b + held_locks s D b)"
      if "objs ?s b = Some o'" "b \<notin> D" for b o'
      using get [OF that(1)] that(2) c unfolding counts_ok_def by metis
    moreover have "objs ?s b \<noteq> None \<and> b \<notin> D" if "0 < R b + held s D b" for b
      using that c by (auto simp: counts_ok_def put_obj_def)
    ultimately show ?thesis unfolding counts_ok_def total using assms(8) by blast
  qed
  ultimately show ?thesis using assms(1) by (simp add: inv_def)
qed

lemma constructing_put:
  assumes "constructing R L a ob s" "payload ob' = payload ob" "obj_type ob' = obj_type ob"
    and "external_references ob' = external_references ob"
    and "external_reference_count ob' = external_reference_count ob"
  shows "constructing R L a ob' (put_obj a ob' s)"
proof -
  have "inv (add_refs R (holds (payload ob))) (add_locks L (holds (payload ob))) {a} (put_obj a ob' s)"
    using assms by (intro inv_put_in_D) (auto simp: constructing_def)
  moreover have "payload_wf (put_obj a ob' s) (payload ob)"
    using assms(1,3) payload_wf_cong [OF is_type_put [of s a ob ob'], of "payload ob"]
    by (simp add: constructing_def)
  ultimately show ?thesis
    using assms by (simp add: constructing_def put_obj_def)
qed

lemma constructing_fresh:
  assumes "constructing R L a ob s"
  shows "R a = 0" "L a = 0" "held s {a} a = 0" "cnt_refs (holds (payload ob)) a = 0"
proof -
  have "counts_ok (add_refs R (holds (payload ob))) (add_locks L (holds (payload ob))) {a} s"
    using assms by (simp add: constructing_def inv_def)
  then have "\<not> 0 < add_refs R (holds (payload ob)) a + held s {a} a"
    unfolding counts_ok_def by blast
  then show "R a = 0" "held s {a} a = 0" "cnt_refs (holds (payload ob)) a = 0"
    by (simp_all add: add_refs_def)
  moreover have "L a \<le> R a" using assms by (simp add: constructing_def)
  ultimately show "L a = 0" by simp
qed

lemma constructing_objects_live:
  assumes "constructing R L a ob s"
  shows "objects_live s"
proof -
  have "inventory_ok {a} s" "\<And>t. a \<notin> set (objects s t)"
    using assms by (simp_all add: constructing_def inv_def)
  then show ?thesis
    unfolding objects_live_def inventory_ok_def is_type_def by (metis option.distinct(1) singletonD)
qed

section \<open>Into the inventory\<close>

lemma inv_born:
  assumes "constructing R L a ob s" "obj_id ob \<noteq> 0"
    and "\<And>b o'. objs s b = Some o' \<Longrightarrow> b \<noteq> a \<Longrightarrow> obj_id o' \<noteq> obj_id ob"
    and "internal_reference_count ob = int r" "lock_count ob = int l" "l \<le> r"
    and "0 < internal_reference_count ob + external_reference_count ob"
    and "s' = put_objects (obj_type ob) (objects s (obj_type ob) @ [a]) s"
  shows "inv (R(a := r)) (L(a := l)) {} s'"
proof -
  let ?hs = "holds (payload ob)"
  have i: "inv (add_refs R ?hs) (add_locks L ?hs) {a} s" and ob: "objs s a = Some ob"
    and type: "obj_type ob = payload_type (payload ob)" and pwf: "payload_wf s (payload ob)"
    and arr: "\<And>t. a \<notin> set (objects s t)" and le: "\<And>b. L b \<le> R b"
    using assms(1) by (simp_all add: constructing_def)
  have h: "heap_bounded s" and inv: "inventory_ok {a} s" and r: "references_ok s" and so: "sessions_ok s"
    and c: "counts_ok (add_refs R ?hs) (add_locks L ?hs) {a} s"
    using i by (simp_all add: inv_def)
  note fresh = constructing_fresh [OF assms(1)]
  have same: "objs s' = objs s" "refs s' = refs s" "sess s' = sess s" "next_addr s' = next_addr s"
    "sessions s' = sessions s"
    by (simp_all add: assms(8) put_objects_def)
  have arrays: "objects s' t = (if t = obj_type ob then objects s t @ [a] else objects s t)" for t
    by (simp add: assms(8) put_objects_def)
  have bound: "a < next_addr s" using h ob by (auto simp: heap_bounded_def)
  have types: "is_type s' = is_type s" by (simp add: is_type_def same fun_eq_iff)
  have wf: "object_wf s' o' \<longleftrightarrow> object_wf s o'" for o'
    by (simp add: object_wf_def payload_wf_cong [OF types])
  have wf_ob: "object_wf s ob" using assms(2,7) type pwf by (simp add: object_wf_def OBJECT_ID_ZERO_def)
  have held: "held s' {} b = held s {} b" "held_locks s' {} b = held_locks s {} b" for b
    by (simp_all add: held_def held_locks_def same)
  note split = held_insert [OF ob _ bound, of "{}"]
  have H: "held s {} b = held s {a} b + cnt_refs ?hs b" "held_locks s {} b = held_locks s {a} b + cnt_locks ?hs b" for b
    using split [of b] by simp_all
  have locks: "cnt_locks ?hs a = 0" using fresh(4) cnt_locks_le [of ?hs a] by simp
  have "held_locks s {a} a = 0" using fresh(3) held_locks_le [of s "{a}" a] by simp
  have "inventory_ok {} s'"
  proof -
    have "distinct (objects s' t)" for t
      using inv arr by (simp add: arrays inventory_ok_def)
    moreover have "is_type s' t b" if "b \<in> set (objects s' t)" for t b
    proof (cases "b = a")
      case True
      then have "t = obj_type ob" using that arr by (auto simp: arrays split: if_splits)
      then show ?thesis using ob True by (simp add: types is_type_def)
    next
      case False
      then show ?thesis using that inv unfolding types inventory_ok_def by (auto simp: arrays split: if_splits)
    qed
    moreover have "b \<in> set (objects s' (obj_type o')) \<and> object_wf s' o'" if "objs s' b = Some o'" for b o'
    proof (cases "b = a")
      case True
      then show ?thesis using that ob wf wf_ob by (simp add: arrays same)
    next
      case False
      then have "b \<in> set (objects s (obj_type o')) \<and> object_wf s o'"
        using that inv unfolding inventory_ok_def same by blast
      then show ?thesis by (auto simp: arrays wf)
    qed
    moreover have "b = d" if "objs s' b = Some ob1" "objs s' d = Some ob2" "obj_id ob1 = obj_id ob2" for b d ob1 ob2
    proof (cases "b = a \<or> d = a")
      case True
      then show ?thesis using that ob assms(3) unfolding same by (metis option.inject)
    next
      case False
      then show ?thesis using that inv unfolding same inventory_ok_def by blast
    qed
    ultimately show ?thesis unfolding inventory_ok_def by blast
  qed
  moreover have "counts_ok (R(a := r)) (L(a := l)) {} s'"
  proof -
    have "internal_reference_count o' = int ((R(a := r)) b + held s' {} b) \<and>
        lock_count o' = int ((L(a := l)) b + held_locks s' {} b)" if "objs s' b = Some o'" for b o'
    proof (cases "b = a")
      case True
      then show ?thesis
        using that ob assms(4,5) fresh locks \<open>held_locks s {a} a = 0\<close> by (simp add: held H same)
    next
      case False
      then show ?thesis
        using that c by (simp add: held H same counts_ok_def add_refs_def add_locks_def)
    qed
    moreover have "objs s' b \<noteq> None" if "0 < (R(a := r)) b + held s' {} b" for b
    proof (cases "b = a")
      case True
      then show ?thesis using ob by (simp add: same)
    next
      case False
      then have "0 < add_refs R ?hs b + held s {a} b" using that by (auto simp: held H add_refs_def)
      then show ?thesis using c by (auto simp: counts_ok_def same)
    qed
    moreover have "(L(a := l)) b \<le> (R(a := r)) b" for b using le assms(6) by simp
    ultimately show ?thesis unfolding counts_ok_def by (simp del: fun_upd_apply of_nat_add)
  qed
  moreover have "references_ok s'" using r by (simp add: references_ok_def refs_total_def session_of_def [abs_def] same)
  moreover have "heap_bounded s'" using h by (simp add: heap_bounded_def same)
  moreover have "sessions_ok s'" using so by (simp add: sessions_ok_def same)
  ultimately show ?thesis by (simp add: inv_def)
qed

definition only_objects :: "apid \<Rightarrow> apid \<Rightarrow> bool" where
  "only_objects s s' \<longleftrightarrow> refs s' = refs s \<and> sess s' = sess s \<and> sessions s' = sessions s \<and>
     stock_strings s' = stock_strings s \<and> lib s' = lib s \<and> next_addr s' = next_addr s \<and>
     next_session_id s' = next_session_id s"

lemma constructing_frame:
  assumes "constructing R L a ob s" "objs s' = objs s" "refs s' = refs s" "sess s' = sess s"
    "next_addr s' = next_addr s" "objects s' = objects s" "sessions s' = sessions s"
  shows "constructing R L a ob s'"
proof -
  have "is_type s' = is_type s" by (simp add: is_type_def assms fun_eq_iff)
  from payload_wf_cong [OF this] show ?thesis
    using assms(1) inv_frame [OF assms(2-7)] by (simp add: constructing_def assms(2,6))
qed

lemma constructing_ids:
  assumes "constructing R L a ob s" "\<not> object_id_used s i" "objs s b = Some o'" "b \<noteq> a"
  shows "obj_id o' \<noteq> i"
proof -
  have "inventory_ok {a} s" using assms(1) by (simp add: constructing_def inv_def)
  then have "b \<in> set (objects s (obj_type o'))" "object_wf s o'"
    using assms(3,4) unfolding inventory_ok_def by blast+
  moreover have "obj_type o' \<noteq> OBJECT_TYPE_ANY"
    using calculation(2) by (simp add: object_wf_def)
  ultimately show ?thesis
    using assms(2,3) by (auto simp: object_id_used_def has_id_def)
qed

lemma inventory_add_object_spec:
  assumes "constructing R L a ob s" "internal_reference_count ob = int r" "lock_count ob = int l" "l \<le> r"
    and "0 < internal_reference_count ob + external_reference_count ob"
  shows "yields (inventory_add_object a s) (\<lambda>(e, s'). only_objects s s' \<and>
     (if e = API_E_SUCCESS
      then inv (R(a := r)) (L(a := l)) {} s' \<and> (\<exists>i. i \<noteq> 0 \<and> \<not> object_id_used s i \<and>
             objs s' = (objs s)(a := Some (ob\<lparr>obj_id := i\<rparr>)))
      else \<exists>i. constructing R L a (ob\<lparr>obj_id := i\<rparr>) s' \<and> objs s' = (objs s)(a := Some (ob\<lparr>obj_id := i\<rparr>))))"
proof -
  have ob: "objs s a = Some ob" using assms(1) by (simp add: constructing_def)
  from get_next_object_id_spec [OF constructing_objects_live [OF assms(1)]]
  obtain res n where id: "inventory_get_next_object_id s = Some (res, s\<lparr>next_object_id := n\<rparr>)"
    and res: "case res of Inr i \<Rightarrow> i \<noteq> 0 \<and> \<not> object_id_used s i
       | Inl e \<Rightarrow> e = API_E_NO_FREE_OBJECT_ID \<and> (\<forall>i. i \<noteq> 0 \<longrightarrow> object_id_used s i)"
    by (auto elim!: yieldsE)
  let ?s = "s\<lparr>next_object_id := n\<rparr>"
  have constr: "constructing R L a ob ?s"
    by (rule constructing_frame [OF assms(1)]) simp_all
  show ?thesis
  proof (cases res)
    case (Inl e)
    have "constructing R L a (ob\<lparr>obj_id := obj_id ob\<rparr>) ?s" using constr by simp
    moreover have "objs ?s = (objs s)(a := Some (ob\<lparr>obj_id := obj_id ob\<rparr>))" using ob by auto
    ultimately have "\<exists>i. constructing R L a (ob\<lparr>obj_id := i\<rparr>) ?s \<and> objs ?s = (objs s)(a := Some (ob\<lparr>obj_id := i\<rparr>))"
      by blast
    then show ?thesis
      using id Inl res by (simp add: inventory_add_object_def only_objects_def)
  next
    case (Inr i)
    let ?ob = "ob\<lparr>obj_id := i\<rparr>"
    let ?s1 = "put_obj a ?ob ?s"
    have fresh: "i \<noteq> 0" "\<not> object_id_used s i" using res Inr by simp_all
    obtain an rs where ask: "ask ?s1 = (an, ?s1\<lparr>answers := rs\<rparr>)" by (rule ask_cases)
    let ?s2 = "?s1\<lparr>answers := rs\<rparr>"
    have "constructing R L a ?ob ?s1" by (rule constructing_put [OF constr]) simp_all
    then have constr2: "constructing R L a ?ob ?s2"
      by (rule constructing_frame) simp_all
    show ?thesis
    proof (cases an)
      case (Inl en)
      then show ?thesis
        using id Inr ask constr2 ob
        by (auto simp: inventory_add_object_def only_objects_def put_obj_def Let_def)
    next
      case (Inr v)
      have other: "obj_id o' \<noteq> obj_id ?ob" if "objs ?s2 b = Some o'" "b \<noteq> a" for b o'
        using constructing_ids [OF assms(1) fresh(2)] that by (simp add: put_obj_def)
      let ?s3 = "put_objects (obj_type ob) (objects ?s2 (obj_type ob) @ [a]) ?s2"
      have "inv (R(a := r)) (L(a := l)) {} ?s3"
        by (rule inv_born [OF constr2 _ other]) (use assms fresh in simp_all)
      moreover have "only_objects s ?s3" "objs ?s3 = (objs s)(a := Some ?ob)"
        by (simp_all add: only_objects_def memory_defs)
      ultimately show ?thesis
        using id \<open>res = Inr i\<close> ask Inr ob fresh
        by (auto simp: inventory_add_object_def Let_def)
    qed
  qed
qed

section \<open>The contract of object_create\<close>

lemma refs_total_pos_erc:
  assumes "references_ok s" "objs s a = Some ob" "0 < ext_count s a sa"
  shows "0 < external_reference_count ob"
proof -
  have "external_reference_count ob \<noteq> 0"
    using external_count_zero [OF assms(1,2)] assms(2,3) by (auto simp: ext_count_def)
  moreover have "0 \<le> external_reference_count ob"
    using references_okD_object(4) [OF assms(1,2)] refs_total_nonneg [OF assms(1)] by simp
  ultimately show ?thesis by simp
qed

lemma ext_count_nonneg: "references_ok s \<Longrightarrow> 0 \<le> ext_count s a sa"
  by (auto simp: ext_count_def refs_total_nonneg split: option.splits)

lemma constructing_external:
  assumes "constructing R L a ob s" "sess s sa \<noteq> None"
  shows "yields (object_add_external_reference a sa s) (\<lambda>(e, s').
     (refs_linked s \<longrightarrow> refs_linked s') \<and> (\<exists>ob'. constructing R L a ob' s' \<and> same_but_externals ob ob' \<and>
        objs s' = (objs s)(a := Some ob') \<and> objects s' = objects s \<and> sessions s' = sessions s \<and>
        stock_strings s' = stock_strings s \<and> lib s' = lib s \<and> dom (sess s') = dom (sess s) \<and>
        (if e = API_E_SUCCESS then 0 < external_reference_count ob' else
           external_references ob' = external_references ob \<and>
           external_reference_count ob' = external_reference_count ob) \<and>
        (\<forall>b sb. ext_count s' b sb = ext_count s b sb + (if e = API_E_SUCCESS \<and> b = a \<and> sb = sa then 1 else 0))))"
proof -
  have i: "inv (add_refs R (holds (payload ob))) (add_locks L (holds (payload ob))) {a} s"
    and ob: "objs s a = Some ob" using assms(1) by (simp_all add: constructing_def)
  from add_external_reference_spec [OF i ob assms(2)]
  obtain e s' where run: "object_add_external_reference a sa s = Some (e, s')"
    and inv': "inv (add_refs R (holds (payload ob))) (add_locks L (holds (payload ob))) {a} s'"
    and linked: "refs_linked s \<longrightarrow> refs_linked s'"
    and e: "e = API_E_SUCCESS \<or> e = API_E_NO_FREE_MEMORY"
    and ext: "\<And>b sb. ext_count s' b sb = ext_count s b sb + (if e = API_E_SUCCESS \<and> b = a \<and> sb = sa then 1 else 0)"
    by (auto elim!: yieldsE)
  note frame = add_external_reference_frame [OF run ob]
  from frame(1) obtain ob' where ob': "objs s' = (objs s)(a := Some ob')" "same_but_externals ob ob'"
    by blast
  then have keep: "payload ob' = payload ob" "obj_type ob' = obj_type ob"
    unfolding same_but_externals_def by (cases ob; cases ob'; simp)+
  have "is_type s' = is_type s" using ob ob' keep by (auto simp: is_type_def fun_eq_iff)
  then have "payload_wf s' (payload ob)"
    using assms(1) payload_wf_cong [of s' s] by (simp add: constructing_def)
  then have "constructing R L a ob' s'"
    using assms(1) inv' ob' keep frame(2) by (simp add: constructing_def)
  moreover have "if e = API_E_SUCCESS then 0 < external_reference_count ob' else
      external_references ob' = external_references ob \<and> external_reference_count ob' = external_reference_count ob"
  proof (cases "e = API_E_SUCCESS")
    case True
    have "0 < ext_count s' a sa"
      using ext [of a sa] True ext_count_nonneg [of s a sa] i by (simp add: inv_def)
    then show ?thesis
      using True refs_total_pos_erc [of s' a ob' sa] inv' ob' by (simp add: inv_def)
  next
    case False
    have "objs s' = objs s"
      using run ob False
      by (auto simp: object_add_external_reference_def Let_def calloc_def ask_def
          split: bind_splits option.splits prod.splits sum.splits list.splits)
    then show ?thesis using ob ob' False by (metis fun_upd_same option.inject)
  qed
  ultimately show ?thesis
    using run linked ext ob' frame by auto
qed

definition created_refs :: "u32 \<Rightarrow> nat" where
  "created_refs f = (if f AND OBJECT_CREATE_FLAG_INTERNAL \<noteq> 0 then 1 else 0)"

definition created_locks :: "u32 \<Rightarrow> nat" where
  "created_locks f = (if f AND OBJECT_CREATE_FLAG_LOCKED \<noteq> 0 then 1 else 0)"

definition created_externals :: "u32 \<Rightarrow> addr option \<Rightarrow> addr \<Rightarrow> int" where
  "created_externals f session sa =
     (if f AND OBJECT_CREATE_FLAG_EXTERNAL \<noteq> 0 \<and> session = Some sa then 1 else 0)"

definition create_frame :: "addr \<Rightarrow> apid \<Rightarrow> apid \<Rightarrow> bool" where
  "create_frame a s s' \<longleftrightarrow> (\<forall>b. b \<noteq> a \<longrightarrow> objs s' b = objs s b) \<and> sessions s' = sessions s \<and>
     stock_strings s' = stock_strings s \<and> lib s' = lib s \<and> dom (sess s') = dom (sess s)"

lemma create_frame_trans: "create_frame a s s' \<Longrightarrow> create_frame a s' s'' \<Longrightarrow> create_frame a s s''"
  by (simp add: create_frame_def)

lemma create_frame_put: "create_frame a s s' \<Longrightarrow> create_frame a s (put_obj a ob s')"
  by (simp add: create_frame_def put_obj_def)

text \<open>The last step: the object has its references and is added to the inventory.\<close>

lemma create_add:
  assumes "constructing R L a ob s" "payload ob = p"
    and "internal_reference_count ob = int r" "lock_count ob = int l" "l \<le> r"
    and "0 < internal_reference_count ob + external_reference_count ob"
  shows "yields (inventory_add_object a s) (\<lambda>(e, s'). create_frame a s s' \<and>
     (refs_linked s \<longrightarrow> refs_linked s') \<and> (\<forall>b sb. ext_count s' b sb = ext_count s b sb) \<and>
     (\<exists>ob'. objs s' a = Some ob' \<and> payload ob' = p \<and> external_references ob' = external_references ob \<and>
        (if e = API_E_SUCCESS then inv (R(a := r)) (L(a := l)) {} s' \<and> \<not> object_id_used s (obj_id ob')
         else constructing R L a ob' s')))"
proof -
  obtain e s' where run: "inventory_add_object a s = Some (e, s')" and only: "only_objects s s'"
    and res: "if e = API_E_SUCCESS
        then inv (R(a := r)) (L(a := l)) {} s' \<and> (\<exists>i. i \<noteq> 0 \<and> \<not> object_id_used s i \<and> objs s' = (objs s)(a \<mapsto> ob\<lparr>obj_id := i\<rparr>))
        else \<exists>i. constructing R L a (ob\<lparr>obj_id := i\<rparr>) s' \<and> objs s' = (objs s)(a \<mapsto> ob\<lparr>obj_id := i\<rparr>)"
    using inventory_add_object_spec [OF assms(1,3-6)] by (elim yieldsE) (simp split: prod.splits)
  obtain i where i: "objs s' = (objs s)(a \<mapsto> ob\<lparr>obj_id := i\<rparr>)"
    using res by (auto split: if_splits)
  have ob: "objs s a = Some ob" using assms(1) by (simp add: constructing_def)
  have same: "refs s' = refs s" "sess s' = sess s" using only by (simp_all add: only_objects_def)
  have "create_frame a s s'" using only i by (simp add: create_frame_def only_objects_def)
  moreover have "refs_linked s' = refs_linked s" by (simp add: refs_linked_def same)
  moreover have "ext_count s' b sb = ext_count s b sb" for b sb
    by (rule ext_count_objs) (simp_all add: same i ob)
  moreover have "objs s' a = Some (ob\<lparr>obj_id := i\<rparr>)" by (simp add: i)
  moreover have "if e = API_E_SUCCESS then inv (R(a := r)) (L(a := l)) {} s' \<and> \<not> object_id_used s i
      else constructing R L a (ob\<lparr>obj_id := i\<rparr>) s'"
  proof (cases "e = API_E_SUCCESS")
    case True
    with res obtain j where "inv (R(a := r)) (L(a := l)) {} s'" "\<not> object_id_used s j"
      "objs s' = (objs s)(a \<mapsto> ob\<lparr>obj_id := j\<rparr>)" by auto
    moreover from this(3) i have "ob\<lparr>obj_id := i\<rparr> = ob\<lparr>obj_id := j\<rparr>" by (metis fun_upd_same option.inject)
    then have "obj_id (ob\<lparr>obj_id := i\<rparr>) = obj_id (ob\<lparr>obj_id := j\<rparr>)" by simp
    ultimately show ?thesis using True by simp
  next
    case False
    with res obtain j where "constructing R L a (ob\<lparr>obj_id := j\<rparr>) s'"
      "objs s' = (objs s)(a \<mapsto> ob\<lparr>obj_id := j\<rparr>)" by auto
    moreover from this(2) i have "ob\<lparr>obj_id := i\<rparr> = ob\<lparr>obj_id := j\<rparr>" by (metis fun_upd_same option.inject)
    ultimately show ?thesis using False by simp
  qed
  ultimately show ?thesis
    using assms(2) run by (cases "e = API_E_SUCCESS") simp_all
qed

theorem object_create_spec:
  assumes new: "constructing R L a (zero_object p) s"
    and session: "\<forall>sa. session = Some sa \<longrightarrow> sess s sa \<noteq> None"
  shows "yields (object_create a (payload_type p) session f s) (\<lambda>(e, s').
     create_frame a s s' \<and> (refs_linked s \<longrightarrow> refs_linked s') \<and>
     (\<exists>ob. objs s' a = Some ob \<and> payload ob = p \<and>
        (if e = API_E_SUCCESS
         then inv (R(a := created_refs f)) (L(a := created_locks f)) {} s' \<and>
              (\<forall>b sb. ext_count s' b sb = ext_count s b sb + (if b = a then created_externals f session sb else 0))
         else constructing R L a ob s' \<and> (f AND OBJECT_CREATE_FLAG_EXTERNAL = 0 \<longrightarrow> external_references ob = []))))"
proof -
  let ?z = "zero_object p"
  have s0: "put_obj a ?z s = s"
    using new by (simp add: constructing_def put_obj_def fun_upd_idem)
  have fields: "objs s a = Some ?z" "obj_type ?z = payload_type p" "external_references ?z = []"
    "external_reference_count ?z = 0" "payload ?z = p" "internal_reference_count ?z = 0" "lock_count ?z = 0"
    using new by (simp_all add: constructing_def zero_object_def)
  have reset: "?z\<lparr>obj_id := OBJECT_ID_ZERO, obj_type := payload_type p, internal_reference_count := 0,
      external_references := [], external_reference_count := 0, lock_count := 0\<rparr> = ?z"
    by (simp add: zero_object_def OBJECT_ID_ZERO_def)
  have frame0: "create_frame a s s" by (simp add: create_frame_def)
  let ?i = "f AND OBJECT_CREATE_FLAG_INTERNAL \<noteq> 0" and ?x = "f AND OBJECT_CREATE_FLAG_EXTERNAL \<noteq> 0"
    and ?l = "f AND OBJECT_CREATE_FLAG_LOCKED \<noteq> 0"
  let ?none = "f AND (OBJECT_CREATE_FLAG_INTERNAL OR OBJECT_CREATE_FLAG_EXTERNAL) = 0"
  show ?thesis
  proof (cases "?none \<or> ?x \<and> session = None \<or> ?l \<and> \<not> ?i")
    case True
    then have "object_create a (payload_type p) session f s = Some (API_E_INTERNAL_ERROR, s)"
      unfolding object_create_def fields(1) Option.bind_lunit Let_def reset s0 by auto
    then show ?thesis using new frame0 fields by simp
  next
    case False
    define ob1 where "ob1 = (if ?i then ?z\<lparr>internal_reference_count := 1\<rparr> else ?z)"
    define s1 where "s1 = put_obj a ob1 s"
    have c1: "constructing R L a ob1 s1"
      unfolding s1_def by (rule constructing_put [OF new]) (simp_all add: ob1_def)
    have run1: "(if ?i then object_add_internal_reference a s else Some s) = Some s1"
      using fields s0 by (simp add: s1_def ob1_def object_add_internal_reference_def)
    have o1: "payload ob1 = p" "external_references ob1 = []" "external_reference_count ob1 = 0"
      "internal_reference_count ob1 = int (created_refs f)" "lock_count ob1 = 0"
      using fields by (simp_all add: ob1_def created_refs_def)
    have e1: "ext_count s1 b sb = ext_count s b sb" for b sb
      by (rule ext_count_objs) (simp_all add: s1_def put_obj_def fields o1(2))
    have l1: "refs_linked s1 = refs_linked s" and f1: "create_frame a s s1" and d1: "sess s1 = sess s"
      by (simp_all add: s1_def put_obj_def refs_linked_def create_frame_def)
    define ext where "ext = (if ?x then do { sa \<leftarrow> session; object_add_external_reference a sa s1 }
        else Some (API_E_SUCCESS, s1))"
    have step2: "yields ext (\<lambda>(e, s2). create_frame a s s2 \<and> (refs_linked s \<longrightarrow> refs_linked s2) \<and>
        (\<exists>ob2. constructing R L a ob2 s2 \<and> same_but_externals ob1 ob2 \<and>
          (if e = API_E_SUCCESS
           then (?x \<longrightarrow> 0 < external_reference_count ob2) \<and> (\<not> ?x \<longrightarrow> ob2 = ob1) \<and>
             (\<forall>b sb. ext_count s2 b sb = ext_count s b sb + (if b = a then created_externals f session sb else 0))
           else external_references ob2 = [])))"
    proof (cases ?x)
      case True
      then obtain sa where sa: "session = Some sa" using False by auto
      have "sess s1 sa \<noteq> None" using session [rule_format, OF sa] by (simp add: d1)
      from constructing_external [OF c1 this] show ?thesis
        unfolding ext_def if_P [OF True] sa Option.bind_lunit
      proof (rule yields_mono)
        fix x assume A: "case x of (e, s2) \<Rightarrow> (refs_linked s1 \<longrightarrow> refs_linked s2) \<and>
          (\<exists>ob2. constructing R L a ob2 s2 \<and> same_but_externals ob1 ob2 \<and>
          objs s2 = (objs s1)(a := Some ob2) \<and> objects s2 = objects s1 \<and> sessions s2 = sessions s1 \<and>
          stock_strings s2 = stock_strings s1 \<and> lib s2 = lib s1 \<and> dom (sess s2) = dom (sess s1) \<and>
          (if e = API_E_SUCCESS then 0 < external_reference_count ob2 else
             external_references ob2 = external_references ob1 \<and>
             external_reference_count ob2 = external_reference_count ob1) \<and>
          (\<forall>b sb. ext_count s2 b sb = ext_count s1 b sb + (if e = API_E_SUCCESS \<and> b = a \<and> sb = sa then 1 else 0)))"
        obtain e s2 where x: "x = (e, s2)" by (cases x)
        from A [unfolded x prod.case] obtain ob2 where l2: "refs_linked s1 \<longrightarrow> refs_linked s2"
          and c2: "constructing R L a ob2 s2" and same: "same_but_externals ob1 ob2"
          and objs2: "objs s2 = (objs s1)(a := Some ob2)" and "sessions s2 = sessions s1"
          and rest: "stock_strings s2 = stock_strings s1" "lib s2 = lib s1" "dom (sess s2) = dom (sess s1)"
          and erc: "if e = API_E_SUCCESS then 0 < external_reference_count ob2 else
             external_references ob2 = external_references ob1 \<and>
             external_reference_count ob2 = external_reference_count ob1"
          and e2: "\<And>b sb. ext_count s2 b sb = ext_count s1 b sb + (if e = API_E_SUCCESS \<and> b = a \<and> sb = sa then 1 else 0)"
          by (elim conjE exE) blast
        have "create_frame a s s2"
          using f1 objs2 \<open>sessions s2 = sessions s1\<close> rest by (simp add: create_frame_def)
        moreover have "refs_linked s \<longrightarrow> refs_linked s2" using l1 l2 by simp
        moreover have "if e = API_E_SUCCESS
           then (?x \<longrightarrow> 0 < external_reference_count ob2) \<and> (\<not> ?x \<longrightarrow> ob2 = ob1) \<and>
             (\<forall>b sb. ext_count s2 b sb = ext_count s b sb + (if b = a then created_externals f (Some sa) sb else 0))
           else external_references ob2 = []"
          using True erc e2 o1(2) by (auto simp: e1 created_externals_def)
        ultimately show "case x of (e, s2) \<Rightarrow> create_frame a s s2 \<and> (refs_linked s \<longrightarrow> refs_linked s2) \<and>
            (\<exists>ob2. constructing R L a ob2 s2 \<and> same_but_externals ob1 ob2 \<and>
            (if e = API_E_SUCCESS
             then (?x \<longrightarrow> 0 < external_reference_count ob2) \<and> (\<not> ?x \<longrightarrow> ob2 = ob1) \<and>
               (\<forall>b sb. ext_count s2 b sb = ext_count s b sb + (if b = a then created_externals f (Some sa) sb else 0))
             else external_references ob2 = []))"
          unfolding x prod.case using c2 same by blast
      qed
    next
      case nox: False
      then show ?thesis
        using c1 f1 l1 by (auto simp: ext_def e1 created_externals_def same_but_externals_def)
    qed
    have unfold: "object_create a (payload_type p) session f s = do {
        (error_code, s) \<leftarrow> ext;
        if error_code \<noteq> API_E_SUCCESS then Some (error_code, s)
        else do { s \<leftarrow> (if ?l then object_lock a s else Some s); inventory_add_object a s } }"
      unfolding object_create_def fields(1) Option.bind_lunit Let_def reset s0 ext_def
      using False run1 by (auto simp: if_distrib [of "\<lambda>m. Option.bind m _"])
    from step2 obtain e s2 ob2 where run2: "ext = Some (e, s2)" and f2: "create_frame a s s2"
      and l2: "refs_linked s \<longrightarrow> refs_linked s2" and c2: "constructing R L a ob2 s2"
      and same2: "same_but_externals ob1 ob2"
      and r2: "if e = API_E_SUCCESS
           then (?x \<longrightarrow> 0 < external_reference_count ob2) \<and> (\<not> ?x \<longrightarrow> ob2 = ob1) \<and>
             (\<forall>b sb. ext_count s2 b sb = ext_count s b sb + (if b = a then created_externals f session sb else 0))
           else external_references ob2 = []"
      by (elim yieldsE) (simp split: prod.splits, blast)
    have keep2: "payload ob2 = p" "obj_type ob2 = payload_type p" "internal_reference_count ob2 = int (created_refs f)"
      "lock_count ob2 = 0"
      using same_but_externals_fields [OF same2] o1 fields(2) by (simp_all add: ob1_def)
    have objs2: "objs s2 a = Some ob2" using c2 by (simp add: constructing_def)
    show ?thesis
    proof (cases "e = API_E_SUCCESS")
      case False
      then show ?thesis using unfold run2 f2 l2 c2 r2 keep2 objs2 by simp
    next
      case True
      define ob3 where "ob3 = (if ?l then ob2\<lparr>lock_count := 1\<rparr> else ob2)"
      define s3 where "s3 = put_obj a ob3 s2"
      have c3: "constructing R L a ob3 s3"
        unfolding s3_def by (rule constructing_put [OF c2]) (simp_all add: ob3_def)
      have run3: "(if ?l then object_lock a s2 else Some s2) = Some s3"
        using objs2 keep2 by (simp add: s3_def ob3_def object_lock_def put_obj_def fun_upd_idem)
      have bits: "f AND (OBJECT_CREATE_FLAG_INTERNAL OR OBJECT_CREATE_FLAG_EXTERNAL) =
          f AND OBJECT_CREATE_FLAG_INTERNAL OR f AND OBJECT_CREATE_FLAG_EXTERNAL"
        by (rule bit.conj_disj_distrib)
      have pos: "0 < internal_reference_count ob3 + external_reference_count ob3"
      proof (cases ?x)
        case True
        then have "0 < external_reference_count ob2" using r2 \<open>e = API_E_SUCCESS\<close> by simp
        then show ?thesis using keep2(3) by (simp add: ob3_def)
      next
        case nox: False
        then have "ob2 = ob1" using r2 True by simp
        moreover have ?i using False nox bits by auto
        ultimately show ?thesis using o1(3,4) by (simp add: ob3_def created_refs_def)
      qed
      have le: "created_locks f \<le> created_refs f"
        using False by (auto simp: created_locks_def created_refs_def)
      have o3: "payload ob3 = p" "internal_reference_count ob3 = int (created_refs f)"
        "lock_count ob3 = int (created_locks f)" "external_references ob3 = external_references ob2"
        using keep2 by (simp_all add: ob3_def created_locks_def)
      have ext3: "ext_count s3 b sb = ext_count s2 b sb" for b sb
        by (rule ext_count_objs) (simp_all add: s3_def put_obj_def objs2 o3(4))
      have f3: "create_frame a s s3" "refs_linked s3 = refs_linked s2"
        using create_frame_put [OF f2] by (simp_all add: s3_def refs_linked_def put_obj_def)
      obtain e4 s4 ob4 where run4: "inventory_add_object a s3 = Some (e4, s4)" and f4: "create_frame a s3 s4"
        and l4: "refs_linked s3 \<longrightarrow> refs_linked s4" and ext4: "\<And>b sb. ext_count s4 b sb = ext_count s3 b sb"
        and ob4: "objs s4 a = Some ob4" "payload ob4 = p" "external_references ob4 = external_references ob3"
        and r4: "if e4 = API_E_SUCCESS then inv (R(a := created_refs f)) (L(a := created_locks f)) {} s4 \<and>
            \<not> object_id_used s3 (obj_id ob4) else constructing R L a ob4 s4"
        using create_add [OF c3 o3(1-3) le pos] by (elim yieldsE) (simp split: prod.splits, blast)
      have "external_references ob4 = []" if "\<not> ?x"
        using that r2 True ob4(3) o3(4) o1(2) by simp
      then show ?thesis
        using unfold run2 True run3 run4 create_frame_trans [OF f3(1) f4] f3(2) l2 l4 ob4(1,2) r4 r2
        by (simp add: ext4 ext3)
    qed
  qed
qed

section \<open>Creation does not read the payload\<close>

text \<open>
  \<open>string_create\<close> registers a string whose buffer is not written yet; \<open>string_wrap\<close> and
  \<open>string_allocate\<close> fill it afterwards. The two steps commute.
\<close>

definition set_payload :: "addr \<Rightarrow> payload \<Rightarrow> apid \<Rightarrow> apid" where
  "set_payload a p s = s\<lparr>objs := (objs s)(a := map_option (\<lambda>ob. ob\<lparr>payload := p\<rparr>) (objs s a))\<rparr>"

lemma set_payload_fields [simp]:
  "refs (set_payload a p s) = refs s" "sess (set_payload a p s) = sess s"
  "next_addr (set_payload a p s) = next_addr s" "objects (set_payload a p s) = objects s"
  "sessions (set_payload a p s) = sessions s" "stock_strings (set_payload a p s) = stock_strings s"
  "next_object_id (set_payload a p s) = next_object_id s" "lib (set_payload a p s) = lib s"
  "answers (set_payload a p s) = answers s"
  "objs (set_payload a p s) b = (if b = a then map_option (\<lambda>ob. ob\<lparr>payload := p\<rparr>) (objs s a) else objs s b)"
  by (simp_all add: set_payload_def)

lemma set_payload_updates:
  "set_payload a p (s\<lparr>next_object_id := i\<rparr>) = (set_payload a p s)\<lparr>next_object_id := i\<rparr>"
  "set_payload a p (s\<lparr>answers := x\<rparr>) = (set_payload a p s)\<lparr>answers := x\<rparr>"
  "set_payload a p (s\<lparr>answers := x, next_addr := n\<rparr>) = (set_payload a p s)\<lparr>answers := x, next_addr := n\<rparr>"
  "set_payload a p (put_ref r er s) = put_ref r er (set_payload a p s)"
  "set_payload a p (put_sess sa se s) = put_sess sa se (set_payload a p s)"
  "set_payload a p (put_objects t as s) = put_objects t as (set_payload a p s)"
  by (simp_all add: set_payload_def memory_defs)

lemma ask_set_payload: "ask (set_payload a p s) = apsnd (set_payload a p) (ask s)"
  by (simp add: ask_def set_payload_updates split: list.splits)

lemma calloc_set_payload: "calloc (set_payload a p s) = apsnd (set_payload a p) (calloc s)"
  by (cases "answers s") (auto simp: calloc_def ask_set_payload ask_def set_payload_def split: sum.splits)

lemma find_external_reference_set_payload:
  "find_external_reference (set_payload a p s) sa rs = find_external_reference s sa rs"
  by (induction rs) (simp_all cong: if_cong)

lemma object_id_collision_in_set_payload:
  "object_id_collision_in (set_payload a p s) i as = object_id_collision_in s i as"
proof (induction as)
  case (Cons b as)
  then show ?case by (cases "objs s b") auto
qed simp

lemma object_id_collision_set_payload:
  "object_id_collision (set_payload a p s) i ts = object_id_collision s i ts"
  by (induction ts) (simp_all add: object_id_collision_in_set_payload cong: if_cong)

lemma get_next_object_id_set_payload:
  "inventory_get_next_object_id_loop n (set_payload a p s) =
     map_option (apsnd (set_payload a p)) (inventory_get_next_object_id_loop n s)"
proof (induction n arbitrary: s)
  case (Suc n)
  define nx where "nx = (if next_object_id s = OBJECT_ID_ZERO then 1 else next_object_id s)"
  define s1 where "s1 = s\<lparr>next_object_id := nx + 1\<rparr>"
  have s1: "(set_payload a p s)\<lparr>next_object_id := nx + 1\<rparr> = set_payload a p s1"
    by (simp add: s1_def set_payload_updates)
  have "inventory_get_next_object_id_loop (Suc n) (set_payload a p s) = do {
      collision \<leftarrow> object_id_collision (set_payload a p s1) nx object_types;
      if \<not> collision then Some (Inr nx, set_payload a p s1)
      else inventory_get_next_object_id_loop n (set_payload a p s1) }"
    and "inventory_get_next_object_id_loop (Suc n) s = do {
      collision \<leftarrow> object_id_collision s1 nx object_types;
      if \<not> collision then Some (Inr nx, s1) else inventory_get_next_object_id_loop n s1 }"
    by (simp_all only: inventory_get_next_object_id_loop.simps Let_def set_payload_fields
        nx_def [symmetric] s1 s1_def [symmetric])
  then show ?case
    using Suc [of s1]
    by (cases "object_id_collision s1 nx object_types") (simp_all add: object_id_collision_set_payload)
qed simp

lemma inventory_add_object_set_payload:
  "inventory_add_object a (set_payload a p s) = map_option (apsnd (set_payload a p)) (inventory_add_object a s)"
proof (cases "inventory_get_next_object_id s")
  case None
  then show ?thesis
    using get_next_object_id_set_payload [of OBJECT_ID_MAX a p s]
    by (simp add: inventory_add_object_def inventory_get_next_object_id_def)
next
  case (Some x)
  obtain r s1 where x: "x = (r, s1)" by (cases x)
  have run: "inventory_get_next_object_id (set_payload a p s) = Some (r, set_payload a p s1)"
    using get_next_object_id_set_payload [of OBJECT_ID_MAX a p s] Some
    by (simp add: inventory_get_next_object_id_def x)
  show ?thesis
  proof (cases r)
    case (Inl e)
    then show ?thesis using Some run by (simp add: inventory_add_object_def x)
  next
    case (Inr i)
    show ?thesis
    proof (cases "objs s1 a")
      case None
      then show ?thesis using Some run Inr by (simp add: inventory_add_object_def x)
    next
      case ob: (Some ob)
      let ?s2 = "put_obj a (ob\<lparr>obj_id := i\<rparr>) s1"
      have put: "put_obj a (ob\<lparr>payload := p, obj_id := i\<rparr>) (set_payload a p s1) = set_payload a p ?s2"
        by (cases s1; cases ob) (simp add: set_payload_def put_obj_def)
      obtain an rs where "ask ?s2 = (an, ?s2\<lparr>answers := rs\<rparr>)" by (rule ask_cases)
      then show ?thesis
        using Some run Inr ob
        by (cases an) (simp_all add: inventory_add_object_def x put ask_set_payload Let_def set_payload_updates)
    qed
  qed
qed

lemma object_add_external_reference_set_payload:
  "object_add_external_reference a sa (set_payload a p s) =
     map_option (apsnd (set_payload a p)) (object_add_external_reference a sa s)"
proof (cases "objs s a")
  case None
  then show ?thesis by (simp add: object_add_external_reference_def)
next
  case (Some ob)
  show ?thesis
  proof (cases "find_external_reference s sa (external_references ob)")
    case None
    then show ?thesis using Some by (simp add: object_add_external_reference_def find_external_reference_set_payload)
  next
    case found: (Some found)
    show ?thesis
    proof (cases found)
      case q: (Some q)
      show ?thesis
      proof (cases "refs s q = None \<or> sess s sa = None")
        case True
        then show ?thesis
          using Some found q
          by (cases "refs s q") (auto simp: object_add_external_reference_def find_external_reference_set_payload)
      next
        case False
        then obtain er se where "refs s q = Some er" "sess s sa = Some se" by auto
        then show ?thesis
          using Some found q
          by (simp add: object_add_external_reference_def find_external_reference_set_payload Let_def)
            (cases s; cases ob; simp add: set_payload_def memory_defs)
      qed
    next
      case none: None
      show ?thesis
      proof (cases rule: calloc_cases [of s])
        case (failed rs)
        then show ?thesis
          using Some found none
          by (simp add: object_add_external_reference_def find_external_reference_set_payload calloc_set_payload)
      next
        case (memory rs)
        show ?thesis
        proof (cases "sess s sa")
          case None
          then show ?thesis
            using Some found none memory
            by (simp add: object_add_external_reference_def find_external_reference_set_payload
                calloc_set_payload)
        next
          case se: (Some se)
          then show ?thesis
            using Some found none memory
            by (simp add: object_add_external_reference_def find_external_reference_set_payload
                calloc_set_payload Let_def)
              (cases s; cases ob; simp add: set_payload_def memory_defs)
        qed
      qed
    qed
  qed
qed

lemma object_create_set_payload:
  assumes "objs s a \<noteq> None"
  shows "object_create a t session f (set_payload a p s) =
     map_option (apsnd (set_payload a p)) (object_create a t session f s)"
proof -
  obtain ob where ob: "objs s a = Some ob" using assms by auto
  let ?ob = "ob\<lparr>obj_id := OBJECT_ID_ZERO, obj_type := t, internal_reference_count := 0,
      external_references := [], external_reference_count := 0, lock_count := 0\<rparr>"
  define s0 where "s0 = put_obj a ?ob s"
  have s0: "put_obj a (ob\<lparr>payload := p, obj_id := OBJECT_ID_ZERO, obj_type := t, internal_reference_count := 0,
      external_references := [], external_reference_count := 0, lock_count := 0\<rparr>) (set_payload a p s) = set_payload a p s0"
    by (cases s; cases ob) (simp add: s0_def set_payload_def put_obj_def)
  have ob0: "objs s0 a = Some ?ob" by (simp add: s0_def put_obj_def)
  have add: "object_add_internal_reference a (set_payload a p u) =
      map_option (set_payload a p) (object_add_internal_reference a u)" for u
    by (cases "objs u a"; cases u) (auto simp: object_add_internal_reference_def set_payload_def put_obj_def)
  have lock: "object_lock a (set_payload a p u) = map_option (set_payload a p) (object_lock a u)" for u
    by (cases "objs u a"; cases u) (auto simp: object_lock_def set_payload_def put_obj_def)
  have cont: "(if c \<noteq> API_E_SUCCESS then Some (c, set_payload a p u) else do {
         v \<leftarrow> (if L then object_lock a (set_payload a p u) else Some (set_payload a p u));
         inventory_add_object a v }) =
      map_option (apsnd (set_payload a p)) (if c \<noteq> API_E_SUCCESS then Some (c, u) else do {
         v \<leftarrow> (if L then object_lock a u else Some u);
         inventory_add_object a v })" for c L u
    by (cases "object_lock a u") (simp_all add: lock inventory_add_object_set_payload)
  have ext: "do { sa \<leftarrow> session; object_add_external_reference a sa (set_payload a p u) } =
      map_option (apsnd (set_payload a p)) (do { sa \<leftarrow> session; object_add_external_reference a sa u })" for u
    by (cases session) (simp_all add: object_add_external_reference_set_payload)
  have bind_map: "Option.bind (map_option g x) k = Option.bind x (\<lambda>y. k (g y))" for g :: "'x \<Rightarrow> 'y" and x and k :: "'y \<Rightarrow> 'z option"
    by (cases x) simp_all
  have tail: "do { (c, v) \<leftarrow> (if E then do { sa \<leftarrow> session; object_add_external_reference a sa (set_payload a p u) }
                              else Some (API_E_SUCCESS, set_payload a p u));
       if c \<noteq> API_E_SUCCESS then Some (c, v) else do {
         v \<leftarrow> (if L then object_lock a v else Some v);
         inventory_add_object a v } } =
     map_option (apsnd (set_payload a p)) (do { (c, v) \<leftarrow> (if E then do { sa \<leftarrow> session; object_add_external_reference a sa u }
                              else Some (API_E_SUCCESS, u));
       if c \<noteq> API_E_SUCCESS then Some (c, v) else do {
         v \<leftarrow> (if L then object_lock a v else Some v);
         inventory_add_object a v } })" for E L u
  proof (cases E)
    case True
    show ?thesis
    proof (cases "do { sa \<leftarrow> session; object_add_external_reference a sa u }")
      case None
      then show ?thesis unfolding ext using True by (simp only: if_True ext) simp
    next
      case (Some x)
      then show ?thesis unfolding if_P [OF True] ext by (cases x) (simp add: cont)
    qed
  next
    case False
    then show ?thesis using cont [of API_E_SUCCESS u L] by simp
  qed
  have int_ref: "do { v \<leftarrow> (if I then object_add_internal_reference a (set_payload a p u) else Some (set_payload a p u)); k v } =
      do { v \<leftarrow> (if I then object_add_internal_reference a u else Some u); k (set_payload a p v) }"
    for I u and k :: "apid \<Rightarrow> (apie \<times> apid) option"
    by (cases "object_add_internal_reference a u") (simp_all add: add)
  have outer: "do { v \<leftarrow> m; map_option h (k v) } = map_option h (do { v \<leftarrow> m; k v })"
    for m :: "apid option" and h :: "apie \<times> apid \<Rightarrow> apie \<times> apid" and k
    by (cases m) simp_all
  have ob': "objs (set_payload a p s) a = Some (ob\<lparr>payload := p\<rparr>)" by (simp add: ob)
  have if_map: "(if b then Some (map_prod id g x) else map_option (apsnd g) y) = map_option (apsnd g) (if b then Some x else y)"
    for b and g :: "apid \<Rightarrow> apid" and x :: "apie \<times> apid" and y
    by (cases x) simp
  show ?thesis
    unfolding object_create_def ob ob' bind.bind_lunit Let_def
    unfolding s0 s0_def [symmetric] int_ref tail outer
    by simp
qed

end
