(* ===== verification/Session.thy ===== *)
theory Session
  imports Create
begin

text \<open>
  Sessions: \<open>session.c\<close> and the part of \<open>inventory.c\<close> that registers, finds and removes them.
  A session owns its external references; when it expires (by request or by its timer) they
  are all dropped, objects that nobody else refers to are destroyed, and the session goes.
\<close>

section \<open>Operations\<close>

primrec session_id_collision :: "apid \<Rightarrow> u16 \<Rightarrow> addr list \<Rightarrow> bool option" where
  "session_id_collision s candidate [] = Some False"
| "session_id_collision s candidate (sa # sas) = do {
     se \<leftarrow> sess s sa;
     if candidate = session_id se then Some True else session_id_collision s candidate sas
   }"

primrec inventory_get_next_session_id_loop ::
    "nat \<Rightarrow> apid \<Rightarrow> ((apie + u16) \<times> apid) option" where
  "inventory_get_next_session_id_loop 0 s = Some (Inl API_E_NO_FREE_SESSION_ID, s)"
| "inventory_get_next_session_id_loop (Suc n) s = (
     let next = (if next_session_id s = SESSION_ID_ZERO then 1 else next_session_id s);
         candidate = next;
         s = s\<lparr>next_session_id := next + 1\<rparr>
     in do {
       collision \<leftarrow> session_id_collision s candidate (sessions s);
       if \<not> collision then Some (Inr candidate, s)
       else inventory_get_next_session_id_loop n s
     })"

definition inventory_get_next_session_id :: "apid \<Rightarrow> ((apie + u16) \<times> apid) option" where
  "inventory_get_next_session_id = inventory_get_next_session_id_loop SESSION_ID_MAX"

definition inventory_add_session :: "addr \<Rightarrow> apid \<Rightarrow> (apie \<times> apid) option" where
  "inventory_add_session sa s = do {
     (r, s) \<leftarrow> inventory_get_next_session_id s;
     case r of
       Inl e \<Rightarrow> Some (e, s)
     | Inr i \<Rightarrow> do {
         se \<leftarrow> sess s sa;
         let s = put_sess sa (se\<lparr>session_id := i\<rparr>) s;
         case ask s of
           (Inl en, s) \<Rightarrow> Some (api_get_error_code_from_errno en, s)
         | (Inr _, s) \<Rightarrow> Some (API_E_SUCCESS, s\<lparr>sessions := sessions s @ [sa]\<rparr>)
       }
   }"

text \<open>The search loop of \<open>inventory_get_session\<close>.\<close>

primrec find_session :: "apid \<Rightarrow> u16 \<Rightarrow> addr list \<Rightarrow> (apie + addr) option" where
  "find_session s i [] = Some (Inl API_E_UNKNOWN_SESSION_ID)"
| "find_session s i (sa # sas) = do {
     se \<leftarrow> sess s sa;
     if session_id se = i then Some (Inr sa) else find_session s i sas
   }"

definition inventory_get_session :: "u16 \<Rightarrow> apid \<Rightarrow> (apie + addr) option" where
  "inventory_get_session i s = find_session s i (sessions s)"

text \<open>
  The loop of \<open>session_remove_external_references\<close>. Every round unlinks the first reference of
  the session, so the number of references bounds the number of rounds.
\<close>

primrec session_remove_external_references_loop :: "nat \<Rightarrow> addr \<Rightarrow> apid \<Rightarrow> apid option" where
  "session_remove_external_references_loop 0 sa s = do {
     se \<leftarrow> sess s sa;
     if session_references se = [] then Some s else None
   }"
| "session_remove_external_references_loop (Suc n) sa s = do {
     se \<leftarrow> sess s sa;
     case session_references se of
       [] \<Rightarrow> Some s
     | r # _ \<Rightarrow> do {
         er \<leftarrow> refs s r;
         s \<leftarrow> node_remove r er s;
         s \<leftarrow> subtract_reference_count er s;
         ob \<leftarrow> objs s (ref_object er);
         s \<leftarrow> (if internal_reference_count ob = 0 \<and> external_reference_count ob = 0
               then inventory_remove_object (ref_object er) s else Some s);
         session_remove_external_references_loop n sa (free_ref r s)
       }
   }"

definition session_remove_external_references :: "addr \<Rightarrow> apid \<Rightarrow> apid option" where
  "session_remove_external_references sa s = do {
     se \<leftarrow> sess s sa;
     session_remove_external_references_loop (length (session_references se)) sa s
   }"

definition session_destroy :: "addr \<Rightarrow> apid \<Rightarrow> apid option" where
  "session_destroy sa s = do {
     _ \<leftarrow> sess s sa;
     let s = emit (Ev_timer_destroy sa) s;
     s \<leftarrow> session_remove_external_references sa s;
     _ \<leftarrow> sess s sa;
     Some (free_sess sa s)
   }"

definition inventory_remove_session :: "addr \<Rightarrow> apid \<Rightarrow> apid option" where
  "inventory_remove_session sa s = (
     if sa \<in> set (sessions s) then do {
       s \<leftarrow> session_destroy sa s;
       Some (s\<lparr>sessions := remove1 sa (sessions s)\<rparr>)
     } else Some s)"

definition session_expire_helper :: "addr \<Rightarrow> apid \<Rightarrow> apid option" where
  "session_expire_helper sa s = do {
     s \<leftarrow> session_remove_external_references sa s;
     inventory_remove_session sa s
   }"

definition session_handle_expire :: "addr \<Rightarrow> apid \<Rightarrow> apid option" where
  "session_handle_expire sa s = session_expire_helper sa s"

definition session_expire :: "addr \<Rightarrow> apid \<Rightarrow> (apie \<times> apid) option" where
  "session_expire sa s = do {
     s \<leftarrow> session_expire_helper sa s;
     Some (API_E_SUCCESS, s)
   }"

definition session_expire_unchecked :: "addr \<Rightarrow> apid \<Rightarrow> (packet_e \<times> apid) option" where
  "session_expire_unchecked sa s = do {
     (e, s) \<leftarrow> session_expire sa s;
     Some (if e = API_E_SUCCESS then PACKET_E_SUCCESS else PACKET_E_UNKNOWN_ERROR, s)
   }"

text \<open>\<open>timer_configure\<close> with the lifetime of a session, in microseconds.\<close>

definition session_delay :: "u32 \<Rightarrow> u64" where
  "session_delay lifetime = ucast lifetime * 1000000"

definition session_timer_configure :: "addr \<Rightarrow> u32 \<Rightarrow> apid \<Rightarrow> ((errno + int) \<times> apid) option" where
  "session_timer_configure sa lifetime s = do {
     se \<leftarrow> sess s sa;
     case ask (emit (Ev_timer_configure sa (session_delay lifetime)) s) of
       (Inl en, s) \<Rightarrow> Some (Inl en, s)
     | (Inr v, s) \<Rightarrow> Some (Inr v, put_sess sa (se\<lparr>session_timer_delay := session_delay lifetime\<rparr>) s)
   }"

definition zero_session :: session where
  "zero_session = \<lparr>session_id = SESSION_ID_ZERO, session_timer_delay = 0, session_references = [],
     session_reference_count = 0\<rparr>"

definition session_create :: "u32 \<Rightarrow> apid \<Rightarrow> ((apie + u16) \<times> apid) option" where
  "session_create lifetime s = (
     if lifetime > SESSION_MAX_LIFETIME then Some (Inl API_E_OUT_OF_RANGE, s)
     else case calloc s of
       (None, s) \<Rightarrow> Some (Inl API_E_NO_FREE_MEMORY, s)
     | (Some sa, s) \<Rightarrow>
         (let s = put_sess sa zero_session s in
          case ask s of
            (Inl en, s) \<Rightarrow> Some (Inl (api_get_error_code_from_errno en), free_sess sa s)
          | (Inr _, s) \<Rightarrow> do {
              (r, s) \<leftarrow> session_timer_configure sa lifetime s;
              case r of
                Inl en \<Rightarrow> Some (Inl (api_get_error_code_from_errno en),
                                free_sess sa (emit (Ev_timer_destroy sa) s))
              | Inr _ \<Rightarrow> do {
                  (e, s) \<leftarrow> inventory_add_session sa s;
                  if e \<noteq> API_E_SUCCESS then
                    Some (Inl e, free_sess sa (emit (Ev_timer_destroy sa) s))
                  else do {
                    se \<leftarrow> sess s sa;
                    Some (Inr (session_id se), s)
                  }
                }
            }))"

definition session_keep_alive :: "addr \<Rightarrow> u32 \<Rightarrow> apid \<Rightarrow> (apie \<times> apid) option" where
  "session_keep_alive sa lifetime s = (
     if lifetime > SESSION_MAX_LIFETIME then Some (API_E_OUT_OF_RANGE, s)
     else do {
       (r, s) \<leftarrow> session_timer_configure sa lifetime s;
       case r of
         Inl en \<Rightarrow> Some (api_get_error_code_from_errno en, s)
       | Inr _ \<Rightarrow> Some (API_E_SUCCESS, s)
     })"

section \<open>Session IDs\<close>

definition sessions_live :: "apid \<Rightarrow> bool" where
  "sessions_live s \<longleftrightarrow> (\<forall>sa. sa \<in> set (sessions s) \<longrightarrow> sess s sa \<noteq> None)"

definition has_session_id :: "apid \<Rightarrow> u16 \<Rightarrow> addr \<Rightarrow> bool" where
  "has_session_id s i sa \<longleftrightarrow> map_option session_id (sess s sa) = Some i"

lemma has_session_id_counter [simp]: "has_session_id (s\<lparr>next_session_id := j\<rparr>) = has_session_id s"
  by (simp add: has_session_id_def fun_eq_iff)

definition session_id_used :: "apid \<Rightarrow> u16 \<Rightarrow> bool" where
  "session_id_used s i \<longleftrightarrow> (\<exists>sa\<in>set (sessions s). has_session_id s i sa)"

lemma session_id_collision_eq:
  "(\<And>sa. sa \<in> set sas \<Longrightarrow> sess s sa \<noteq> None) \<Longrightarrow>
     session_id_collision s i sas = Some (\<exists>sa\<in>set sas. has_session_id s i sa)"
proof (induction sas)
  case (Cons sa sas)
  then obtain se where "sess s sa = Some se" by auto
  then show ?case using Cons by (auto simp: has_session_id_def)
qed simp

interpretation session_ids: id_allocator inventory_get_next_session_id_loop next_session_id
  "\<lambda>i s. s\<lparr>next_session_id := i\<rparr>" session_id_used sessions_live API_E_NO_FREE_SESSION_ID
proof unfold_locales
  fix s :: apid and n
  assume live: "sessions_live s"
  have "session_id_collision (s\<lparr>next_session_id := i\<rparr>) j (sessions s) =
      Some (\<exists>sa\<in>set (sessions s). has_session_id s j sa)" for i j
    using live by (subst session_id_collision_eq) (auto simp: sessions_live_def)
  then show "inventory_get_next_session_id_loop (Suc n) s =
      (let c = skip_zero (next_session_id s); s' = s\<lparr>next_session_id := c + 1\<rparr>
       in if session_id_used s c then inventory_get_next_session_id_loop n s' else Some (Inr c, s'))"
    by (simp add: Let_def skip_zero_def SESSION_ID_ZERO_def session_id_used_def)
qed (simp_all add: session_id_used_def sessions_live_def fun_eq_iff)

lemma get_next_session_id_spec:
  assumes "sessions_live s"
  shows "yields (inventory_get_next_session_id s) (\<lambda>(r, s'). (\<exists>i. s' = s\<lparr>next_session_id := i\<rparr>) \<and> (case r of
       Inr i \<Rightarrow> i \<noteq> 0 \<and> \<not> session_id_used s i
     | Inl e \<Rightarrow> e = API_E_NO_FREE_SESSION_ID \<and> (\<forall>i. i \<noteq> 0 \<longrightarrow> session_id_used s i)))"
  using session_ids.allocate [OF assms] by (simp add: inventory_get_next_session_id_def SESSION_ID_MAX_def)

section \<open>Dropping the references of a session\<close>

lemma session_head:
  assumes "references_ok s" "sess s sa = Some se" "session_references se = r # rs"
  obtains er ob where "refs s r = Some er" "ref_session er = sa" "objs s (ref_object er) = Some ob"
    "r \<in> set (external_references ob)"
    "ext_count s (ref_object er) sa = ref_count er" "ref_count er \<le> external_reference_count ob"
proof -
  obtain er where er: "refs s r = Some er" "ref_session er = sa"
    using references_okD_session(2) [OF assms(1,2), of r] assms(3) by auto
  then obtain ob where ob: "objs s (ref_object er) = Some ob" "r \<in> set (external_references ob)"
    using references_okD_ref(2) [OF assms(1) er(1)] assms(2,3) by auto
  from assms(1) ob(1) have count: "ext_count s (ref_object er) sa = ref_count er"
  proof (cases rule: find_external_reference_ok [where sa = sa])
    case none
    then show ?thesis using none(2) [OF ob(2)] er by (simp add: session_of_def)
  next
    case (found q eq se2)
    have "session_of s r = session_of s q" using er found(3,5) by (simp add: session_of_def)
    then have "r = q"
      using inj_onD [OF references_okD_object(3) [OF assms(1) ob(1)], of r q] ob(2) found(2) by simp
    then show ?thesis using found(3,7) er(1) by simp
  qed
  have "ref_count er = (case refs s r of None \<Rightarrow> 0 | Some er \<Rightarrow> ref_count er)" using er(1) by simp
  also have "\<dots> \<le> refs_total s (external_references ob)"
    unfolding refs_total_def using ob(2) references_okD_ref(1) [OF assms(1)]
    by (intro member_le_sum_list_int) (auto split: option.splits intro: less_imp_le)
  finally have "ref_count er \<le> external_reference_count ob"
    using references_okD_object(4) [OF assms(1) ob(1)] by simp
  with er ob count show ?thesis by (rule that)
qed

definition session_frame :: "addr \<Rightarrow> apid \<Rightarrow> apid \<Rightarrow> bool" where
  "session_frame sa s s' \<longleftrightarrow> sessions s' = sessions s \<and> stock_strings s' = stock_strings s \<and>
     next_addr s' = next_addr s \<and> lib s' = lib s \<and>
     (\<forall>sb. sb \<noteq> sa \<longrightarrow> sess s' sb = sess s sb) \<and>
     (\<forall>a ob'. objs s' a = Some ob' \<longrightarrow> (\<exists>ob. objs s a = Some ob \<and> payload ob' = payload ob))"

lemma session_frame_trans: "session_frame sa s s' \<Longrightarrow> session_frame sa s' s'' \<Longrightarrow> session_frame sa s s''"
  unfolding session_frame_def by (auto, metis)

lemma releases_session_frame: "releases D s s' \<Longrightarrow> session_frame sa s s'"
  unfolding releases_def session_frame_def by (auto dest: same_but_countsD) (metis same_but_countsD)

text \<open>One round of the loop.\<close>

lemma session_round:
  assumes inv: "inv R L {} s" and se: "sess s sa = Some se" and rs: "session_references se = r # rs"
  shows "\<exists>s1 s2 er ob. refs s r = Some er \<and> node_remove r er s \<bind> subtract_reference_count er = Some s1 \<and>
     objs s1 (ref_object er) = Some ob \<and>
     (if internal_reference_count ob = 0 \<and> external_reference_count ob = 0
      then inventory_remove_object (ref_object er) s1 else Some s1) = Some s2 \<and>
     inv R L {} (free_ref r s2) \<and> (refs_linked s \<longrightarrow> refs_linked (free_ref r s2)) \<and>
     session_frame sa s (free_ref r s2) \<and>
     (\<exists>se'. sess (free_ref r s2) sa = Some se' \<and> session_references se' = rs \<and> session_id se' = session_id se) \<and>
     (\<exists>b. \<forall>x sb. ext_count (free_ref r s2) x sb = (if x = b \<and> sb = sa then 0 else ext_count s x sb))"
proof -
  have ok: "references_ok s" using inv by (simp add: inv_def)
  obtain er ob where er: "refs s r = Some er" "ref_session er = sa" and ob: "objs s (ref_object er) = Some ob"
    and mem: "r \<in> set (external_references ob)" and ext: "ext_count s (ref_object er) sa = ref_count er"
    and le: "ref_count er \<le> external_reference_count ob"
    by (rule session_head [OF ok se rs])
  let ?a = "ref_object er" and ?n = "external_reference_count ob - ref_count er"
  let ?ob1 = "ob\<lparr>external_references := remove1 r (external_references ob), external_reference_count := ?n\<rparr>"
  let ?se1 = "se\<lparr>session_references := remove1 r (session_references se),
      session_reference_count := session_reference_count se - ref_count er\<rparr>"
  let ?s1 = "put_sess sa ?se1 (put_obj ?a ?ob1 s)"
  have run1: "node_remove r er s \<bind> subtract_reference_count er = Some ?s1"
    using ob se er(2) by (simp add: node_remove_def subtract_reference_count_def memory_defs Let_def)
  have fields: "objs ?s1 = (objs s)(?a := Some ?ob1)" "refs ?s1 = refs s"
    "sess ?s1 = (sess s)(sa := Some ?se1)" "objects ?s1 = objects s" "next_addr ?s1 = next_addr s"
    "sessions ?s1 = sessions s"
    by (simp_all add: memory_defs)
  have frame1: "session_frame sa s ?s1"
    using ob by (auto simp: session_frame_def memory_defs split: if_splits)
  have unlink: "inv R' L' D' ?s1" "\<And>b sb. ext_count ?s1 b sb = (if b = ?a \<and> sb = sa then 0 else ext_count s b sb)"
    "\<And>sb se2. sess ?s1 sb = Some se2 \<Longrightarrow> r \<notin> set (session_references se2)"
    if inv': "inv R' L' D' s" and pos: "?a \<notin> D' \<Longrightarrow> 0 < internal_reference_count ob + ?n" for R' L' D'
  proof -
    note u = inv_unlink [OF inv' er(1) ob se [folded er(2)] refl refl, of ?s1, unfolded er(2), OF fields pos mem]
    show "inv R' L' D' ?s1" using u(1) by blast
    show "ext_count ?s1 b sb = (if b = ?a \<and> sb = sa then 0 else ext_count s b sb)" for b sb
      using u(2) [of b sb] ext by (auto split: if_splits)
    show "r \<notin> set (session_references se2)" if "sess ?s1 sb = Some se2" for sb se2
      using u(3) [of sb se2] that by blast
  qed
  have result: "inv R L {} (free_ref r s2) \<and> (refs_linked s \<longrightarrow> refs_linked (free_ref r s2)) \<and>
     session_frame sa s (free_ref r s2) \<and>
     (\<exists>se'. sess (free_ref r s2) sa = Some se' \<and> session_references se' = rs \<and> session_id se' = session_id se) \<and>
     (\<exists>b. \<forall>x sb. ext_count (free_ref r s2) x sb = (if x = b \<and> sb = sa then 0 else ext_count s x sb))"
    if inv2: "inv R L {} s2" and rel: "releases {} ?s1 s2"
      and ext1: "\<forall>x sb. ext_count ?s1 x sb = (if x = ?a \<and> sb = sa then 0 else ext_count s x sb)"
      and unl: "\<forall>sb se2. sess ?s1 sb = Some se2 \<longrightarrow> r \<notin> set (session_references se2)"
      and ok1: "references_ok ?s1" for s2
  proof -
    have same: "refs s2 = refs s" "sess s2 = (sess s)(sa := Some ?se1)"
      using rel fields by (simp_all add: releases_def)
    have r2: "refs s2 r = Some er" using er(1) by (simp add: same)
    have unl2: "r \<notin> set (session_references se2)" if "sess s2 (ref_session er) = Some se2" for se2
      using that unl er(2) rel by (simp add: releases_def)
    note free = inv_free_ref [OF inv2 r2 unl2]
    have "ext_count (free_ref r s2) x sb = (if x = ?a \<and> sb = sa then 0 else ext_count s x sb)" for x sb
      using free(2) [of x sb] releases_ext_count [OF ok1 _ rel, of x sb] inv2 ext1
      by (simp add: inv_def)
    moreover have "refs_linked (free_ref r s2)" if "refs_linked s"
      by (rule refs_linked_unlink [OF that er(1), of se, where se' = ?se1])
         (simp_all add: er(2) se same free_ref_def)
    moreover have "session_frame sa s (free_ref r s2)"
      using session_frame_trans [OF frame1 releases_session_frame [OF rel]]
      by (simp add: session_frame_def free_ref_def)
    moreover have "sess (free_ref r s2) sa = Some ?se1" by (simp add: free_ref_def same)
    moreover have "session_references ?se1 = rs" using rs by simp
    ultimately show ?thesis using free(1) by (intro conjI exI [of _ ?se1] exI [of _ ?a]) auto
  qed
  have objs1: "objs ?s1 ?a = Some ?ob1" by (simp add: memory_defs)
  show ?thesis
  proof (cases "internal_reference_count ob = 0 \<and> ?n = 0")
    case False
    then have "0 < internal_reference_count ob + ?n"
      using inv_counts(1) [OF inv ob] le by auto
    note u = unlink [OF inv this]
    have ok1: "references_ok ?s1" using u(1) by (simp add: inv_def)
    have "\<forall>x sb. ext_count ?s1 x sb = (if x = ?a \<and> sb = sa then 0 else ext_count s x sb)"
      "\<forall>sb se2. sess ?s1 sb = Some se2 \<longrightarrow> r \<notin> set (session_references se2)"
      using u(2,3) by blast+
    note facts = result [OF u(1) releases_refl this ok1]
    have skip: "(if internal_reference_count ?ob1 = 0 \<and> external_reference_count ?ob1 = 0
        then inventory_remove_object ?a ?s1 else Some ?s1) = Some ?s1"
      using False by auto
    from facts
    show ?thesis
      using er(1) run1 objs1 skip
      by (intro exI [of _ ?s1] exI [of _ ?s1] exI [of _ er] exI [of _ ?ob1]) blast
  next
    case True
    have zero: "internal_reference_count ob = 0" using True by simp
    have inv1: "inv (add_refs R (holds (payload ob))) (add_locks L (holds (payload ob))) {?a} s"
      using inv_dying_zero [OF inv ob _ zero] by simp
    note u = unlink [OF inv1, simplified]
    have ok1: "references_ok ?s1" using u(1) by (simp add: inv_def)
    have "external_references ?ob1 = []"
      using external_count_zero [OF ok1 objs1] True by simp
    then have "dying R L {} ?a ?s1"
      using True by (intro dying_after_unlink [OF inv ob _ zero u(1) refl refl fields(1), of 0])
        (simp_all add: memory_defs)
    from remove_object_spec [OF this] obtain s2 where run2: "inventory_remove_object ?a ?s1 = Some s2"
      and s2: "inv R L {} s2" "releases {} ?s1 s2"
      by (blast elim: yieldsE)
    have "\<forall>x sb. ext_count ?s1 x sb = (if x = ?a \<and> sb = sa then 0 else ext_count s x sb)"
      "\<forall>sb se2. sess ?s1 sb = Some se2 \<longrightarrow> r \<notin> set (session_references se2)"
      using u(2,3) by blast+
    note facts = result [OF s2 this ok1]
    have remove: "(if internal_reference_count ?ob1 = 0 \<and> external_reference_count ?ob1 = 0
        then inventory_remove_object ?a ?s1 else Some ?s1) = Some s2"
      using True run2 by simp
    from facts show ?thesis
      using er(1) run1 objs1 remove
      by (intro exI [of _ ?s1] exI [of _ s2] exI [of _ er] exI [of _ ?ob1]) blast
  qed
qed

text \<open>All rounds.\<close>

lemma session_no_references:
  assumes "references_ok s" "sess s sa = Some se" "session_references se = []"
  shows "ext_count s b sa = 0"
proof (cases "objs s b")
  case (Some ob)
  from assms(1) Some show ?thesis
  proof (cases rule: find_external_reference_ok [where sa = sa])
    case (found q er se2)
    then show ?thesis using references_okD_ref(2) [OF assms(1) found(3)] assms(2,3) Some by auto
  qed simp
qed (simp add: ext_count_def)

lemma session_loop:
  assumes "inv R L {} s" "sess s sa = Some se" "length (session_references se) \<le> n"
  shows "yields (session_remove_external_references_loop n sa s) (\<lambda>s'. inv R L {} s' \<and>
     (refs_linked s \<longrightarrow> refs_linked s') \<and> session_frame sa s s' \<and>
     (\<exists>se'. sess s' sa = Some se' \<and> session_references se' = [] \<and> session_id se' = session_id se) \<and>
     (\<forall>b sb. ext_count s' b sb = (if sb = sa then 0 else ext_count s b sb)))"
  using assms
proof (induction n arbitrary: s se)
  case (0 s se)
  then have "session_references se = []" by simp
  moreover have "ext_count s b sa = 0" for b
    using 0 session_no_references [of s sa se b] by (simp add: inv_def)
  ultimately show ?case using 0 by (simp add: session_frame_def)
next
  case (Suc n s se)
  show ?case
  proof (cases "session_references se")
    case Nil
    then have "ext_count s b sa = 0" for b
      using Suc session_no_references [of s sa se b] by (simp add: inv_def)
    then show ?thesis using Nil Suc by (simp add: session_frame_def)
  next
    case (Cons r rs)
    obtain s1 s2 er ob b se' where run: "refs s r = Some er"
      "node_remove r er s \<bind> subtract_reference_count er = Some s1" "objs s1 (ref_object er) = Some ob"
      "(if internal_reference_count ob = 0 \<and> external_reference_count ob = 0
        then inventory_remove_object (ref_object er) s1 else Some s1) = Some s2"
      and inv2: "inv R L {} (free_ref r s2)" and linked: "refs_linked s \<longrightarrow> refs_linked (free_ref r s2)"
      and frame: "session_frame sa s (free_ref r s2)"
      and se': "sess (free_ref r s2) sa = Some se'" "session_references se' = rs" "session_id se' = session_id se"
      and ext: "\<forall>x sb. ext_count (free_ref r s2) x sb = (if x = b \<and> sb = sa then 0 else ext_count s x sb)"
      using session_round [OF Suc.prems(1,2) Cons] by blast
    have "length (session_references se') \<le> n" using Suc.prems(3) Cons se'(2) by simp
    note IH = Suc.IH [OF inv2 se'(1) this]
    have step: "session_remove_external_references_loop (Suc n) sa s =
        session_remove_external_references_loop n sa (free_ref r s2)"
      using Suc.prems(2) Cons run by (auto split: bind_splits)
    show ?thesis
      unfolding step
    proof (rule yields_mono [OF IH], elim conjE exE, intro conjI impI)
      fix s3 se3
      assume s3: "inv R L {} s3" "refs_linked (free_ref r s2) \<longrightarrow> refs_linked s3"
        "session_frame sa (free_ref r s2) s3" "sess s3 sa = Some se3" "session_references se3 = []"
        "session_id se3 = session_id se'"
        "\<forall>b sb. ext_count s3 b sb = (if sb = sa then 0 else ext_count (free_ref r s2) b sb)"
      show "inv R L {} s3" by (rule s3(1))
      show "refs_linked s3" if "refs_linked s" using that linked s3(2) by blast
      show "session_frame sa s s3" by (rule session_frame_trans [OF frame s3(3)])
      show "\<exists>se'. sess s3 sa = Some se' \<and> session_references se' = [] \<and> session_id se' = session_id se"
        using s3(4-6) se'(3) by auto
      show "\<forall>b sb. ext_count s3 b sb = (if sb = sa then 0 else ext_count s b sb)"
        using s3(7) ext by auto
    qed
  qed
qed

lemma session_remove_external_references_spec:
  assumes "inv R L {} s" "sess s sa = Some se"
  shows "yields (session_remove_external_references sa s) (\<lambda>s'. inv R L {} s' \<and>
     (refs_linked s \<longrightarrow> refs_linked s') \<and> session_frame sa s s' \<and>
     (\<exists>se'. sess s' sa = Some se' \<and> session_references se' = [] \<and> session_id se' = session_id se) \<and>
     (\<forall>b sb. ext_count s' b sb = (if sb = sa then 0 else ext_count s b sb)))"
  using session_loop [OF assms order_refl] by (simp add: session_remove_external_references_def assms(2))

section \<open>Sessions come and go\<close>

lemma references_ok_sessions:
  assumes "references_ok s" "objs s' = objs s" "refs s' = refs s"
    and "\<And>sb se. sess s' sb = Some se \<Longrightarrow> session_references se \<noteq> [] \<Longrightarrow> sess s sb = Some se"
    and "\<And>sb se. sess s sb = Some se \<Longrightarrow> session_references se \<noteq> [] \<Longrightarrow> sess s' sb = Some se"
    and "\<And>sb se. sess s' sb = Some se \<Longrightarrow> session_references se = [] \<Longrightarrow> session_reference_count se = 0"
  shows "references_ok s'"
proof -
  have rt: "refs_total s' = refs_total s" "session_of s' = session_of s"
    by (simp_all add: refs_total_def session_of_def fun_eq_iff assms(3))
  show ?thesis
  proof (rule references_okI)
    fix a ob assume "objs s' a = Some ob"
    then have ob: "objs s a = Some ob" using assms(2) by simp
    note o = references_okD_object [OF assms(1) ob]
    show "distinct (external_references ob)" by (rule o(1))
    show "\<exists>er. refs s' r = Some er \<and> ref_object er = a" if "r \<in> set (external_references ob)" for r
      using o(2) [OF that] by (simp add: assms(3))
    show "inj_on (session_of s') (set (external_references ob))" using o(3) by (simp add: rt)
    show "external_reference_count ob = refs_total s' (external_references ob)" using o(4) by (simp add: rt)
  next
    fix sb se assume se: "sess s' sb = Some se"
    have *: "distinct (session_references se) \<and>
        (\<forall>r\<in>set (session_references se). \<exists>er. refs s' r = Some er \<and> ref_session er = sb) \<and>
        session_reference_count se = refs_total s' (session_references se)"
    proof (cases "session_references se = []")
      case True
      then show ?thesis using assms(6) [OF se True] by simp
    next
      case False
      from assms(4) [OF se False] show ?thesis
        using references_okD_session [OF assms(1)] unfolding rt assms(3) by blast
    qed
    then show "distinct (session_references se)"
      and "session_reference_count se = refs_total s' (session_references se)" by blast+
    show "\<exists>er. refs s' r = Some er \<and> ref_session er = sb" if "r \<in> set (session_references se)" for r
      using * that by blast
  next
    fix r er assume "refs s' r = Some er"
    then have er: "refs s r = Some er" by (simp add: assms(3))
    note R = references_okD_ref [OF assms(1) er]
    show "0 < ref_count er" by (rule R(1))
    have "(\<exists>se. sess s' sb = Some se \<and> r \<in> set (session_references se)) \<longleftrightarrow>
        (\<exists>se. sess s sb = Some se \<and> r \<in> set (session_references se))" for sb
      using assms(4) [of sb] assms(5) [of sb] by (metis empty_iff empty_set)
    then show "(\<exists>ob. objs s' (ref_object er) = Some ob \<and> r \<in> set (external_references ob)) \<longleftrightarrow>
        (\<exists>se. sess s' (ref_session er) = Some se \<and> r \<in> set (session_references se))"
      using R(2) by (simp add: assms(2))
  qed
qed

lemma inv_sessions:
  assumes "inv R L D s" "objs s' = objs s" "refs s' = refs s" "next_addr s' = next_addr s" "objects s' = objects s"
    and "references_ok s'" "sessions_ok s'" "\<And>sb. sess s' sb \<noteq> None \<Longrightarrow> sb < next_addr s"
  shows "inv R L D s'"
proof -
  have types: "is_type s' = is_type s" by (simp add: is_type_def assms(2) fun_eq_iff)
  have wf: "object_wf s' = object_wf s"
    by (simp add: object_wf_def fun_eq_iff payload_wf_cong [OF types])
  have held: "held s' D = held s D" "held_locks s' D = held_locks s D"
    by (rule held_same; simp add: assms(2,4))+
  have "heap_bounded s'" using assms(1-4,8) by (auto simp: inv_def heap_bounded_def)
  moreover have "inventory_ok D s'"
    using assms(1) unfolding inv_def inventory_ok_def wf types assms(2,5) by blast
  moreover have "counts_ok R L D s'"
    using assms(1) unfolding inv_def counts_ok_def held assms(2) by (elim conjE) (intro conjI)
  ultimately show ?thesis using assms(6,7) by (simp add: inv_def)
qed

lemma inv_remove_session:
  assumes "inv R L D s" "sess s sa = Some se" "session_references se = []"
    and "s' = s\<lparr>sess := (sess s)(sa := None), sessions := remove1 sa (sessions s)\<rparr>"
  shows "inv R L D s'"
proof (rule inv_sessions [OF assms(1)])
  have ok: "references_ok s" and so: "sessions_ok s" and h: "heap_bounded s" using assms(1) by (simp_all add: inv_def)
  show "references_ok s'"
  proof (rule references_ok_sessions [OF ok])
    fix sb sf assume "sess s' sb = Some sf" "session_references sf = []"
    then have "sess s sb = Some sf" by (simp add: assms(4) split: if_splits)
    then show "session_reference_count sf = 0"
      using references_okD_session(3) [OF ok, of sb sf] \<open>session_references sf = []\<close> by simp
  qed (use assms in \<open>auto split: if_splits\<close>)
  show "sessions_ok s'"
    using so unfolding sessions_ok_def assms(4) by (auto split: if_splits)
  show "sb < next_addr s" if "sess s' sb \<noteq> None" for sb
    using that h by (auto simp: assms(4) heap_bounded_def split: if_splits)
qed (simp_all add: assms(4))

lemma inv_new_session:
  assumes "inv R L D s" "sess s sa = None" "sa < next_addr s"
    and "session_references se = []" "session_reference_count se = 0" "session_id se \<noteq> 0"
    and "\<And>sb sf. sess s sb = Some sf \<Longrightarrow> session_id se \<noteq> session_id sf"
    and "objs s' = objs s" "refs s' = refs s" "next_addr s' = next_addr s" "objects s' = objects s"
    and "sess s' = (sess s)(sa := Some se)" "sessions s' = sessions s @ [sa]"
  shows "inv R L D s'"
proof (rule inv_sessions [OF assms(1)])
  have ok: "references_ok s" and so: "sessions_ok s" and h: "heap_bounded s" using assms(1) by (simp_all add: inv_def)
  show "references_ok s'"
  proof (rule references_ok_sessions [OF ok])
    fix sb sf assume sf: "sess s' sb = Some sf" "session_references sf = []"
    show "session_reference_count sf = 0"
    proof (cases "sb = sa")
      case False
      then show ?thesis
        using sf references_okD_session(3) [OF ok, of sb sf] by (simp add: assms(12))
    qed (use sf assms(5) in \<open>simp add: assms(12)\<close>)
  qed (use assms in \<open>auto split: if_splits\<close>)
  have "sa \<notin> set (sessions s)" using so assms(2) by (simp add: sessions_ok_def)
  then show "sessions_ok s'"
    using so assms(6) unfolding sessions_ok_def assms(12,13) SESSION_ID_ZERO_def
    by (auto split: if_splits dest: assms(7) assms(7) [THEN not_sym])
  show "sb < next_addr s" if "sess s' sb \<noteq> None" for sb
    using that h assms(3) by (auto simp: assms(12) heap_bounded_def split: if_splits)
qed (simp_all add: assms)

lemma refs_linked_no_references:
  assumes "references_ok s" "sess s sa = Some se" "session_references se = []" "refs_linked s"
    and "refs s' = refs s" "sess s' = (sess s)(sa := None)"
  shows "refs_linked s'"
  using assms unfolding refs_linked_def by (metis empty_iff fun_upd_other list.set(1) option.inject)

text \<open>A session that expires takes all its references with it, and nothing else.\<close>

lemma session_expire_helper_spec:
  assumes "inv R L {} s" "sess s sa = Some se"
  shows "yields (session_expire_helper sa s) (\<lambda>s'. inv R L {} s' \<and>
     (refs_linked s \<longrightarrow> refs_linked s') \<and> sess s' sa = None \<and> sa \<notin> set (sessions s') \<and>
     (\<forall>sb. sb \<noteq> sa \<longrightarrow> sess s' sb = sess s sb) \<and>
     (\<forall>b sb. ext_count s' b sb = (if sb = sa then 0 else ext_count s b sb)) \<and>
     lib s' = lib s \<and> stock_strings s' = stock_strings s \<and>
     (\<forall>a ob'. objs s' a = Some ob' \<longrightarrow> (\<exists>ob. objs s a = Some ob \<and> payload ob' = payload ob)))"
  unfolding session_expire_helper_def
proof (rule yields_bindI [OF session_remove_external_references_spec [OF assms]], elim conjE exE)
  fix s1 se1
  assume s1: "inv R L {} s1" "refs_linked s \<longrightarrow> refs_linked s1" "session_frame sa s s1" "sess s1 sa = Some se1"
    "session_references se1 = []" "\<forall>b sb. ext_count s1 b sb = (if sb = sa then 0 else ext_count s b sb)"
  let ?s2 = "emit (Ev_timer_destroy sa) s1"
  have ok1: "references_ok s1" and so1: "sessions_ok s1" using s1(1) by (simp_all add: inv_def)
  have live: "sa \<in> set (sessions s1)" using so1 s1(4) by (simp add: sessions_ok_def)
  have "session_remove_external_references sa ?s2 = Some ?s2"
    using s1(4,5) by (simp add: session_remove_external_references_def)
  then have run: "inventory_remove_session sa s1 =
      Some (?s2\<lparr>sess := (sess ?s2)(sa := None), sessions := remove1 sa (sessions ?s2)\<rparr>)"
    using live s1(4) by (simp add: inventory_remove_session_def session_destroy_def free_sess_def Let_def)
  let ?s3 = "?s2\<lparr>sess := (sess ?s2)(sa := None), sessions := remove1 sa (sessions ?s2)\<rparr>"
  have se2: "sess ?s2 sa = Some se1" using s1(4) by simp
  have "inv R L {} ?s2" using s1(1) by simp
  from inv_remove_session [OF this se2 s1(5) refl] have inv3: "inv R L {} ?s3" .
  have linked: "refs_linked ?s3" if "refs_linked s"
    by (rule refs_linked_no_references [OF ok1 s1(4,5)]) (use that s1(2) in \<open>simp_all\<close>)
  have "ext_count ?s3 b sb = ext_count s1 b sb" for b sb
    by (rule ext_count_objs) simp_all
  moreover have "sa \<notin> set (sessions ?s3)" using inv3 by (simp add: inv_def sessions_ok_def)
  ultimately show "yields (inventory_remove_session sa s1) (\<lambda>s'. inv R L {} s' \<and>
     (refs_linked s \<longrightarrow> refs_linked s') \<and> sess s' sa = None \<and> sa \<notin> set (sessions s') \<and>
     (\<forall>sb. sb \<noteq> sa \<longrightarrow> sess s' sb = sess s sb) \<and>
     (\<forall>b sb. ext_count s' b sb = (if sb = sa then 0 else ext_count s b sb)) \<and>
     lib s' = lib s \<and> stock_strings s' = stock_strings s \<and>
     (\<forall>a ob'. objs s' a = Some ob' \<longrightarrow> (\<exists>ob. objs s a = Some ob \<and> payload ob' = payload ob)))"
    using run inv3 linked s1(3,6) by (simp add: session_frame_def)
qed

text \<open>\<open>timer_configure\<close> changes the timer of that session at most.\<close>

lemma timer_configure_cases:
  assumes "sess s sa = Some se"
  obtains (failed) en rs where "session_timer_configure sa lifetime s =
      Some (Inl en, (emit (Ev_timer_configure sa (session_delay lifetime)) s)\<lparr>answers := rs\<rparr>)"
  | (configured) v rs where "session_timer_configure sa lifetime s =
      Some (Inr v, put_sess sa (se\<lparr>session_timer_delay := session_delay lifetime\<rparr>)
        ((emit (Ev_timer_configure sa (session_delay lifetime)) s)\<lparr>answers := rs\<rparr>))"
proof -
  obtain r rs where ask: "ask (emit (Ev_timer_configure sa (session_delay lifetime)) s) =
      (r, (emit (Ev_timer_configure sa (session_delay lifetime)) s)\<lparr>answers := rs\<rparr>)"
    by (rule ask_cases)
  show ?thesis
    by (cases r) (use ask assms failed configured in \<open>auto simp: session_timer_configure_def\<close>)
qed

lemma add_session_cases:
  assumes "sessions_live s" "sess s sa = Some se"
  obtains (failed) e s' where "inventory_add_session sa s = Some (e, s')" "e \<noteq> API_E_SUCCESS"
      "objs s' = objs s" "refs s' = refs s" "next_addr s' = next_addr s" "objects s' = objects s"
      "sessions s' = sessions s" "\<exists>i. sess s' = (sess s)(sa := Some (se\<lparr>session_id := i\<rparr>))"
  | (added) i s' where "inventory_add_session sa s = Some (API_E_SUCCESS, s')" "i \<noteq> 0" "\<not> session_id_used s i"
      "objs s' = objs s" "refs s' = refs s" "next_addr s' = next_addr s" "objects s' = objects s"
      "sessions s' = sessions s @ [sa]" "sess s' = (sess s)(sa := Some (se\<lparr>session_id := i\<rparr>))"
proof -
  from get_next_session_id_spec [OF assms(1)]
  obtain res n where id: "inventory_get_next_session_id s = Some (res, s\<lparr>next_session_id := n\<rparr>)"
    and res: "case res of Inr i \<Rightarrow> i \<noteq> 0 \<and> \<not> session_id_used s i
       | Inl e \<Rightarrow> e = API_E_NO_FREE_SESSION_ID \<and> (\<forall>i. i \<noteq> 0 \<longrightarrow> session_id_used s i)"
    by (auto elim!: yieldsE)
  show ?thesis
  proof (cases res)
    case (Inl e)
    have "\<exists>i. sess s = (sess s)(sa := Some (se\<lparr>session_id := i\<rparr>))"
      by (rule exI [of _ "session_id se"]) (simp add: assms(2) fun_upd_idem)
    then show ?thesis
      using id Inl res by (intro failed [of e "s\<lparr>next_session_id := n\<rparr>"]) (auto simp: inventory_add_session_def)
  next
    case (Inr i)
    let ?s1 = "put_sess sa (se\<lparr>session_id := i\<rparr>) (s\<lparr>next_session_id := n\<rparr>)"
    obtain an rs where ask: "ask ?s1 = (an, ?s1\<lparr>answers := rs\<rparr>)" by (rule ask_cases)
    have run: "inventory_add_session sa s = (case an of
        Inl en \<Rightarrow> Some (api_get_error_code_from_errno en, ?s1\<lparr>answers := rs\<rparr>)
      | Inr _ \<Rightarrow> Some (API_E_SUCCESS, ?s1\<lparr>answers := rs, sessions := sessions s @ [sa]\<rparr>))"
      using id Inr ask assms(2)
      by (cases an) (simp_all add: inventory_add_session_def Let_def put_sess_def)
    show ?thesis
    proof (cases an)
      case (Inl en)
      then show ?thesis
        using run by (intro failed [of "api_get_error_code_from_errno en" "?s1\<lparr>answers := rs\<rparr>"])
          (auto simp: put_sess_def)
    next
      case (Inr v)
      then show ?thesis
        using run res \<open>res = Inr i\<close>
        by (intro added [of "?s1\<lparr>answers := rs, sessions := sessions s @ [sa]\<rparr>" i]) (auto simp: put_sess_def)
    qed
  qed
qed

lemma session_create_spec:
  assumes "inv R L D s"
  shows "yields (session_create lifetime s) (\<lambda>(r, s'). inv R L D s' \<and> objs s' = objs s \<and> refs s' = refs s \<and>
     (case r of
        Inl e \<Rightarrow> sess s' = sess s \<and> sessions s' = sessions s
      | Inr i \<Rightarrow> lifetime \<le> SESSION_MAX_LIFETIME \<and> i \<noteq> 0 \<and>
          (\<forall>sb se. sess s sb = Some se \<longrightarrow> session_id se \<noteq> i) \<and>
          (\<exists>sa. sess s sa = None \<and> sessions s' = sessions s @ [sa] \<and>
             sess s' = (sess s)(sa := Some \<lparr>session_id = i, session_timer_delay = session_delay lifetime,
               session_references = [], session_reference_count = 0\<rparr>))))"
proof (cases "lifetime > SESSION_MAX_LIFETIME")
  case True
  then show ?thesis using assms by (simp add: session_create_def)
next
  case False
  show ?thesis
  proof (cases rule: calloc_cases [of s])
    case (failed rs)
    then show ?thesis using False assms by (simp add: session_create_def)
  next
    case (memory rs)
    let ?sa = "next_addr s"
    define s1 where "s1 = s\<lparr>answers := rs, next_addr := Suc (next_addr s)\<rparr>"
    have inv1: "inv R L D s1" using assms by (simp add: s1_def)
    have none: "sess s ?sa = None" by (rule fresh_addr [OF assms])
    define s2 where "s2 = put_sess ?sa zero_session s1"
    obtain an rs2 where ask2: "ask s2 = (an, s2\<lparr>answers := rs2\<rparr>)" by (rule ask_cases)
    define s3 where "s3 = s2\<lparr>answers := rs2\<rparr>"
    have f1: "objs s1 = objs s" "refs s1 = refs s" "sess s1 = sess s" "sessions s1 = sessions s"
      "next_addr s1 = Suc (next_addr s)" "objects s1 = objects s"
      by (simp_all add: s1_def)
    have f3: "objs s3 = objs s" "refs s3 = refs s" "sess s3 = (sess s)(?sa := Some zero_session)"
      "sessions s3 = sessions s" "next_addr s3 = Suc (next_addr s)" "objects s3 = objects s"
      by (simp_all add: s3_def s2_def s1_def put_sess_def)
    have restored: "inv R L D s' \<and> sess s' = sess s"
      if "objs s' = objs s" "refs s' = refs s" "\<exists>x. sess s' = ((sess s)(?sa := x))(?sa := None)"
        "sessions s' = sessions s" "next_addr s' = Suc (next_addr s)" "objects s' = objects s" for s'
    proof -
      have "sess s' = sess s" using that(3) none by auto
      then show ?thesis using inv1 inv_frame [of s' s1] that f1 by simp
    qed
    show ?thesis
    proof (cases an)
      case (Inl en)
      have "session_create lifetime s = Some (Inl (api_get_error_code_from_errno en), free_sess ?sa s3)"
        using False memory ask2 Inl by (simp add: session_create_def Let_def s1_def s2_def s3_def)
      moreover have "inv R L D (free_sess ?sa s3) \<and> sess (free_sess ?sa s3) = sess s"
        by (rule restored) (use f3 in \<open>auto\<close>)
      ultimately show ?thesis using f3 by simp
    next
      case (Inr v)
      have run: "session_create lifetime s = do {
          (r, s) \<leftarrow> session_timer_configure ?sa lifetime s3;
          case r of
            Inl en \<Rightarrow> Some (Inl (api_get_error_code_from_errno en), free_sess ?sa (emit (Ev_timer_destroy ?sa) s))
          | Inr _ \<Rightarrow> do {
              (e, s) \<leftarrow> inventory_add_session ?sa s;
              if e \<noteq> API_E_SUCCESS then Some (Inl e, free_sess ?sa (emit (Ev_timer_destroy ?sa) s))
              else do { se \<leftarrow> sess s ?sa; Some (Inr (session_id se), s) } } }"
        using False memory ask2 Inr by (simp add: session_create_def Let_def s1_def s2_def s3_def)
      have se3: "sess s3 ?sa = Some zero_session" by (simp add: f3)
      show ?thesis
      proof (rule timer_configure_cases [OF se3, of lifetime])
        fix en rs4 assume failed: "session_timer_configure ?sa lifetime s3 =
          Some (Inl en, (emit (Ev_timer_configure ?sa (session_delay lifetime)) s3)\<lparr>answers := rs4\<rparr>)"
        let ?s4 = "(emit (Ev_timer_configure ?sa (session_delay lifetime)) s3)\<lparr>answers := rs4\<rparr>"
        let ?s5 = "free_sess ?sa (emit (Ev_timer_destroy ?sa) ?s4)"
        have "inv R L D ?s5 \<and> sess ?s5 = sess s"
          by (rule restored) (use f3 in \<open>auto\<close>)
        then show ?thesis using run failed f3 by simp
      next
        fix v rs4 assume configured: "session_timer_configure ?sa lifetime s3 = Some (Inr v,
          put_sess ?sa (zero_session\<lparr>session_timer_delay := session_delay lifetime\<rparr>)
            ((emit (Ev_timer_configure ?sa (session_delay lifetime)) s3)\<lparr>answers := rs4\<rparr>))"
        let ?se = "zero_session\<lparr>session_timer_delay := session_delay lifetime\<rparr>"
        define s4 where "s4 = put_sess ?sa ?se ((emit (Ev_timer_configure ?sa (session_delay lifetime)) s3)\<lparr>answers := rs4\<rparr>)"
        have f4: "objs s4 = objs s" "refs s4 = refs s" "sess s4 = (sess s)(?sa := Some ?se)"
          "sessions s4 = sessions s" "next_addr s4 = Suc (next_addr s)" "objects s4 = objects s"
          by (simp_all add: s4_def put_sess_def f3)
        have live: "sessions_live s4"
          using assms by (auto simp: sessions_live_def f4 inv_def sessions_ok_def)
        have se4: "sess s4 ?sa = Some ?se" by (simp add: f4)
        from live se4 show ?thesis
        proof (cases rule: add_session_cases)
          case (failed e s5)
          let ?s6 = "free_sess ?sa (emit (Ev_timer_destroy ?sa) s5)"
          have "inv R L D ?s6 \<and> sess ?s6 = sess s"
            by (rule restored) (use failed f4 in \<open>auto\<close>)
          then show ?thesis
            using run configured failed f4 by (simp add: s4_def)
        next
          case (added i s5)
          have unused: "session_id se \<noteq> i" if "sess s sb = Some se" for sb se
          proof -
            have "sb \<in> set (sessions s)" using that assms by (auto simp: inv_def sessions_ok_def)
            moreover have "sb \<noteq> ?sa" using that none by auto
            ultimately show ?thesis
              using added(3) that by (auto simp: session_id_used_def has_session_id_def f4)
          qed
          have "inv R L D s5"
          proof (rule inv_new_session [OF inv1, of ?sa "?se\<lparr>session_id := i\<rparr>"])
            show "session_id (?se\<lparr>session_id := i\<rparr>) \<noteq> session_id sf" if "sess s1 sb = Some sf" for sb sf
              using unused [of sb sf] that f1 by auto
          qed (use added f1 f4 none in \<open>simp_all add: zero_session_def\<close>)
          moreover have "sess s5 ?sa = Some (?se\<lparr>session_id := i\<rparr>)" using added(9) by simp
          moreover have "sess s5 = (sess s)(?sa := Some \<lparr>session_id = i,
              session_timer_delay = session_delay lifetime, session_references = [], session_reference_count = 0\<rparr>)"
            using added(9) by (simp add: f4 zero_session_def)
          ultimately show ?thesis
            using run configured added f4 none unused False
            by (simp add: s4_def)
        qed
      qed
    qed
  qed
qed

lemma inv_session_timer:
  assumes "inv R L D s" "sess s sa = Some se" "s' = put_sess sa (se\<lparr>session_timer_delay := d\<rparr>) s"
  shows "inv R L D s'"
proof (rule inv_sessions [OF assms(1)])
  have ok: "references_ok s" and so: "sessions_ok s" and h: "heap_bounded s" using assms(1) by (simp_all add: inv_def)
  have get: "\<exists>sf. sess s sb = Some sf \<and> session_id sf' = session_id sf \<and> session_references sf' = session_references sf \<and>
      session_reference_count sf' = session_reference_count sf" if "sess s' sb = Some sf'" for sb sf'
    using that assms(2,3) by (cases "sb = sa") (auto simp: put_sess_def)
  have rt: "refs_total s' = refs_total s" "session_of s' = session_of s"
    by (simp_all add: assms(3) put_sess_def refs_total_def session_of_def fun_eq_iff)
  have same: "objs s' = objs s" "refs s' = refs s" by (simp_all add: assms(3) put_sess_def)
  have linked: "(\<exists>sf. sess s' sb = Some sf \<and> r \<in> set (session_references sf)) \<longleftrightarrow>
      (\<exists>sf. sess s sb = Some sf \<and> r \<in> set (session_references sf))" for sb r
    using assms(2,3) by (auto simp: put_sess_def)
  show "references_ok s'"
  proof (rule references_okI)
    fix sb sf assume "sess s' sb = Some sf"
    from get [OF this] obtain sg where sg: "sess s sb = Some sg" "session_references sf = session_references sg"
      "session_reference_count sf = session_reference_count sg" by blast
    note o = references_okD_session [OF ok sg(1)]
    show "distinct (session_references sf)" using o(1) sg by simp
    show "session_reference_count sf = refs_total s' (session_references sf)" using o(3) sg rt by simp
    show "\<exists>er. refs s' r = Some er \<and> ref_session er = sb" if "r \<in> set (session_references sf)" for r
      using o(2) [of r] that sg same by simp
  qed (use references_okD_object [OF ok] references_okD_ref [OF ok] in \<open>simp_all add: same rt linked\<close>)
  show "sessions_ok s'"
    using so get assms(2,3) unfolding sessions_ok_def by (auto simp: put_sess_def split: if_splits)
  show "sb < next_addr s" if "sess s' sb \<noteq> None" for sb
    using that h assms(2,3) by (auto simp: put_sess_def heap_bounded_def split: if_splits)
qed (simp_all add: assms(3) put_sess_def)

lemma session_keep_alive_spec:
  assumes "inv R L D s" "sess s sa = Some se"
  shows "yields (session_keep_alive sa lifetime s) (\<lambda>(e, s'). inv R L D s' \<and> objs s' = objs s \<and> refs s' = refs s \<and>
     sessions s' = sessions s \<and>
     (if e = API_E_SUCCESS
      then lifetime \<le> SESSION_MAX_LIFETIME \<and>
           sess s' = (sess s)(sa := Some (se\<lparr>session_timer_delay := session_delay lifetime\<rparr>))
      else sess s' = sess s))"
proof (cases "lifetime > SESSION_MAX_LIFETIME")
  case True
  then show ?thesis using assms by (simp add: session_keep_alive_def)
next
  case False
  from assms(2) show ?thesis
  proof (cases rule: timer_configure_cases [where lifetime = lifetime])
    case (failed en rs)
    then show ?thesis using assms False by (simp add: session_keep_alive_def)
  next
    case (configured v rs)
    let ?s1 = "(emit (Ev_timer_configure sa (session_delay lifetime)) s)\<lparr>answers := rs\<rparr>"
    let ?se = "se\<lparr>session_timer_delay := session_delay lifetime\<rparr>"
    have "inv R L D ?s1" using assms(1) by simp
    then have "inv R L D (put_sess sa ?se ?s1)"
      by (rule inv_session_timer) (use assms(2) in \<open>simp_all add: put_sess_def\<close>)
    then show ?thesis
      using configured assms False by (simp add: session_keep_alive_def put_sess_def not_less)
  qed
qed

end
