(* ===== verification/String_Object.thy ===== *)
theory String_Object
  imports Session
begin

text \<open>
  String objects: \<open>string.c\<close>. A buffer is its list of bytes, so every access of the code to
  \<open>string->buffer\<close> is checked against the block of memory behind it; an access outside the
  block, and a read of a byte that was never written, is \<open>None\<close>.
\<close>

section \<open>Buffers\<close>

definition buffer_write :: "nat \<Rightarrow> char list \<Rightarrow> char option list \<Rightarrow> char option list option" where
  "buffer_write off cs buf =
     (if off + length cs \<le> length buf
      then Some (take off buf @ map Some cs @ drop (off + length cs) buf) else None)"

primrec all_written :: "char option list \<Rightarrow> char list option" where
  "all_written [] = Some []"
| "all_written (x # xs) = do { c \<leftarrow> x; cs \<leftarrow> all_written xs; Some (c # cs) }"

definition buffer_read :: "nat \<Rightarrow> nat \<Rightarrow> char option list \<Rightarrow> char list option" where
  "buffer_read off n buf =
     (if off + n \<le> length buf then all_written (take n (drop off buf)) else None)"

text \<open>\<open>realloc\<close> to a larger or smaller block keeps the bytes that fit.\<close>

definition buffer_realloc :: "nat \<Rightarrow> char option list \<Rightarrow> char option list" where
  "buffer_realloc n buf = take n buf @ replicate (n - length buf) None"

definition strnlen :: "char list \<Rightarrow> nat \<Rightarrow> nat" where
  "strnlen cs n = length (takeWhile (\<lambda>c. c \<noteq> CHR 0x00) (take n cs))"

definition STRING_MAX_ALLOCATE_BUFFER_LENGTH :: nat where "STRING_MAX_ALLOCATE_BUFFER_LENGTH = 58"
definition STRING_MAX_SET_CHUNK_BUFFER_LENGTH :: nat where "STRING_MAX_SET_CHUNK_BUFFER_LENGTH = 58"
definition STRING_MAX_GET_CHUNK_BUFFER_LENGTH :: nat where "STRING_MAX_GET_CHUNK_BUFFER_LENGTH = 63"

section \<open>Operations\<close>

definition put_string :: "addr \<Rightarrow> string_obj \<Rightarrow> apid \<Rightarrow> apid option" where
  "put_string a so s = do {
     ob \<leftarrow> objs s a;
     Some (put_obj a (ob\<lparr>payload := P_String so\<rparr>) s)
   }"

definition string_reserve :: "addr \<Rightarrow> u32 \<Rightarrow> apid \<Rightarrow> (apie \<times> apid) option" where
  "string_reserve a reserve s = do {
     so \<leftarrow> the_string s a;
     if reserve > INT32_MAX then Some (API_E_OUT_OF_RANGE, s)
     else do {
       let reserve = reserve + 1;
       if reserve \<le> str_allocated so then Some (API_E_SUCCESS, s)
       else do {
         let allocated = grow_allocation (lib s) reserve;
         case ask s of
           (Inl _, s) \<Rightarrow> Some (API_E_NO_FREE_MEMORY, s)
         | (Inr _, s) \<Rightarrow> do {
             s \<leftarrow> put_string a (so\<lparr>str_buffer := buffer_realloc (unat allocated) (str_buffer so),
                                 str_allocated := allocated\<rparr>) s;
             Some (API_E_SUCCESS, s)
           }
       }
     }
   }"

text \<open>The second half of \<open>string_create\<close>: the object around a buffer.\<close>

definition string_create_object ::
    "string_obj \<Rightarrow> addr option \<Rightarrow> u32 \<Rightarrow> apid \<Rightarrow> ((apie + addr) \<times> apid) option" where
  "string_create_object so session object_create_flags s =
     (case calloc s of
        (None, s) \<Rightarrow> Some (Inl API_E_NO_FREE_MEMORY, s)
      | (Some a, s) \<Rightarrow> do {
          let s = put_obj a (zero_object (P_String so)) s;
          (error_code, s) \<leftarrow> object_create a OBJECT_TYPE_STRING session object_create_flags s;
          if error_code \<noteq> API_E_SUCCESS then do {
            s \<leftarrow> heap_free a s;
            Some (Inl error_code, s)
          } else Some (Inr a, s)
        })"

text \<open>
  \<open>string_create\<close>, with the buffer of the caller, a C string, or \<open>None\<close> for the null pointer.
  The result is the address of the object.
\<close>

definition string_create ::
    "u32 \<Rightarrow> string option \<Rightarrow> addr option \<Rightarrow> u32 \<Rightarrow> apid \<Rightarrow> ((apie + addr) \<times> apid) option" where
  "string_create reserve buffer session object_create_flags s =
     (case buffer of
        None \<Rightarrow>
          (if reserve > INT32_MAX then Some (Inl API_E_OUT_OF_RANGE, s)
           else
             (let reserve = reserve + 1;
                  allocated = grow_allocation (lib s) reserve
              in case ask s of
                   (Inl _, s) \<Rightarrow> Some (Inl API_E_NO_FREE_MEMORY, s)
                 | (Inr _, s) \<Rightarrow>
                     string_create_object
                       \<lparr>str_buffer = replicate (unat allocated) None, str_length = 0,
                        str_allocated = allocated\<rparr> session object_create_flags s))
      | Some cs \<Rightarrow>
          (let length' = of_nat (length cs) :: u32
           in if length' > INT32_MAX then Some (Inl API_E_OUT_OF_RANGE, s)
              else string_create_object
                     \<lparr>str_buffer = map Some cs @ [Some (CHR 0x00)], str_length = length',
                      str_allocated = length' + 1\<rparr> session object_create_flags s))"

text \<open>The last lines of \<open>string_wrap\<close> and \<open>string_allocate\<close>: the bytes and their terminator.\<close>

definition string_fill :: "addr \<Rightarrow> char list \<Rightarrow> u32 \<Rightarrow> apid \<Rightarrow> apid option" where
  "string_fill a cs length' s = do {
     so \<leftarrow> the_string s a;
     buf \<leftarrow> buffer_write 0 (take (unat length') cs) (str_buffer so);
     buf \<leftarrow> buffer_write (unat length') [CHR 0x00] buf;
     put_string a (so\<lparr>str_buffer := buf, str_length := length'\<rparr>) s
   }"

definition string_wrap ::
    "string \<Rightarrow> addr option \<Rightarrow> u32 \<Rightarrow> apid \<Rightarrow> ((apie + addr) \<times> apid) option" where
  "string_wrap buffer session object_create_flags s =
     (let length' = of_nat (length buffer) :: u32
      in if length' > INT32_MAX then Some (Inl API_E_OUT_OF_RANGE, s)
         else do {
           (r, s) \<leftarrow> string_create length' None session object_create_flags s;
           case r of
             Inl e \<Rightarrow> Some (Inl e, s)
           | Inr a \<Rightarrow> do {
               s \<leftarrow> string_fill a buffer length' s;
               Some (Inr a, s)
             }
         })"

text \<open>\<open>string_asprintf\<close>, where \<open>formatted\<close> is what \<open>vasprintf\<close> makes of the arguments.\<close>

definition string_asprintf ::
    "addr option \<Rightarrow> u32 \<Rightarrow> string \<Rightarrow> apid \<Rightarrow> ((apie + addr) \<times> apid) option" where
  "string_asprintf session object_create_flags formatted s =
     (case ask s of
        (Inl _, s) \<Rightarrow> Some (Inl API_E_NO_FREE_MEMORY, s)
      | (Inr _, s) \<Rightarrow> string_create 0 (Some formatted) session object_create_flags s)"

definition string_allocate ::
    "u32 \<Rightarrow> char list \<Rightarrow> addr \<Rightarrow> apid \<Rightarrow> ((apie + u16) \<times> apid) option" where
  "string_allocate reserve buffer session s =
     (let length' = of_nat (strnlen buffer STRING_MAX_ALLOCATE_BUFFER_LENGTH) :: u32;
          reserve = (if reserve < length' then length' else reserve)
      in do {
        (r, s) \<leftarrow> string_create reserve None (Some session) OBJECT_CREATE_FLAG_EXTERNAL s;
        case r of
          Inl e \<Rightarrow> Some (Inl e, s)
        | Inr a \<Rightarrow> do {
            s \<leftarrow> string_fill a buffer length' s;
            ob \<leftarrow> objs s a;
            Some (Inr (obj_id ob), s)
          }
      })"

definition string_truncate :: "addr \<Rightarrow> u32 \<Rightarrow> apid \<Rightarrow> (apie \<times> apid) option" where
  "string_truncate a length' s = do {
     ob \<leftarrow> objs s a;
     so \<leftarrow> the_string s a;
     if lock_count ob > 0 then Some (API_E_OBJECT_IS_LOCKED, s)
     else if length' < str_length so then do {
       buf \<leftarrow> buffer_write (unat length') [CHR 0x00] (str_buffer so);
       s \<leftarrow> put_string a (so\<lparr>str_length := length', str_buffer := buf\<rparr>) s;
       Some (API_E_SUCCESS, s)
     } else Some (API_E_SUCCESS, s)
   }"

definition string_get_length :: "addr \<Rightarrow> apid \<Rightarrow> (apie \<times> u32) option" where
  "string_get_length a s = do { so \<leftarrow> the_string s a; Some (API_E_SUCCESS, str_length so) }"

text \<open>
  The gap between the old end and the offset is filled with spaces, one by one; then the bytes
  are copied, and the terminator is written when the string got longer.
\<close>

definition string_set_chunk :: "addr \<Rightarrow> u32 \<Rightarrow> char list \<Rightarrow> apid \<Rightarrow> (apie \<times> apid) option" where
  "string_set_chunk a offset buffer s = do {
     ob \<leftarrow> objs s a;
     so \<leftarrow> the_string s a;
     if lock_count ob > 0 then Some (API_E_OBJECT_IS_LOCKED, s)
     else if offset > INT32_MAX then Some (API_E_OUT_OF_RANGE, s)
     else do {
       let length' = (of_nat (strnlen buffer STRING_MAX_SET_CHUNK_BUFFER_LENGTH) :: u32);
       if offset + length' > INT32_MAX then Some (API_E_OUT_OF_RANGE, s)
       else if length' = 0 then Some (API_E_SUCCESS, s)
       else do {
         (error_code, s) \<leftarrow> (if offset + length' > str_allocated so
                             then string_reserve a (offset + length') s
                             else Some (API_E_SUCCESS, s));
         if error_code \<noteq> API_E_SUCCESS then Some (error_code, s)
         else do {
           so \<leftarrow> the_string s a;
           buf \<leftarrow> (if str_length so < offset
                  then buffer_write (unat (str_length so))
                         (replicate (unat offset - unat (str_length so)) CHR '' '') (str_buffer so)
                  else Some (str_buffer so));
           buf \<leftarrow> buffer_write (unat offset) (take (unat length') buffer) buf;
           if offset + length' > str_length so then do {
             buf \<leftarrow> buffer_write (unat (offset + length')) [CHR 0x00] buf;
             s \<leftarrow> put_string a (so\<lparr>str_buffer := buf, str_length := offset + length'\<rparr>) s;
             Some (API_E_SUCCESS, s)
           } else do {
             s \<leftarrow> put_string a (so\<lparr>str_buffer := buf\<rparr>) s;
             Some (API_E_SUCCESS, s)
           }
         }
       }
     }
   }"

text \<open>
  The result of \<open>string_get_chunk\<close> with the bytes of the response, where they are set. The
  response was zeroed before the call.
\<close>

definition string_get_chunk :: "addr \<Rightarrow> u32 \<Rightarrow> apid \<Rightarrow> (apie \<times> char list) option" where
  "string_get_chunk a offset s = do {
     so \<leftarrow> the_string s a;
     let zeros = (\<lambda>n. replicate n (CHR 0x00));
     if offset > INT32_MAX then
       Some (API_E_OUT_OF_RANGE, zeros STRING_MAX_GET_CHUNK_BUFFER_LENGTH)
     else if offset > str_length so then
       Some (API_E_OUT_OF_RANGE, zeros STRING_MAX_GET_CHUNK_BUFFER_LENGTH)
     else do {
       let length' = str_length so - offset;
       if length' = 0 then Some (API_E_SUCCESS, zeros STRING_MAX_GET_CHUNK_BUFFER_LENGTH)
       else do {
         let length' = (if length' > of_nat STRING_MAX_GET_CHUNK_BUFFER_LENGTH
                        then of_nat STRING_MAX_GET_CHUNK_BUFFER_LENGTH else length');
         cs \<leftarrow> buffer_read (unat offset) (unat length') (str_buffer so);
         Some (API_E_SUCCESS, cs @ zeros (STRING_MAX_GET_CHUNK_BUFFER_LENGTH - unat length'))
       }
     }
   }"

definition string_acquire_and_lock :: "addr \<Rightarrow> apid \<Rightarrow> apid option" where
  "string_acquire_and_lock a s = do {
     s \<leftarrow> object_add_internal_reference a s;
     object_lock a s
   }"

definition string_unlock_and_release :: "addr \<Rightarrow> apid \<Rightarrow> apid option" where
  "string_unlock_and_release a s = do {
     s \<leftarrow> object_unlock a s;
     object_remove_internal_reference a s
   }"

end
