(* ===== verification/New_Object.thy ===== *)
theory New_Object
  imports Create
begin

text \<open>
  The way every object type makes its objects: allocate the struct, fill in its own members,
  call \<open>object_create\<close> for the base, and free the struct when that fails. The references the
  new object will hold belong to its creator before; they move into the object when it is
  created and stay with the creator when it is not.
\<close>

lemma constructing_new:
  assumes "inv (add_refs R (holds p)) (add_locks L (holds p)) {} s" "objs s a = None" "a < next_addr s"
    and "payload_wf s p" "\<forall>b. L b \<le> R b"
  shows "constructing R L a (zero_object p) (put_obj a (zero_object p) s)"
proof -
  let ?s = "put_obj a (zero_object p) s" and ?R = "add_refs R (holds p)" and ?L = "add_locks L (holds p)"
  have c: "counts_ok ?R ?L {} s" and i: "inventory_ok {} s" and r: "references_ok s"
    using assms(1) by (simp_all add: inv_def)
  have z: "obj_type (zero_object p) = payload_type p" "external_references (zero_object p) = []"
    "external_reference_count (zero_object p) = 0" "payload (zero_object p) = p"
    by (simp_all add: zero_object_def)
  have objs: "objs ?s b = (if b = a then Some (zero_object p) else objs s b)" for b
    by (simp add: put_obj_def)
  have fields: "refs ?s = refs s" "sess ?s = sess s" "objects ?s = objects s" "sessions ?s = sessions s"
    "next_addr ?s = next_addr s"
    by (simp_all add: put_obj_def)
  have types: "is_type s t b \<Longrightarrow> is_type ?s t b" for t b
    using assms(2) by (auto simp: is_type_def objs)
  then have wf: "payload_wf s q \<Longrightarrow> payload_wf ?s q" for q by (cases q) auto
  have not_in: "a \<notin> set (objects s t)" for t
    using i assms(2) unfolding inventory_ok_def is_type_def by fastforce
  have "holds_of (objs ?s) {a} = holds_of (objs s) {}"
    using assms(2) by (auto simp: holds_of_def fun_eq_iff objs split: option.splits)
  then have held: "held ?s {a} = held s {}" "held_locks ?s {a} = held_locks s {}"
    by (auto intro: held_same simp: fields)
  have "heap_bounded ?s"
    using assms(1,3) by (auto simp: inv_def heap_bounded_def objs fields)
  moreover have "inventory_ok {a} ?s"
  proof -
    have live: "\<And>x o'. objs s x = Some o' \<Longrightarrow> x \<in> set (objects s (obj_type o')) \<and> object_wf s o'"
      and ids: "\<And>x y ox oy. objs s x = Some ox \<Longrightarrow> objs s y = Some oy \<Longrightarrow> obj_id ox = obj_id oy \<Longrightarrow> x = y"
      and arr: "\<And>t x. x \<in> set (objects s t) \<Longrightarrow> is_type s t x" "\<And>t. distinct (objects s t)"
      using i unfolding inventory_ok_def by blast+
    have "object_wf s o' \<Longrightarrow> object_wf ?s o'" for o' using wf by (simp add: object_wf_def)
    then show ?thesis
      unfolding inventory_ok_def fields using live ids arr types
      by (auto simp: objs)
  qed
  moreover have "references_ok ?s"
  proof -
    have rt: "refs_total ?s = refs_total s" "session_of ?s = session_of s"
      by (auto simp: refs_total_def session_of_def fields fun_eq_iff)
    have "(\<exists>ob. objs ?s y = Some ob \<and> q \<in> set (external_references ob)) \<longleftrightarrow>
        (\<exists>ob. objs s y = Some ob \<and> q \<in> set (external_references ob))" for y q
      using assms(2) z by (auto simp: objs)
    then show ?thesis
      using r z unfolding references_ok_def rt fields
      by (auto simp: objs refs_total_def)
  qed
  moreover have "sessions_ok ?s" using assms(1) by (simp add: inv_def sessions_ok_def fields)
  moreover have "counts_ok ?R ?L {a} ?s"
    using c assms(2) unfolding counts_ok_def held by (auto simp: objs)
  ultimately have "inv ?R ?L {a} ?s" by (simp add: inv_def)
  then show ?thesis
    using assms(4,5) z not_in wf by (simp add: constructing_def objs fields)
qed

lemma constructing_free:
  assumes "constructing R L a ob s" "external_references ob = []"
  shows "inv (add_refs R (holds (payload ob))) (add_locks L (holds (payload ob))) {} (free_obj a s)"
proof -
  have i: "inv (add_refs R (holds (payload ob))) (add_locks L (holds (payload ob))) {a} s"
    and ob: "objs s a = Some ob" and arr: "\<And>t. a \<notin> set (objects s t)"
    using assms(1) by (simp_all add: constructing_def)
  have "put_objects (obj_type ob) (remove1 a (objects s (obj_type ob))) (free_obj a s) = free_obj a s"
    using arr by (simp add: put_objects_def free_obj_def remove1_idem)
  then show ?thesis
    using inv_free [of _ _ a "{}" s ob "obj_type ob", OF i ob _ assms(2)] arr by simp
qed

definition create_or_free ::
    "addr \<Rightarrow> payload \<Rightarrow> addr option \<Rightarrow> u32 \<Rightarrow> apid \<Rightarrow> ((apie + addr) \<times> apid) option" where
  "create_or_free a p session f s = do {
     let s = put_obj a (zero_object p) s;
     (error_code, s) \<leftarrow> object_create a (payload_type p) session f s;
     if error_code \<noteq> API_E_SUCCESS then do {
       s \<leftarrow> heap_free a s;
       Some (Inl error_code, s)
     } else Some (Inr a, s)
   }"

lemma refs_linked_put_obj [simp]: "refs_linked (put_obj a ob s) = refs_linked s"
  "refs_linked (free_obj a s) = refs_linked s"
  by (simp_all add: refs_linked_def put_obj_def free_obj_def)

definition created :: "(addr \<Rightarrow> nat) \<Rightarrow> (addr \<Rightarrow> nat) \<Rightarrow> addr \<Rightarrow> payload \<Rightarrow> addr option \<Rightarrow> u32 \<Rightarrow> apid \<Rightarrow> apid \<Rightarrow> bool" where
  "created R L a p session f s s' \<longleftrightarrow>
     create_frame a s s' \<and> (refs_linked s \<longrightarrow> refs_linked s') \<and> objs s a = None \<and>
     inv (R(a := created_refs f)) (L(a := created_locks f)) {} s' \<and>
     (\<exists>ob. objs s' a = Some ob \<and> payload ob = p) \<and>
     (\<forall>b sb. ext_count s' b sb = ext_count s b sb + (if b = a then created_externals f session sb else 0))"

lemma created_frames [simp]:
  "created R L b p session f (s\<lparr>answers := x\<rparr>) s' = created R L b p session f s s'"
  "created R L b p session f (s\<lparr>next_addr := n\<rparr>) s' = created R L b p session f s s'"
  by (simp_all add: created_def create_frame_def)

lemma create_or_free_spec:
  assumes "inv (add_refs R (holds p)) (add_locks L (holds p)) {} s" "objs s a = None" "a < next_addr s"
    and "payload_wf s p" "\<forall>b. L b \<le> R b" "\<forall>sa. session = Some sa \<longrightarrow> sess s sa \<noteq> None"
  shows "yields (create_or_free a p session f s) (\<lambda>(r, s'). (case r of
       Inr b \<Rightarrow> b = a \<and> created R L a p session f s s'
     | Inl e \<Rightarrow> e \<noteq> API_E_SUCCESS \<and> create_frame a s s' \<and> (refs_linked s \<longrightarrow> refs_linked s') \<and> objs s' a = None \<and>
         (f AND OBJECT_CREATE_FLAG_EXTERNAL = 0 \<longrightarrow>
            inv (add_refs R (holds p)) (add_locks L (holds p)) {} s')))"
proof -
  let ?s = "put_obj a (zero_object p) s"
  have live: "\<forall>sa. session = Some sa \<longrightarrow> sess ?s sa \<noteq> None"
    using assms(6) by (simp add: put_obj_def)
  have ext: "ext_count ?s b sb = ext_count s b sb" for b sb
    using assms(2) ext_count_objs [of ?s s b sb]
    by (cases "b = a") (simp_all add: put_obj_def ext_count_def zero_object_def refs_total_def)
  have frame: "create_frame a s s' = create_frame a ?s s'" for s'
    by (simp add: create_frame_def put_obj_def)
  obtain e s' ob where run: "object_create a (payload_type p) session f ?s = Some (e, s')"
    and fr: "create_frame a ?s s'" "refs_linked ?s \<longrightarrow> refs_linked s'" "objs s' a = Some ob" "payload ob = p"
    and res: "if e = API_E_SUCCESS
         then inv (R(a := created_refs f)) (L(a := created_locks f)) {} s' \<and>
              (\<forall>b sb. ext_count s' b sb = ext_count ?s b sb + (if b = a then created_externals f session sb else 0))
         else constructing R L a ob s' \<and> (f AND OBJECT_CREATE_FLAG_EXTERNAL = 0 \<longrightarrow> external_references ob = [])"
    using object_create_spec [OF constructing_new [OF assms(1-5)] live, of f]
    by (elim yieldsE) (simp split: prod.splits, blast)
  show ?thesis
  proof (cases "e = API_E_SUCCESS")
    case True
    then have "created R L a p session f s s'"
      using fr res assms(2) by (simp add: created_def ext frame)
    then show ?thesis using run True by (simp add: create_or_free_def)
  next
    case False
    have "create_frame a ?s (free_obj a s')" using fr(1) by (simp add: create_frame_def free_obj_def)
    moreover have "inv (add_refs R (holds p)) (add_locks L (holds p)) {} (free_obj a s')"
      if "f AND OBJECT_CREATE_FLAG_EXTERNAL = 0"
      using constructing_free [of R L a ob s'] that False res fr(4) by simp
    moreover have "objs (free_obj a s') a = None" by (simp add: free_obj_def)
    ultimately show ?thesis
      using run False fr by (simp add: create_or_free_def heap_free_def frame)
  qed
qed

lemma create_or_free_payload:
  assumes "payload_type q = payload_type p"
  shows "create_or_free a q session f s = do {
     (r, s) \<leftarrow> create_or_free a p session f s;
     Some (r, case r of Inl e \<Rightarrow> s | Inr b \<Rightarrow> set_payload a q s)
   }"
proof -
  let ?s = "put_obj a (zero_object p) s"
  have z: "put_obj a (zero_object q) s = set_payload a q ?s"
    using assms by (simp add: put_obj_def set_payload_def zero_object_def)
  have run: "object_create a (payload_type q) session f (put_obj a (zero_object q) s) =
      map_option (apsnd (set_payload a q)) (object_create a (payload_type p) session f ?s)"
    unfolding z assms by (rule object_create_set_payload) (simp add: put_obj_def)
  have free: "heap_free a (set_payload a q t) = heap_free a t" for t
    by (cases "objs t a") (simp_all add: heap_free_def free_obj_def set_payload_def)
  have keep: "do { (e, t) \<leftarrow> map_option (apsnd (set_payload a q)) m;
       if e \<noteq> API_E_SUCCESS then do { t \<leftarrow> heap_free a t; Some (Inl e, t) } else Some (Inr a, t) } =
     do { (r, t) \<leftarrow> do { (e, t) \<leftarrow> m;
            if e \<noteq> API_E_SUCCESS then do { t \<leftarrow> heap_free a t; Some (Inl e, t) } else Some (Inr a, t) };
          Some (r, case r of Inl e \<Rightarrow> t | Inr b \<Rightarrow> set_payload a q t) }" for m
  proof (cases m)
    case (Some x)
    obtain e t where x: "x = (e, t)" by (cases x)
    show ?thesis by (cases "heap_free a t") (simp_all add: Some x free)
  qed simp
  show ?thesis
    unfolding create_or_free_def Let_def run by (rule keep)
qed

text \<open>Filling in the payload after the creation gives what creating with it would have given.\<close>

lemma create_or_free_fill:
  assumes "create_or_free a p session f s = Some (r, t)" "payload_type q = payload_type p"
    and "\<And>b. r = Inr b \<Longrightarrow> \<exists>ob. objs t a = Some ob \<and> payload ob = p"
  shows "create_or_free a q session f s = Some (r, case r of Inl e \<Rightarrow> t | Inr b \<Rightarrow> set_payload a q t)"
    and "\<And>b. r = Inr b \<Longrightarrow> set_payload a p (set_payload a q t) = t"
proof -
  show "create_or_free a q session f s = Some (r, case r of Inl e \<Rightarrow> t | Inr b \<Rightarrow> set_payload a q t)"
    using create_or_free_payload [OF assms(2), of a session f s] assms(1) by simp
  fix b assume "r = Inr b"
  from assms(3) [OF this] obtain ob where "objs t a = Some ob" "payload ob = p" by blast
  then show "set_payload a p (set_payload a q t) = t"
    by (cases t) (simp add: set_payload_def fun_upd_idem)
qed

lemma set_payload_twice [simp]: "set_payload a p (set_payload a q s) = set_payload a p s"
  by (cases "objs s a"; cases s) (simp_all add: set_payload_def)

end
