(* ===== verification/String_Facts.thy ===== *)
theory String_Facts
  imports String_Object New_Object
begin

text \<open>
  String objects as lists of characters. \<open>string_value\<close> abstracts a string struct to the list
  of its characters; the operations of \<open>String_Object\<close> are shown to implement the obvious
  operations on lists, as long as they stay inside the buffer. One call does not: writing a
  chunk that ends exactly at the end of the buffer puts the terminator one byte behind it.
\<close>

section \<open>Buffers\<close>

lemma buffer_write_ok:
  assumes "off + length cs \<le> length buf"
  obtains buf' where "buffer_write off cs buf = Some buf'" "length buf' = length buf"
    and "\<And>i. i < length buf \<Longrightarrow>
           buf' ! i = (if off \<le> i \<and> i < off + length cs then Some (cs ! (i - off)) else buf ! i)"
proof
  show "buffer_write off cs buf = Some (take off buf @ map Some cs @ drop (off + length cs) buf)"
    using assms by (simp add: buffer_write_def)
  show "(take off buf @ map Some cs @ drop (off + length cs) buf) ! i =
      (if off \<le> i \<and> i < off + length cs then Some (cs ! (i - off)) else buf ! i)" if "i < length buf" for i
    using assms that by (auto simp: nth_append min_def)
qed (use assms in simp)

lemma buffer_write_outside: "length buf < off + length cs \<Longrightarrow> buffer_write off cs buf = None"
  by (simp add: buffer_write_def)

lemma buffer_write_whole: "buffer_write 0 cs (replicate n x) =
    (if length cs \<le> n then Some (map Some cs @ replicate (n - length cs) x) else None)"
  by (simp add: buffer_write_def)

lemma all_written_map: "all_written (map Some cs) = Some cs"
  by (induction cs) simp_all

lemma buffer_read_ok:
  assumes "off + n \<le> length buf" and "\<And>i. i < n \<Longrightarrow> buf ! (off + i) = Some (cs ! i)" and "length cs = n"
  shows "buffer_read off n buf = Some cs"
proof -
  have "take n (drop off buf) = map Some cs"
    using assms by (intro nth_equalityI) auto
  then show ?thesis using assms(1) by (simp add: buffer_read_def all_written_map)
qed

lemma strnlen_le: "strnlen cs n \<le> n" "strnlen cs n \<le> length cs"
  using length_takeWhile_le [of "\<lambda>c. c \<noteq> CHR 0x00" "take n cs"] by (simp_all add: strnlen_def)

lemma take_strnlen: "take (strnlen cs n) cs = takeWhile (\<lambda>c. c \<noteq> CHR 0x00) (take n cs)"
proof -
  have "takeWhile (\<lambda>c. c \<noteq> CHR 0x00) (take n cs) = take (strnlen cs n) (take n cs)"
    by (subst takeWhile_eq_take) (simp only: strnlen_def)
  also have "\<dots> = take (strnlen cs n) cs"
    using strnlen_le(1) [of cs n] by (simp only: take_take min_absorb1)
  finally show ?thesis ..
qed

lemma strnlen_no_null: "c \<in> set (take (strnlen cs n) cs) \<Longrightarrow> c \<noteq> CHR 0x00"
  unfolding take_strnlen by (auto dest: set_takeWhileD)

lemma strnlen_of_c_string:
  assumes "\<forall>c\<in>set cs. c \<noteq> CHR 0x00" "length cs \<le> n"
  shows "strnlen cs n = length cs"
proof -
  have "takeWhile (\<lambda>c. c \<noteq> CHR 0x00) cs = cs"
    using assms(1) by (intro takeWhile_eq_all_conv [THEN iffD2])
  then show ?thesis using assms(2) by (simp only: strnlen_def take_all)
qed

section \<open>Well-formed strings\<close>

lemma string_value_nth:
  "string_wf so \<Longrightarrow> i < unat (str_length so) \<Longrightarrow> str_buffer so ! i = Some (string_value so ! i)"
  by (fastforce simp: string_wf_def string_value_def)

lemma length_string_value: "string_wf so \<Longrightarrow> length (string_value so) = unat (str_length so)"
  by (simp add: string_wf_def string_value_def)

lemma string_value_no_null:
  assumes "string_wf so" "c \<in> set (string_value so)"
  shows "c \<noteq> CHR 0x00"
proof -
  obtain i where i: "i < unat (str_length so)" "c = string_value so ! i"
    using assms length_string_value [of so] by (metis in_set_conv_nth)
  moreover from this(1) assms(1) obtain d where "str_buffer so ! i = Some d" "d \<noteq> CHR 0x00"
    unfolding string_wf_def by blast
  ultimately show ?thesis using string_value_nth [OF assms(1)] by simp
qed

lemma string_wfI:
  assumes "unat (str_allocated so) = length (str_buffer so)" "length v < length (str_buffer so)"
    and "unat (str_length so) = length v" "length v < 2 ^ 31" "\<And>c. c \<in> set v \<Longrightarrow> c \<noteq> CHR 0x00"
    and "\<And>i. i < length v \<Longrightarrow> str_buffer so ! i = Some (v ! i)"
    and "str_buffer so ! length v = Some (CHR 0x00)"
  shows "string_wf so" and "string_value so = v"
proof -
  have "str_length so \<le> INT32_MAX"
    using assms(3,4) by (simp add: word_le_nat_alt INT32_MAX_def)
  then show "string_wf so" using assms by (simp add: string_wf_def)
  show "string_value so = v"
    using assms(2,3,6) by (intro nth_equalityI) (simp_all add: string_value_def)
qed

text \<open>The part of daemonlib the strings need: growing an allocation does not shrink it.\<close>

definition lib_ok :: "daemonlib \<Rightarrow> bool" where
  "lib_ok l \<longleftrightarrow> (\<forall>n. n \<le> INT32_MAX + 1 \<longrightarrow> n \<le> grow_allocation l n)"

text \<open>\<open>string_is s a v\<close>: the object at \<open>a\<close> is a string with the characters \<open>v\<close>.\<close>

definition string_is :: "apid \<Rightarrow> addr \<Rightarrow> char list \<Rightarrow> bool" where
  "string_is s a v \<longleftrightarrow> (\<exists>so. the_string s a = Some so \<and> string_wf so \<and> string_value so = v)"

text \<open>
  \<open>string_changed a s s'\<close>: the only difference between the two states is the payload of the
  string at \<open>a\<close> (and the calls that were answered).
\<close>

definition string_changed :: "addr \<Rightarrow> apid \<Rightarrow> apid \<Rightarrow> bool" where
  "string_changed a s s' \<longleftrightarrow> (\<exists>ob so. objs s a = Some ob \<and>
     s' = (put_obj a (ob\<lparr>payload := P_String so\<rparr>) s)\<lparr>answers := answers s'\<rparr>)"

lemma the_string_put:
  "the_string (put_obj a ob s) b =
     (if b = a then (case payload ob of P_String so \<Rightarrow> Some so | _ \<Rightarrow> None) else the_string s b)"
  by (simp add: the_string_def put_obj_def)

lemma the_string_answers [simp]: "the_string (s\<lparr>answers := x\<rparr>) = the_string s"
  by (simp add: the_string_def fun_eq_iff)

lemma the_stringE:
  assumes "the_string s a = Some so"
  obtains ob where "objs s a = Some ob" "payload ob = P_String so"
  using assms by (auto simp: the_string_def split: Option.bind_splits payload.splits)

lemma inv_string:
  assumes "inv R L D s" "the_string s a = Some so" "a \<notin> D"
  shows "string_wf so"
proof -
  obtain ob where "objs s a = Some ob" "payload ob = P_String so"
    using assms(2) by (rule the_stringE)
  then show ?thesis using inv_arrays(2) [OF assms(1) _ assms(3)] by (auto simp: object_wf_def)
qed

lemma inv_put_string:
  assumes "inv R L D s" "objs s a = Some ob" "payload ob = P_String so" "a \<notin> D" "string_wf so'"
  shows "inv R L D (put_obj a (ob\<lparr>payload := P_String so'\<rparr>) s)"
  by (rule inv_put_payload [OF assms(1,2,4)])
    (use assms(1,3,5) in \<open>simp_all add: inv_def counts_ok_def\<close>)

lemma string_changed_put:
  "objs s a = Some ob \<Longrightarrow> string_changed a s (put_obj a (ob\<lparr>payload := P_String so\<rparr>) s)"
  unfolding string_changed_def by (cases s) (fastforce simp: put_obj_def)

text \<open>Reading and truncating.\<close>

lemma string_get_length_spec:
  assumes "string_is s a v"
  shows "yields (string_get_length a s) (\<lambda>(e, n). e = API_E_SUCCESS \<and> unat n = length v)"
  using assms by (auto simp: string_is_def string_get_length_def length_string_value)

lemma string_get_chunk_spec:
  assumes "string_is s a v"
  shows "string_get_chunk a offset s = Some
     (if unat offset \<le> length v
      then (API_E_SUCCESS, take 63 (drop (unat offset) v) @
              replicate (63 - length (take 63 (drop (unat offset) v))) (CHR 0x00))
      else (API_E_OUT_OF_RANGE, replicate 63 (CHR 0x00)))"
proof -
  obtain so where so: "the_string s a = Some so" "string_wf so" "string_value so = v"
    using assms by (auto simp: string_is_def)
  have len: "unat (str_length so) = length v" using length_string_value [OF so(2)] so(3) by simp
  have le: "str_length so \<le> INT32_MAX" using so(2) by (simp add: string_wf_def)
  show ?thesis
  proof (cases "unat offset \<le> length v")
    case False
    then show ?thesis
      using so(1) len by (simp add: string_get_chunk_def word_less_nat_alt STRING_MAX_GET_CHUNK_BUFFER_LENGTH_def)
  next
    case True
    then have off: "\<not> INT32_MAX < offset" "\<not> str_length so < offset"
      using le len by (auto simp: word_le_nat_alt word_less_nat_alt)
    have rest: "unat (str_length so - offset) = length v - unat offset"
      using True len by (simp add: unat_sub word_le_nat_alt)
    define n where "n = (if str_length so - offset > of_nat 63 then of_nat 63 else str_length so - offset)"
    have n: "unat n = min 63 (length v - unat offset)"
      using rest by (auto simp: n_def word_less_nat_alt)
    have "buffer_read (unat offset) (unat n) (str_buffer so) = Some (take 63 (drop (unat offset) v))"
    proof (rule buffer_read_ok)
      show "unat offset + unat n \<le> length (str_buffer so)"
        using so(2) len n True unfolding string_wf_def by linarith
      show "str_buffer so ! (unat offset + i) = Some (take 63 (drop (unat offset) v) ! i)" if "i < unat n" for i
      proof -
        have "unat offset + i < length v" using that n by (simp add: less_diff_conv add.commute)
        then show ?thesis
          using that n string_value_nth [OF so(2), of "unat offset + i"] so(3) len by simp
      qed
      show "length (take 63 (drop (unat offset) v)) = unat n" using n by simp
    qed
    moreover have "63 < str_length so - offset \<longleftrightarrow> 63 < length v - unat offset"
      using rest by (simp add: word_less_nat_alt)
    moreover have "str_length so = offset \<longleftrightarrow> length v - unat offset = 0"
      using rest True len by (metis diff_is_0_eq diff_self_eq_0 le_antisym word_unat_eq_iff order_refl)
    ultimately show ?thesis
      using True off so(1) rest n
      by (cases "63 < length v - unat offset")
        (simp_all add: string_get_chunk_def STRING_MAX_GET_CHUNK_BUFFER_LENGTH_def Let_def min_def)
  qed
qed

lemma string_truncate_spec:
  assumes "inv R L D s" "objs s a = Some ob" "payload ob = P_String so" "a \<notin> D"
  shows "yields (string_truncate a n s) (\<lambda>(e, s'). inv R L D s' \<and>
     (if lock_count ob > 0 then e = API_E_OBJECT_IS_LOCKED \<and> s' = s
      else e = API_E_SUCCESS \<and> (s' = s \<or> string_changed a s s') \<and>
           string_is s' a (take (unat n) (string_value so))))"
proof (cases "lock_count ob > 0 \<or> \<not> n < str_length so")
  case True
  have so: "the_string s a = Some so" using assms(2,3) by (simp add: the_string_def)
  have wf: "string_wf so" by (rule inv_string [OF assms(1) so assms(4)])
  have "string_is s a (take (unat n) (string_value so))" if "\<not> n < str_length so"
    using that so wf length_string_value [OF wf] by (auto simp: string_is_def word_less_nat_alt)
  then show ?thesis using True assms(1,2) so by (auto simp: string_truncate_def)
next
  case False
  have so: "the_string s a = Some so" using assms(2,3) by (simp add: the_string_def)
  have wf: "string_wf so" by (rule inv_string [OF assms(1) so assms(4)])
  note wf' = wf [unfolded string_wf_def]
  have lt: "unat n < unat (str_length so)" using False by (simp add: word_less_nat_alt)
  obtain buf where buf: "buffer_write (unat n) [CHR 0x00] (str_buffer so) = Some buf"
    "length buf = length (str_buffer so)"
    "\<And>i. i < length (str_buffer so) \<Longrightarrow> buf ! i = (if unat n \<le> i \<and> i < unat n + length [CHR 0x00]
        then Some ([CHR 0x00] ! (i - unat n)) else str_buffer so ! i)"
    by (rule buffer_write_ok [of "unat n" "[CHR 0x00]" "str_buffer so"]) (use lt wf' in auto)
  let ?so = "so\<lparr>str_length := n, str_buffer := buf\<rparr>"
  let ?s = "put_obj a (ob\<lparr>payload := P_String ?so\<rparr>) s"
  have len: "length (take (unat n) (string_value so)) = unat n"
    using lt length_string_value [OF wf] by simp
  have "str_length so \<le> INT32_MAX" using wf' by simp
  then have small: "unat n < 2 ^ 31" using lt by (simp add: word_le_nat_alt INT32_MAX_def)
  have v: "string_wf ?so" "string_value ?so = take (unat n) (string_value so)"
    by (rule string_wfI [where v = "take (unat n) (string_value so)"];
        use lt wf' buf len small string_value_no_null [OF wf] string_value_nth [OF wf] in
          \<open>auto dest: in_set_takeD\<close>)+
  have run: "string_truncate a n s = Some (API_E_SUCCESS, ?s)"
    using False assms(2) so buf(1) by (simp add: string_truncate_def put_string_def)
  have "inv R L D ?s" by (rule inv_put_string [OF assms v(1)])
  moreover have "string_is ?s a (take (unat n) (string_value so))"
    using v by (simp add: string_is_def the_string_put)
  ultimately show ?thesis
    using False string_changed_put [OF assms(2)] by (simp add: run)
qed

section \<open>Writing a chunk\<close>

text \<open>
  Writing the characters \<open>cs\<close> at an offset of a list: a gap is filled with spaces, what is
  behind the end of the chunk stays.
\<close>

definition splice :: "nat \<Rightarrow> char list \<Rightarrow> char list \<Rightarrow> char list" where
  "splice off cs v = take off v @ replicate (off - length v) CHR '' '' @ cs @ drop (off + length cs) v"

lemma length_splice [simp]: "length (splice off cs v) = max (off + length cs) (length v)"
  by (auto simp: splice_def min_def max_def)

lemma nth_splice: "i < length (splice off cs v) \<Longrightarrow>
    splice off cs v ! i = (if off \<le> i \<and> i < off + length cs then cs ! (i - off)
       else if i < length v then v ! i else CHR '' '')"
  by (auto simp: splice_def nth_append min_def)

lemma set_splice: "c \<in> set (splice off cs v) \<Longrightarrow> c \<in> set v \<or> c \<in> set cs \<or> c = CHR '' ''"
  by (auto simp: splice_def dest: in_set_takeD in_set_dropD split: if_splits)

text \<open>Reading back what was written.\<close>

lemma take_drop_splice: "take (length cs) (drop off (splice off cs v)) = cs"
  by (simp add: splice_def)

lemma string_wf_grow:
  assumes "string_wf so" "unat (str_allocated so) \<le> unat n"
  shows "string_wf (so\<lparr>str_buffer := buffer_realloc (unat n) (str_buffer so), str_allocated := n\<rparr>)"
    and "string_value (so\<lparr>str_buffer := buffer_realloc (unat n) (str_buffer so), str_allocated := n\<rparr>) = string_value so"
proof -
  note wf = assms(1) [unfolded string_wf_def]
  have small: "unat (str_length so) < 2 ^ 31"
    using wf by (simp add: word_le_nat_alt INT32_MAX_def)
  have buf: "buffer_realloc (unat n) (str_buffer so) = str_buffer so @ replicate (unat n - length (str_buffer so)) None"
    using assms wf by (simp add: buffer_realloc_def)
  note len = length_string_value [OF assms(1)]
  show "string_wf (so\<lparr>str_buffer := buffer_realloc (unat n) (str_buffer so), str_allocated := n\<rparr>)"
    and "string_value (so\<lparr>str_buffer := buffer_realloc (unat n) (str_buffer so), str_allocated := n\<rparr>) = string_value so"
    by (rule string_wfI [where v = "string_value so"];
        use assms(2) wf len small string_value_no_null [OF assms(1)] string_value_nth [OF assms(1)] in
          \<open>simp add: buf nth_append\<close>)+
qed

lemma string_reserve_spec:
  assumes "inv R L D s" "objs s a = Some ob" "payload ob = P_String so" "a \<notin> D" "lib_ok (lib s)"
    and "n \<le> INT32_MAX"
  shows "yields (string_reserve a n s) (\<lambda>(e, s'). inv R L D s' \<and> (s' = s \<or> string_changed a s s' \<or> s' = s\<lparr>answers := answers s'\<rparr>) \<and>
     (e = API_E_SUCCESS \<or> e = API_E_NO_FREE_MEMORY) \<and>
     (\<exists>so'. objs s' a = Some (ob\<lparr>payload := P_String so'\<rparr>) \<and> string_wf so' \<and> str_length so' = str_length so \<and>
        string_value so' = string_value so \<and> (e = API_E_SUCCESS \<longrightarrow> unat n < unat (str_allocated so'))))"
proof -
  have so: "the_string s a = Some so" using assms(2,3) by (simp add: the_string_def)
  have wf: "string_wf so" by (rule inv_string [OF assms(1) so assms(4)])
  have n1: "unat (n + 1) = unat n + 1"
    using assms(6) by (simp add: INT32_MAX_def word_le_nat_alt unat_plus_if')
  have ob: "ob\<lparr>payload := P_String so\<rparr> = ob" using assms(3) by simp
  show ?thesis
  proof (cases "n + 1 \<le> str_allocated so")
    case True
    moreover from True have "unat n < unat (str_allocated so)" using n1 by (simp add: word_le_nat_alt)
    ultimately show ?thesis
      using assms(1,2,3,6) so wf ob
      by (auto simp: string_reserve_def intro!: exI [of _ so])
  next
    case False
    define m where "m = grow_allocation (lib s) (n + 1)"
    have "n + 1 \<le> INT32_MAX + 1" using assms(6) n1 by (simp add: word_le_nat_alt INT32_MAX_def)
    then have "n + 1 \<le> m" using assms(5) unfolding lib_ok_def m_def by blast
    then have m: "unat n < unat m" using n1 by (simp add: word_le_nat_alt)
    have grow: "unat (str_allocated so) \<le> unat m" using False m n1 by (simp add: word_le_nat_alt)
    let ?so = "so\<lparr>str_buffer := buffer_realloc (unat m) (str_buffer so), str_allocated := m\<rparr>"
    note wf' = string_wf_grow [OF wf grow]
    obtain r rs where ask: "ask s = (r, s\<lparr>answers := rs\<rparr>)" by (rule ask_cases)
    show ?thesis
    proof (cases r)
      case (Inl e)
      then have "string_reserve a n s = Some (API_E_NO_FREE_MEMORY, s\<lparr>answers := rs\<rparr>)"
        using so assms(6) False ask by (simp add: string_reserve_def Let_def)
      moreover have "inv R L D (s\<lparr>answers := rs\<rparr>)" using assms(1) by simp
      ultimately show ?thesis using assms(2) ob wf by (auto intro!: exI [of _ so])
    next
      case (Inr i)
      let ?s = "(put_obj a (ob\<lparr>payload := P_String ?so\<rparr>) s)\<lparr>answers := rs\<rparr>"
      have "string_reserve a n s = Some (API_E_SUCCESS, ?s)"
        using so assms(2,6) False ask Inr
        by (simp add: string_reserve_def Let_def m_def put_string_def put_obj_def)
      moreover have "inv R L D ?s"
        using inv_put_string [OF assms(1-4) wf'(1)] by simp
      moreover have "string_changed a s ?s"
        using assms(2) by (auto simp: string_changed_def put_obj_def)
      ultimately show ?thesis using wf' m by (auto simp: put_obj_def intro!: exI [of _ ?so])
    qed
  qed
qed

text \<open>The last part of \<open>string_set_chunk\<close>: the writes, once the buffer is large enough.\<close>

definition write_chunk :: "nat \<Rightarrow> char list \<Rightarrow> string_obj \<Rightarrow> string_obj option" where
  "write_chunk off cs so = do {
     let len = unat (str_length so);
     buf \<leftarrow> (if len < off then buffer_write len (replicate (off - len) CHR '' '') (str_buffer so)
            else Some (str_buffer so));
     buf \<leftarrow> buffer_write off cs buf;
     if off + length cs > len then do {
       buf \<leftarrow> buffer_write (off + length cs) [CHR 0x00] buf;
       Some (so\<lparr>str_buffer := buf, str_length := of_nat (off + length cs)\<rparr>)
     } else Some (so\<lparr>str_buffer := buf\<rparr>)
   }"

lemma write_chunk_spec:
  assumes "string_wf so" "off + length cs < length (str_buffer so)" "off + length cs < 2 ^ 31"
    and "\<And>c. c \<in> set cs \<Longrightarrow> c \<noteq> CHR 0x00"
  shows "yields (write_chunk off cs so) (\<lambda>so'. string_wf so' \<and> string_value so' = splice off cs (string_value so))"
proof -
  let ?len = "unat (str_length so)" and ?B = "str_buffer so" and ?v = "string_value so"
  note wf = assms(1) [unfolded string_wf_def]
  note len = length_string_value [OF assms(1)]
  obtain b1 where b1: "(if ?len < off then buffer_write ?len (replicate (off - ?len) CHR '' '') ?B else Some ?B) = Some b1"
    and l1: "length b1 = length ?B"
    and n1: "\<And>i. i < length ?B \<Longrightarrow> b1 ! i = (if ?len \<le> i \<and> i < off then Some CHR '' '' else ?B ! i)"
  proof (cases "?len < off")
    case True
    then have "?len + length (replicate (off - ?len) CHR '' '') \<le> length ?B" using assms(2) by simp
    then obtain b where "buffer_write ?len (replicate (off - ?len) CHR '' '') ?B = Some b" "length b = length ?B"
      and "\<And>i. i < length ?B \<Longrightarrow> b ! i = (if ?len \<le> i \<and> i < ?len + length (replicate (off - ?len) CHR '' '')
             then Some (replicate (off - ?len) CHR '' '' ! (i - ?len)) else ?B ! i)"
      by (rule buffer_write_ok) blast
    then show ?thesis using True by (intro that [of b]) auto
  next
    case False
    then show ?thesis by (intro that [of ?B]) auto
  qed
  obtain b2 where b2: "buffer_write off cs b1 = Some b2" "length b2 = length ?B"
    and n2: "\<And>i. i < length ?B \<Longrightarrow> b2 ! i = (if off \<le> i \<and> i < off + length cs then Some (cs ! (i - off))
       else if ?len \<le> i \<and> i < off then Some CHR '' '' else ?B ! i)"
  proof -
    have "off + length cs \<le> length b1" using assms(2) l1 by simp
    then obtain b where "buffer_write off cs b1 = Some b" "length b = length b1"
      and "\<And>i. i < length b1 \<Longrightarrow> b ! i = (if off \<le> i \<and> i < off + length cs then Some (cs ! (i - off)) else b1 ! i)"
      by (rule buffer_write_ok) blast
    then show ?thesis by (intro that [of b]) (use l1 n1 in auto)
  qed
  have value_nth: "i < ?len \<Longrightarrow> ?B ! i = Some (?v ! i)" for i by (rule string_value_nth [OF assms(1)])
  have nth: "b2 ! i = Some (splice off cs ?v ! i)" if "i < length (splice off cs ?v)" for i
    using that n2 [of i] assms(2) wf len value_nth [of i] by (auto simp: nth_splice)
  have no_null: "c \<noteq> CHR 0x00" if "c \<in> set (splice off cs ?v)" for c
    using set_splice [OF that] assms(4) string_value_no_null [OF assms(1)] by auto
  have small: "?len < 2 ^ 31" using wf by (simp add: word_le_nat_alt INT32_MAX_def)
  show ?thesis
  proof (cases "?len < off + length cs")
    case True
    then have "off + length cs + length [CHR 0x00] \<le> length b2" using assms(2) b2(2) by simp
    then obtain b3 where b3: "buffer_write (off + length cs) [CHR 0x00] b2 = Some b3" "length b3 = length b2"
      and n3': "\<And>i. i < length b2 \<Longrightarrow> b3 ! i = (if off + length cs \<le> i \<and> i < off + length cs + length [CHR 0x00]
             then Some ([CHR 0x00] ! (i - (off + length cs))) else b2 ! i)"
      by (rule buffer_write_ok) blast
    have n3: "b3 ! i = (if i = off + length cs then Some (CHR 0x00) else b2 ! i)" if "i < length ?B" for i
      using n3' [of i] that b2(2) by auto
    let ?so = "so\<lparr>str_buffer := b3, str_length := of_nat (off + length cs)\<rparr>"
    have l: "length (splice off cs ?v) = off + length cs" using True len by simp
    have un: "unat (of_nat (off + length cs) :: u32) = off + length cs"
      using assms(3) by (intro unat_of_nat_u32) simp
    have "string_wf ?so \<and> string_value ?so = splice off cs ?v"
      by (intro conjI; rule string_wfI [where v = "splice off cs ?v"];
          use wf b3(2) b2(2) assms(2,3) nth no_null n3 l un in simp)
    then show ?thesis using True b1 b2 b3 by (simp add: write_chunk_def Let_def)
  next
    case False
    let ?so = "so\<lparr>str_buffer := b2\<rparr>"
    have l: "length (splice off cs ?v) = ?len" using False len by simp
    have null: "b2 ! ?len = Some (CHR 0x00)" using n2 [of ?len] wf False by simp
    have "string_wf ?so \<and> string_value ?so = splice off cs ?v"
      by (intro conjI; rule string_wfI [where v = "splice off cs ?v"];
          use wf b2(2) small nth no_null l null in simp)
    then show ?thesis using False b1 b2 by (simp add: write_chunk_def Let_def)
  qed
qed

lemma write_chunk_overflow:
  assumes "string_wf so" "off + length cs = length (str_buffer so)"
  shows "write_chunk off cs so = None"
proof -
  have "unat (str_length so) < off + length cs" using assms by (simp add: string_wf_def)
  then show ?thesis
    using assms(2)
    by (auto simp: write_chunk_def Let_def buffer_write_def split: Option.bind_splits)
qed

lemma set_chunk_write:
  assumes "\<not> INT32_MAX < offset" "\<not> INT32_MAX < offset + len" "unat len = length cs" "length cs \<le> 58"
  shows "do {
       buf \<leftarrow> (if str_length so < offset
              then buffer_write (unat (str_length so))
                     (replicate (unat offset - unat (str_length so)) CHR '' '') (str_buffer so)
              else Some (str_buffer so));
       buf \<leftarrow> buffer_write (unat offset) cs buf;
       if offset + len > str_length so then do {
         buf \<leftarrow> buffer_write (unat (offset + len)) [CHR 0x00] buf;
         s \<leftarrow> put_string a (so\<lparr>str_buffer := buf, str_length := offset + len\<rparr>) s;
         Some (API_E_SUCCESS, s)
       } else do {
         s \<leftarrow> put_string a (so\<lparr>str_buffer := buf\<rparr>) s;
         Some (API_E_SUCCESS, s)
       }
     } = do {
       so \<leftarrow> write_chunk (unat offset) cs so;
       s \<leftarrow> put_string a so s;
       Some (API_E_SUCCESS, s)
     }" (is "?l = ?r")
    and "unat (offset + len) = unat offset + length cs" and "unat offset + length cs < 2 ^ 31"
proof -
  have "unat offset + length cs < 2 ^ 32"
    using assms(1,4) by (simp add: word_less_nat_alt INT32_MAX_def)
  then show un: "unat (offset + len) = unat offset + length cs"
    using assms(3) by (simp add: unat_plus_if')
  then show "unat offset + length cs < 2 ^ 31"
    using assms(2) by (simp add: word_less_nat_alt INT32_MAX_def)
  have "(of_nat (unat offset + length cs) :: u32) = offset + len"
    unfolding un [symmetric] by simp
  then show "?l = ?r"
    unfolding write_chunk_def Let_def word_less_nat_alt un
    by (simp split: Option.bind_splits)
qed

lemma string_set_chunk_spec:
  assumes "inv R L D s" "objs s a = Some ob" "payload ob = P_String so" "a \<notin> D" "lib_ok (lib s)"
    and "n = strnlen buffer 58"
    and "\<not> (0 < n \<and> unat offset + n = unat (str_allocated so))"
  shows "yields (string_set_chunk a offset buffer s) (\<lambda>(e, s'). inv R L D s' \<and>
     (if lock_count ob > 0 then e = API_E_OBJECT_IS_LOCKED \<and> s' = s
      else if unat offset + n \<ge> 2 ^ 31 then e = API_E_OUT_OF_RANGE \<and> s' = s
      else if n = 0 then e = API_E_SUCCESS \<and> s' = s
      else e = API_E_SUCCESS \<and> string_is s' a (splice (unat offset) (take n buffer) (string_value so)) \<or>
           e = API_E_NO_FREE_MEMORY \<and> string_is s' a (string_value so)))"
proof -
  have so: "the_string s a = Some so" using assms(2,3) by (simp add: the_string_def)
  have wf: "string_wf so" by (rule inv_string [OF assms(1) so assms(4)])
  have le: "n \<le> 58" "n \<le> length buffer" using assms(6) strnlen_le [of buffer 58] by simp_all
  define len where "len = (of_nat n :: u32)"
  have ulen: "unat len = n" using le by (simp add: len_def unat_of_nat_u32)
  define cs where "cs = take n buffer"
  have cs: "length cs = n" using le by (simp add: cs_def)
  show ?thesis
  proof (cases "lock_count ob > 0")
    case True
    then show ?thesis using assms(1,2) so by (simp add: string_set_chunk_def)
  next
    case unlocked: False
    show ?thesis
    proof (cases "INT32_MAX < offset \<or> INT32_MAX < offset + len")
      case True
      have "2 ^ 31 \<le> unat offset + n"
      proof (cases "INT32_MAX < offset")
        case False
        then have "unat offset + n < 2 ^ 32" using le by (simp add: word_less_nat_alt INT32_MAX_def)
        then have "unat (offset + len) = unat offset + n" using ulen by (simp add: unat_plus_if')
        then show ?thesis using True False by (simp add: word_less_nat_alt INT32_MAX_def)
      qed (simp add: word_less_nat_alt INT32_MAX_def)
      moreover have "string_set_chunk a offset buffer s = Some (API_E_OUT_OF_RANGE, s)"
        unfolding string_set_chunk_def Let_def STRING_MAX_SET_CHUNK_BUFFER_LENGTH_def assms(6) [symmetric]
          len_def [symmetric] assms(2) so bind.bind_lunit if_not_P [OF unlocked]
        using True by (cases "INT32_MAX < offset") (simp_all only: if_True if_False simp_thms)
      ultimately show ?thesis using assms(1) unlocked by simp
    next
      case False
      then have in_range: "\<not> INT32_MAX < offset" "\<not> INT32_MAX < offset + len" by simp_all
      note w = set_chunk_write [OF in_range, of cs, simplified cs ulen, OF refl le(1)]
      show ?thesis
      proof (cases "n = 0")
        case True
        then have "len = 0" by (simp add: len_def)
        then have "string_set_chunk a offset buffer s = Some (API_E_SUCCESS, s)"
          unfolding string_set_chunk_def Let_def STRING_MAX_SET_CHUNK_BUFFER_LENGTH_def assms(6) [symmetric]
            len_def [symmetric] assms(2) so bind.bind_lunit if_not_P [OF unlocked] if_not_P [OF in_range(1)]
            if_not_P [OF in_range(2)] by (simp only: if_True simp_thms)
        then show ?thesis using unlocked assms(1) w(3) True by simp
      next
        case pos: False
        then have len0: "len \<noteq> 0" using ulen by auto
        have body: "string_set_chunk a offset buffer s = do {
            (error_code, s) \<leftarrow> (if offset + len > str_allocated so then string_reserve a (offset + len) s
                                else Some (API_E_SUCCESS, s));
            if error_code \<noteq> API_E_SUCCESS then Some (error_code, s)
            else do {
              so \<leftarrow> the_string s a;
              so \<leftarrow> write_chunk (unat offset) cs so;
              s \<leftarrow> put_string a so s;
              Some (API_E_SUCCESS, s) } }"
          unfolding string_set_chunk_def Let_def STRING_MAX_SET_CHUNK_BUFFER_LENGTH_def assms(6) [symmetric]
            len_def [symmetric] assms(2) so bind.bind_lunit if_not_P [OF unlocked] if_not_P [OF in_range(1)]
            if_not_P [OF in_range(2)] if_not_P [OF len0] ulen cs_def [symmetric]
          using w(1) by (simp cong: if_cong)
        have no_null: "\<And>c. c \<in> set cs \<Longrightarrow> c \<noteq> CHR 0x00"
          using strnlen_no_null assms(6) unfolding cs_def by blast
        have writes: "yields (do { so \<leftarrow> the_string t a; so \<leftarrow> write_chunk (unat offset) cs so;
              t \<leftarrow> put_string a so t; Some (API_E_SUCCESS, t) })
            (\<lambda>(e, s'). e = API_E_SUCCESS \<and> inv R L D s' \<and> string_is s' a (splice (unat offset) cs (string_value so)))"
          if t: "inv R L D t" "objs t a = Some ot" "payload ot = P_String st" "string_wf st"
            "string_value st = string_value so" "unat offset + n < unat (str_allocated st)" for t ot st
        proof -
          have "unat offset + length cs < length (str_buffer st)"
            using t(4,6) cs by (simp add: string_wf_def)
          from write_chunk_spec [OF t(4) this _ no_null] obtain st' where
            st': "write_chunk (unat offset) cs st = Some st'" "string_wf st'"
              "string_value st' = splice (unat offset) cs (string_value st)"
            using w(3) cs by (auto elim: yieldsE)
          have "inv R L D (put_obj a (ot\<lparr>payload := P_String st'\<rparr>) t)"
            by (rule inv_put_string [OF t(1-3) assms(4) st'(2)])
          then show ?thesis
            using st' t(2,3,5)
            by (auto simp: the_string_def put_string_def string_is_def put_obj_def)
        qed
        have big: "\<not> 2 ^ 31 \<le> unat offset + n" using w(3) by simp
        show ?thesis
        proof (cases "offset + len > str_allocated so")
          case False
          then have "unat offset + n < unat (str_allocated so)"
            using assms(7) pos w(2) by (simp add: word_less_nat_alt)
          from writes [OF assms(1-3) wf refl this] show ?thesis
            using False unlocked big pos unfolding body cs_def
            by (auto simp: the_string_def elim!: yields_mono)
        next
          case True
          have "offset + len \<le> INT32_MAX" using in_range(2) by simp
          from string_reserve_spec [OF assms(1-5) this] obtain e s' so' where
            r: "string_reserve a (offset + len) s = Some (e, s')" "inv R L D s'"
              "e = API_E_SUCCESS \<or> e = API_E_NO_FREE_MEMORY" "objs s' a = Some (ob\<lparr>payload := P_String so'\<rparr>)"
              "string_wf so'" "string_value so' = string_value so"
              "e = API_E_SUCCESS \<longrightarrow> unat (offset + len) < unat (str_allocated so')"
            by (elim yieldsE) (auto split: prod.splits)
          show ?thesis
          proof (cases "e = API_E_SUCCESS")
            case False
            then show ?thesis
              using r unlocked big pos True unfolding body
              by (simp add: string_is_def the_string_def)
          next
            case ok: True
            then have "unat offset + n < unat (str_allocated so')" using r(7) w(2) by simp
            from writes [OF r(2,4) _ r(5,6) this] show ?thesis
              using ok r(1) True unlocked big pos unfolding body cs_def
              by (auto elim!: yields_mono)
          qed
        qed
      qed
    qed
  qed
qed

section \<open>Making strings\<close>

text \<open>A buffer with the characters \<open>v\<close> and their terminator, the rest of it never written.\<close>

definition string_filled :: "char list \<Rightarrow> u32 \<Rightarrow> string_obj" where
  "string_filled v allocated = \<lparr>str_buffer = map Some v @ Some (CHR 0x00) #
       replicate (unat allocated - length v - 1) None,
     str_length = of_nat (length v), str_allocated = allocated\<rparr>"

lemma string_filled_wf:
  assumes "length v < unat allocated" "length v < 2 ^ 31" "\<And>c. c \<in> set v \<Longrightarrow> c \<noteq> CHR 0x00"
  shows "string_wf (string_filled v allocated)" "string_value (string_filled v allocated) = v"
  by (rule string_wfI [where v = v];
      use assms in \<open>simp add: string_filled_def nth_append unat_of_nat_u32\<close>)+

abbreviation "empty_buffer allocated \<equiv>
  \<lparr>str_buffer = replicate (unat allocated) None, str_length = 0, str_allocated = allocated\<rparr>"

lemma string_fill_spec:
  assumes "objs t a \<noteq> None" "unat n < unat allocated" "unat n \<le> length cs"
  shows "string_fill a cs n (set_payload a (P_String (empty_buffer allocated)) t) =
     Some (set_payload a (P_String (string_filled (take (unat n) cs) allocated)) t)"
proof -
  obtain ob where ob: "objs t a = Some ob" using assms(1) by auto
  have split: "unat allocated = unat n + (1 + (unat allocated - unat n - 1))" using assms(2) by simp
  have "buffer_write (unat n) [CHR 0x00] (map Some (take (unat n) cs) @ replicate (unat allocated - unat n) None) =
      Some (map Some (take (unat n) cs) @ Some (CHR 0x00) # replicate (unat allocated - unat n - 1) None)"
    using assms(2,3) by (simp add: buffer_write_def)
  moreover have "length (take (unat n) cs) = unat n" using assms(3) by simp
  moreover have "(of_nat (unat n) :: u32) = n" by simp
  ultimately show ?thesis
    using assms(2) ob
    by (cases t; cases ob)
      (simp add: string_fill_def the_string_def put_string_def put_obj_def set_payload_def buffer_write_whole
        string_filled_def)
qed

text \<open>
  What the three functions that make a string do: on success there is one new object, a string
  with the given characters, with the references and locks the flags ask for.
\<close>

definition new_string ::
    "(addr \<Rightarrow> nat) \<Rightarrow> (addr \<Rightarrow> nat) \<Rightarrow> char list \<Rightarrow> addr option \<Rightarrow> u32 \<Rightarrow> apid \<Rightarrow> (apie + addr) \<Rightarrow> apid \<Rightarrow> bool" where
  "new_string R L v session f s r s' \<longleftrightarrow> (case r of
       Inr a \<Rightarrow> string_is s' a v \<and> objs s a = None \<and> create_frame a s s' \<and> (refs_linked s \<longrightarrow> refs_linked s') \<and>
         inv (R(a := created_refs f)) (L(a := created_locks f)) {} s' \<and>
         (\<forall>b sb. ext_count s' b sb = ext_count s b sb + (if b = a then created_externals f session sb else 0))
     | Inl e \<Rightarrow> e \<noteq> API_E_SUCCESS \<and> (\<exists>a. objs s a = None \<and> create_frame a s s' \<and> objs s' a = None) \<and>
         (refs_linked s \<longrightarrow> refs_linked s') \<and>
         (f AND OBJECT_CREATE_FLAG_EXTERNAL = 0 \<longrightarrow> inv R L {} s'))"

lemma create_frame_refl [simp]: "create_frame a s s"
  by (simp add: create_frame_def)

lemma new_string_failed:
  assumes "inv R L {} s" "s' = s\<lparr>answers := x\<rparr> \<or> s' = s" "e \<noteq> API_E_SUCCESS"
  shows "new_string R L v session f s (Inl e) s'"
proof -
  have "objs s (next_addr s) = None" by (rule fresh_addr [OF assms(1)])
  then show ?thesis
    using assms by (auto simp: new_string_def create_frame_def intro!: exI [of _ "next_addr s"])
qed

lemma add_refs_string [simp]: "add_refs R [] = R" "add_locks L [] = L"
  by (simp_all add: add_refs_def add_locks_def fun_eq_iff)

lemma string_create_object_spec:
  assumes "inv R L {} s" "string_wf so" "\<forall>sa. session = Some sa \<longrightarrow> sess s sa \<noteq> None"
  shows "yields (string_create_object so session f s) (\<lambda>(r, s'). new_string R L (string_value so) session f s r s' \<and>
     (\<forall>a. r = Inr a \<longrightarrow> (\<exists>ob. objs s' a = Some ob \<and> payload ob = P_String so)))"
proof -
  have eq: "string_create_object so session f s = (case calloc s of
       (None, s) \<Rightarrow> Some (Inl API_E_NO_FREE_MEMORY, s)
     | (Some a, s) \<Rightarrow> create_or_free a (P_String so) session f s)"
    by (simp add: string_create_object_def create_or_free_def split: prod.split option.split)
  have le: "\<forall>b. L b \<le> R b" using assms(1) by (simp add: inv_def counts_ok_def)
  show ?thesis
  proof (cases rule: calloc_cases [of s])
    case (failed rs)
    then show ?thesis
      using new_string_failed [OF assms(1), of "s\<lparr>answers := rs\<rparr>" rs API_E_NO_FREE_MEMORY] unfolding eq by simp
  next
    case (memory rs)
    let ?a = "next_addr s" and ?s = "s\<lparr>answers := rs, next_addr := Suc (next_addr s)\<rparr>"
    have i: "inv (add_refs R (holds (P_String so))) (add_locks L (holds (P_String so))) {} ?s"
      using inv_calloc [OF assms(1)] by simp
    have none: "objs ?s ?a = None" using fresh_addr(1) [OF assms(1)] by simp
    have frame: "create_frame b ?s s' = create_frame b s s'" for b s' by (simp add: create_frame_def)
    have above: "?a < next_addr ?s" and wf: "payload_wf ?s (P_String so)"
      and live: "\<forall>sa. session = Some sa \<longrightarrow> sess ?s sa \<noteq> None"
      using assms(2,3) by simp_all
    obtain r s' where run: "create_or_free ?a (P_String so) session f ?s = Some (r, s')"
      and res: "case r of
       Inr b \<Rightarrow> b = ?a \<and> created R L ?a (P_String so) session f ?s s'
     | Inl e \<Rightarrow> e \<noteq> API_E_SUCCESS \<and> create_frame ?a ?s s' \<and> (refs_linked ?s \<longrightarrow> refs_linked s') \<and> objs s' ?a = None \<and>
         (f AND OBJECT_CREATE_FLAG_EXTERNAL = 0 \<longrightarrow>
            inv (add_refs R (holds (P_String so))) (add_locks L (holds (P_String so))) {} s')"
      using create_or_free_spec [OF i none above wf le live, of f]
      by (elim yieldsE) (simp split: prod.splits)
    have "new_string R L (string_value so) session f s r s' \<and>
       (\<forall>a. r = Inr a \<longrightarrow> (\<exists>ob. objs s' a = Some ob \<and> payload ob = P_String so))"
    proof (cases r)
      case (Inl e)
      then show ?thesis using res none frame by (auto simp: new_string_def)
    next
      case (Inr b)
      then have b: "b = ?a" and c: "created R L ?a (P_String so) session f ?s s'" using res by simp_all
      have ext: "ext_count ?s = ext_count s" "refs_linked ?s = refs_linked s"
        by (rule ext_count_cong; simp) (simp add: refs_linked_def)
      show ?thesis using c assms(2) frame unfolding Inr b created_def ext
        by (auto simp: new_string_def string_is_def the_string_def)
    qed
    then show ?thesis using memory run unfolding eq by simp
  qed
qed

text \<open>
  Making a string with an empty buffer and filling it, as \<open>string_wrap\<close> and \<open>string_allocate\<close>
  do, is making it with the filled buffer.
\<close>

lemma string_create_fill_spec:
  assumes "inv R L {} s" "lib_ok (lib s)" "\<forall>sa. session = Some sa \<longrightarrow> sess s sa \<noteq> None"
    and "reserve \<le> INT32_MAX" "n \<le> reserve" "unat n \<le> length cs"
    and "\<And>c. c \<in> set (take (unat n) cs) \<Longrightarrow> c \<noteq> CHR 0x00"
  shows "yields (string_create reserve None session f s) (\<lambda>(r, t). case r of
       Inl e \<Rightarrow> new_string R L (take (unat n) cs) session f s r t
     | Inr a \<Rightarrow> yields (string_fill a cs n t) (\<lambda>s'. new_string R L (take (unat n) cs) session f s r s' \<and>
         (\<exists>ob. objs s' a = Some ob)))"
proof -
  define al where "al = grow_allocation (lib s) (reserve + 1)"
  let ?v = "take (unat n) cs"
  have r1: "unat (reserve + 1) = unat reserve + 1"
    using assms(4) by (simp add: INT32_MAX_def word_le_nat_alt unat_plus_if')
  have "reserve + 1 \<le> INT32_MAX + 1" using assms(4) r1 by (simp add: word_le_nat_alt INT32_MAX_def)
  then have "reserve + 1 \<le> al" using assms(2) unfolding lib_ok_def al_def by blast
  then have n: "unat n < unat al" using r1 assms(5) by (simp add: word_le_nat_alt)
  have small: "unat n < 2 ^ 31" using assms(4,5) by (simp add: word_le_nat_alt INT32_MAX_def)
  have v: "length ?v = unat n" using assms(6) by simp
  have wf: "string_wf (string_filled ?v al)" "string_value (string_filled ?v al) = ?v"
    by (rule string_filled_wf; use v n small assms(7) in simp)+
  obtain an rs where ask: "ask s = (an, s\<lparr>answers := rs\<rparr>)" by (rule ask_cases)
  let ?s = "s\<lparr>answers := rs\<rparr>"
  show ?thesis
  proof (cases an)
    case (Inl e)
    then have "string_create reserve None session f s = Some (Inl API_E_NO_FREE_MEMORY, ?s)"
      using leD [OF assms(4)] ask by (simp add: string_create_def Let_def)
    then show ?thesis
      using new_string_failed [OF assms(1), of ?s rs API_E_NO_FREE_MEMORY] by simp
  next
    case (Inr i)
    then have run: "string_create reserve None session f s = string_create_object (empty_buffer al) session f ?s"
      using leD [OF assms(4)] ask by (simp add: string_create_def Let_def al_def)
    obtain r u where final: "string_create_object (string_filled ?v al) session f ?s = Some (r, u)"
      and new: "new_string R L ?v session f ?s r u"
      and pay: "\<forall>a. r = Inr a \<longrightarrow> (\<exists>ob. objs u a = Some ob \<and> payload ob = P_String (string_filled ?v al))"
    proof -
      have "inv R L {} ?s" "\<forall>sa. session = Some sa \<longrightarrow> sess ?s sa \<noteq> None" using assms(1,3) by simp_all
      from string_create_object_spec [OF this(1) wf(1) this(2), of f] show ?thesis
        using that wf(2) by (elim yieldsE) (auto split: prod.splits)
    qed
    have same: "new_string R L ?v session f ?s r u = new_string R L ?v session f s r u"
    proof -
      have "create_frame b ?s u = create_frame b s u" for b by (simp add: create_frame_def)
      then show ?thesis by (cases r) (simp_all add: new_string_def)
    qed
    have eq: "string_create_object so session f t = (case calloc t of
         (None, t) \<Rightarrow> Some (Inl API_E_NO_FREE_MEMORY, t)
       | (Some a, t) \<Rightarrow> create_or_free a (P_String so) session f t)" for so t
      by (simp add: string_create_object_def create_or_free_def split: prod.split option.split)
    show ?thesis
    proof (cases rule: calloc_cases [of ?s])
      case (failed ys)
      then show ?thesis using final new unfolding run eq same by auto
    next
      case (memory ys)
      let ?a = "next_addr ?s" and ?t = "?s\<lparr>answers := ys, next_addr := Suc (next_addr ?s)\<rparr>"
      have fin: "create_or_free ?a (P_String (string_filled ?v al)) session f ?t = Some (r, u)"
        using final memory unfolding eq by simp
      have r_addr: "r = Inr b \<Longrightarrow> b = ?a" for b
        using fin by (auto simp: create_or_free_def split: Option.bind_splits if_splits)
      have "r = Inr b \<Longrightarrow> \<exists>ob. objs u ?a = Some ob \<and> payload ob = P_String (string_filled ?v al)" for b
        using pay r_addr by blast
      from create_or_free_fill [OF fin _ this, of "P_String (empty_buffer al)"]
      have empty: "create_or_free ?a (P_String (empty_buffer al)) session f ?t =
          Some (r, case r of Inl e \<Rightarrow> u | Inr b \<Rightarrow> set_payload ?a (P_String (empty_buffer al)) u)"
        and undo: "r = Inr b \<Longrightarrow> set_payload ?a (P_String (string_filled ?v al))
          (set_payload ?a (P_String (empty_buffer al)) u) = u" for b
        by simp_all
      have run2: "string_create reserve None session f s =
          Some (r, case r of Inl e \<Rightarrow> u | Inr b \<Rightarrow> set_payload ?a (P_String (empty_buffer al)) u)"
        using memory empty unfolding run eq by simp
      show ?thesis
      proof (cases r)
        case (Inl e)
        then show ?thesis using run2 new same by simp
      next
        case (Inr b)
        then have b: "b = ?a" by (rule r_addr)
        obtain ob where ob: "objs u ?a = Some ob" using pay Inr b by auto
        have "string_fill ?a cs n (set_payload ?a (P_String (empty_buffer al)) u) =
            Some (set_payload ?a (P_String (string_filled ?v al)) u)"
          by (rule string_fill_spec) (use ob n assms(6) in auto)
        also have "\<dots> = Some u" using undo [OF Inr] by simp
        finally show ?thesis using run2 Inr b new same ob by simp
      qed
    qed
  qed
qed

lemma string_wrap_spec:
  assumes "inv R L {} s" "lib_ok (lib s)" "\<forall>sa. session = Some sa \<longrightarrow> sess s sa \<noteq> None"
    and "\<forall>c\<in>set buffer. c \<noteq> CHR 0x00" "length buffer < 2 ^ 32"
  shows "yields (string_wrap buffer session f s) (\<lambda>(r, s'). new_string R L buffer session f s r s' \<and>
     (2 ^ 31 \<le> length buffer \<longrightarrow> r = Inl API_E_OUT_OF_RANGE))"
proof -
  define n where "n = (of_nat (length buffer) :: u32)"
  have n: "unat n = length buffer" using assms(5) by (simp add: n_def unat_of_nat_u32)
  show ?thesis
  proof (cases "n > INT32_MAX")
    case True
    then have "string_wrap buffer session f s = Some (Inl API_E_OUT_OF_RANGE, s)"
      by (simp add: string_wrap_def n_def)
    then show ?thesis using new_string_failed [OF assms(1), of s "[]" API_E_OUT_OF_RANGE] by simp
  next
    case False
    then have le: "n \<le> INT32_MAX" by simp
    have "length buffer < 2 ^ 31" using le n by (simp add: word_le_nat_alt INT32_MAX_def)
    moreover have "string_wrap buffer session f s = do {
        (r, s) \<leftarrow> string_create n None session f s;
        case r of Inl e \<Rightarrow> Some (Inl e, s) | Inr a \<Rightarrow> do { s \<leftarrow> string_fill a buffer n s; Some (Inr a, s) } }"
      using False unfolding string_wrap_def n_def [symmetric] Let_def by simp
    moreover have "yields (string_create n None session f s) (\<lambda>(r, t). case r of
       Inl e \<Rightarrow> new_string R L buffer session f s r t
     | Inr a \<Rightarrow> yields (string_fill a buffer n t) (\<lambda>s'. new_string R L buffer session f s r s' \<and>
         (\<exists>ob. objs s' a = Some ob)))"
    proof -
      have "take (unat n) buffer = buffer" using n by simp
      then show ?thesis
        using string_create_fill_spec [OF assms(1-3) le order.refl, of buffer f] n assms(4) by (simp only: order.refl) blast
    qed
    ultimately show ?thesis
      by (auto simp: elim!: yieldsE split: sum.splits)
  qed
qed

lemma new_string_answers [simp]:
  "new_string R L v session f (s\<lparr>answers := x\<rparr>) r s' = new_string R L v session f s r s'"
proof -
  have "create_frame b (s\<lparr>answers := x\<rparr>) s' = create_frame b s s'" for b by (simp add: create_frame_def)
  then show ?thesis by (cases r) (simp_all add: new_string_def)
qed

lemma string_asprintf_spec:
  assumes "inv R L {} s" "\<forall>sa. session = Some sa \<longrightarrow> sess s sa \<noteq> None"
    and "\<forall>c\<in>set formatted. c \<noteq> CHR 0x00" "length formatted < 2 ^ 32"
  shows "yields (string_asprintf session f formatted s) (\<lambda>(r, s'). new_string R L formatted session f s r s')"
proof -
  define n where "n = (of_nat (length formatted) :: u32)"
  have n: "unat n = length formatted" using assms(4) by (simp add: n_def unat_of_nat_u32)
  obtain an rs where ask: "ask s = (an, s\<lparr>answers := rs\<rparr>)" by (rule ask_cases)
  let ?s = "s\<lparr>answers := rs\<rparr>" and ?so = "\<lparr>str_buffer = map Some formatted @ [Some (CHR 0x00)], str_length = n,
    str_allocated = n + 1\<rparr>"
  show ?thesis
  proof (cases an)
    case (Inl e)
    then show ?thesis
      using new_string_failed [OF assms(1), of ?s rs API_E_NO_FREE_MEMORY] ask by (simp add: string_asprintf_def)
  next
    case (Inr i)
    show ?thesis
    proof (cases "n > INT32_MAX")
      case True
      then have "string_asprintf session f formatted s = Some (Inl API_E_OUT_OF_RANGE, ?s)"
        using Inr ask by (simp add: string_asprintf_def string_create_def n_def Let_def)
      then show ?thesis using new_string_failed [OF assms(1), of ?s rs API_E_OUT_OF_RANGE] by simp
    next
      case False
      then have small: "length formatted < 2 ^ 31" using n by (simp add: word_less_nat_alt INT32_MAX_def)
      then have n1: "unat (n + 1) = length formatted + 1" using n by (simp add: unat_plus_if')
      have wf: "string_wf ?so" "string_value ?so = formatted"
        by (rule string_wfI [where v = formatted]; use n n1 small assms(3) in \<open>simp add: nth_append\<close>)+
      have "inv R L {} ?s" "\<forall>sa. session = Some sa \<longrightarrow> sess ?s sa \<noteq> None" using assms(1,2) by simp_all
      from string_create_object_spec [OF this(1) wf(1) this(2), of f] show ?thesis
        using False Inr ask wf(2)
        by (auto simp: string_asprintf_def string_create_def n_def Let_def elim!: yields_mono)
    qed
  qed
qed

lemma string_allocate_spec:
  assumes "inv R L {} s" "lib_ok (lib s)" "sess s session \<noteq> None" "reserve \<le> INT32_MAX"
    and "n = strnlen buffer 58"
  shows "yields (string_allocate reserve buffer session s) (\<lambda>(r, s'). case r of
       Inl e \<Rightarrow> new_string R L (take n buffer) (Some session) OBJECT_CREATE_FLAG_EXTERNAL s (Inl e) s'
     | Inr i \<Rightarrow> \<exists>a ob. objs s' a = Some ob \<and> obj_id ob = i \<and>
         new_string R L (take n buffer) (Some session) OBJECT_CREATE_FLAG_EXTERNAL s (Inr a) s')"
proof -
  have le: "n \<le> 58" "n \<le> length buffer" using assms(5) strnlen_le [of buffer 58] by simp_all
  define len where "len = (of_nat n :: u32)"
  have len: "unat len = n" using le by (simp add: len_def unat_of_nat_u32)
  define reserve' where "reserve' = (if reserve < len then len else reserve)"
  have r: "reserve' \<le> INT32_MAX" "len \<le> reserve'"
    using assms(4) le len by (auto simp: reserve'_def word_le_nat_alt word_less_nat_alt INT32_MAX_def)
  have body: "string_allocate reserve buffer session s = do {
      (r, s) \<leftarrow> string_create reserve' None (Some session) OBJECT_CREATE_FLAG_EXTERNAL s;
      case r of Inl e \<Rightarrow> Some (Inl e, s)
      | Inr a \<Rightarrow> do { s \<leftarrow> string_fill a buffer len s; ob \<leftarrow> objs s a; Some (Inr (obj_id ob), s) } }"
    unfolding string_allocate_def STRING_MAX_ALLOCATE_BUFFER_LENGTH_def assms(5) [symmetric] len_def [symmetric]
      reserve'_def Let_def by simp
  have no_null: "\<And>c. c \<in> set (take (unat len) buffer) \<Longrightarrow> c \<noteq> CHR 0x00"
    using strnlen_no_null len assms(5) by metis
  show ?thesis
    unfolding body
    using string_create_fill_spec [OF assms(1,2) _ r, of "Some session" buffer OBJECT_CREATE_FLAG_EXTERNAL]
      assms(3) len le no_null
    by (auto elim!: yieldsE split: sum.splits) blast+
qed

text \<open>The terminator of a chunk that ends at the end of the buffer.\<close>

lemma string_set_chunk_overflow:
  assumes "inv R L D s" "objs s a = Some ob" "payload ob = P_String so" "a \<notin> D" "lock_count ob \<le> 0"
    and "n = strnlen buffer 58" "0 < n" "unat offset + n = unat (str_allocated so)"
    and "unat offset + n < 2 ^ 31"
  shows "string_set_chunk a offset buffer s = None"
proof -
  have so: "the_string s a = Some so" using assms(2,3) by (simp add: the_string_def)
  have wf: "string_wf so" by (rule inv_string [OF assms(1) so assms(4)])
  have le: "n \<le> 58" "n \<le> length buffer" using assms(6) strnlen_le [of buffer 58] by simp_all
  define len where "len = (of_nat n :: u32)"
  have ulen: "unat len = n" using le by (simp add: len_def unat_of_nat_u32)
  define cs where "cs = take n buffer"
  have cs: "length cs = n" using le by (simp add: cs_def)
  have unlocked: "\<not> lock_count ob > 0" using assms(5) by simp
  have sum: "unat (offset + len) = unat offset + n" using assms(9) ulen by (simp add: unat_plus_if')
  have in_range: "\<not> INT32_MAX < offset" "\<not> INT32_MAX < offset + len"
    using assms(9) sum by (simp_all add: word_less_nat_alt INT32_MAX_def)
  have len0: "len \<noteq> 0" using ulen assms(7) by auto
  have fits: "\<not> offset + len > str_allocated so" using sum assms(8) by (simp add: word_less_nat_alt)
  have "write_chunk (unat offset) cs so = None"
    by (rule write_chunk_overflow [OF wf]) (use assms(8) cs wf in \<open>simp add: string_wf_def\<close>)
  moreover have "string_set_chunk a offset buffer s = do {
      so \<leftarrow> write_chunk (unat offset) cs so; s \<leftarrow> put_string a so s; Some (API_E_SUCCESS, s) }"
    unfolding string_set_chunk_def Let_def STRING_MAX_SET_CHUNK_BUFFER_LENGTH_def assms(6) [symmetric]
      len_def [symmetric] assms(2) so bind.bind_lunit if_not_P [OF unlocked] if_not_P [OF in_range(1)]
      if_not_P [OF in_range(2)] if_not_P [OF len0] if_not_P [OF fits] ulen cs_def [symmetric] prod.case
      simp_thms if_False
    using set_chunk_write(1) [OF in_range, of cs, simplified cs ulen, OF refl le(1)] by simp
  ultimately show ?thesis by simp
qed

text \<open>Acquiring and releasing a string.\<close>

lemma acquire_and_lock_spec:
  assumes "inv R L D s" "objs s a \<noteq> None" "a \<notin> D"
  shows "yields (string_acquire_and_lock a s) (\<lambda>s'. inv (R(a := R a + 1)) (L(a := L a + 1)) D s' \<and>
     releases D s s' \<and> dom (objs s') = dom (objs s))"
proof -
  obtain t where t: "object_add_internal_reference a s = Some t" "inv (R(a := R a + 1)) L D t" "releases D s t"
    "dom (objs t) = dom (objs s)"
    using add_internal_reference_spec [OF assms] by (elim yieldsE) auto
  have "L a < (R(a := R a + 1)) a" using assms(1) by (simp add: inv_def counts_ok_def le_imp_less_Suc)
  from lock_spec [OF t(2) this] obtain u where u: "object_lock a t = Some u"
    "inv (R(a := R a + 1)) (L(a := L a + 1)) D u" "releases D t u" "dom (objs u) = dom (objs t)"
    by (elim yieldsE) blast
  show ?thesis
    using t(1,4) u releases_trans [OF t(3) u(3)] by (simp only: string_acquire_and_lock_def bind.bind_lunit yields_Some simp_thms)
qed

lemma string_unlock_and_release_spec:
  assumes "inv R L D s" "0 < L a"
  shows "yields (string_unlock_and_release a s) (\<lambda>s'. inv (R(a := R a - 1)) (L(a := L a - 1)) D s' \<and> releases D s s')"
proof -
  have le: "L a \<le> R a" using assms(1) by (simp add: inv_def counts_ok_def)
  obtain t where t: "object_unlock a s = Some t" "inv R (L(a := L a - 1)) D t" "releases D s t"
    using inv_unlock [OF assms] by (elim yieldsE) auto
  have "(L(a := L a - 1)) a < R a" using le assms(2) by simp
  from remove_internal_reference_spec [OF t(2) this] obtain u where
    u: "object_remove_internal_reference a t = Some u" "inv (R(a := R a - 1)) (L(a := L a - 1)) D u" "releases D t u"
    by (elim yieldsE) blast
  show ?thesis
    using t(1) u releases_trans [OF t(3) u(3)] by (simp only: string_unlock_and_release_def bind.bind_lunit yields_Some simp_thms)
qed

end
