(* ===== verification/Inventory.thy ===== *)
theory Inventory
  imports String_Facts
begin

text \<open>
  The rest of \<open>inventory.c\<close> that does not need the other object types: looking an object up by
  type and ID, the stock strings, and the release of all programs at shutdown.
\<close>

section \<open>Looking up objects\<close>

primrec find_object_in :: "apid \<Rightarrow> u16 \<Rightarrow> addr list \<Rightarrow> addr option option" where
  "find_object_in s i [] = Some None"
| "find_object_in s i (a # as) = do {
     ob \<leftarrow> objs s a;
     if obj_id ob = i then Some (Some a) else find_object_in s i as
   }"

text \<open>The outer loop, over the object types from \<open>start_type\<close> to \<open>end_type\<close>.\<close>

primrec find_object :: "apid \<Rightarrow> u16 \<Rightarrow> object_type list \<Rightarrow> (apie + addr) option" where
  "find_object s i [] = Some (Inl API_E_UNKNOWN_OBJECT_ID)"
| "find_object s i (t # ts) = do {
     found \<leftarrow> find_object_in s i (objects s t);
     case found of
       Some a \<Rightarrow> Some (Inr a)
     | None \<Rightarrow> find_object s i ts
   }"

definition inventory_get_object :: "object_type \<Rightarrow> u16 \<Rightarrow> apid \<Rightarrow> (apie + addr) option" where
  "inventory_get_object t i s =
     find_object s i (if t = OBJECT_TYPE_ANY then object_types else [t])"

definition string_get :: "u16 \<Rightarrow> apid \<Rightarrow> (apie + addr) option" where
  "string_get i s = inventory_get_object OBJECT_TYPE_STRING i s"

definition string_get_acquired_and_locked :: "u16 \<Rightarrow> apid \<Rightarrow> ((apie + addr) \<times> apid) option" where
  "string_get_acquired_and_locked i s = do {
     r \<leftarrow> inventory_get_object OBJECT_TYPE_STRING i s;
     case r of
       Inl e \<Rightarrow> Some (Inl e, s)
     | Inr a \<Rightarrow> do {
         s \<leftarrow> string_acquire_and_lock a s;
         Some (Inr a, s)
       }
   }"

section \<open>Stock strings\<close>

text \<open>The loop that compares the stock strings with the wanted one; \<open>strcmp\<close> reads C strings.\<close>

primrec find_stock_string :: "apid \<Rightarrow> string \<Rightarrow> addr list \<Rightarrow> addr option option" where
  "find_stock_string s buffer [] = Some None"
| "find_stock_string s buffer (a # as) = do {
     cs \<leftarrow> string_chars s a;
     if cs = buffer then Some (Some a) else find_stock_string s buffer as
   }"

definition inventory_get_stock_string :: "string \<Rightarrow> apid \<Rightarrow> ((apie + addr) \<times> apid) option" where
  "inventory_get_stock_string buffer s = do {
     found \<leftarrow> find_stock_string s buffer (stock_strings s);
     case found of
       Some a \<Rightarrow> do {
         s \<leftarrow> string_acquire_and_lock a s;
         Some (Inr a, s)
       }
     | None \<Rightarrow> do {
         (r, s) \<leftarrow> string_wrap buffer None
                    (OBJECT_CREATE_FLAG_INTERNAL OR OBJECT_CREATE_FLAG_LOCKED) s;
         case r of
           Inl e \<Rightarrow> Some (Inl e, s)
         | Inr a \<Rightarrow>
             (case ask s of
                (Inl en, s) \<Rightarrow> do {
                  s \<leftarrow> string_unlock_and_release a s;
                  Some (Inl (api_get_error_code_from_errno en), s)
                }
              | (Inr _, s) \<Rightarrow> do {
                  let s = s\<lparr>stock_strings := stock_strings s @ [a]\<rparr>;
                  s \<leftarrow> string_acquire_and_lock a s;
                  Some (Inr a, s)
                })
       }
   }"

section \<open>Releasing the programs\<close>

text \<open>The loop from the last index down to 0; the argument is one more than the index.\<close>

primrec inventory_unload_programs_loop :: "nat \<Rightarrow> apid \<Rightarrow> apid option" where
  "inventory_unload_programs_loop 0 s = Some s"
| "inventory_unload_programs_loop (Suc i) s =
     (if i < length (objects s OBJECT_TYPE_PROGRAM) then do {
        s \<leftarrow> object_remove_internal_reference (objects s OBJECT_TYPE_PROGRAM ! i) s;
        inventory_unload_programs_loop i s
      } else None)"

definition inventory_unload_programs :: "apid \<Rightarrow> apid option" where
  "inventory_unload_programs s =
     inventory_unload_programs_loop (length (objects s OBJECT_TYPE_PROGRAM)) s"

section \<open>Lookup\<close>

lemma find_object_in_spec:
  assumes "\<forall>a\<in>set as. \<exists>ob. objs s a = Some ob"
  shows "yields (find_object_in s i as) (\<lambda>r. case r of
       Some a \<Rightarrow> a \<in> set as \<and> map_option obj_id (objs s a) = Some i
     | None \<Rightarrow> \<forall>a\<in>set as. map_option obj_id (objs s a) \<noteq> Some i)"
  using assms by (induction as) (auto elim!: yieldsE split: option.splits)

lemma find_object_spec:
  assumes "\<forall>t\<in>set ts. \<forall>a\<in>set (objects s t). \<exists>ob. objs s a = Some ob"
  shows "yields (find_object s i ts) (\<lambda>r. case r of
       Inr a \<Rightarrow> (\<exists>t\<in>set ts. a \<in> set (objects s t)) \<and> map_option obj_id (objs s a) = Some i
     | Inl e \<Rightarrow> e = API_E_UNKNOWN_OBJECT_ID \<and>
         (\<forall>t\<in>set ts. \<forall>a\<in>set (objects s t). map_option obj_id (objs s a) \<noteq> Some i))"
  using assms
proof (induction ts)
  case (Cons t ts)
  then have "\<forall>a\<in>set (objects s t). \<exists>ob. objs s a = Some ob" by simp
  from find_object_in_spec [OF this, of i] obtain r where r: "find_object_in s i (objects s t) = Some r"
    "case r of Some a \<Rightarrow> a \<in> set (objects s t) \<and> map_option obj_id (objs s a) = Some i
     | None \<Rightarrow> \<forall>a\<in>set (objects s t). map_option obj_id (objs s a) \<noteq> Some i"
    by (elim yieldsE)
  show ?case
  proof (cases r)
    case None
    then show ?thesis using r Cons by (auto elim!: yieldsE split: sum.splits)
  next
    case (Some a)
    then show ?thesis using r by auto
  qed
qed simp

text \<open>A lookup finds the one live object with the ID and the type, or there is none.\<close>

definition has_type :: "object_type \<Rightarrow> object \<Rightarrow> bool" where
  "has_type t ob \<longleftrightarrow> t = OBJECT_TYPE_ANY \<or> obj_type ob = t"

lemma inventory_get_object_spec:
  assumes "inv R L {} s"
  shows "yields (inventory_get_object t i s) (\<lambda>r. case r of
       Inr a \<Rightarrow> \<exists>ob. objs s a = Some ob \<and> obj_id ob = i \<and> has_type t ob
     | Inl e \<Rightarrow> e = API_E_UNKNOWN_OBJECT_ID \<and>
         (\<forall>a ob. objs s a = Some ob \<and> has_type t ob \<longrightarrow> obj_id ob \<noteq> i))"
proof -
  let ?ts = "if t = OBJECT_TYPE_ANY then object_types else [t]"
  have arr: "\<And>u a. a \<in> set (objects s u) \<Longrightarrow> is_type s u a"
    and live: "\<And>a ob. objs s a = Some ob \<Longrightarrow> a \<in> set (objects s (obj_type ob)) \<and> object_wf s ob"
    using assms unfolding inv_def inventory_ok_def by blast+
  have ty: "obj_type ob \<in> set ?ts" if "objs s a = Some ob" "has_type t ob" for a ob
    using that live [of a ob] by (auto simp: has_type_def object_wf_def)
  have "\<forall>u\<in>set ?ts. \<forall>a\<in>set (objects s u). \<exists>ob. objs s a = Some ob"
    using arr by (auto simp: is_type_def)
  from find_object_spec [OF this, of i] show ?thesis
    unfolding inventory_get_object_def
  proof (rule yields_mono)
    fix r assume r: "case r of
       Inr a \<Rightarrow> (\<exists>t\<in>set ?ts. a \<in> set (objects s t)) \<and> map_option obj_id (objs s a) = Some i
     | Inl e \<Rightarrow> e = API_E_UNKNOWN_OBJECT_ID \<and>
         (\<forall>t\<in>set ?ts. \<forall>a\<in>set (objects s t). map_option obj_id (objs s a) \<noteq> Some i)"
    show "case r of
       Inr a \<Rightarrow> \<exists>ob. objs s a = Some ob \<and> obj_id ob = i \<and> has_type t ob
     | Inl e \<Rightarrow> e = API_E_UNKNOWN_OBJECT_ID \<and>
         (\<forall>a ob. objs s a = Some ob \<and> has_type t ob \<longrightarrow> obj_id ob \<noteq> i)"
    proof (cases r)
      case (Inl e)
      have "obj_id ob \<noteq> i" if "objs s a = Some ob" "has_type t ob" for a ob
      proof -
        have "map_option obj_id (objs s a) \<noteq> Some i"
          using r Inl ty [OF that] live [OF that(1)] by auto
        then show ?thesis using that(1) by simp
      qed
      then show ?thesis using r Inl by auto
    next
      case (Inr a)
      then obtain u ob where u: "u \<in> set ?ts" "a \<in> set (objects s u)" "objs s a = Some ob" "obj_id ob = i"
        using r by auto
      moreover have "obj_type ob = u" using arr [OF u(2)] u(3) by (simp add: is_type_def)
      ultimately show ?thesis using Inr by (auto simp: has_type_def split: if_splits)
    qed
  qed
qed

section \<open>Free object IDs\<close>

lemma object_id_allocation_live:
  assumes "inv R L {} s"
  shows "\<exists>r i. inventory_get_next_object_id s = Some (r, s\<lparr>next_object_id := i\<rparr>) \<and> (case r of
       Inr j \<Rightarrow> j \<noteq> 0 \<and> (\<forall>a ob. objs s a = Some ob \<longrightarrow> obj_id ob \<noteq> j)
     | Inl e \<Rightarrow> e = API_E_NO_FREE_OBJECT_ID \<and> (\<forall>j. j \<noteq> 0 \<longrightarrow> (\<exists>a ob. objs s a = Some ob \<and> obj_id ob = j)))"
proof -
  have arr: "\<And>u a. a \<in> set (objects s u) \<Longrightarrow> is_type s u a"
    and live: "\<And>a ob. objs s a = Some ob \<Longrightarrow> a \<in> set (objects s (obj_type ob)) \<and> object_wf s ob"
    using assms unfolding inv_def inventory_ok_def by blast+
  have used: "object_id_used s j \<longleftrightarrow> (\<exists>a ob. objs s a = Some ob \<and> obj_id ob = j)" for j
  proof
    show "object_id_used s j \<Longrightarrow> \<exists>a ob. objs s a = Some ob \<and> obj_id ob = j"
      by (auto simp: object_id_used_def has_id_def)
    assume "\<exists>a ob. objs s a = Some ob \<and> obj_id ob = j"
    then obtain a ob where "objs s a = Some ob" "obj_id ob = j" by blast
    with live [of a ob] have "a \<in> set (objects s (obj_type ob))" "obj_type ob \<in> set object_types" "has_id s j a"
      by (auto simp: has_id_def object_wf_def)
    then show "object_id_used s j" unfolding object_id_used_def by blast
  qed
  have "objects_live s" using arr by (auto simp: objects_live_def is_type_def)
  from get_next_object_id_spec [OF this] obtain r i where
    "inventory_get_next_object_id s = Some (r, s\<lparr>next_object_id := i\<rparr>)"
    "case r of Inr i \<Rightarrow> i \<noteq> 0 \<and> \<not> object_id_used s i
     | Inl e \<Rightarrow> e = API_E_NO_FREE_OBJECT_ID \<and> (\<forall>i. i \<noteq> 0 \<longrightarrow> object_id_used s i)"
    by (auto elim!: yieldsE)
  then show ?thesis unfolding used by (cases r) auto
qed

section \<open>Acquiring strings\<close>

lemma acquire_live:
  assumes "inv R L {} s" "objs s a \<noteq> None"
  shows "yields (string_acquire_and_lock a s) (\<lambda>s'. inv (R(a := R a + 1)) (L(a := L a + 1)) {} s' \<and>
     releases {} s s' \<and> dom (objs s') = dom (objs s))"
  by (rule acquire_and_lock_spec [OF assms]) simp

lemma string_get_acquired_and_locked_spec:
  assumes "inv R L {} s"
  shows "yields (string_get_acquired_and_locked i s) (\<lambda>(r, s'). case r of
       Inr a \<Rightarrow> (\<exists>ob. objs s a = Some ob \<and> obj_id ob = i \<and> obj_type ob = OBJECT_TYPE_STRING) \<and>
         inv (R(a := R a + 1)) (L(a := L a + 1)) {} s' \<and> releases {} s s' \<and> dom (objs s') = dom (objs s)
     | Inl e \<Rightarrow> e = API_E_UNKNOWN_OBJECT_ID \<and> s' = s)"
proof -
  obtain r where r: "inventory_get_object OBJECT_TYPE_STRING i s = Some r"
    "case r of Inr a \<Rightarrow> \<exists>ob. objs s a = Some ob \<and> obj_id ob = i \<and> has_type OBJECT_TYPE_STRING ob
     | Inl e \<Rightarrow> e = API_E_UNKNOWN_OBJECT_ID \<and>
         (\<forall>a ob. objs s a = Some ob \<and> has_type OBJECT_TYPE_STRING ob \<longrightarrow> obj_id ob \<noteq> i)"
    using inventory_get_object_spec [OF assms, of OBJECT_TYPE_STRING i] by (elim yieldsE)
  show ?thesis
  proof (cases r)
    case (Inl e)
    then show ?thesis using r by (simp add: string_get_acquired_and_locked_def)
  next
    case (Inr a)
    then obtain ob where ob: "objs s a = Some ob" "obj_id ob = i" "obj_type ob = OBJECT_TYPE_STRING"
      using r by (auto simp: has_type_def)
    have live: "objs s a \<noteq> None" using ob(1) by simp
    obtain s' where "string_acquire_and_lock a s = Some s'" "inv (R(a := R a + 1)) (L(a := L a + 1)) {} s'"
      "releases {} s s'" "dom (objs s') = dom (objs s)"
      using acquire_live [OF assms live] by (elim yieldsE) blast
    then show ?thesis
      using r(1) Inr ob by (simp only: string_get_acquired_and_locked_def bind.bind_lunit sum.case prod.case yields_Some) blast
  qed
qed

text \<open>
  The stock strings are referenced and locked by the inventory, once for every entry of the
  array: these references are part of what the daemon holds outside the object graph.
\<close>

definition with_stock :: "(addr \<Rightarrow> nat) \<Rightarrow> apid \<Rightarrow> addr \<Rightarrow> nat" where
  "with_stock R s a = R a + count_list (stock_strings s) a"

definition stock_ok :: "apid \<Rightarrow> bool" where
  "stock_ok s \<longleftrightarrow> (\<forall>a\<in>set (stock_strings s). is_type s OBJECT_TYPE_STRING a)"

lemma find_stock_string_spec:
  assumes "inv R L {} s" "\<forall>a\<in>set as. is_type s OBJECT_TYPE_STRING a"
  shows "yields (find_stock_string s buffer as) (\<lambda>r. case r of
       Some a \<Rightarrow> a \<in> set as \<and> string_is s a buffer
     | None \<Rightarrow> \<forall>a\<in>set as. \<not> string_is s a buffer)"
  using assms(2)
proof (induction as)
  case (Cons a as)
  then have "is_type s OBJECT_TYPE_STRING a" by simp
  from live_string [OF assms(1) this] obtain ob so where
    so: "objs s a = Some ob" "payload ob = P_String so" "string_wf so" by auto
  then have chars: "string_chars s a = Some (string_value so)" and unique: "string_is s a v \<longleftrightarrow> v = string_value so" for v
    by (auto simp: string_chars_def the_string_def c_string_wf string_is_def)
  have "yields (find_stock_string s buffer as) (\<lambda>r. case r of
       Some a \<Rightarrow> a \<in> set as \<and> string_is s a buffer
     | None \<Rightarrow> \<forall>a\<in>set as. \<not> string_is s a buffer)"
    by (rule Cons.IH) (use Cons.prems in simp)
  then obtain r where r: "find_stock_string s buffer as = Some r" "case r of
       Some a \<Rightarrow> a \<in> set as \<and> string_is s a buffer
     | None \<Rightarrow> \<forall>a\<in>set as. \<not> string_is s a buffer"
    by (elim yieldsE)
  show ?case
  proof (cases "string_value so = buffer")
    case True
    then show ?thesis by (simp add: chars unique)
  next
    case False
    then show ?thesis using r by (cases r) (auto simp: chars unique)
  qed
qed simp

lemma with_stock_update: "with_stock (R(a := R a + 1)) s = (with_stock R s)(a := with_stock R s a + 1)"
  by (auto simp: with_stock_def fun_eq_iff)

lemma inventory_get_stock_string_spec:
  assumes i: "inv (with_stock R s) (with_stock L s) {} s" and "stock_ok s" "lib_ok (lib s)"
    and buffer: "\<forall>c\<in>set buffer. c \<noteq> CHR 0x00" "length buffer < 2 ^ 32"
  shows "yields (inventory_get_stock_string buffer s) (\<lambda>(r, s'). stock_ok s' \<and> (case r of
       Inr a \<Rightarrow> inv (with_stock (R(a := R a + 1)) s') (with_stock (L(a := L a + 1)) s') {} s' \<and>
         string_is s' a buffer \<and> a \<in> set (stock_strings s')
     | Inl e \<Rightarrow> e \<noteq> API_E_SUCCESS \<and> stock_strings s' = stock_strings s \<and>
         inv (with_stock R s') (with_stock L s') {} s'))"
proof -
  have types: "stock_ok t" if "create_frame a s t" "objs s a = None" "stock_strings t = stock_strings s" for a t
    unfolding stock_ok_def that(3)
  proof
    fix b assume "b \<in> set (stock_strings s)"
    then have b: "is_type s OBJECT_TYPE_STRING b" using assms(2) by (simp add: stock_ok_def)
    then have "b \<noteq> a" using that(2) by (auto simp: is_type_def)
    then have "objs t b = objs s b" using that(1) by (simp add: create_frame_def)
    then show "is_type t OBJECT_TYPE_STRING b" using b by (simp add: is_type_def)
  qed
  obtain r where r: "find_stock_string s buffer (stock_strings s) = Some r"
    "case r of Some a \<Rightarrow> a \<in> set (stock_strings s) \<and> string_is s a buffer
     | None \<Rightarrow> \<forall>a\<in>set (stock_strings s). \<not> string_is s a buffer"
    using find_stock_string_spec [OF i, of "stock_strings s" buffer] assms(2)
    by (auto simp: stock_ok_def elim: yieldsE)
  have is_same: "string_is t a v = string_is s a v" if "objs t a = objs s a" for t s a v
    using that by (simp add: string_is_def the_string_def)
  have acquire: "yields (do { u \<leftarrow> string_acquire_and_lock a t; Some (Inr a :: apie + addr, u) })
      (\<lambda>(r, s'). stock_ok s' \<and> (case r of
         Inr a \<Rightarrow> inv (with_stock (R(a := R a + 1)) s') (with_stock (L(a := L a + 1)) s') {} s' \<and>
           string_is s' a buffer \<and> a \<in> set (stock_strings s')
       | Inl e \<Rightarrow> e \<noteq> API_E_SUCCESS \<and> stock_strings s' = stock_strings s \<and>
           inv (with_stock R s') (with_stock L s') {} s'))"
    if t: "inv (with_stock R t) (with_stock L t) {} t" "stock_ok t" "string_is t a buffer" "a \<in> set (stock_strings t)"
    for a t
  proof -
    have live: "objs t a \<noteq> None" using t(3) by (auto simp: string_is_def elim: the_stringE)
    obtain u where u: "string_acquire_and_lock a t = Some u"
      "inv ((with_stock R t)(a := with_stock R t a + 1)) ((with_stock L t)(a := with_stock L t a + 1)) {} u"
      "releases {} t u" "dom (objs u) = dom (objs t)"
      using acquire_live [OF t(1) live] by (elim yieldsE) blast
    have stock: "stock_strings u = stock_strings t" using u(3) by (simp add: releases_def)
    have w: "with_stock F u = with_stock F t" for F by (simp add: with_stock_def fun_eq_iff stock)
    have before: "\<exists>o1. objs t b = Some o1 \<and> same_but_counts o1 o2" if "objs u b = Some o2" for b o2
      using u(3) that by (auto simp: releases_def)
    have "is_type u ty b" if "is_type t ty b" for ty b
    proof -
      obtain o1 where o1: "objs t b = Some o1" "obj_type o1 = ty" using \<open>is_type t ty b\<close> by (auto simp: is_type_def)
      then have "b \<in> dom (objs u)" using u(4) by auto
      then obtain o2 where "objs u b = Some o2" by auto
      then show ?thesis using before [of b o2] o1 same_but_countsD by (fastforce simp: is_type_def)
    qed
    then have "stock_ok u" using t(2) by (simp add: stock_ok_def stock)
    moreover have "string_is u a buffer"
    proof -
      obtain o2 where o2: "objs u a = Some o2" using u(4) live by (metis domD domI option.exhaust)
      then obtain o1 where "objs t a = Some o1" "payload o2 = payload o1" using before same_but_countsD by blast
      then show ?thesis using t(3) o2 by (simp add: string_is_def the_string_def)
    qed
    moreover have "inv (with_stock (R(a := R a + 1)) u) (with_stock (L(a := L a + 1)) u) {} u"
      using u(2) unfolding w with_stock_update .
    ultimately show ?thesis using u(1) t(4) stock by simp
  qed
  show ?thesis
  proof (cases r)
    case (Some a)
    then show ?thesis using r acquire [OF i assms(2), of a] by (simp add: inventory_get_stock_string_def)
  next
    case None
    let ?f = "OBJECT_CREATE_FLAG_INTERNAL OR OBJECT_CREATE_FLAG_LOCKED"
    have flags: "?f AND OBJECT_CREATE_FLAG_EXTERNAL = 0" "created_refs ?f = 1" "created_locks ?f = 1"
      by (simp_all add: OBJECT_CREATE_FLAG_INTERNAL_def OBJECT_CREATE_FLAG_LOCKED_def
          OBJECT_CREATE_FLAG_EXTERNAL_def created_refs_def created_locks_def)
    obtain q t where q: "string_wrap buffer None ?f s = Some (q, t)"
      "new_string (with_stock R s) (with_stock L s) buffer None ?f s q t"
    proof -
      have "\<forall>sa. None = Some sa \<longrightarrow> sess s sa \<noteq> None" by simp
      from string_wrap_spec [OF i assms(3) this buffer, of ?f] show ?thesis
        using that by (elim yieldsE) (auto split: prod.splits)
    qed
    show ?thesis
    proof (cases q)
      case (Inl e)
      then obtain a where a: "objs s a = None" "create_frame a s t" and e: "e \<noteq> API_E_SUCCESS"
        and t: "inv (with_stock R s) (with_stock L s) {} t"
        using q(2) flags by (auto simp: new_string_def)
      have "stock_strings t = stock_strings s" using a(2) by (simp add: create_frame_def)
      moreover from this have "with_stock F t = with_stock F s" for F by (simp add: with_stock_def fun_eq_iff)
      ultimately show ?thesis
        using r None q Inl e t types [OF a(2,1)] by (simp add: inventory_get_stock_string_def)
    next
      case (Inr a)
      then have a: "objs s a = None" "create_frame a s t" "string_is t a buffer"
        and t: "inv ((with_stock R s)(a := 1)) ((with_stock L s)(a := 1)) {} t"
        using q(2) flags by (auto simp: new_string_def)
      have stock: "stock_strings t = stock_strings s" using a(2) by (simp add: create_frame_def)
      have c: "counts_ok (with_stock R s) (with_stock L s) {} s" using i by (simp add: inv_def)
      then have "\<not> 0 < with_stock R s a + held s {} a" "with_stock L s a \<le> with_stock R s a"
        using a(1) unfolding counts_ok_def by blast+
      then have zero: "with_stock R s a = 0" "with_stock L s a = 0" by simp_all
      obtain an rs where ask: "ask t = (an, t\<lparr>answers := rs\<rparr>)" by (rule ask_cases)
      let ?t = "t\<lparr>answers := rs\<rparr>"
      have t': "inv ((with_stock R s)(a := 1)) ((with_stock L s)(a := 1)) {} ?t" using t by simp
      show ?thesis
      proof (cases an)
        case (Inl en)
        obtain u where u: "string_unlock_and_release a ?t = Some u" "releases {} ?t u"
          "inv (((with_stock R s)(a := 1))(a := 0)) (((with_stock L s)(a := 1))(a := 0)) {} u"
        proof -
          have "0 < ((with_stock L s)(a := 1)) a" by simp
          from string_unlock_and_release_spec [OF t' this] show ?thesis
            using that unfolding fun_upd_same fun_upd_upd diff_self_eq_0 by (elim yieldsE) blast
        qed
        have st: "stock_strings u = stock_strings s" using u(2) stock by (simp add: releases_def)
        then have w: "with_stock F u = with_stock F s" for F by (simp add: with_stock_def fun_eq_iff)
        have "((with_stock F s)(a := 1))(a := 0) = with_stock F s" if "with_stock F s a = 0" for F
          using that by auto
        then have "inv (with_stock R u) (with_stock L u) {} u" using u(3) zero unfolding w by simp
        moreover have "stock_ok u"
          unfolding stock_ok_def st
        proof
          fix b assume b: "b \<in> set (stock_strings s)"
          then have "0 < with_stock R s b" by (simp add: with_stock_def count_list_pos)
          then have "0 < with_stock R u b" by (simp add: w)
          then have "objs u b \<noteq> None" using \<open>inv (with_stock R u) (with_stock L u) {} u\<close>
            unfolding inv_def counts_ok_def by fastforce
          then obtain o2 where o2: "objs u b = Some o2" by auto
          then obtain o1 where o1: "objs ?t b = Some o1" "same_but_counts o1 o2"
            using u(2) unfolding releases_def by blast
          have "b \<noteq> a" using \<open>0 < with_stock R s b\<close> zero by auto
          then have "objs s b = Some o1" using a(2) o1(1) by (simp add: create_frame_def)
          moreover have "is_type s OBJECT_TYPE_STRING b" using b assms(2) by (simp add: stock_ok_def)
          ultimately show "is_type u OBJECT_TYPE_STRING b"
            using o2 same_but_countsD [OF o1(2)] by (simp add: is_type_def)
        qed
        moreover have "api_get_error_code_from_errno en \<noteq> API_E_SUCCESS" by (cases en) simp_all
        ultimately show ?thesis
          using r None q Inr Inl ask u(1) st by (simp add: inventory_get_stock_string_def)
      next
        case (Inr x)
        let ?u = "?t\<lparr>stock_strings := stock_strings t @ [a]\<rparr>"
        have w: "with_stock F ?u = (with_stock F s)(a := 1)" if "with_stock F s a = 0" for F
          using that by (auto simp: with_stock_def fun_eq_iff stock count_list_append)
        have "inv R' L' {} ?u = inv R' L' {} ?t" for R' L' by (rule inv_frame) simp_all
        then have "inv (with_stock R ?u) (with_stock L ?u) {} ?u"
          unfolding w [OF zero(1)] w [OF zero(2)] using t' by blast
        moreover have "stock_ok ?u"
        proof -
          have "stock_ok t" by (rule types [OF a(2,1) stock])
          moreover have "is_type t OBJECT_TYPE_STRING a"
          proof -
            obtain ob so where "objs t a = Some ob" "payload ob = P_String so"
              using a(3) by (auto simp: string_is_def elim: the_stringE)
            then show ?thesis using inv_arrays(2) [OF t] by (auto simp: is_type_def object_wf_def)
          qed
          ultimately show ?thesis by (simp add: stock_ok_def is_type_def)
        qed
        moreover have "string_is ?u a buffer" using a(3) by (simp add: string_is_def the_string_def)
        ultimately show ?thesis
          using r None q \<open>q = Inr a\<close> Inr ask acquire [of ?u a] stock by (simp add: inventory_get_stock_string_def)
      qed
    qed
  qed
qed

end
