(* ===== verification/List_Object.thy ===== *)
theory List_Object
  imports Inventory
begin

text \<open>
  List objects: \<open>list.c\<close> and the functions of \<open>inventory.c\<close> that return lists. A list holds an
  internal reference and a lock on each of its items. A locked list does not change, so a list
  cannot be put into itself, not even indirectly.
\<close>

section \<open>Operations\<close>

definition the_list :: "apid \<Rightarrow> addr \<Rightarrow> list_obj option" where
  "the_list s a = do {
     ob \<leftarrow> objs s a;
     case payload ob of P_List lo \<Rightarrow> Some lo | _ \<Rightarrow> None
   }"

definition put_list :: "addr \<Rightarrow> list_obj \<Rightarrow> apid \<Rightarrow> apid option" where
  "put_list a lo s = do {
     ob \<leftarrow> objs s a;
     Some (put_obj a (ob\<lparr>payload := P_List lo\<rparr>) s)
   }"

text \<open>
  The result is the address of the list. \<open>reserve\<close> only says how much memory \<open>array_create\<close>
  allocates at first.
\<close>

definition list_allocate ::
    "u16 \<Rightarrow> addr option \<Rightarrow> u32 \<Rightarrow> apid \<Rightarrow> ((apie + addr) \<times> apid) option" where
  "list_allocate reserve session object_create_flags s =
     (case calloc s of
        (None, s) \<Rightarrow> Some (Inl API_E_NO_FREE_MEMORY, s)
      | (Some a, s) \<Rightarrow>
          (case ask s of
             (Inl en, s) \<Rightarrow> Some (Inl (api_get_error_code_from_errno en), s)
           | (Inr _, s) \<Rightarrow> do {
               let s = put_obj a (zero_object (P_List \<lparr>items = []\<rparr>)) s;
               (error_code, s) \<leftarrow> object_create a OBJECT_TYPE_LIST session object_create_flags s;
               if error_code \<noteq> API_E_SUCCESS then do {
                 s \<leftarrow> heap_free a s;
                 Some (Inl error_code, s)
               } else Some (Inr a, s)
             }))"

definition list_get_length :: "addr \<Rightarrow> apid \<Rightarrow> (apie \<times> u16) option" where
  "list_get_length a s = do { lo \<leftarrow> the_list s a; Some (API_E_SUCCESS, of_nat (length (items lo))) }"

definition list_get_item ::
    "addr \<Rightarrow> u16 \<Rightarrow> addr \<Rightarrow> apid \<Rightarrow> ((apie + u16 \<times> object_type) \<times> apid) option" where
  "list_get_item a index session s = do {
     lo \<leftarrow> the_list s a;
     if unat index \<ge> length (items lo) then Some (Inl API_E_OUT_OF_RANGE, s)
     else do {
       let item = items lo ! unat index;
       (error_code, s) \<leftarrow> object_add_external_reference item session s;
       if error_code \<noteq> API_E_SUCCESS then Some (Inl error_code, s)
       else do {
         ob \<leftarrow> objs s item;
         Some (Inr (obj_id ob, obj_type ob), s)
       }
     }
   }"

definition list_append_to :: "addr \<Rightarrow> u16 \<Rightarrow> apid \<Rightarrow> (apie \<times> apid) option" where
  "list_append_to a item_id s = do {
     ob \<leftarrow> objs s a;
     lo \<leftarrow> the_list s a;
     if item_id = obj_id ob then Some (API_E_NOT_SUPPORTED, s)
     else if lock_count ob > 0 then Some (API_E_OBJECT_IS_LOCKED, s)
     else if length (items lo) = 65535 then Some (API_E_INVALID_OPERATION, s)
     else do {
       r \<leftarrow> inventory_get_object OBJECT_TYPE_ANY item_id s;
       case r of
         Inl e \<Rightarrow> Some (e, s)
       | Inr item \<Rightarrow>
           (case ask s of
              (Inl en, s) \<Rightarrow> Some (api_get_error_code_from_errno en, s)
            | (Inr _, s) \<Rightarrow> do {
                s \<leftarrow> object_add_internal_reference item s;
                s \<leftarrow> object_lock item s;
                lo \<leftarrow> the_list s a;
                s \<leftarrow> put_list a (lo\<lparr>items := items lo @ [item]\<rparr>) s;
                Some (API_E_SUCCESS, s)
              })
     }
   }"

definition list_unlock_and_release_item :: "addr \<Rightarrow> apid \<Rightarrow> apid option" where
  "list_unlock_and_release_item item s = do {
     s \<leftarrow> object_unlock item s;
     object_remove_internal_reference item s
   }"

text \<open>\<open>array_remove\<close> runs the destructor on the item and then takes it out of the array.\<close>

definition list_remove_from :: "addr \<Rightarrow> u16 \<Rightarrow> apid \<Rightarrow> (apie \<times> apid) option" where
  "list_remove_from a index s = do {
     ob \<leftarrow> objs s a;
     lo \<leftarrow> the_list s a;
     if lock_count ob > 0 then Some (API_E_OBJECT_IS_LOCKED, s)
     else if unat index \<ge> length (items lo) then Some (API_E_OUT_OF_RANGE, s)
     else do {
       s \<leftarrow> list_unlock_and_release_item (items lo ! unat index) s;
       lo \<leftarrow> the_list s a;
       s \<leftarrow> put_list a (lo\<lparr>items := take (unat index) (items lo) @ drop (Suc (unat index)) (items lo)\<rparr>) s;
       Some (API_E_SUCCESS, s)
     }
   }"

primrec all_items_have_type :: "apid \<Rightarrow> object_type \<Rightarrow> addr list \<Rightarrow> bool option" where
  "all_items_have_type s t [] = Some True"
| "all_items_have_type s t (a # as) = do {
     ob \<leftarrow> objs s a;
     if obj_type ob \<noteq> t then Some False else all_items_have_type s t as
   }"

definition list_ensure_item_type :: "addr \<Rightarrow> object_type \<Rightarrow> apid \<Rightarrow> apie option" where
  "list_ensure_item_type a t s = do {
     lo \<leftarrow> the_list s a;
     ok \<leftarrow> all_items_have_type s t (items lo);
     Some (if ok then API_E_SUCCESS else API_E_WRONG_LIST_ITEM_TYPE)
   }"

definition list_acquire_and_lock :: "addr \<Rightarrow> apid \<Rightarrow> apid option" where
  "list_acquire_and_lock a s = do {
     s \<leftarrow> object_add_internal_reference a s;
     object_lock a s
   }"

definition list_unlock_and_release :: "addr \<Rightarrow> apid \<Rightarrow> apid option" where
  "list_unlock_and_release a s = do {
     s \<leftarrow> object_unlock a s;
     object_remove_internal_reference a s
   }"

definition list_get_acquired_and_locked ::
    "u16 \<Rightarrow> object_type \<Rightarrow> apid \<Rightarrow> ((apie + addr) \<times> apid) option" where
  "list_get_acquired_and_locked i item_type s = do {
     r \<leftarrow> inventory_get_object OBJECT_TYPE_LIST i s;
     case r of
       Inl e \<Rightarrow> Some (Inl e, s)
     | Inr a \<Rightarrow> do {
         error_code \<leftarrow> list_ensure_item_type a item_type s;
         if error_code \<noteq> API_E_SUCCESS then Some (Inl error_code, s)
         else do {
           s \<leftarrow> list_acquire_and_lock a s;
           Some (Inr a, s)
         }
       }
   }"

section \<open>Lists of processes and programs\<close>

text \<open>
  The loop of \<open>inventory_get_processes\<close> over the indices of the process array from \<open>i\<close> on; on an
  error the new list is released again. \<open>fuel\<close> bounds the rounds; the array does not change
  while the loop runs.
\<close>

primrec append_all :: "nat \<Rightarrow> addr \<Rightarrow> object_type \<Rightarrow> bool \<Rightarrow> nat \<Rightarrow> addr \<Rightarrow> apid \<Rightarrow> (apie \<times> apid) option" where
  "append_all 0 a t skip_unreferenced i session s =
     (if i < length (objects s t) then None else Some (API_E_SUCCESS, s))"
| "append_all (Suc fuel) a t skip_unreferenced i session s =
     (if i < length (objects s t) then do {
        ob \<leftarrow> objs s (objects s t ! i);
        if skip_unreferenced \<and> internal_reference_count ob = 0
        then append_all fuel a t skip_unreferenced (Suc i) session s
        else do {
          (error_code, s) \<leftarrow> list_append_to a (obj_id ob) s;
          if error_code \<noteq> API_E_SUCCESS then do {
            s \<leftarrow> object_remove_external_reference a session s;
            Some (error_code, s)
          } else append_all fuel a t skip_unreferenced (Suc i) session s
        }
      } else Some (API_E_SUCCESS, s))"

definition inventory_get_processes :: "addr \<Rightarrow> apid \<Rightarrow> ((apie + u16) \<times> apid) option" where
  "inventory_get_processes session s = do {
     let count = length (objects s OBJECT_TYPE_PROCESS);
     (r, s) \<leftarrow> list_allocate (of_nat count) (Some session) OBJECT_CREATE_FLAG_EXTERNAL s;
     case r of
       Inl e \<Rightarrow> Some (Inl e, s)
     | Inr a \<Rightarrow> do {
         (error_code, s) \<leftarrow> append_all count a OBJECT_TYPE_PROCESS False 0 session s;
         if error_code \<noteq> API_E_SUCCESS then Some (Inl error_code, s)
         else do { ob \<leftarrow> objs s a; Some (Inr (obj_id ob), s) }
       }
   }"

text \<open>
  The programs that only clients refer to are left out. The list is allocated for as many items
  as there are processes, which only matters for the memory reserved at first.
\<close>

definition inventory_get_programs :: "addr \<Rightarrow> apid \<Rightarrow> ((apie + u16) \<times> apid) option" where
  "inventory_get_programs session s = do {
     (r, s) \<leftarrow> list_allocate (of_nat (length (objects s OBJECT_TYPE_PROCESS))) (Some session)
                 OBJECT_CREATE_FLAG_EXTERNAL s;
     case r of
       Inl e \<Rightarrow> Some (Inl e, s)
     | Inr a \<Rightarrow> do {
         (error_code, s) \<leftarrow> append_all (length (objects s OBJECT_TYPE_PROGRAM)) a OBJECT_TYPE_PROGRAM True 0 session s;
         if error_code \<noteq> API_E_SUCCESS then Some (Inl error_code, s)
         else do { ob \<leftarrow> objs s a; Some (Inr (obj_id ob), s) }
       }
   }"

section \<open>The contract shared by strings and lists\<close>

text \<open>
  Acquiring an object takes an internal reference and a lock; releasing it gives both back and
  may destroy it. Every object type that other objects refer to has a pair of such operations.
\<close>

locale acquirable =
  fixes acquire release :: "addr \<Rightarrow> apid \<Rightarrow> apid option"
  assumes acquire_live: "\<lbrakk>inv R L {} s; objs s a \<noteq> None\<rbrakk> \<Longrightarrow> yields (acquire a s) (\<lambda>s'.
      inv (R(a := R a + 1)) (L(a := L a + 1)) {} s' \<and> releases {} s s' \<and> dom (objs s') = dom (objs s))"
    and release_held: "\<lbrakk>inv R L {} s; 0 < L a\<rbrakk> \<Longrightarrow> yields (release a s) (\<lambda>s'.
      inv (R(a := R a - 1)) (L(a := L a - 1)) {} s' \<and> releases {} s s')"
begin

text \<open>Acquiring and releasing again is without effect on the counters, whatever is destroyed.\<close>

lemma acquire_release:
  assumes "inv R L {} s" "objs s a \<noteq> None"
  shows "yields (do { s \<leftarrow> acquire a s; release a s }) (\<lambda>s'. inv R L {} s' \<and> releases {} s s')"
proof -
  obtain t where t: "acquire a s = Some t" "inv (R(a := R a + 1)) (L(a := L a + 1)) {} t" "releases {} s t"
    using acquire_live [OF assms] by (elim yieldsE) blast
  have "0 < (L(a := L a + 1)) a" by simp
  from release_held [OF t(2) this] obtain u where u: "release a t = Some u" "releases {} t u"
    "inv ((R(a := R a + 1))(a := (R(a := R a + 1)) a - 1)) ((L(a := L a + 1))(a := (L(a := L a + 1)) a - 1)) {} u"
    by (elim yieldsE) blast
  have "inv R L {} u" using u(3) by (simp only: fun_upd_same fun_upd_upd add_diff_cancel_right' fun_upd_triv)
  then show ?thesis using t(1) u(1) releases_trans [OF t(3) u(2)] by (simp only: bind.bind_lunit yields_Some simp_thms)
qed

end

interpretation strings: acquirable string_acquire_and_lock string_unlock_and_release
  by unfold_locales (rule acquire_live string_unlock_and_release_spec; assumption)+

interpretation lists: acquirable list_acquire_and_lock list_unlock_and_release
proof -
  have "list_acquire_and_lock = string_acquire_and_lock" "list_unlock_and_release = string_unlock_and_release"
    by (simp_all add: fun_eq_iff list_acquire_and_lock_def string_acquire_and_lock_def
        list_unlock_and_release_def string_unlock_and_release_def)
  then show "acquirable list_acquire_and_lock list_unlock_and_release"
    using strings.acquirable_axioms by simp
qed

end
