(* ===== verification/List_Facts.thy ===== *)
theory List_Facts
  imports List_Object
begin

text \<open>
  The contract of \<open>list.c\<close>: what every operation does to the items of a list and to the
  counters of the items, and that no list ever contains itself.
\<close>

section \<open>Changing an object in place while references are released\<close>

lemma inv_same_arrays:
  assumes "inv R L D s" "\<And>t. set (objects s' t) = set (objects s t)" "\<And>t. distinct (objects s' t)"
    and same: "objs s' = objs s" "refs s' = refs s" "sess s' = sess s" "next_addr s' = next_addr s"
      "sessions s' = sessions s"
  shows "inv R L D s'"
proof -
  have types: "is_type s' = is_type s" by (simp add: is_type_def same fun_eq_iff)
  have wf: "object_wf s' o' \<longleftrightarrow> object_wf s o'" for o'
    by (simp add: object_wf_def payload_wf_cong [OF types])
  have held: "held s' D = held s D" "held_locks s' D = held_locks s D"
    by (simp_all add: held_def held_locks_def same fun_eq_iff)
  have "references_ok s' = references_ok s"
    by (simp add: references_ok_def refs_total_def session_of_def [abs_def] same)
  moreover have "inventory_ok D s'"
    using assms(1,3) unfolding inv_def inventory_ok_def wf types assms(2) same by blast
  ultimately show ?thesis
    using assms(1) by (simp add: inv_def heap_bounded_def sessions_ok_def counts_ok_def held same)
qed

text \<open>An object that was set aside while it changed is taken back into the graph.\<close>

lemma inv_revive:
  assumes i: "inv (add_refs R (holds (payload ob))) (add_locks L (holds (payload ob))) {a} s"
    and ob: "objs s a = Some ob" and arr: "\<And>t. a \<in> set (objects s t) \<longleftrightarrow> t = obj_type ob"
    and type: "obj_type ob = payload_type (payload ob)" and pwf: "payload_wf s (payload ob)"
    and le: "\<And>b. L b \<le> R b" and id: "obj_id ob \<noteq> 0"
    and unique: "\<And>b o'. objs s b = Some o' \<Longrightarrow> b \<noteq> a \<Longrightarrow> obj_id o' \<noteq> obj_id ob"
    and counts: "internal_reference_count ob = int r" "lock_count ob = int l" "l \<le> r"
    and pos: "0 < internal_reference_count ob + external_reference_count ob"
  shows "inv (R(a := r)) (L(a := l)) {} s"
proof -
  let ?t = "obj_type ob"
  let ?s1 = "put_objects ?t (remove1 a (objects s ?t)) s"
  let ?s2 = "put_objects ?t (objects ?s1 ?t @ [a]) ?s1"
  have o: "inventory_ok {a} s" using i by (simp add: inv_def)
  have dist: "distinct (objects s t)" for t using o by (simp add: inventory_ok_def)
  have arr1: "objects ?s1 t = (if t = ?t then remove1 a (objects s t) else objects s t)" for t
    by (simp add: put_objects_def)
  have arr2: "objects ?s2 t = (if t = ?t then remove1 a (objects s t) @ [a] else objects s t)" for t
    by (simp add: put_objects_def)
  have same: "objs ?s1 = objs s" "refs ?s1 = refs s" "sess ?s1 = sess s" "next_addr ?s1 = next_addr s"
    "sessions ?s1 = sessions s"
    by (simp_all add: put_objects_def)
  have types: "is_type ?s1 = is_type s" by (simp add: is_type_def same fun_eq_iff)
  have wf: "object_wf ?s1 o' \<longleftrightarrow> object_wf s o'" for o'
    by (simp add: object_wf_def payload_wf_cong [OF types])
  have held: "held ?s1 {a} = held s {a}" "held_locks ?s1 {a} = held_locks s {a}"
    by (simp_all add: held_def held_locks_def same fun_eq_iff)
  have members: "b \<in> set (objects ?s1 t) \<longleftrightarrow> b \<in> set (objects s t) \<and> b \<noteq> a" for b t
    using arr [of t] dist [of t] by (cases "t = ?t") (auto simp: arr1)
  have "references_ok ?s1 = references_ok s"
    by (simp add: references_ok_def refs_total_def session_of_def [abs_def] same)
  moreover have "inventory_ok {a} ?s1"
  proof -
    have "distinct (objects ?s1 t)" for t using dist by (simp add: arr1 distinct_remove1)
    then show ?thesis
      using o unfolding inventory_ok_def wf types same members by blast
  qed
  ultimately have "inv (add_refs R (holds (payload ob))) (add_locks L (holds (payload ob))) {a} ?s1"
    using i by (simp add: inv_def heap_bounded_def sessions_ok_def counts_ok_def held same)
  moreover have "objs ?s1 a = Some ob" "payload_wf ?s1 (payload ob)"
    using ob pwf by (simp_all only: same payload_wf_cong [OF types])
  ultimately have "constructing R L a ob ?s1"
    using type le members unfolding constructing_def by blast
  from inv_born [OF this id _ counts pos refl] unique
  have "inv (R(a := r)) (L(a := l)) {} ?s2" by (simp add: same)
  then show ?thesis
  proof (rule inv_same_arrays)
    show "set (objects s t) = set (objects ?s2 t)" for t
      using arr [of t] dist [of t] by (cases "t = ?t") (auto simp: arr2)
  qed (simp_all add: dist put_objects_def)
qed

text \<open>Whoever refers to a list holds a lock on it, unless the reference is held outside.\<close>

lemma held_list:
  assumes "inv R L {} s" "objs s a = Some ob" "obj_type ob = OBJECT_TYPE_LIST"
  shows "held s {} a = held_locks s {} a"
  unfolding held_def held_locks_def
proof (rule sum.cong [OF refl])
  fix x assume "x \<in> {..<next_addr s}"
  show "cnt_refs (holds_of (objs s) {} x) a = cnt_locks (holds_of (objs s) {} x) a"
  proof (cases "objs s x")
    case None
    then show ?thesis by (simp add: holds_of_def)
  next
    case (Some ox)
    then have wf: "payload_wf s (payload ox)"
      using inv_arrays(2) [OF assms(1)] by (auto simp: object_wf_def)
    have not_file: "\<not> is_type s OBJECT_TYPE_FILE a" using assms(2,3) by (simp add: is_type_def)
    have "cnt_refs (holds (payload ox)) a = cnt_locks (holds (payload ox)) a"
    proof (cases "payload ox")
      case (P_List lo)
      have "cnt_refs (map (\<lambda>i. (i, True)) is) a = cnt_locks (map (\<lambda>i. (i, True)) is) a" for "is"
        by (induction "is") auto
      then show ?thesis using P_List by simp
    qed (use wf not_file in auto)
    then show ?thesis using Some by (simp add: holds_of_def)
  qed
qed

lemma unlocked_list:
  assumes "inv R L {} s" "objs s a = Some ob" "payload ob = P_List lo" "lock_count ob \<le> 0" "R a = L a"
  shows "R a = 0" "L a = 0" "held s {} a = 0" "internal_reference_count ob = 0" "lock_count ob = 0"
proof -
  note c = inv_counts [OF assms(1,2)]
  have "obj_type ob = OBJECT_TYPE_LIST"
    using inv_arrays(2) [OF assms(1,2)] assms(3) by (simp add: object_wf_def)
  then have "held s {} a = held_locks s {} a" by (rule held_list [OF assms(1,2)])
  then show "R a = 0" "L a = 0" "held s {} a = 0" "internal_reference_count ob = 0" "lock_count ob = 0"
    using c(1,2) assms(4,5) by simp_all
qed

section \<open>Making lists and reading them\<close>

lemma the_listE:
  assumes "the_list s a = Some lo"
  obtains ob where "objs s a = Some ob" "payload ob = P_List lo"
  using assms by (auto simp: the_list_def split: Option.bind_splits payload.splits)

lemma the_list_put:
  "the_list (put_obj a ob s) b =
     (if b = a then (case payload ob of P_List lo \<Rightarrow> Some lo | _ \<Rightarrow> None) else the_list s b)"
  by (simp add: the_list_def put_obj_def)

lemma the_list_answers [simp]: "the_list (s\<lparr>answers := x\<rparr>) = the_list s"
  by (simp add: the_list_def fun_eq_iff)

definition new_list ::
    "(addr \<Rightarrow> nat) \<Rightarrow> (addr \<Rightarrow> nat) \<Rightarrow> addr option \<Rightarrow> u32 \<Rightarrow> apid \<Rightarrow> (apie + addr) \<Rightarrow> apid \<Rightarrow> bool" where
  "new_list R L session f s r s' \<longleftrightarrow> (case r of
       Inr a \<Rightarrow> created R L a (P_List \<lparr>items = []\<rparr>) session f s s'
     | Inl e \<Rightarrow> e \<noteq> API_E_SUCCESS \<and> (refs_linked s \<longrightarrow> refs_linked s') \<and>
         (f AND OBJECT_CREATE_FLAG_EXTERNAL = 0 \<longrightarrow> inv R L {} s'))"

lemma list_allocate_spec:
  assumes "inv R L {} s" "\<forall>sa. session = Some sa \<longrightarrow> sess s sa \<noteq> None"
  shows "yields (list_allocate reserve session f s) (\<lambda>(r, s'). new_list R L session f s r s')"
proof (cases rule: calloc_cases [of s])
  case (failed rs)
  then show ?thesis using assms(1) by (simp add: list_allocate_def new_list_def)
next
  case (memory rs)
  let ?a = "next_addr s" and ?s = "s\<lparr>answers := rs, next_addr := Suc (next_addr s)\<rparr>" and ?p = "P_List \<lparr>items = []\<rparr>"
  obtain an ys where ask: "ask ?s = (an, ?s\<lparr>answers := ys\<rparr>)" by (rule ask_cases)
  let ?t = "?s\<lparr>answers := ys\<rparr>"
  have t: "inv R L {} ?t" using inv_next_addr [OF assms(1)] by simp
  show ?thesis
  proof (cases an)
    case (Inl en)
    then show ?thesis using memory ask t by (simp add: list_allocate_def new_list_def)
  next
    case (Inr x)
    have i: "inv (add_refs R (holds ?p)) (add_locks L (holds ?p)) {} ?t" using t by simp
    have none: "objs ?t ?a = None" using fresh_addr(1) [OF assms(1)] by simp
    have above: "?a < next_addr ?t" and wf: "payload_wf ?t ?p" and le: "\<forall>b. L b \<le> R b"
      and live: "\<forall>sa. session = Some sa \<longrightarrow> sess ?t sa \<noteq> None"
      using assms by (simp_all add: inv_def counts_ok_def)
    have eq: "list_allocate reserve session f s = create_or_free ?a ?p session f ?t"
      using memory ask Inr by (simp add: list_allocate_def create_or_free_def)
    show ?thesis
      using create_or_free_spec [OF i none above wf le live, of f] unfolding eq
      by (rule yields_mono) (auto simp: new_list_def split: sum.splits)
  qed
qed

lemma list_get_item_spec:
  assumes "inv R L {} s" "the_list s a = Some lo" "sess s session \<noteq> None"
  shows "yields (list_get_item a index session s) (\<lambda>(r, s'). inv R L {} s' \<and> (refs_linked s \<longrightarrow> refs_linked s') \<and>
     (if unat index < length (items lo)
      then let item = items lo ! unat index in
        (r = Inl API_E_NO_FREE_MEMORY \<and> (\<forall>b sb. ext_count s' b sb = ext_count s b sb)) \<or>
        (\<exists>ob. objs s item = Some ob \<and> r = Inr (obj_id ob, obj_type ob) \<and>
           (\<forall>b sb. ext_count s' b sb = ext_count s b sb + (if b = item \<and> sb = session then 1 else 0)))
      else r = Inl API_E_OUT_OF_RANGE \<and> s' = s))"
proof (cases "unat index < length (items lo)")
  case False
  then show ?thesis using assms(1,2) by (simp add: list_get_item_def)
next
  case True
  define item where "item = items lo ! unat index"
  obtain oa where oa: "objs s a = Some oa" "payload oa = P_List lo" using assms(2) by (rule the_listE)
  have "item \<in> set (items lo)" using True by (simp add: item_def)
  then have "0 < cnt_refs (holds (payload oa)) item"
    using oa(2) by (simp add: cnt_refs_def comp_def count_list_pos [symmetric])
  moreover have "cnt_refs (holds (payload oa)) item \<le> held s {} item"
    by (rule held_member(1) [OF oa(1)]) (use inv_counts(5) [OF assms(1) oa(1)] in auto)
  ultimately have "0 < R item + held s {} item" by simp
  then obtain ob where ob: "objs s item = Some ob"
    using assms(1) unfolding inv_def counts_ok_def by fastforce
  obtain e s' where add: "object_add_external_reference item session s = Some (e, s')" "inv R L {} s'"
    "refs_linked s \<longrightarrow> refs_linked s'" "e = API_E_SUCCESS \<or> e = API_E_NO_FREE_MEMORY"
    "\<forall>b sb. ext_count s' b sb = ext_count s b sb + (if e = API_E_SUCCESS \<and> b = item \<and> sb = session then 1 else 0)"
    using add_external_reference_spec [OF assms(1) ob assms(3)] by (elim yieldsE) auto
  obtain ob' where ob': "objs s' item = Some ob'" "obj_id ob' = obj_id ob" "obj_type ob' = obj_type ob"
    using add_external_reference_frame(1) [OF add(1) ob] same_but_externals_fields by fastforce
  show ?thesis
    using True assms(2) add ob ob'
    by (cases "e = API_E_SUCCESS") (simp_all add: list_get_item_def item_def [symmetric] Let_def)
qed

lemma list_get_length_spec:
  assumes "the_list s a = Some lo" "length (items lo) \<le> 65535"
  shows "yields (list_get_length a s) (\<lambda>(e, n). e = API_E_SUCCESS \<and> unat n = length (items lo))"
  using assms by (simp add: list_get_length_def unat_of_nat_u16)

lemma all_items_have_type_spec:
  assumes "\<forall>x\<in>set xs. objs s x \<noteq> None"
  shows "all_items_have_type s t xs = Some (\<forall>x\<in>set xs. is_type s t x)"
  using assms by (induction xs) (auto simp: is_type_def)

section \<open>Appending\<close>

text \<open>The objects an object refers to, as a relation on addresses.\<close>

definition contains :: "apid \<Rightarrow> (addr \<times> addr) set" where
  "contains s = {(a, b). \<exists>ob. objs s a = Some ob \<and> b \<in> fst ` set (holds (payload ob))}"

lemma contains_held:
  assumes "inv R L {} s" "(x, a) \<in> contains s"
  shows "0 < held s {} a"
proof -
  obtain ob where ob: "objs s x = Some ob" "a \<in> fst ` set (holds (payload ob))"
    using assms(2) by (auto simp: contains_def)
  have "0 < cnt_refs (holds (payload ob)) a"
    using ob(2) by (simp add: cnt_refs_def count_list_pos [symmetric])
  also have "\<dots> \<le> held s {} a"
    by (rule held_member(1) [OF ob(1)]) (use inv_counts(5) [OF assms(1) ob(1)] in auto)
  finally show ?thesis .
qed

lemma acyclic_append:
  assumes "inv R L {} s" "held s {} a = 0" "acyclic (contains s)" "x \<noteq> a"
  shows "acyclic (insert (a, x) (contains s))"
proof -
  have "(x, a) \<notin> (contains s)\<^sup>*"
  proof
    assume "(x, a) \<in> (contains s)\<^sup>*"
    then obtain y where "(y, a) \<in> contains s" using assms(4) by (auto elim: rtranclE)
    then show False using contains_held [OF assms(1)] assms(2) by fastforce
  qed
  then show ?thesis using assms(3) by (simp add: acyclic_insert)
qed

text \<open>The other objects keep their payload.\<close>

definition same_payloads_but :: "addr \<Rightarrow> apid \<Rightarrow> apid \<Rightarrow> bool" where
  "same_payloads_but a s s' \<longleftrightarrow>
     (\<forall>b. b \<noteq> a \<longrightarrow> map_option payload (objs s' b) = map_option payload (objs s b))"

lemma list_append_to_spec:
  assumes i: "inv R L {} s" and ob: "objs s a = Some ob" "payload ob = P_List lo" and R: "R a = L a"
  shows "yields (list_append_to a n s) (\<lambda>(e, s'). inv R L {} s' \<and> (refs_linked s \<longrightarrow> refs_linked s') \<and>
     (if e = API_E_SUCCESS
      then lock_count ob = 0 \<and> length (items lo) < 65535 \<and>
        (\<exists>x ox. objs s x = Some ox \<and> obj_id ox = n \<and> x \<noteq> a \<and> held s {} a = 0 \<and>
           the_list s' a = Some (lo\<lparr>items := items lo @ [x]\<rparr>) \<and> same_payloads_but a s s')
      else s' = s\<lparr>answers := answers s'\<rparr> \<and>
        (n = obj_id ob \<longrightarrow> e = API_E_NOT_SUPPORTED) \<and>
        (n \<noteq> obj_id ob \<and> lock_count ob > 0 \<longrightarrow> e = API_E_OBJECT_IS_LOCKED)))"
proof -
  have lo: "the_list s a = Some lo" using ob by (simp add: the_list_def)
  let ?stop = "n = obj_id ob \<or> lock_count ob > 0 \<or> length (items lo) = 65535"
  have short: "length (items lo) \<le> 65535"
    using inv_arrays(2) [OF i ob(1)] ob(2) by (simp add: object_wf_def)
  show ?thesis
  proof (cases ?stop)
    case True
    then have "\<exists>e. list_append_to a n s = Some (e, s) \<and> e \<noteq> API_E_SUCCESS \<and>
        (n = obj_id ob \<longrightarrow> e = API_E_NOT_SUPPORTED) \<and>
        (n \<noteq> obj_id ob \<and> lock_count ob > 0 \<longrightarrow> e = API_E_OBJECT_IS_LOCKED)"
      unfolding list_append_to_def ob(1) lo bind.bind_lunit by auto
    then show ?thesis using i by auto
  next
    case False
    then have id: "n \<noteq> obj_id ob" and unlocked: "lock_count ob \<le> 0" by simp_all
    note u = unlocked_list [OF i ob unlocked R]
    obtain r where r: "inventory_get_object OBJECT_TYPE_ANY n s = Some r"
      "case r of Inr x \<Rightarrow> \<exists>ox. objs s x = Some ox \<and> obj_id ox = n \<and> has_type OBJECT_TYPE_ANY ox
       | Inl e \<Rightarrow> e = API_E_UNKNOWN_OBJECT_ID \<and>
           (\<forall>x ox. objs s x = Some ox \<and> has_type OBJECT_TYPE_ANY ox \<longrightarrow> obj_id ox \<noteq> n)"
      using inventory_get_object_spec [OF i, of OBJECT_TYPE_ANY n] by (elim yieldsE)
    have body: "list_append_to a n s = (case r of
         Inl e \<Rightarrow> Some (e, s)
       | Inr item \<Rightarrow> (case ask s of
            (Inl en, s) \<Rightarrow> Some (api_get_error_code_from_errno en, s)
          | (Inr _, s) \<Rightarrow> do {
              s \<leftarrow> object_add_internal_reference item s;
              s \<leftarrow> object_lock item s;
              lo \<leftarrow> the_list s a;
              s \<leftarrow> put_list a (lo\<lparr>items := items lo @ [item]\<rparr>) s;
              Some (API_E_SUCCESS, s) }))"
      using False unfolding list_append_to_def ob(1) lo bind.bind_lunit r(1) by simp
    obtain an rs where ask: "ask s = (an, s\<lparr>answers := rs\<rparr>)" by (rule ask_cases)
    show ?thesis
    proof (cases r)
      case (Inl e)
      then show ?thesis using r(2) body i id unlocked by simp
    next
      case (Inr x)
      then obtain ox where ox: "objs s x = Some ox" "obj_id ox = n" using r(2) by auto
      then have xa: "x \<noteq> a" using id ob(1) by auto
      let ?s = "s\<lparr>answers := rs\<rparr>"
      show ?thesis
      proof (cases an)
        case (Inl en)
        then show ?thesis using body ask \<open>r = Inr x\<close> i id unlocked by simp
      next
        case (Inr y)
        have "inv R L {} ?s" "objs ?s x \<noteq> None" using i ox by simp_all
        from lists.acquire_live [OF this] obtain t where
          acq: "list_acquire_and_lock x ?s = Some t" and
          t: "inv (R(x := R x + 1)) (L(x := L x + 1)) {} t" "releases {} ?s t" "dom (objs t) = dom (objs ?s)"
          by (elim yieldsE) blast
        obtain ot where ot: "objs t a = Some ot" "payload ot = P_List lo"
        proof -
          have "a \<in> dom (objs t)" using t(3) ob(1) by auto
          then obtain ot where "objs t a = Some ot" by auto
          moreover from releasesD(1) [OF t(2) this] have "payload ot = P_List lo"
            using ob same_but_countsD by fastforce
          ultimately show ?thesis by (rule that)
        qed
        let ?u = "put_obj a (ot\<lparr>payload := P_List (lo\<lparr>items := items lo @ [x]\<rparr>)\<rparr>) t"
        have run: "list_append_to a n s = Some (API_E_SUCCESS, ?u)"
        proof -
          have "do { s \<leftarrow> object_add_internal_reference x ?s; s \<leftarrow> object_lock x s; k s } =
              do { s \<leftarrow> list_acquire_and_lock x ?s; k s }" for k :: "apid \<Rightarrow> (apie \<times> apid) option"
            by (simp add: list_acquire_and_lock_def)
          then show ?thesis
            using ot by (simp add: body \<open>r = Inr x\<close> ask Inr acq the_list_def put_list_def)
        qed
        have "inv R L {} ?u"
        proof (rule inv_put_payload [OF t(1) ot(1)])
          show "L b \<le> R b" for b using i by (simp add: inv_def counts_ok_def)
        qed (use short False in \<open>simp_all add: ot(2) cnt_refs_def cnt_locks_def count_list_append\<close>)
        moreover have "refs_linked t = refs_linked s"
          using releases_refs_linked [OF t(2)] by simp
        moreover have "same_payloads_but a s ?u"
          unfolding same_payloads_but_def
        proof (intro allI impI)
          fix b assume "b \<noteq> a"
          moreover have "map_option payload (objs t b) = map_option payload (objs s b)"
          proof (cases "objs t b")
            case None
            then show ?thesis using t(3) by auto
          next
            case (Some o2)
            then show ?thesis using releasesD(1) [OF t(2) Some] same_but_countsD by fastforce
          qed
          ultimately show "map_option payload (objs ?u b) = map_option payload (objs s b)"
            by (simp add: put_obj_def)
        qed
        moreover have "the_list ?u a = Some (lo\<lparr>items := items lo @ [x]\<rparr>)" by (simp add: the_list_put)
        ultimately show ?thesis using run ox xa u short False by auto
      qed
    qed
  qed
qed

lemma append_acyclic:
  assumes "inv R L {} s" "objs s a = Some ob" "payload ob = P_List lo" "R a = L a" "acyclic (contains s)"
    and "list_append_to a n s = Some (e, s')"
  shows "acyclic (contains s')"
proof -
  have spec: "if e = API_E_SUCCESS
      then lock_count ob = 0 \<and> length (items lo) < 65535 \<and>
        (\<exists>x ox. objs s x = Some ox \<and> obj_id ox = n \<and> x \<noteq> a \<and> held s {} a = 0 \<and>
           the_list s' a = Some (lo\<lparr>items := items lo @ [x]\<rparr>) \<and> same_payloads_but a s s')
      else s' = s\<lparr>answers := answers s'\<rparr> \<and>
        (n = obj_id ob \<longrightarrow> e = API_E_NOT_SUPPORTED) \<and>
        (n \<noteq> obj_id ob \<and> lock_count ob > 0 \<longrightarrow> e = API_E_OBJECT_IS_LOCKED)"
    using list_append_to_spec [OF assms(1-4), of n] assms(6) by simp
  have by_payload: "contains u = {(a, b). \<exists>p. map_option payload (objs u a) = Some p \<and> b \<in> fst ` set (holds p)}" for u
    by (auto simp: contains_def)
  show ?thesis
  proof (cases "e = API_E_SUCCESS")
    case False
    then have "objs s' = objs s" using spec by (metis apid.select_convs(1) apid.surjective apid.update_convs(11))
    then show ?thesis using assms(5) by (simp add: contains_def)
  next
    case True
    then obtain x where x: "x \<noteq> a" "held s {} a = 0" "the_list s' a = Some (lo\<lparr>items := items lo @ [x]\<rparr>)"
      and others: "same_payloads_but a s s'" using spec by auto
    obtain ob' where ob': "objs s' a = Some ob'" "payload ob' = P_List (lo\<lparr>items := items lo @ [x]\<rparr>)"
      using x(3) by (rule the_listE)
    have "(y, z) \<in> contains s' \<longleftrightarrow> (y, z) \<in> insert (a, x) (contains s)" for y z
    proof (cases "y = a")
      case True
      have "(a, z) \<in> contains s' \<longleftrightarrow> z \<in> set (items lo @ [x])" "(a, z) \<in> contains s \<longleftrightarrow> z \<in> set (items lo)"
        using ob' assms(2,3) by (simp_all add: contains_def image_image)
      then show ?thesis using True by auto
    next
      case False
      then have "map_option payload (objs s' y) = map_option payload (objs s y)"
        using others by (simp add: same_payloads_but_def)
      then have "(y, z) \<in> contains s' \<longleftrightarrow> (y, z) \<in> contains s"
        unfolding by_payload mem_Collect_eq prod.case by (simp only:)
      then show ?thesis using False by auto
    qed
    then have "contains s' = insert (a, x) (contains s)" by (intro set_eqI) (metis surj_pair)
    then show ?thesis using acyclic_append [OF assms(1) x(2) assms(5) x(1)] by simp
  qed
qed

section \<open>Removing\<close>

lemma cnt_delete:
  assumes "i < length xs"
  shows "cnt_refs (map (\<lambda>i. (i, True)) xs) b =
      cnt_refs (map (\<lambda>i. (i, True)) (take i xs @ drop (Suc i) xs)) b + (if b = xs ! i then 1 else 0)"
    and "cnt_locks (map (\<lambda>i. (i, True)) xs) b =
      cnt_locks (map (\<lambda>i. (i, True)) (take i xs @ drop (Suc i) xs)) b + (if b = xs ! i then 1 else 0)"
proof -
  have xs: "xs = take i xs @ xs ! i # drop (Suc i) xs" using assms by (rule id_take_nth_drop)
  have r: "cnt_refs (ys @ zs) b = cnt_refs ys b + cnt_refs zs b"
    and l: "cnt_locks (ys @ zs) b = cnt_locks ys b + cnt_locks zs b" for ys zs
    by (simp_all add: cnt_refs_def cnt_locks_def count_list_append)
  show "cnt_refs (map (\<lambda>i. (i, True)) xs) b =
      cnt_refs (map (\<lambda>i. (i, True)) (take i xs @ drop (Suc i) xs)) b + (if b = xs ! i then 1 else 0)"
    by (subst xs) (simp only: map_append list.map r cnt_refs_simps fst_conv if_cancel, simp)
  show "cnt_locks (map (\<lambda>i. (i, True)) xs) b =
      cnt_locks (map (\<lambda>i. (i, True)) (take i xs @ drop (Suc i) xs)) b + (if b = xs ! i then 1 else 0)"
    by (subst xs) (simp only: map_append list.map l cnt_refs_simps fst_conv snd_conv, simp)
qed

lemma list_remove_from_spec:
  assumes i: "inv R L {} s" and ob: "objs s a = Some ob" "payload ob = P_List lo" and R: "R a = L a"
  shows "yields (list_remove_from a n s) (\<lambda>(e, s'). inv R L {} s' \<and> (refs_linked s \<longrightarrow> refs_linked s') \<and>
     (if lock_count ob > 0 then e = API_E_OBJECT_IS_LOCKED \<and> s' = s
      else if unat n \<ge> length (items lo) then e = API_E_OUT_OF_RANGE \<and> s' = s
      else e = API_E_SUCCESS \<and>
        the_list s' a = Some (lo\<lparr>items := take (unat n) (items lo) @ drop (Suc (unat n)) (items lo)\<rparr>) \<and>
        (\<forall>b ob'. b \<noteq> a \<and> objs s' b = Some ob' \<longrightarrow> (\<exists>o1. objs s b = Some o1 \<and> payload ob' = payload o1))))"
proof -
  have lo: "the_list s a = Some lo" using ob by (simp add: the_list_def)
  show ?thesis
  proof (cases "lock_count ob > 0 \<or> unat n \<ge> length (items lo)")
    case True
    then show ?thesis using i unfolding list_remove_from_def ob(1) lo bind.bind_lunit by auto
  next
    case False
    then have unlocked: "lock_count ob \<le> 0" and n: "unat n < length (items lo)" by simp_all
    note u = unlocked_list [OF i ob unlocked R]
    define item where "item = items lo ! unat n"
    let ?items = "take (unat n) (items lo) @ drop (Suc (unat n)) (items lo)"
    let ?R = "add_refs R (holds (payload ob))" and ?L = "add_locks L (holds (payload ob))"
    have zero: "R(a := 0) = R" "L(a := 0) = L" using u by auto
    have D: "inv ?R ?L {a} s"
      using inv_dying [OF i ob(1) _ u(3)] zero by simp
    have "item \<in> set (items lo)" using n by (simp add: item_def)
    then have held: "0 < ?L item"
      using ob(2) by (simp add: add_locks_def cnt_locks_def comp_def count_list_pos [symmetric])
    obtain t where t: "string_unlock_and_release item s = Some t" "releases {a} s t"
      "inv (?R(item := ?R item - 1)) (?L(item := ?L item - 1)) {a} t"
      using string_unlock_and_release_spec [OF D held] by (elim yieldsE) blast
    have release: "list_unlock_and_release_item item s = Some t"
      using t(1) by (simp add: list_unlock_and_release_item_def string_unlock_and_release_def)
    have ot: "objs t a = Some ob" using releasesD(4) [OF t(2)] ob(1) by simp
    let ?ob = "ob\<lparr>payload := P_List (lo\<lparr>items := ?items\<rparr>)\<rparr>"
    let ?t = "put_obj a ?ob t"
    have run: "list_remove_from a n s = Some (API_E_SUCCESS, ?t)"
      using False release ot ob(2)
      unfolding list_remove_from_def ob(1) lo bind.bind_lunit item_def [symmetric]
      by (simp add: the_list_def put_list_def)
    have hs: "?R(item := ?R item - 1) = add_refs R (holds (payload ?ob))"
      "?L(item := ?L item - 1) = add_locks L (holds (payload ?ob))"
      using cnt_delete [OF n] by (auto simp: fun_eq_iff add_refs_def add_locks_def ob(2) item_def)
    have in_D: "inv (add_refs R (holds (payload ?ob))) (add_locks L (holds (payload ?ob))) {a} ?t"
      using inv_put_in_D [OF t(3) ot, of ?ob] unfolding hs by simp
    have wf: "object_wf s ob" "\<And>ty. a \<in> set (objects s ty) \<longleftrightarrow> ty = obj_type ob"
      using inv_arrays [OF i ob(1)] by simp_all
    have arr: "a \<in> set (objects ?t ty) \<longleftrightarrow> ty = obj_type ?ob" for ty
      using wf(2) releasesD(2,3) [OF t(2)] by (auto simp: put_obj_def)
    have ids: "obj_id o' \<noteq> obj_id ?ob" if "objs ?t b = Some o'" "b \<noteq> a" for b o'
    proof -
      have "objs t b = Some o'" using that by (simp add: put_obj_def)
      then obtain o1 where o1: "objs s b = Some o1" "obj_id o' = obj_id o1"
        using releasesD(1) [OF t(2)] same_but_countsD by blast
      then show ?thesis using i ob(1) that(2) unfolding inv_def inventory_ok_def by fastforce
    qed
    have "inv (R(a := 0)) (L(a := 0)) {} ?t"
    proof (rule inv_revive [OF in_D])
      show "objs ?t a = Some ?ob" by (simp add: put_obj_def)
      show "L b \<le> R b" for b using i by (simp add: inv_def counts_ok_def)
      show "obj_id ?ob \<noteq> 0" using wf(1) by (simp add: object_wf_def OBJECT_ID_ZERO_def)
      show "0 < internal_reference_count ?ob + external_reference_count ?ob"
        using wf(1) by (simp add: object_wf_def)
      have "length (items lo) \<le> 65535" using wf(1) ob(2) by (simp add: object_wf_def)
      then show "payload_wf ?t (payload ?ob)" by simp
      show "obj_type ?ob = payload_type (payload ?ob)" using wf(1) ob(2) by (simp add: object_wf_def)
      show "internal_reference_count ?ob = int 0" "lock_count ?ob = int 0" using u by simp_all
    qed (use arr ids in auto)
    then have "inv R L {} ?t" unfolding zero .
    moreover have "refs_linked t = refs_linked s" using releases_refs_linked [OF t(2)] .
    moreover have "\<exists>o1. objs s b = Some o1 \<and> payload o' = payload o1" if "b \<noteq> a" "objs ?t b = Some o'" for b o'
    proof -
      have "objs t b = Some o'" using that by (simp add: put_obj_def)
      then show ?thesis using releasesD(1) [OF t(2)] same_but_countsD by blast
    qed
    ultimately show ?thesis using run False by (simp add: the_list_put)
  qed
qed

section \<open>Acquiring a list\<close>

lemma items_live:
  assumes "inv R L {} s" "the_list s a = Some lo"
  shows "\<forall>x\<in>set (items lo). objs s x \<noteq> None"
proof
  fix x assume x: "x \<in> set (items lo)"
  obtain ob where ob: "objs s a = Some ob" "payload ob = P_List lo" using assms(2) by (rule the_listE)
  have "(a, x) \<in> contains s" using ob x by (simp add: contains_def image_image)
  from contains_held [OF assms(1) this] show "objs s x \<noteq> None"
    using assms(1) unfolding inv_def counts_ok_def by fastforce
qed

lemma list_get_acquired_and_locked_spec:
  assumes "inv R L {} s"
  shows "yields (list_get_acquired_and_locked i t s) (\<lambda>(r, s'). case r of
       Inr a \<Rightarrow> (\<exists>ob lo. objs s a = Some ob \<and> obj_id ob = i \<and> payload ob = P_List lo \<and>
           (\<forall>x\<in>set (items lo). is_type s t x)) \<and>
         inv (R(a := R a + 1)) (L(a := L a + 1)) {} s' \<and> releases {} s s' \<and> dom (objs s') = dom (objs s)
     | Inl e \<Rightarrow> s' = s \<and> (e = API_E_UNKNOWN_OBJECT_ID \<or>
         e = API_E_WRONG_LIST_ITEM_TYPE \<and> (\<exists>a ob lo. objs s a = Some ob \<and> obj_id ob = i \<and>
           payload ob = P_List lo \<and> \<not> (\<forall>x\<in>set (items lo). is_type s t x))))"
proof -
  obtain r where r: "inventory_get_object OBJECT_TYPE_LIST i s = Some r"
    "case r of Inr a \<Rightarrow> \<exists>ob. objs s a = Some ob \<and> obj_id ob = i \<and> has_type OBJECT_TYPE_LIST ob
     | Inl e \<Rightarrow> e = API_E_UNKNOWN_OBJECT_ID \<and>
         (\<forall>a ob. objs s a = Some ob \<and> has_type OBJECT_TYPE_LIST ob \<longrightarrow> obj_id ob \<noteq> i)"
    using inventory_get_object_spec [OF assms, of OBJECT_TYPE_LIST i] by (elim yieldsE)
  show ?thesis
  proof (cases r)
    case (Inl e)
    then show ?thesis using r by (simp add: list_get_acquired_and_locked_def)
  next
    case (Inr a)
    then obtain ob where ob: "objs s a = Some ob" "obj_id ob = i" "obj_type ob = OBJECT_TYPE_LIST"
      using r by (auto simp: has_type_def)
    then obtain lo where lo: "payload ob = P_List lo"
      using inv_arrays(2) [OF assms ob(1)] by (cases "payload ob") (auto simp: object_wf_def)
    have the: "the_list s a = Some lo" using ob lo by (simp add: the_list_def)
    have ty: "list_ensure_item_type a t s = Some (if \<forall>x\<in>set (items lo). is_type s t x
        then API_E_SUCCESS else API_E_WRONG_LIST_ITEM_TYPE)"
      using all_items_have_type_spec [OF items_live [OF assms the]] by (simp add: list_ensure_item_type_def the)
    have live: "objs s a \<noteq> None" using ob by simp
    obtain s' where s': "list_acquire_and_lock a s = Some s'" "inv (R(a := R a + 1)) (L(a := L a + 1)) {} s'"
      "releases {} s s'" "dom (objs s') = dom (objs s)"
      using lists.acquire_live [OF assms live] by (elim yieldsE) blast
    show ?thesis
    proof (cases "\<forall>x\<in>set (items lo). is_type s t x")
      case True
      note ok = ty [unfolded if_P [OF True]]
      have "list_get_acquired_and_locked i t s = Some (Inr a, s')"
        using r(1) Inr ok s'(1) by (simp add: list_get_acquired_and_locked_def)
      then show ?thesis using True ob lo s' by (simp only: yields_Some sum.case prod.case) blast
    next
      case False
      note wrong = ty [unfolded if_not_P [OF False]]
      have "list_get_acquired_and_locked i t s = Some (Inl API_E_WRONG_LIST_ITEM_TYPE, s)"
        using r(1) Inr wrong by (simp add: list_get_acquired_and_locked_def)
      then show ?thesis using False ob lo by (simp only: yields_Some sum.case prod.case) blast
    qed
  qed
qed

end
