(* ===== verification/System.thy ===== *)
theory System
  imports Inventory
begin

text \<open>
  What the file, directory and process objects share: calls of the kernel that are repeated
  while they are interrupted, the fields of \<open>struct stat\<close>, the wait status of a child process,
  the numeric flags of POSIX and Linux, and the two functions of \<open>process.c\<close> that fork a child
  and change its identity.
\<close>

section \<open>Calls of the kernel\<close>

text \<open>
  \<open>do { rc = call(); } while (rc < 0 && errno_interrupted())\<close>: the calls that are interrupted
  use up their answers, the first other answer is the result.
\<close>

definition is_interrupted :: "daemonlib \<Rightarrow> errno + int \<Rightarrow> bool" where
  "is_interrupted dl r = (case r of Inl en \<Rightarrow> errno_interrupted dl en | Inr _ \<Rightarrow> False)"

definition ask_retry :: "apid \<Rightarrow> (errno + int) \<times> apid" where
  "ask_retry s = ask (s\<lparr>answers := dropWhile (is_interrupted (lib s)) (answers s)\<rparr>)"

text \<open>A number that the kernel or the C library stores in a struct.\<close>

definition ask_int :: "apid \<Rightarrow> int \<times> apid" where
  "ask_int s = (case ask s of (Inl _, s) \<Rightarrow> (0, s) | (Inr i, s) \<Rightarrow> (i, s))"

primrec ask_ints :: "nat \<Rightarrow> apid \<Rightarrow> int list \<times> apid" where
  "ask_ints 0 s = ([], s)"
| "ask_ints (Suc n) s = (let (i, s) = ask_int s; (is, s) = ask_ints n s in (i # is, s))"

text \<open>The bytes that \<open>read\<close> stores into a buffer.\<close>

definition ask_bytes :: "nat \<Rightarrow> apid \<Rightarrow> char list \<times> apid" where
  "ask_bytes n s = (let (is, s) = ask_ints n s in (map (\<lambda>i. char_of (nat (i mod 256))) is, s))"

text \<open>
  \<open>read\<close> into a buffer of \<open>n\<close> bytes: the number of bytes it returns is never negative and never
  more than \<open>n\<close>.
\<close>

definition ask_read :: "nat \<Rightarrow> apid \<Rightarrow> (errno + char list) \<times> apid" where
  "ask_read n s = (case ask s of
       (Inl en, s) \<Rightarrow> (Inl en, s)
     | (Inr rc, s) \<Rightarrow> (let (cs, s) = ask_bytes (min n (nat rc)) s in (Inr cs, s)))"

record stat =
  st_mode :: u32
  st_uid :: u32
  st_gid :: u32
  st_size :: u64
  st_atime :: u64
  st_mtime :: u64
  st_ctime :: u64

text \<open>\<open>fstat\<close>, \<open>stat\<close> and \<open>lstat\<close>.\<close>

definition ask_stat :: "apid \<Rightarrow> (errno + stat) \<times> apid" where
  "ask_stat s = (case ask s of
       (Inl en, s) \<Rightarrow> (Inl en, s)
     | (Inr _, s) \<Rightarrow>
         (let (mode, s) = ask_int s; (uid, s) = ask_int s; (gid, s) = ask_int s;
              (size', s) = ask_int s; (atime, s) = ask_int s; (mtime, s) = ask_int s;
              (ctime, s) = ask_int s
          in (Inr \<lparr>st_mode = of_int mode, st_uid = of_int uid, st_gid = of_int gid,
                   st_size = of_int size', st_atime = of_int atime, st_mtime = of_int mtime,
                   st_ctime = of_int ctime\<rparr>, s)))"

section \<open>POSIX constants\<close>

definition S_IFMT :: u32 where "S_IFMT = 0xF000"
definition S_IFSOCK :: u32 where "S_IFSOCK = 0xC000"
definition S_IFLNK :: u32 where "S_IFLNK = 0xA000"
definition S_IFREG :: u32 where "S_IFREG = 0x8000"
definition S_IFBLK :: u32 where "S_IFBLK = 0x6000"
definition S_IFDIR :: u32 where "S_IFDIR = 0x4000"
definition S_IFCHR :: u32 where "S_IFCHR = 0x2000"
definition S_IFIFO :: u32 where "S_IFIFO = 0x1000"

definition S_IRUSR :: u32 where "S_IRUSR = 0x100"
definition S_IWUSR :: u32 where "S_IWUSR = 0x080"
definition S_IXUSR :: u32 where "S_IXUSR = 0x040"
definition S_IRGRP :: u32 where "S_IRGRP = 0x020"
definition S_IWGRP :: u32 where "S_IWGRP = 0x010"
definition S_IXGRP :: u32 where "S_IXGRP = 0x008"
definition S_IROTH :: u32 where "S_IROTH = 0x004"
definition S_IWOTH :: u32 where "S_IWOTH = 0x002"
definition S_IXOTH :: u32 where "S_IXOTH = 0x001"

definition O_RDONLY :: u32 where "O_RDONLY = 0"
definition O_WRONLY :: u32 where "O_WRONLY = 0x001"
definition O_RDWR :: u32 where "O_RDWR = 0x002"
definition O_CREAT :: u32 where "O_CREAT = 0x040"
definition O_EXCL :: u32 where "O_EXCL = 0x080"
definition O_NOCTTY :: u32 where "O_NOCTTY = 0x100"
definition O_TRUNC :: u32 where "O_TRUNC = 0x200"
definition O_APPEND :: u32 where "O_APPEND = 0x400"
definition O_NONBLOCK :: u32 where "O_NONBLOCK = 0x800"

lemmas mode_defs = S_IFMT_def S_IFSOCK_def S_IFLNK_def S_IFREG_def S_IFBLK_def S_IFDIR_def
  S_IFCHR_def S_IFIFO_def S_IRUSR_def S_IWUSR_def S_IXUSR_def S_IRGRP_def S_IWGRP_def S_IXGRP_def
  S_IROTH_def S_IWOTH_def S_IXOTH_def

lemmas open_flag_defs = O_RDONLY_def O_WRONLY_def O_RDWR_def O_CREAT_def O_EXCL_def O_NOCTTY_def
  O_TRUNC_def O_APPEND_def O_NONBLOCK_def

text \<open>The macros that take a wait status apart.\<close>

definition WTERMSIG :: "u32 \<Rightarrow> u32" where "WTERMSIG status = status AND 0x7F"
definition WEXITSTATUS :: "u32 \<Rightarrow> u32" where "WEXITSTATUS status = drop_bit 8 (status AND 0xFF00)"
definition WSTOPSIG :: "u32 \<Rightarrow> u32" where "WSTOPSIG status = WEXITSTATUS status"
definition WIFEXITED :: "u32 \<Rightarrow> bool" where "WIFEXITED status = (WTERMSIG status = 0)"
definition WIFSTOPPED :: "u32 \<Rightarrow> bool" where "WIFSTOPPED status = (status AND 0xFF = 0x7F)"
definition WIFCONTINUED :: "u32 \<Rightarrow> bool" where "WIFCONTINUED status = (status = 0xFFFF)"
definition WIFSIGNALED :: "u32 \<Rightarrow> bool" where
  "WIFSIGNALED status = (WTERMSIG status \<noteq> 0 \<and> WTERMSIG status \<noteq> 0x7F)"

lemmas wait_status_defs = WTERMSIG_def WEXITSTATUS_def WSTOPSIG_def WIFEXITED_def WIFSTOPPED_def
  WIFCONTINUED_def WIFSIGNALED_def

text \<open>
  An \<open>int\<close> that is stored into an \<open>APIE\<close> variable. The numbers come from child processes of this
  daemon, which exit with an enumerator, or with \<open>PROCESS_E_INTERNAL_ERROR\<close> from \<open>process_fork\<close>.
  A number that is no enumerator stays that number in C; it is read as an unknown error here.
\<close>

definition apie_enumerators :: "apie list" where
  "apie_enumerators = [API_E_SUCCESS, API_E_UNKNOWN_ERROR, API_E_INVALID_OPERATION,
     API_E_OPERATION_ABORTED, API_E_INTERNAL_ERROR, API_E_UNKNOWN_SESSION_ID,
     API_E_NO_FREE_SESSION_ID, API_E_UNKNOWN_OBJECT_ID, API_E_NO_FREE_OBJECT_ID,
     API_E_OBJECT_IS_LOCKED, API_E_NO_MORE_DATA, API_E_WRONG_LIST_ITEM_TYPE,
     API_E_PROGRAM_IS_PURGED, API_E_INVALID_PARAMETER, API_E_NO_FREE_MEMORY,
     API_E_NO_FREE_SPACE, API_E_ACCESS_DENIED, API_E_ALREADY_EXISTS, API_E_DOES_NOT_EXIST,
     API_E_INTERRUPTED, API_E_IS_DIRECTORY, API_E_NOT_A_DIRECTORY, API_E_WOULD_BLOCK,
     API_E_OVERFLOW, API_E_BAD_FILE_DESCRIPTOR, API_E_OUT_OF_RANGE, API_E_NAME_TOO_LONG,
     API_E_INVALID_SEEK, API_E_NOT_SUPPORTED, API_E_TOO_MANY_OPEN_FILES]"

definition apie_of_code :: "nat \<Rightarrow> apie" where
  "apie_of_code n = (case filter (\<lambda>e. apie_code e = n) apie_enumerators of
       [] \<Rightarrow> API_E_UNKNOWN_ERROR | e # _ \<Rightarrow> e)"

section \<open>Forking\<close>

definition PROCESS_E_INTERNAL_ERROR :: nat where "PROCESS_E_INTERNAL_ERROR = 125"
definition PROCESS_E_CANNOT_EXECUTE :: nat where "PROCESS_E_CANNOT_EXECUTE = 126"
definition PROCESS_E_DOES_NOT_EXIST :: nat where "PROCESS_E_DOES_NOT_EXIST = 127"

text \<open>
  \<open>process_fork\<close> in the parent: the calls are \<open>pthread_sigmask\<close> and \<open>fork\<close>, the result is the
  process ID of the child. Restoring the signal mask cannot fail.
\<close>

definition process_fork :: "apid \<Rightarrow> (apie + int) \<times> apid" where
  "process_fork s = (case ask s of
       (Inl _, s) \<Rightarrow> (Inl API_E_INTERNAL_ERROR, s)
     | (Inr _, s) \<Rightarrow> (case ask s of
           (Inl _, s) \<Rightarrow> (Inl API_E_INTERNAL_ERROR, s)
         | (Inr pid, s) \<Rightarrow> (Inr pid, s)))"

text \<open>
  \<open>process_fork\<close> in the child, after \<open>fork\<close> returned 0: it resets the signal handlers and
  unblocks the signals. \<open>Inl\<close> is the code the child exits with.
\<close>

definition process_fork_child :: "apid \<Rightarrow> (nat + unit) \<times> apid" where
  "process_fork_child s = (case ask s of
       (Inl _, s) \<Rightarrow> (Inl PROCESS_E_INTERNAL_ERROR, s)
     | (Inr _, s) \<Rightarrow> (Inr (), s))"

text \<open>
  \<open>process_set_identity\<close>: \<open>getpwuid\<close>, \<open>getgrouplist\<close>, \<open>setregid\<close>, \<open>setgroups\<close> and \<open>setreuid\<close>,
  in this order; the user goes last because it takes the right to change the groups.
\<close>

datatype identity_call =
    getpwuid u32 | getgrouplist u32 | setregid u32 | setgroups u32 | setreuid u32

definition identity_calls :: "u32 \<Rightarrow> u32 \<Rightarrow> identity_call list" where
  "identity_calls uid gid = [getpwuid uid, getgrouplist uid, setregid gid, setgroups uid, setreuid uid]"

primrec run_identity_calls :: "identity_call list \<Rightarrow> apid \<Rightarrow> apie \<times> identity_call list \<times> apid" where
  "run_identity_calls [] s = (API_E_SUCCESS, [], s)"
| "run_identity_calls (c # cs) s = (case ask s of
       (Inl en, s) \<Rightarrow> (api_get_error_code_from_errno en, [], s)
     | (Inr _, s) \<Rightarrow> (let (e, made, s) = run_identity_calls cs s in (e, c # made, s)))"

text \<open>The result has the calls that succeeded, in their order.\<close>

definition process_set_identity :: "u32 \<Rightarrow> u32 \<Rightarrow> apid \<Rightarrow> apie \<times> identity_call list \<times> apid" where
  "process_set_identity uid gid s = run_identity_calls (identity_calls uid gid) s"

section \<open>Facts\<close>

lemma apie_of_code_inverse [simp]: "apie_of_code (apie_code e) = e"
  by (cases e) (simp_all add: apie_of_code_def apie_enumerators_def)

lemma process_set_identity_complete:
  "process_set_identity uid gid s = (e, made, s') \<Longrightarrow>
     (e = API_E_SUCCESS \<longleftrightarrow> made = identity_calls uid gid) \<and>
     (\<exists>rest. identity_calls uid gid = made @ rest)"
proof -
  have "run_identity_calls cs t = (e, made, s') \<Longrightarrow>
      (e = API_E_SUCCESS \<longleftrightarrow> made = cs) \<and> (\<exists>rest. cs = made @ rest)" for cs t made
    by (induction cs arbitrary: t made) (auto split: prod.splits sum.splits)
  then show "process_set_identity uid gid s = (e, made, s') \<Longrightarrow> ?thesis"
    unfolding process_set_identity_def by blast
qed

text \<open>What the calls of the kernel leave alone: everything but the answers still to come.\<close>

definition only_answers :: "apid \<Rightarrow> apid \<Rightarrow> bool" where
  "only_answers s s' \<longleftrightarrow> (\<exists>rs. s' = s\<lparr>answers := rs\<rparr>)"

lemma only_answers_refl [simp]: "only_answers s s"
  unfolding only_answers_def by (rule exI [of _ "answers s"]) simp

lemma only_answers_trans: "only_answers s t \<Longrightarrow> only_answers t u \<Longrightarrow> only_answers s u"
  by (auto simp: only_answers_def)

lemma only_answers_update [simp]: "only_answers s (s\<lparr>answers := rs\<rparr>)"
  by (auto simp: only_answers_def)

lemma only_answers_ask: "ask s = (r, s') \<Longrightarrow> only_answers s s'"
  by (auto simp: ask_def split: list.splits)

lemma only_answers_ask_retry: "ask_retry s = (r, s') \<Longrightarrow> only_answers s s'"
  unfolding ask_retry_def by (drule only_answers_ask) (auto simp: only_answers_def)

lemma only_answers_ask_int: "ask_int s = (i, s') \<Longrightarrow> only_answers s s'"
  by (auto simp: ask_int_def dest: only_answers_ask split: prod.splits sum.splits)

lemma only_answers_ask_ints: "ask_ints n s = (is, s') \<Longrightarrow> length is = n \<and> only_answers s s'"
  by (induction n arbitrary: s "is" s')
    (auto split: prod.splits dest: only_answers_ask_int intro: only_answers_trans)

lemma only_answers_ask_bytes: "ask_bytes n s = (cs, s') \<Longrightarrow> length cs = n \<and> only_answers s s'"
  by (auto simp: ask_bytes_def split: prod.splits dest: only_answers_ask_ints)

lemma only_answers_ask_read:
  "ask_read n s = (r, s') \<Longrightarrow> only_answers s s' \<and> (\<forall>cs. r = Inr cs \<longrightarrow> length cs \<le> n)"
  by (auto simp: ask_read_def split: prod.splits sum.splits
      dest: only_answers_ask only_answers_ask_bytes intro: only_answers_trans)

lemma only_answers_ask_stat: "ask_stat s = (r, s') \<Longrightarrow> only_answers s s'"
  by (auto simp: ask_stat_def split: prod.splits sum.splits
      dest!: only_answers_ask only_answers_ask_int) (auto simp: only_answers_def)

lemma only_answers_process_fork: "process_fork s = (r, s') \<Longrightarrow> only_answers s s'"
  by (auto simp: process_fork_def split: prod.splits sum.splits
      dest!: only_answers_ask intro: only_answers_trans)

text \<open>
  What the steps between the changes of the object graph leave alone: everything but the answers,
  the trace and the addresses that are already taken.
\<close>

definition quiet :: "apid \<Rightarrow> apid \<Rightarrow> bool" where
  "quiet s t \<longleftrightarrow> (\<exists>as tr n. t = s\<lparr>answers := as, trace := tr, next_addr := next_addr s + n\<rparr>)"

lemma quiet_refl [simp]: "quiet s s"
  unfolding quiet_def by (intro exI [of _ "answers s"] exI [of _ "trace s"] exI [of _ 0]) simp

lemma quiet_trans: "quiet s t \<Longrightarrow> quiet t u \<Longrightarrow> quiet s u"
proof -
  assume "quiet s t" "quiet t u"
  then obtain as tr n as' tr' n' where
    t: "t = s\<lparr>answers := as, trace := tr, next_addr := next_addr s + n\<rparr>" and
    u: "u = t\<lparr>answers := as', trace := tr', next_addr := next_addr t + n'\<rparr>" unfolding quiet_def by blast
  have "u = s\<lparr>answers := as', trace := tr', next_addr := next_addr s + (n + n')\<rparr>"
    unfolding u t by simp
  then show "quiet s u" unfolding quiet_def by blast
qed

lemma quiet_emit [simp]: "quiet s t \<Longrightarrow> quiet s (emit e t)"
proof -
  have "quiet t (emit e t)" unfolding quiet_def emit_def
    by (intro exI [of _ "answers t"] exI [of _ "trace t @ [e]"] exI [of _ 0]) simp
  then show "quiet s t \<Longrightarrow> quiet s (emit e t)" by (blast intro: quiet_trans)
qed

lemma quiet_only_answers: "only_answers s t \<Longrightarrow> quiet s t"
  unfolding only_answers_def quiet_def
  by (elim exE, rule exI, rule exI [of _ "trace s"], rule exI [of _ 0]) simp

lemma quiet_ask: "quiet s t \<Longrightarrow> ask t = (r, u) \<Longrightarrow> quiet s u"
  by (blast intro: quiet_trans quiet_only_answers only_answers_ask)

lemma quiet_ask_retry: "quiet s t \<Longrightarrow> ask_retry t = (r, u) \<Longrightarrow> quiet s u"
  by (blast intro: quiet_trans quiet_only_answers only_answers_ask_retry)

lemma quiet_ask_int: "quiet s t \<Longrightarrow> ask_int t = (r, u) \<Longrightarrow> quiet s u"
  by (blast intro: quiet_trans quiet_only_answers only_answers_ask_int)

lemma quiet_ask_stat: "quiet s t \<Longrightarrow> ask_stat t = (r, u) \<Longrightarrow> quiet s u"
  by (blast intro: quiet_trans quiet_only_answers only_answers_ask_stat)

lemma quiet_process_fork: "quiet s t \<Longrightarrow> process_fork t = (r, u) \<Longrightarrow> quiet s u"
  by (blast intro: quiet_trans quiet_only_answers only_answers_process_fork)

lemma quiet_calloc: "quiet s t \<Longrightarrow> calloc t = (r, u) \<Longrightarrow> quiet s u"
proof (cases rule: calloc_cases [of t])
  case (failed rs)
  then show "quiet s t \<Longrightarrow> calloc t = (r, u) \<Longrightarrow> quiet s u"
    by simp (blast intro: quiet_trans quiet_only_answers only_answers_update)
next
  case (memory rs)
  have "quiet t (t\<lparr>answers := rs, next_addr := Suc (next_addr t)\<rparr>)" unfolding quiet_def
    by (intro exI [of _ rs] exI [of _ "trace t"] exI [of _ 1]) simp
  then show "quiet s t \<Longrightarrow> calloc t = (r, u) \<Longrightarrow> quiet s u"
    using memory by (auto intro: quiet_trans)
qed

lemmas quiet_steps = quiet_ask quiet_ask_retry quiet_ask_int quiet_ask_stat quiet_process_fork quiet_calloc

lemma quiet_fields:
  assumes "quiet s t"
  shows "objs t = objs s" "refs t = refs s" "sess t = sess s" "objects t = objects s" "sessions t = sessions s"
    "stock_strings t = stock_strings s" "lib t = lib s" "next_addr s \<le> next_addr t"
    "next_object_id t = next_object_id s"
  using assms by (auto simp: quiet_def)

lemma quiet_inv:
  assumes "inv R L {} s" "quiet s t"
  shows "inv R L {} t"
proof -
  obtain as tr n where t: "t = s\<lparr>answers := as, trace := tr, next_addr := next_addr s + n\<rparr>"
    using assms(2) unfolding quiet_def by blast
  have "inv R L {} (s\<lparr>next_addr := next_addr s + n\<rparr>)"
  proof (induction n)
    case (Suc n)
    from inv_next_addr [OF this] show ?case by simp
  qed (use assms(1) in simp)
  moreover have "only_emits (s\<lparr>next_addr := next_addr s + n\<rparr>) t" unfolding t only_emits_def by simp
  ultimately show ?thesis by (simp add: only_emits_inv)
qed

lemma quiet_facts:
  assumes "quiet s t"
  shows "refs_linked t = refs_linked s" "is_type t = is_type s" "the_string t = the_string s"
    "string_chars t = string_chars s" "ext_count t = ext_count s"
    "created R L a p session f t = created R L a p session f s" "create_frame a t = create_frame a s"
proof -
  obtain as tr n where t: "t = s\<lparr>answers := as, trace := tr, next_addr := next_addr s + n\<rparr>"
    using assms(1) unfolding quiet_def by blast
  show "refs_linked t = refs_linked s" "is_type t = is_type s" "the_string t = the_string s"
    unfolding t by (simp_all add: refs_linked_def is_type_def the_string_def fun_eq_iff)
  then show "string_chars t = string_chars s" by (simp add: string_chars_def fun_eq_iff)
  have "refs_total t = refs_total s" "session_of t = session_of s" "objs t = objs s"
    unfolding t by (simp_all add: refs_total_def session_of_def fun_eq_iff)
  then show ext: "ext_count t = ext_count s" unfolding ext_count_def by presburger
  show "create_frame a t = create_frame a s" unfolding t by (simp add: create_frame_def fun_eq_iff)
  moreover have "refs_linked t = refs_linked s" "objs t = objs s" unfolding t by (simp_all add: refs_linked_def)
  ultimately show "created R L a p session f t = created R L a p session f s"
    by (simp add: created_def ext fun_eq_iff)
qed

lemma calloc_address:
  assumes "inv R L {} s" "quiet s t" "calloc t = (Some a, u)"
  shows "objs u a = None" "a < next_addr u" "inv R L {} u" "quiet s u"
proof -
  have t: "inv R L {} t" using assms(1,2) by (rule quiet_inv)
  show "quiet s u" using assms(2,3) by (rule quiet_calloc)
  then show "inv R L {} u" using quiet_inv [OF assms(1)] by blast
  show "objs u a = None" "a < next_addr u"
    using assms(3) fresh_addr(1) [OF t] by (cases rule: calloc_cases [of t]; simp)+
qed

lemma add_one [simp]: "add_refs R [(a, b)] = R(a := R a + 1)" "add_locks L [(a, True)] = L(a := L a + 1)"
  "add_locks L [(a, False)] = L"
  by (simp_all add: add_refs_def add_locks_def cnt_refs_def cnt_locks_def fun_eq_iff)

end
