(* ===== verification/File_Object.thy ===== *)
theory File_Object
  imports System
begin

text \<open>
  File objects: \<open>file.c\<close>. Opening a file as the user of the daemon or, in a child process, as
  another user; unnamed pipes; reading and writing, at once or in the background; position and
  events. A file object is registered with the event loop for its \<open>async_read_eventfd\<close> while
  a read in the background is going on, and for the ends of its pipe while the client waits
  for them.
\<close>

section \<open>Constants\<close>

definition FILE_FLAG_READ_ONLY :: u32 where "FILE_FLAG_READ_ONLY = 0x0001"
definition FILE_FLAG_WRITE_ONLY :: u32 where "FILE_FLAG_WRITE_ONLY = 0x0002"
definition FILE_FLAG_READ_WRITE :: u32 where "FILE_FLAG_READ_WRITE = 0x0004"
definition FILE_FLAG_APPEND :: u32 where "FILE_FLAG_APPEND = 0x0008"
definition FILE_FLAG_CREATE :: u32 where "FILE_FLAG_CREATE = 0x0010"
definition FILE_FLAG_EXCLUSIVE :: u32 where "FILE_FLAG_EXCLUSIVE = 0x0020"
definition FILE_FLAG_NON_BLOCKING :: u32 where "FILE_FLAG_NON_BLOCKING = 0x0040"
definition FILE_FLAG_TRUNCATE :: u32 where "FILE_FLAG_TRUNCATE = 0x0080"
definition FILE_FLAG_REPLACE :: u32 where "FILE_FLAG_REPLACE = 0x0200"

definition FILE_FLAG_ALL :: u32 where
  "FILE_FLAG_ALL = FILE_FLAG_READ_ONLY OR FILE_FLAG_WRITE_ONLY OR FILE_FLAG_READ_WRITE OR
     FILE_FLAG_APPEND OR FILE_FLAG_CREATE OR FILE_FLAG_EXCLUSIVE OR FILE_FLAG_NON_BLOCKING OR
     FILE_FLAG_TRUNCATE OR FILE_FLAG_TEMPORARY OR FILE_FLAG_REPLACE"

definition PIPE_FLAG_ALL :: "daemonlib \<Rightarrow> u32" where
  "PIPE_FLAG_ALL dl = PIPE_FLAG_NON_BLOCKING_READ dl OR PIPE_FLAG_NON_BLOCKING_WRITE dl"

definition FILE_PERMISSION_USER_READ :: u16 where "FILE_PERMISSION_USER_READ = 0x100"
definition FILE_PERMISSION_USER_WRITE :: u16 where "FILE_PERMISSION_USER_WRITE = 0x080"
definition FILE_PERMISSION_USER_EXECUTE :: u16 where "FILE_PERMISSION_USER_EXECUTE = 0x040"
definition FILE_PERMISSION_GROUP_READ :: u16 where "FILE_PERMISSION_GROUP_READ = 0x020"
definition FILE_PERMISSION_GROUP_WRITE :: u16 where "FILE_PERMISSION_GROUP_WRITE = 0x010"
definition FILE_PERMISSION_GROUP_EXECUTE :: u16 where "FILE_PERMISSION_GROUP_EXECUTE = 0x008"
definition FILE_PERMISSION_OTHERS_READ :: u16 where "FILE_PERMISSION_OTHERS_READ = 0x004"
definition FILE_PERMISSION_OTHERS_WRITE :: u16 where "FILE_PERMISSION_OTHERS_WRITE = 0x002"
definition FILE_PERMISSION_OTHERS_EXECUTE :: u16 where "FILE_PERMISSION_OTHERS_EXECUTE = 0x001"

definition FILE_PERMISSION_ALL :: u16 where
  "FILE_PERMISSION_ALL =
     (FILE_PERMISSION_USER_READ OR FILE_PERMISSION_USER_WRITE OR FILE_PERMISSION_USER_EXECUTE) OR
     (FILE_PERMISSION_GROUP_READ OR FILE_PERMISSION_GROUP_WRITE OR FILE_PERMISSION_GROUP_EXECUTE) OR
     (FILE_PERMISSION_OTHERS_READ OR FILE_PERMISSION_OTHERS_WRITE OR FILE_PERMISSION_OTHERS_EXECUTE)"

definition FILE_EVENT_ALL :: u16 where "FILE_EVENT_ALL = FILE_EVENT_READABLE OR FILE_EVENT_WRITABLE"

definition FILE_MAX_READ_BUFFER_LENGTH :: u8 where "FILE_MAX_READ_BUFFER_LENGTH = 62"
definition FILE_MAX_READ_ASYNC_BUFFER_LENGTH :: u8 where "FILE_MAX_READ_ASYNC_BUFFER_LENGTH = 60"
definition FILE_MAX_WRITE_BUFFER_LENGTH :: u8 where "FILE_MAX_WRITE_BUFFER_LENGTH = 61"
definition FILE_MAX_WRITE_UNCHECKED_BUFFER_LENGTH :: u8 where
  "FILE_MAX_WRITE_UNCHECKED_BUFFER_LENGTH = 61"
definition FILE_MAX_WRITE_ASYNC_BUFFER_LENGTH :: u8 where "FILE_MAX_WRITE_ASYNC_BUFFER_LENGTH = 61"
definition INT64_MAX :: u64 where "INT64_MAX = 0x7FFFFFFFFFFFFFFF"

lemmas file_flag_defs = FILE_FLAG_READ_ONLY_def FILE_FLAG_WRITE_ONLY_def FILE_FLAG_READ_WRITE_def
  FILE_FLAG_APPEND_def FILE_FLAG_CREATE_def FILE_FLAG_EXCLUSIVE_def FILE_FLAG_NON_BLOCKING_def
  FILE_FLAG_TRUNCATE_def FILE_FLAG_TEMPORARY_def FILE_FLAG_REPLACE_def FILE_FLAG_ALL_def

lemmas file_permission_defs = FILE_PERMISSION_USER_READ_def FILE_PERMISSION_USER_WRITE_def
  FILE_PERMISSION_USER_EXECUTE_def FILE_PERMISSION_GROUP_READ_def FILE_PERMISSION_GROUP_WRITE_def
  FILE_PERMISSION_GROUP_EXECUTE_def FILE_PERMISSION_OTHERS_READ_def FILE_PERMISSION_OTHERS_WRITE_def
  FILE_PERMISSION_OTHERS_EXECUTE_def FILE_PERMISSION_ALL_def

section \<open>Types, permissions and flags\<close>

fun file_get_type_name :: "file_type \<Rightarrow> string" where
  "file_get_type_name FILE_TYPE_UNKNOWN = ''<unknown>''"
| "file_get_type_name FILE_TYPE_REGULAR = ''regular''"
| "file_get_type_name FILE_TYPE_DIRECTORY = ''directory''"
| "file_get_type_name FILE_TYPE_CHARACTER = ''character''"
| "file_get_type_name FILE_TYPE_BLOCK = ''block''"
| "file_get_type_name FILE_TYPE_FIFO = ''FIFO''"
| "file_get_type_name FILE_TYPE_SYMLINK = ''symlink''"
| "file_get_type_name FILE_TYPE_SOCKET = ''socket''"
| "file_get_type_name FILE_TYPE_PIPE = ''pipe''"

text \<open>The position of an enumerator of \<open>FileType\<close>.\<close>

fun file_type_code :: "file_type \<Rightarrow> u8" where
  "file_type_code FILE_TYPE_UNKNOWN = 0"
| "file_type_code FILE_TYPE_REGULAR = 1"
| "file_type_code FILE_TYPE_DIRECTORY = 2"
| "file_type_code FILE_TYPE_CHARACTER = 3"
| "file_type_code FILE_TYPE_BLOCK = 4"
| "file_type_code FILE_TYPE_FIFO = 5"
| "file_type_code FILE_TYPE_SYMLINK = 6"
| "file_type_code FILE_TYPE_SOCKET = 7"
| "file_type_code FILE_TYPE_PIPE = 8"

definition file_get_type_from_stat_mode :: "u32 \<Rightarrow> file_type" where
  "file_get_type_from_stat_mode mode =
     (if mode AND S_IFMT = S_IFREG then FILE_TYPE_REGULAR
      else if mode AND S_IFMT = S_IFDIR then FILE_TYPE_DIRECTORY
      else if mode AND S_IFMT = S_IFCHR then FILE_TYPE_CHARACTER
      else if mode AND S_IFMT = S_IFBLK then FILE_TYPE_BLOCK
      else if mode AND S_IFMT = S_IFIFO then FILE_TYPE_FIFO
      else if mode AND S_IFMT = S_IFLNK then FILE_TYPE_SYMLINK
      else if mode AND S_IFMT = S_IFSOCK then FILE_TYPE_SOCKET
      else FILE_TYPE_UNKNOWN)"

text \<open>One statement \<open>if ((x & b) != 0) { y |= value; }\<close>.\<close>

definition or_if :: "'a::len word \<Rightarrow> 'a word \<Rightarrow> 'b::len word \<Rightarrow> 'b word \<Rightarrow> 'b word" where
  "or_if x b v y = (if x AND b \<noteq> 0 then y OR v else y)"

definition file_get_permissions_from_stat_mode :: "u32 \<Rightarrow> u16" where
  "file_get_permissions_from_stat_mode mode =
     (let permissions = 0;
          permissions = or_if mode S_IRUSR FILE_PERMISSION_USER_READ permissions;
          permissions = or_if mode S_IWUSR FILE_PERMISSION_USER_WRITE permissions;
          permissions = or_if mode S_IXUSR FILE_PERMISSION_USER_EXECUTE permissions;
          permissions = or_if mode S_IRGRP FILE_PERMISSION_GROUP_READ permissions;
          permissions = or_if mode S_IWGRP FILE_PERMISSION_GROUP_WRITE permissions;
          permissions = or_if mode S_IXGRP FILE_PERMISSION_GROUP_EXECUTE permissions;
          permissions = or_if mode S_IROTH FILE_PERMISSION_OTHERS_READ permissions;
          permissions = or_if mode S_IWOTH FILE_PERMISSION_OTHERS_WRITE permissions
      in or_if mode S_IXOTH FILE_PERMISSION_OTHERS_EXECUTE permissions)"

definition file_get_oflags_from_flags :: "u32 \<Rightarrow> u32" where
  "file_get_oflags_from_flags flags =
     (let oflags = 0;
          oflags = or_if flags FILE_FLAG_READ_ONLY O_RDONLY oflags;
          oflags = or_if flags FILE_FLAG_WRITE_ONLY O_WRONLY oflags;
          oflags = or_if flags FILE_FLAG_READ_WRITE O_RDWR oflags;
          oflags = or_if flags FILE_FLAG_APPEND O_APPEND oflags;
          oflags = or_if flags FILE_FLAG_CREATE O_CREAT oflags;
          oflags = or_if flags FILE_FLAG_EXCLUSIVE O_EXCL oflags;
          oflags = or_if flags FILE_FLAG_NON_BLOCKING O_NONBLOCK oflags
      in or_if flags FILE_FLAG_TRUNCATE O_TRUNC oflags)"

definition file_get_mode_from_permissions :: "u16 \<Rightarrow> u32" where
  "file_get_mode_from_permissions permissions =
     (let mode = 0;
          mode = or_if permissions FILE_PERMISSION_USER_READ S_IRUSR mode;
          mode = or_if permissions FILE_PERMISSION_USER_WRITE S_IWUSR mode;
          mode = or_if permissions FILE_PERMISSION_USER_EXECUTE S_IXUSR mode;
          mode = or_if permissions FILE_PERMISSION_GROUP_READ S_IRGRP mode;
          mode = or_if permissions FILE_PERMISSION_GROUP_WRITE S_IWGRP mode;
          mode = or_if permissions FILE_PERMISSION_GROUP_EXECUTE S_IXGRP mode;
          mode = or_if permissions FILE_PERMISSION_OTHERS_READ S_IROTH mode;
          mode = or_if permissions FILE_PERMISSION_OTHERS_WRITE S_IWOTH mode
      in or_if permissions FILE_PERMISSION_OTHERS_EXECUTE S_IXOTH mode)"

section \<open>Access to file objects\<close>

definition the_file :: "apid \<Rightarrow> addr \<Rightarrow> file_obj option" where
  "the_file s a = do {
     ob \<leftarrow> objs s a;
     case payload ob of P_File f \<Rightarrow> Some f | _ \<Rightarrow> None
   }"

definition put_file :: "addr \<Rightarrow> file_obj \<Rightarrow> apid \<Rightarrow> apid option" where
  "put_file a f s = do {
     ob \<leftarrow> objs s a;
     Some (put_obj a (ob\<lparr>payload := P_File f\<rparr>) s)
   }"

definition file_get_read_handle :: "file_obj \<Rightarrow> handle" where
  "file_get_read_handle f =
     (if file_type f = FILE_TYPE_PIPE then Pipe_read_handle (file_pipe f) else Fd (file_fd f))"

definition file_get_write_handle :: "file_obj \<Rightarrow> handle" where
  "file_get_write_handle f =
     (if file_type f = FILE_TYPE_PIPE then Pipe_write_handle (file_pipe f) else Fd (file_fd f))"

definition file_get_acquired :: "u16 \<Rightarrow> apid \<Rightarrow> ((apie + addr) \<times> apid) option" where
  "file_get_acquired i s = do {
     r \<leftarrow> inventory_get_object OBJECT_TYPE_FILE i s;
     case r of
       Inl e \<Rightarrow> Some (Inl e, s)
     | Inr a \<Rightarrow> do {
         s \<leftarrow> object_add_internal_reference a s;
         Some (Inr a, s)
       }
   }"

definition file_release :: "addr \<Rightarrow> apid \<Rightarrow> apid option" where
  "file_release a s = object_remove_internal_reference a s"

section \<open>Callbacks\<close>

definition file_send_async_read_callback :: "addr \<Rightarrow> apie \<Rightarrow> char list \<Rightarrow> apid \<Rightarrow> apid option" where
  "file_send_async_read_callback a error_code buffer s = do {
     ob \<leftarrow> objs s a;
     Some (if external_reference_count ob > 0
           then emit (Ev_async_file_read_callback (obj_id ob) error_code buffer) s else s)
   }"

definition file_send_async_write_callback :: "addr \<Rightarrow> apie \<Rightarrow> u8 \<Rightarrow> apid \<Rightarrow> apid option" where
  "file_send_async_write_callback a error_code length_written s = do {
     ob \<leftarrow> objs s a;
     Some (if external_reference_count ob > 0
           then emit (Ev_async_file_write_callback (obj_id ob) error_code length_written) s else s)
   }"

definition file_send_events_occurred_callback :: "addr \<Rightarrow> u16 \<Rightarrow> apid \<Rightarrow> apid option" where
  "file_send_events_occurred_callback a events s = do {
     ob \<leftarrow> objs s a;
     Some (if external_reference_count ob > 0
           then emit (Ev_file_events_occurred_callback (obj_id ob) events) s else s)
   }"

definition file_handle_readable_event :: "addr \<Rightarrow> apid \<Rightarrow> apid option" where
  "file_handle_readable_event a s = do {
     f \<leftarrow> the_file s a;
     let s = emit (Ev_event_remove_source (Pipe_read_handle (file_pipe f))) s;
     s \<leftarrow> put_file a (f\<lparr>file_events := file_events f AND NOT FILE_EVENT_READABLE\<rparr>) s;
     file_send_events_occurred_callback a FILE_EVENT_READABLE s
   }"

definition file_handle_writable_event :: "addr \<Rightarrow> apid \<Rightarrow> apid option" where
  "file_handle_writable_event a s = do {
     f \<leftarrow> the_file s a;
     let s = emit (Ev_event_remove_source (Pipe_write_handle (file_pipe f))) s;
     s \<leftarrow> put_file a (f\<lparr>file_events := file_events f AND NOT FILE_EVENT_WRITABLE\<rparr>) s;
     file_send_events_occurred_callback a FILE_EVENT_WRITABLE s
   }"

section \<open>The functions behind \<open>read\<close>, \<open>write\<close> and \<open>seek\<close>\<close>

text \<open>
  \<open>robust_read\<close> and \<open>pipe_read\<close> into a buffer of \<open>n\<close> bytes; \<open>robust_write\<close> and \<open>pipe_write\<close>
  report how many of the bytes they took.
\<close>

definition file_handle_read :: "file_obj \<Rightarrow> nat \<Rightarrow> apid \<Rightarrow> (errno + char list) \<times> apid" where
  "file_handle_read f n s =
     (if file_flags f AND FILE_FLAG_NON_BLOCKING = 0 then (Inl ENOTSUP, s) else ask_read n s)"

definition pipe_handle_read :: "file_obj \<Rightarrow> nat \<Rightarrow> apid \<Rightarrow> (errno + char list) \<times> apid" where
  "pipe_handle_read f n s =
     (if file_flags f AND PIPE_FLAG_NON_BLOCKING_READ (lib s) = 0 then (Inl ENOTSUP, s)
      else ask_read n s)"

definition ask_write :: "handle \<Rightarrow> char list \<Rightarrow> apid \<Rightarrow> (errno + nat) \<times> apid" where
  "ask_write h cs s = (case ask (emit (Ev_write h cs) s) of
       (Inl en, s) \<Rightarrow> (Inl en, s)
     | (Inr rc, s) \<Rightarrow> (Inr (min (length cs) (nat rc)), s))"

definition file_handle_write :: "file_obj \<Rightarrow> char list \<Rightarrow> apid \<Rightarrow> (errno + nat) \<times> apid" where
  "file_handle_write f cs s =
     (if file_flags f AND FILE_FLAG_NON_BLOCKING = 0 then (Inl ENOTSUP, s)
      else ask_write (Fd (file_fd f)) cs s)"

definition pipe_handle_write :: "file_obj \<Rightarrow> char list \<Rightarrow> apid \<Rightarrow> (errno + nat) \<times> apid" where
  "pipe_handle_write f cs s =
     (if file_flags f AND PIPE_FLAG_NON_BLOCKING_WRITE (lib s) = 0 then (Inl ENOTSUP, s)
      else ask_write (Pipe_write_handle (file_pipe f)) cs s)"

definition file_handle_seek :: "file_obj \<Rightarrow> int \<Rightarrow> int \<Rightarrow> apid \<Rightarrow> (errno + int) \<times> apid" where
  "file_handle_seek f offset whence s = ask (emit (Ev_lseek (file_fd f) offset whence) s)"

definition pipe_handle_seek :: "file_obj \<Rightarrow> int \<Rightarrow> int \<Rightarrow> apid \<Rightarrow> (errno + int) \<times> apid" where
  "pipe_handle_seek f offset whence s = (Inl ESPIPE, s)"

text \<open>The calls \<open>file->read(\<dots>)\<close>, \<open>file->write(\<dots>)\<close> and \<open>file->seek(\<dots>)\<close>.\<close>

definition file_do_read :: "file_obj \<Rightarrow> nat \<Rightarrow> apid \<Rightarrow> (errno + char list) \<times> apid" where
  "file_do_read f n s = (if file_is_pipe_ops f then pipe_handle_read f n s else file_handle_read f n s)"

definition file_do_write :: "file_obj \<Rightarrow> char list \<Rightarrow> apid \<Rightarrow> (errno + nat) \<times> apid" where
  "file_do_write f cs s = (if file_is_pipe_ops f then pipe_handle_write f cs s else file_handle_write f cs s)"

definition file_do_seek :: "file_obj \<Rightarrow> int \<Rightarrow> int \<Rightarrow> apid \<Rightarrow> (errno + int) \<times> apid" where
  "file_do_seek f offset whence s =
     (if file_is_pipe_ops f then pipe_handle_seek f offset whence s else file_handle_seek f offset whence s)"

section \<open>Reading\<close>

text \<open>The end of a read in the background: no source, no reading, nothing left to read.\<close>

definition file_stop_async_read :: "addr \<Rightarrow> file_obj \<Rightarrow> apid \<Rightarrow> apid option" where
  "file_stop_async_read a f s = do {
     let s = emit (Ev_event_remove_source (Fd (file_async_read_eventfd f))) s;
     put_file a (f\<lparr>file_async_read_in_progress := False, file_length_to_read_async := 0\<rparr>) s
   }"

definition file_handle_async_read :: "addr \<Rightarrow> apid \<Rightarrow> apid option" where
  "file_handle_async_read a s = do {
     f \<leftarrow> the_file s a;
     if \<not> file_async_read_in_progress f then
       Some (emit (Ev_event_remove_source (Fd (file_async_read_eventfd f))) s)
     else do {
       let length_to_read = FILE_MAX_READ_ASYNC_BUFFER_LENGTH;
       let length_to_read = (if ucast length_to_read > file_length_to_read_async f
                             then ucast (file_length_to_read_async f) else length_to_read);
       case file_do_read f (unat length_to_read) s of
         (Inl en, s) \<Rightarrow>
           if errno_interrupted (lib s) en then Some s
           else if errno_would_block (lib s) en then do {
             s \<leftarrow> file_stop_async_read a f s;
             file_send_async_read_callback a API_E_SUCCESS [] s
           } else do {
             s \<leftarrow> file_stop_async_read a f s;
             file_send_async_read_callback a (api_get_error_code_from_errno en) [] s
           }
       | (Inr buffer, s) \<Rightarrow> do {
           let left = file_length_to_read_async f - of_nat (length buffer);
           let f = f\<lparr>file_length_to_read_async := left\<rparr>;
           s \<leftarrow> (if buffer = [] \<or> left = 0 then file_stop_async_read a f s else put_file a f s);
           file_send_async_read_callback a API_E_SUCCESS buffer s
         }
     }
   }"

definition file_read :: "addr \<Rightarrow> u8 \<Rightarrow> apid \<Rightarrow> ((apie + char list) \<times> apid) option" where
  "file_read a length_to_read s = do {
     f \<leftarrow> the_file s a;
     if length_to_read > FILE_MAX_READ_BUFFER_LENGTH then Some (Inl API_E_OUT_OF_RANGE, s)
     else if file_async_read_in_progress f then Some (Inl API_E_INVALID_OPERATION, s)
     else (case file_do_read f (unat length_to_read) s of
         (Inl en, s) \<Rightarrow>
           if errno_would_block (lib s) en then Some (Inr [], s)
           else Some (Inl (api_get_error_code_from_errno en), s)
       | (Inr buffer, s) \<Rightarrow> Some (Inr buffer, s))
   }"

text \<open>
  \<open>event_add_source\<close>: a source that was added is an event of the trace.
\<close>

definition event_add_source :: "handle \<Rightarrow> apid \<Rightarrow> bool \<times> apid" where
  "event_add_source h s = (case ask s of
       (Inl _, s) \<Rightarrow> (False, s)
     | (Inr _, s) \<Rightarrow> (True, emit (Ev_event_add_source h) s))"

definition file_read_async :: "addr \<Rightarrow> u64 \<Rightarrow> apid \<Rightarrow> (packet_e \<times> apid) option" where
  "file_read_async a length_to_read s = do {
     f \<leftarrow> the_file s a;
     if length_to_read > INT64_MAX then do {
       s \<leftarrow> file_send_async_read_callback a API_E_OUT_OF_RANGE [] s;
       Some (PACKET_E_INVALID_PARAMETER, s)
     } else if file_async_read_in_progress f then do {
       s \<leftarrow> file_send_async_read_callback a API_E_INVALID_OPERATION [] s;
       Some (PACKET_E_UNKNOWN_ERROR, s)
     } else do {
       s \<leftarrow> put_file a (f\<lparr>file_async_read_in_progress := True,
                         file_length_to_read_async := length_to_read\<rparr>) s;
       case event_add_source (Fd (file_async_read_eventfd f)) s of
         (False, s) \<Rightarrow> do {
           s \<leftarrow> file_send_async_read_callback a API_E_INTERNAL_ERROR [] s;
           Some (PACKET_E_UNKNOWN_ERROR, s)
         }
       | (True, s) \<Rightarrow> Some (PACKET_E_SUCCESS, s)
     }
   }"

definition file_abort_async_read :: "addr \<Rightarrow> apid \<Rightarrow> (apie \<times> apid) option" where
  "file_abort_async_read a s = do {
     f \<leftarrow> the_file s a;
     if file_async_read_in_progress f then do {
       s \<leftarrow> file_stop_async_read a f s;
       s \<leftarrow> file_send_async_read_callback a API_E_OPERATION_ABORTED [] s;
       Some (API_E_SUCCESS, s)
     } else Some (API_E_SUCCESS, s)
   }"

section \<open>Writing\<close>

text \<open>
  The buffer of the packet has room for the maximum length; the code writes the first
  \<open>length_to_write\<close> bytes of it.
\<close>

definition file_write :: "addr \<Rightarrow> char list \<Rightarrow> u8 \<Rightarrow> apid \<Rightarrow> ((apie + u8) \<times> apid) option" where
  "file_write a buffer length_to_write s = do {
     f \<leftarrow> the_file s a;
     if length_to_write > FILE_MAX_WRITE_BUFFER_LENGTH then Some (Inl API_E_OUT_OF_RANGE, s)
     else if file_async_read_in_progress f then Some (Inl API_E_INVALID_OPERATION, s)
     else (case file_do_write f (take (unat length_to_write) buffer) s of
         (Inl en, s) \<Rightarrow> Some (Inl (api_get_error_code_from_errno en), s)
       | (Inr n, s) \<Rightarrow> Some (Inr (of_nat n), s))
   }"

definition file_write_unchecked :: "addr \<Rightarrow> char list \<Rightarrow> u8 \<Rightarrow> apid \<Rightarrow> (packet_e \<times> apid) option" where
  "file_write_unchecked a buffer length_to_write s = do {
     f \<leftarrow> the_file s a;
     if length_to_write > FILE_MAX_WRITE_UNCHECKED_BUFFER_LENGTH
     then Some (PACKET_E_INVALID_PARAMETER, s)
     else if file_async_read_in_progress f then Some (PACKET_E_UNKNOWN_ERROR, s)
     else (case file_do_write f (take (unat length_to_write) buffer) s of
         (Inl en, s) \<Rightarrow> Some (PACKET_E_UNKNOWN_ERROR, s)
       | (Inr n, s) \<Rightarrow> Some (PACKET_E_SUCCESS, s))
   }"

definition file_write_async :: "addr \<Rightarrow> char list \<Rightarrow> u8 \<Rightarrow> apid \<Rightarrow> (packet_e \<times> apid) option" where
  "file_write_async a buffer length_to_write s = do {
     f \<leftarrow> the_file s a;
     if length_to_write > FILE_MAX_WRITE_ASYNC_BUFFER_LENGTH then do {
       s \<leftarrow> file_send_async_write_callback a API_E_OUT_OF_RANGE 0 s;
       Some (PACKET_E_INVALID_PARAMETER, s)
     } else if file_async_read_in_progress f then do {
       s \<leftarrow> file_send_async_write_callback a API_E_INVALID_OPERATION 0 s;
       Some (PACKET_E_UNKNOWN_ERROR, s)
     } else (case file_do_write f (take (unat length_to_write) buffer) s of
         (Inl en, s) \<Rightarrow> do {
           s \<leftarrow> file_send_async_write_callback a (api_get_error_code_from_errno en) 0 s;
           Some (PACKET_E_UNKNOWN_ERROR, s)
         }
       | (Inr n, s) \<Rightarrow> do {
           s \<leftarrow> file_send_async_write_callback a API_E_SUCCESS (of_nat n) s;
           Some (PACKET_E_SUCCESS, s)
         })
   }"

section \<open>Position and events\<close>

text \<open>\<open>FileOrigin\<close> to \<open>whence\<close>: \<open>SEEK_SET\<close>, \<open>SEEK_CUR\<close> and \<open>SEEK_END\<close> are 0, 1 and 2.\<close>

definition file_set_position :: "addr \<Rightarrow> u64 \<Rightarrow> u8 \<Rightarrow> apid \<Rightarrow> ((apie + u64) \<times> apid) option" where
  "file_set_position a offset origin s = do {
     f \<leftarrow> the_file s a;
     let whence = (if origin = 0 then Some 0 else if origin = 1 then Some 1
                   else if origin = 2 then Some 2 else None);
     case whence of
       None \<Rightarrow> Some (Inl API_E_INVALID_PARAMETER, s)
     | Some w \<Rightarrow>
         if file_async_read_in_progress f then Some (Inl API_E_INVALID_OPERATION, s)
         else (case file_do_seek f (sint offset) w s of
             (Inl en, s) \<Rightarrow> Some (Inl (api_get_error_code_from_errno en), s)
           | (Inr rc, s) \<Rightarrow> Some (Inr (of_int rc), s))
   }"

definition file_get_position :: "addr \<Rightarrow> apid \<Rightarrow> ((apie + u64) \<times> apid) option" where
  "file_get_position a s = do {
     f \<leftarrow> the_file s a;
     case file_do_seek f 0 1 s of
       (Inl en, s) \<Rightarrow> Some (Inl (api_get_error_code_from_errno en), s)
     | (Inr rc, s) \<Rightarrow> Some (Inr (of_int rc), s)
   }"

text \<open>One of the two halves of \<open>file_set_events\<close>: the event \<open>ev\<close>, whose source is \<open>h\<close>.\<close>

definition file_set_event :: "addr \<Rightarrow> u16 \<Rightarrow> handle \<Rightarrow> u16 \<Rightarrow> apid \<Rightarrow> (apie \<times> apid) option" where
  "file_set_event a ev h events s = do {
     f \<leftarrow> the_file s a;
     if events AND ev \<noteq> 0 \<and> file_events f AND ev = 0 then
       (case event_add_source h s of
          (False, s) \<Rightarrow> Some (API_E_INTERNAL_ERROR, s)
        | (True, s) \<Rightarrow> do {
            s \<leftarrow> put_file a (f\<lparr>file_events := file_events f OR ev\<rparr>) s;
            Some (API_E_SUCCESS, s)
          })
     else if events AND ev = 0 \<and> file_events f AND ev \<noteq> 0 then do {
       let s = emit (Ev_event_remove_source h) s;
       s \<leftarrow> put_file a (f\<lparr>file_events := file_events f AND NOT ev\<rparr>) s;
       Some (API_E_SUCCESS, s)
     } else Some (API_E_SUCCESS, s)
   }"

definition file_set_events :: "addr \<Rightarrow> u16 \<Rightarrow> apid \<Rightarrow> (apie \<times> apid) option" where
  "file_set_events a events s = do {
     f \<leftarrow> the_file s a;
     if file_type f \<noteq> FILE_TYPE_PIPE then Some (API_E_NOT_SUPPORTED, s)
     else if events AND NOT FILE_EVENT_ALL \<noteq> 0 then Some (API_E_INVALID_PARAMETER, s)
     else do {
       (e, s) \<leftarrow> file_set_event a FILE_EVENT_READABLE (Pipe_read_handle (file_pipe f)) events s;
       if e \<noteq> API_E_SUCCESS then Some (e, s)
       else file_set_event a FILE_EVENT_WRITABLE (Pipe_write_handle (file_pipe f)) events s
     }
   }"

definition file_get_events :: "addr \<Rightarrow> apid \<Rightarrow> (apie \<times> u16) option" where
  "file_get_events a s = do { f \<leftarrow> the_file s a; Some (API_E_SUCCESS, file_events f) }"

end
