(* ===== verification/File_Open.thy ===== *)
theory File_Open
  imports File_Object
begin

text \<open>
  Creation of file objects (\<open>file_open\<close> and \<open>pipe_create_\<close> of \<open>file.c\<close>) and their information
  (\<open>file_get_info\<close>). The phases of the code, each of which undoes the earlier ones when it
  fails, are nested definitions here: each releases what it took itself.
\<close>

section \<open>Opening as another user\<close>

text \<open>
  The child process of \<open>file_open_as\<close>: it changes its identity, opens the file, sends the file
  descriptor (or none, \<open>-1\<close>) to the parent and exits with its error code. The result is the
  descriptor that was sent, unless sending failed, and the exit status.
\<close>

definition file_open_as_child ::
    "string \<Rightarrow> u32 \<Rightarrow> u32 \<Rightarrow> u32 \<Rightarrow> u32 \<Rightarrow> apid \<Rightarrow> int option \<times> nat \<times> apid" where
  "file_open_as_child name oflags mode uid gid s =
     (case process_fork_child s of
        (Inl code, s) \<Rightarrow> (None, code, s)
      | (Inr _, s) \<Rightarrow>
          (let (fd, error_code, s) =
             (case process_set_identity uid gid s of
                (e, _, s) \<Rightarrow>
                  if e \<noteq> API_E_SUCCESS then (-1, e, s)
                  else (case ask (emit (Ev_open name oflags mode) s) of
                      (Inl en, s) \<Rightarrow> (-1, api_get_error_code_from_errno en, s)
                    | (Inr fd, s) \<Rightarrow> (fd, API_E_SUCCESS, s)))
           in case ask_retry s of
                (Inl _, s) \<Rightarrow> (None, apie_code error_code, if fd \<ge> 0 then emit (Ev_close fd) s else s)
              | (Inr _, s) \<Rightarrow> (Some fd, apie_code error_code, s)))"

definition close_if_valid :: "int \<Rightarrow> apid \<Rightarrow> apid" where
  "close_if_valid fd s = (if fd \<ge> 0 then emit (Ev_close fd) s else s)"

text \<open>
  \<open>file_open_as\<close> in the parent: the two ends of the socket pair are the answers of
  \<open>socketpair\<close>; what \<open>recvfd\<close> and \<open>waitpid\<close> deliver are answers, too.
\<close>

definition file_open_as_wait :: "int \<Rightarrow> apid \<Rightarrow> (apie + int) \<times> apid" where
  "file_open_as_wait fd s = (case ask_retry s of
       (Inl en, s) \<Rightarrow> (Inl (api_get_error_code_from_errno en), close_if_valid fd s)
     | (Inr st, s) \<Rightarrow>
         (let status = of_int st :: u32
          in if \<not> WIFEXITED status then (Inl API_E_INTERNAL_ERROR, close_if_valid fd s)
             else (let error_code = apie_of_code (unat (WEXITSTATUS status))
                   in if error_code \<noteq> API_E_SUCCESS then (Inl error_code, close_if_valid fd s)
                      else if fd < 0 then (Inl API_E_INTERNAL_ERROR, s)
                      else (Inr fd, s))))"

definition file_open_as :: "apid \<Rightarrow> (apie + int) \<times> apid" where
  "file_open_as s = (case ask s of
       (Inl en, s) \<Rightarrow> (Inl (api_get_error_code_from_errno en), s)
     | (Inr _, s) \<Rightarrow>
         (let (pair0, s) = ask_int s; (pair1, s) = ask_int s
          in case process_fork s of
               (Inl e, s) \<Rightarrow> (Inl e, s)
             | (Inr pid, s) \<Rightarrow>
                 (let s = emit (Ev_close pair1) s
                  in case ask_retry s of
                       (Inl en, s) \<Rightarrow>
                         (let s = emit (Ev_close pair0) s; (_, s) = ask_retry s
                          in (Inl (api_get_error_code_from_errno en), s))
                     | (Inr _, s) \<Rightarrow>
                         (let (fd, s) = ask_int s; s = emit (Ev_close pair0) s
                          in file_open_as_wait fd s))))"

section \<open>Opening files\<close>

definition file_flags_ok :: "u32 \<Rightarrow> u16 \<Rightarrow> bool" where
  "file_flags_ok flags permissions \<longleftrightarrow>
     \<not> (flags AND NOT FILE_FLAG_ALL \<noteq> 0) \<and>
     \<not> (permissions AND NOT FILE_PERMISSION_ALL \<noteq> 0) \<and>
     \<not> (flags AND FILE_FLAG_CREATE \<noteq> 0 \<and> permissions = 0) \<and>
     \<not> (flags AND FILE_FLAG_CREATE = 0 \<and> permissions \<noteq> 0) \<and>
     \<not> (flags AND FILE_FLAG_TEMPORARY \<noteq> 0 \<and>
        (flags AND FILE_FLAG_CREATE = 0 \<or> flags AND FILE_FLAG_EXCLUSIVE = 0)) \<and>
     \<not> (flags AND FILE_FLAG_REPLACE \<noteq> 0 \<and> flags AND FILE_FLAG_CREATE = 0)"

text \<open>\<open>open\<close>, by the daemon itself when it already has the wanted identity.\<close>

definition file_open_handle ::
    "string \<Rightarrow> u32 \<Rightarrow> u32 \<Rightarrow> u32 \<Rightarrow> u32 \<Rightarrow> apid \<Rightarrow> (apie + int) \<times> apid" where
  "file_open_handle name oflags mode uid gid s =
     (if geteuid (lib s) = uid \<and> getegid (lib s) = gid then
        (case ask (emit (Ev_open name oflags mode) s) of
           (Inl en, s) \<Rightarrow> (Inl (api_get_error_code_from_errno en), s)
         | (Inr fd, s) \<Rightarrow> (Inr fd, s))
      else file_open_as s)"

text \<open>The phases 2 to 5 of \<open>file_open\<close>, with the name locked and the file open.\<close>

definition file_create_object ::
    "addr \<Rightarrow> int \<Rightarrow> u32 \<Rightarrow> addr option \<Rightarrow> u32 \<Rightarrow> apid \<Rightarrow> ((apie + addr) \<times> apid) option" where
  "file_create_object name fd flags session object_create_flags s =
     (case ask_stat s of
        (Inl en, s) \<Rightarrow> Some (Inl (api_get_error_code_from_errno en), emit (Ev_close fd) s)
      | (Inr st, s) \<Rightarrow>
     (case calloc s of
        (None, s) \<Rightarrow> Some (Inl API_E_NO_FREE_MEMORY, emit (Ev_close fd) s)
      | (Some a, s) \<Rightarrow>
     (case ask s of
        (Inl en, s) \<Rightarrow> Some (Inl (api_get_error_code_from_errno en), emit (Ev_close fd) s)
      | (Inr eventfd, s) \<Rightarrow> do {
          let f = \<lparr>file_type = file_get_type_from_stat_mode (st_mode st), file_name = name,
                   file_flags = flags, file_events = 0, file_fd = fd, file_pipe = 0,
                   file_async_read_eventfd = eventfd, file_async_read_in_progress = False,
                   file_length_to_read_async = 0, file_is_pipe_ops = False\<rparr>;
          (r, s) \<leftarrow> create_or_free a (P_File f) session object_create_flags s;
          case r of
            Inl e \<Rightarrow> Some (Inl e, emit (Ev_close fd) (emit (Ev_close eventfd) s))
          | Inr a \<Rightarrow> Some (Inr a, s)
        })))"

text \<open>The phase 1 of \<open>file_open\<close>, with the name locked.\<close>

definition file_open_named ::
    "addr \<Rightarrow> u32 \<Rightarrow> u16 \<Rightarrow> u32 \<Rightarrow> u32 \<Rightarrow> addr option \<Rightarrow> u32 \<Rightarrow> apid \<Rightarrow> ((apie + addr) \<times> apid) option" where
  "file_open_named name flags permissions uid gid session object_create_flags s = do {
     let oflags = O_NOCTTY OR file_get_oflags_from_flags flags;
     let mode = (if flags AND FILE_FLAG_CREATE \<noteq> 0
                 then file_get_mode_from_permissions permissions else 0);
     chars \<leftarrow> string_chars s name;
     if chars = [] then Some (Inl API_E_INVALID_PARAMETER, s)
     else if hd chars \<noteq> CHR ''/'' then Some (Inl API_E_INVALID_PARAMETER, s)
     else (
       let (error, s) =
         (if flags AND FILE_FLAG_REPLACE \<noteq> 0 then
            (case ask (emit (Ev_unlink chars) s) of
               (Inl en, s) \<Rightarrow> (if en \<noteq> ENOENT then Some (api_get_error_code_from_errno en) else None, s)
             | (Inr _, s) \<Rightarrow> (None, s))
          else (None, s))
       in case error of
            Some e \<Rightarrow> Some (Inl e, s)
          | None \<Rightarrow>
              (case file_open_handle chars oflags mode uid gid s of
                 (Inl e, s) \<Rightarrow> Some (Inl e, s)
               | (Inr fd, s) \<Rightarrow> file_create_object name fd flags session object_create_flags s))
   }"

text \<open>\<open>file_open\<close>: the parameters first, then the name; every later failure gives the name back.\<close>

definition file_open ::
    "u16 \<Rightarrow> u32 \<Rightarrow> u16 \<Rightarrow> u32 \<Rightarrow> u32 \<Rightarrow> addr option \<Rightarrow> u32 \<Rightarrow> apid \<Rightarrow> ((apie + addr) \<times> apid) option" where
  "file_open name_id flags permissions uid gid session object_create_flags s =
     (if \<not> file_flags_ok flags permissions then Some (Inl API_E_INVALID_PARAMETER, s)
      else do {
        (r, s) \<leftarrow> string_get_acquired_and_locked name_id s;
        case r of
          Inl e \<Rightarrow> Some (Inl e, s)
        | Inr name \<Rightarrow> do {
            (r, s) \<leftarrow> file_open_named name flags permissions uid gid session object_create_flags s;
            case r of
              Inl e \<Rightarrow> do {
                s \<leftarrow> string_unlock_and_release name s;
                Some (Inl e, s)
              }
            | Inr a \<Rightarrow> Some (Inr a, s)
          }
      })"

section \<open>Pipes\<close>

text \<open>The phases 2 to 5 of \<open>pipe_create_\<close>, with the pipe created.\<close>

definition pipe_create_object ::
    "addr \<Rightarrow> addr \<Rightarrow> int \<Rightarrow> u32 \<Rightarrow> u64 \<Rightarrow> addr option \<Rightarrow> u32 \<Rightarrow> apid \<Rightarrow> ((apie + addr) \<times> apid) option" where
  "pipe_create_object name a p flags length' session object_create_flags s =
     (let (rc, s) = (if length' > 0 then ask s else (Inr 0, s))
      in case rc of
        Inl en \<Rightarrow> Some (Inl (api_get_error_code_from_errno en), emit (Ev_pipe_destroy p) s)
      | Inr _ \<Rightarrow>
     (case ask s of
        (Inl en, s) \<Rightarrow> Some (Inl (api_get_error_code_from_errno en), emit (Ev_pipe_destroy p) s)
      | (Inr eventfd, s) \<Rightarrow> do {
          let f = \<lparr>file_type = FILE_TYPE_PIPE, file_name = name, file_flags = flags,
                   file_events = 0, file_fd = -1, file_pipe = p,
                   file_async_read_eventfd = eventfd, file_async_read_in_progress = False,
                   file_length_to_read_async = 0, file_is_pipe_ops = True\<rparr>;
          (r, s) \<leftarrow> create_or_free a (P_File f) session object_create_flags s;
          case r of
            Inl e \<Rightarrow> Some (Inl e, emit (Ev_pipe_destroy p) (emit (Ev_close eventfd) s))
          | Inr a \<Rightarrow> Some (Inr a, s)
        }))"

definition pipe_create_ops ::
    "u32 \<Rightarrow> u64 \<Rightarrow> addr option \<Rightarrow> u32 \<Rightarrow> apid \<Rightarrow> ((apie + addr) \<times> apid) option" where
  "pipe_create_ops flags length' session object_create_flags s =
     (if flags AND NOT (PIPE_FLAG_ALL (lib s)) \<noteq> 0 then Some (Inl API_E_INVALID_PARAMETER, s)
      else if length' > ucast INT32_MAX then Some (Inl API_E_OUT_OF_RANGE, s)
      else do {
        (r, s) \<leftarrow> inventory_get_stock_string ''<unnamed>'' s;
        case r of
          Inl e \<Rightarrow> Some (Inl e, s)
        | Inr name \<Rightarrow> do {
            (r, s) \<leftarrow>
              (case calloc s of
                 (None, s) \<Rightarrow> Some (Inl API_E_NO_FREE_MEMORY, s)
               | (Some a, s) \<Rightarrow>
              (case ask s of
                 (Inl en, s) \<Rightarrow> Some (Inl (api_get_error_code_from_errno en), s)
               | (Inr p, s) \<Rightarrow>
                   pipe_create_object name a p flags length' session object_create_flags s));
            case r of
              Inl e \<Rightarrow> do {
                s \<leftarrow> string_unlock_and_release name s;
                Some (Inl e, s)
              }
            | Inr a \<Rightarrow> Some (Inr a, s)
          }
      })"

section \<open>Information\<close>

record file_info =
  info_type :: file_type
  info_name_id :: u16
  info_flags :: u32
  info_permissions :: u16
  info_uid :: u32
  info_gid :: u32
  info_length :: u64
  info_access_timestamp :: u64
  info_modification_timestamp :: u64
  info_status_change_timestamp :: u64

definition file_get_info :: "addr \<Rightarrow> addr \<Rightarrow> apid \<Rightarrow> ((apie + file_info) \<times> apid) option" where
  "file_get_info a session s = do {
     f \<leftarrow> the_file s a;
     if file_type f = FILE_TYPE_PIPE then
       (case ask s of
          (Inl en, s) \<Rightarrow> Some (Inl (api_get_error_code_from_errno en), s)
        | (Inr rc, s) \<Rightarrow>
            Some (Inr \<lparr>info_type = file_type f, info_name_id = OBJECT_ID_ZERO,
                       info_flags = file_flags f, info_permissions = 0, info_uid = 0, info_gid = 0,
                       info_length = of_int rc, info_access_timestamp = 0,
                       info_modification_timestamp = 0, info_status_change_timestamp = 0\<rparr>, s))
     else do {
       (error_code, s) \<leftarrow> object_add_external_reference (file_name f) session s;
       if error_code \<noteq> API_E_SUCCESS then Some (Inl error_code, s)
       else do {
         nm \<leftarrow> objs s (file_name f);
         case ask_stat s of
           (Inl en, s) \<Rightarrow> Some (Inl (api_get_error_code_from_errno en), s)
         | (Inr st, s) \<Rightarrow>
             if file_get_type_from_stat_mode (st_mode st) \<noteq> file_type f
             then Some (Inl API_E_INTERNAL_ERROR, s)
             else Some (Inr \<lparr>info_type = file_type f, info_name_id = obj_id nm,
                    info_flags = file_flags f,
                    info_permissions = file_get_permissions_from_stat_mode (st_mode st),
                    info_uid = st_uid st, info_gid = st_gid st, info_length = st_size st,
                    info_access_timestamp = st_atime st, info_modification_timestamp = st_mtime st,
                    info_status_change_timestamp = st_ctime st\<rparr>, s)
       }
     }
   }"

end
