(* ===== verification/Directory_Object.thy ===== *)
theory Directory_Object
  imports File_Open
begin

text \<open>
  Directory objects: \<open>directory.c\<close>. A directory object keeps the name of the directory, with a
  slash at its end, at the start of a fixed buffer; the names of the entries are appended to it.
  \<open>directory_create\<close> creates a directory, on demand with all its parents, and in a child
  process when the directory is created for another user.
\<close>

section \<open>Constants\<close>

definition DIRECTORY_MAX_NAME_LENGTH :: nat where "DIRECTORY_MAX_NAME_LENGTH = 1024"
definition DIRECTORY_MAX_ENTRY_LENGTH :: nat where "DIRECTORY_MAX_ENTRY_LENGTH = 1024"
definition DIRECTORY_FLAG_RECURSIVE :: u32 where "DIRECTORY_FLAG_RECURSIVE = 0x0001"
definition DIRECTORY_FLAG_EXCLUSIVE :: u32 where "DIRECTORY_FLAG_EXCLUSIVE = 0x0002"
definition DIRECTORY_FLAG_ALL :: u32 where
  "DIRECTORY_FLAG_ALL = DIRECTORY_FLAG_RECURSIVE OR DIRECTORY_FLAG_EXCLUSIVE"

text \<open>\<open>sizeof(directory->buffer)\<close>\<close>

definition directory_buffer_size :: nat where
  "directory_buffer_size = DIRECTORY_MAX_NAME_LENGTH + 1 + DIRECTORY_MAX_ENTRY_LENGTH + 1"

datatype directory_entry_type =
    DIRECTORY_ENTRY_TYPE_UNKNOWN | DIRECTORY_ENTRY_TYPE_REGULAR | DIRECTORY_ENTRY_TYPE_DIRECTORY
  | DIRECTORY_ENTRY_TYPE_CHARACTER | DIRECTORY_ENTRY_TYPE_BLOCK | DIRECTORY_ENTRY_TYPE_FIFO
  | DIRECTORY_ENTRY_TYPE_SYMLINK | DIRECTORY_ENTRY_TYPE_SOCKET

fun directory_entry_type_code :: "directory_entry_type \<Rightarrow> u8" where
  "directory_entry_type_code DIRECTORY_ENTRY_TYPE_UNKNOWN = 0"
| "directory_entry_type_code DIRECTORY_ENTRY_TYPE_REGULAR = 1"
| "directory_entry_type_code DIRECTORY_ENTRY_TYPE_DIRECTORY = 2"
| "directory_entry_type_code DIRECTORY_ENTRY_TYPE_CHARACTER = 3"
| "directory_entry_type_code DIRECTORY_ENTRY_TYPE_BLOCK = 4"
| "directory_entry_type_code DIRECTORY_ENTRY_TYPE_FIFO = 5"
| "directory_entry_type_code DIRECTORY_ENTRY_TYPE_SYMLINK = 6"
| "directory_entry_type_code DIRECTORY_ENTRY_TYPE_SOCKET = 7"

text \<open>The values \<open>DT_FIFO\<close>, \<open>DT_CHR\<close>, \<open>DT_DIR\<close>, \<open>DT_BLK\<close>, \<open>DT_REG\<close>, \<open>DT_LNK\<close> and \<open>DT_SOCK\<close>.\<close>

definition directory_entry_type_from_dirent :: "int \<Rightarrow> directory_entry_type" where
  "directory_entry_type_from_dirent d_type =
     (if d_type = 8 then DIRECTORY_ENTRY_TYPE_REGULAR
      else if d_type = 4 then DIRECTORY_ENTRY_TYPE_DIRECTORY
      else if d_type = 2 then DIRECTORY_ENTRY_TYPE_CHARACTER
      else if d_type = 6 then DIRECTORY_ENTRY_TYPE_BLOCK
      else if d_type = 1 then DIRECTORY_ENTRY_TYPE_FIFO
      else if d_type = 10 then DIRECTORY_ENTRY_TYPE_SYMLINK
      else if d_type = 12 then DIRECTORY_ENTRY_TYPE_SOCKET
      else DIRECTORY_ENTRY_TYPE_UNKNOWN)"

definition directory_entry_type_from_mode :: "u32 \<Rightarrow> directory_entry_type" where
  "directory_entry_type_from_mode mode =
     (if mode AND S_IFMT = S_IFREG then DIRECTORY_ENTRY_TYPE_REGULAR
      else if mode AND S_IFMT = S_IFDIR then DIRECTORY_ENTRY_TYPE_DIRECTORY
      else if mode AND S_IFMT = S_IFCHR then DIRECTORY_ENTRY_TYPE_CHARACTER
      else if mode AND S_IFMT = S_IFBLK then DIRECTORY_ENTRY_TYPE_BLOCK
      else if mode AND S_IFMT = S_IFIFO then DIRECTORY_ENTRY_TYPE_FIFO
      else if mode AND S_IFMT = S_IFLNK then DIRECTORY_ENTRY_TYPE_SYMLINK
      else if mode AND S_IFMT = S_IFSOCK then DIRECTORY_ENTRY_TYPE_SOCKET
      else DIRECTORY_ENTRY_TYPE_UNKNOWN)"

definition the_directory :: "apid \<Rightarrow> addr \<Rightarrow> directory_obj option" where
  "the_directory s a = do {
     ob \<leftarrow> objs s a;
     case payload ob of P_Directory d \<Rightarrow> Some d | _ \<Rightarrow> None
   }"

definition put_directory :: "addr \<Rightarrow> directory_obj \<Rightarrow> apid \<Rightarrow> apid option" where
  "put_directory a d s = do {
     ob \<leftarrow> objs s a;
     Some (put_obj a (ob\<lparr>payload := P_Directory d\<rparr>) s)
   }"

section \<open>Creating directories\<close>

text \<open>\<open>strrchr\<close>: the position of the last occurrence of a character.\<close>

definition strrchr :: "string \<Rightarrow> char \<Rightarrow> nat option" where
  "strrchr cs c = (if c \<in> set cs then Some (length cs - 1 - length (takeWhile (\<lambda>x. x \<noteq> c) (rev cs)))
     else None)"

lemma strrchr_less: "strrchr cs c = Some p \<Longrightarrow> p < length cs"
  by (cases cs) (auto simp: strrchr_def split: if_splits)

text \<open>The second half of \<open>directory_create_helper\<close>, after a \<open>mkdir\<close> that failed for good.\<close>

definition directory_create_failed :: "errno \<Rightarrow> u32 \<Rightarrow> apid \<Rightarrow> apie \<times> apid" where
  "directory_create_failed en flags s =
     (if en \<noteq> EEXIST then (api_get_error_code_from_errno en, s)
      else (case ask_stat s of
          (Inl en, s) \<Rightarrow> (api_get_error_code_from_errno en, s)
        | (Inr st, s) \<Rightarrow>
            if st_mode st AND S_IFMT \<noteq> S_IFDIR then (API_E_NOT_A_DIRECTORY, s)
            else if flags AND DIRECTORY_FLAG_EXCLUSIVE \<noteq> 0 then (API_E_ALREADY_EXISTS, s)
            else (API_E_SUCCESS, s)))"

text \<open>
  \<open>directory_create_helper\<close>. The slash at position \<open>p\<close> is overwritten during the recursive call,
  which so sees the first \<open>p\<close> characters, and restored afterwards. A name without a slash makes
  the code write through a null pointer.
\<close>

function directory_create_helper :: "string \<Rightarrow> u32 \<Rightarrow> u32 \<Rightarrow> apid \<Rightarrow> (apie \<times> apid) option" where
  "directory_create_helper name flags mode s =
     (case ask (emit (Ev_mkdir name mode) s) of
        (Inr _, s) \<Rightarrow> Some (API_E_SUCCESS, s)
      | (Inl en, s) \<Rightarrow>
          if en = ENOENT then
            (if flags AND DIRECTORY_FLAG_RECURSIVE = 0 then Some (API_E_NOT_SUPPORTED, s)
             else (case strrchr name CHR ''/'' of
                 None \<Rightarrow> None
               | Some p \<Rightarrow> do {
                   (error_code, s) \<leftarrow> (if p \<noteq> 0 then directory_create_helper (take p name) flags mode s
                                      else Some (API_E_SUCCESS, s));
                   if error_code \<noteq> API_E_SUCCESS then Some (error_code, s)
                   else (case ask (emit (Ev_mkdir name mode) s) of
                       (Inr _, s) \<Rightarrow> Some (API_E_SUCCESS, s)
                     | (Inl en, s) \<Rightarrow> Some (directory_create_failed en flags s))
                 }))
          else Some (directory_create_failed en flags s))"
  by pat_completeness auto

termination
  by (relation "measure (\<lambda>(name, flags, mode, s). length name)") (auto dest: strrchr_less)

declare directory_create_helper.simps [simp del]

text \<open>The child process of \<open>directory_create\<close>; the result is its exit status.\<close>

definition directory_create_child :: "string \<Rightarrow> u32 \<Rightarrow> u32 \<Rightarrow> u32 \<Rightarrow> u32 \<Rightarrow> apid \<Rightarrow> (nat \<times> apid) option" where
  "directory_create_child name flags mode uid gid s =
     (case process_fork_child s of
        (Inl code, s) \<Rightarrow> Some (code, s)
      | (Inr _, s) \<Rightarrow>
          (case process_set_identity uid gid s of
             (e, _, s) \<Rightarrow>
               if e \<noteq> API_E_SUCCESS then Some (apie_code e, s)
               else do {
                 (e, s) \<leftarrow> directory_create_helper name flags mode s;
                 Some (apie_code e, s)
               }))"

definition directory_create_wait :: "apid \<Rightarrow> apie \<times> apid" where
  "directory_create_wait s =
     (case process_fork s of
        (Inl e, s) \<Rightarrow> (e, s)
      | (Inr pid, s) \<Rightarrow>
          (case ask_retry s of
             (Inl en, s) \<Rightarrow> (api_get_error_code_from_errno en, s)
           | (Inr st, s) \<Rightarrow>
               (let status = of_int st :: u32
                in if \<not> WIFEXITED status then (API_E_INTERNAL_ERROR, s)
                   else (apie_of_code (unat (WEXITSTATUS status)), s))))"

definition directory_create :: "string \<Rightarrow> u32 \<Rightarrow> u16 \<Rightarrow> u32 \<Rightarrow> u32 \<Rightarrow> apid \<Rightarrow> (apie \<times> apid) option" where
  "directory_create name flags permissions uid gid s =
     (if name = [] then Some (API_E_INVALID_PARAMETER, s)
      else if hd name \<noteq> CHR ''/'' then Some (API_E_INVALID_PARAMETER, s)
      else if flags AND NOT DIRECTORY_FLAG_ALL \<noteq> 0 then Some (API_E_INVALID_PARAMETER, s)
      else if permissions AND NOT FILE_PERMISSION_ALL \<noteq> 0 then Some (API_E_INVALID_PARAMETER, s)
      else
        (let mode = file_get_mode_from_permissions permissions
         in case ask s of
              (Inl _, s) \<Rightarrow> Some (API_E_NO_FREE_MEMORY, s)
            | (Inr _, s) \<Rightarrow>
                if geteuid (lib s) = uid \<and> getegid (lib s) = gid
                then directory_create_helper name flags mode s
                else Some (directory_create_wait s)))"

section \<open>Directory objects\<close>

text \<open>
  The phases 1 to 4 of \<open>directory_open\<close>, with the name locked. \<open>string_copy\<close> and
  \<open>string_append\<close> are functions of daemonlib.
\<close>

definition directory_open_named :: "addr \<Rightarrow> addr \<Rightarrow> apid \<Rightarrow> ((apie + addr) \<times> apid) option" where
  "directory_open_named name session s = do {
     chars \<leftarrow> string_chars s name;
     so \<leftarrow> the_string s name;
     if chars = [] then Some (Inl API_E_INVALID_PARAMETER, s)
     else if hd chars \<noteq> CHR ''/'' then Some (Inl API_E_INVALID_PARAMETER, s)
     else if str_length so > of_nat DIRECTORY_MAX_NAME_LENGTH then Some (Inl API_E_OUT_OF_RANGE, s)
     else (case ask s of
         (Inl en, s) \<Rightarrow> Some (Inl (api_get_error_code_from_errno en), s)
       | (Inr dp, s) \<Rightarrow>
       (case calloc s of
         (None, s) \<Rightarrow> Some (Inl API_E_NO_FREE_MEMORY, emit (Ev_closedir dp) s)
       | (Some a, s) \<Rightarrow> do {
           let name_length = unat (str_length so);
           let buffer = string_copy (lib s) directory_buffer_size chars;
           let slash = (name_length - 1 < length buffer \<and> buffer ! (name_length - 1) = CHR ''/'');
           let d = \<lparr>dir_name = name,
                    dir_name_length = (if slash then name_length else name_length + 1),
                    dir_dp = dp,
                    dir_buffer = (if slash then buffer
                      else string_append (lib s) directory_buffer_size buffer ''/'')\<rparr>;
           (r, s) \<leftarrow> create_or_free a (P_Directory d) (Some session) OBJECT_CREATE_FLAG_EXTERNAL s;
           case r of
             Inl e \<Rightarrow> Some (Inl e, emit (Ev_closedir dp) s)
           | Inr a \<Rightarrow> Some (Inr a, s)
         }))
   }"

definition directory_open :: "u16 \<Rightarrow> addr \<Rightarrow> apid \<Rightarrow> ((apie + addr) \<times> apid) option" where
  "directory_open name_id session s = do {
     (r, s) \<leftarrow> string_get_acquired_and_locked name_id s;
     case r of
       Inl e \<Rightarrow> Some (Inl e, s)
     | Inr name \<Rightarrow> do {
         (r, s) \<leftarrow> directory_open_named name session s;
         case r of
           Inl e \<Rightarrow> do {
             s \<leftarrow> string_unlock_and_release name s;
             Some (Inl e, s)
           }
         | Inr a \<Rightarrow> Some (Inr a, s)
       }
   }"

definition directory_get_name :: "addr \<Rightarrow> addr \<Rightarrow> apid \<Rightarrow> ((apie + u16) \<times> apid) option" where
  "directory_get_name a session s = do {
     d \<leftarrow> the_directory s a;
     (error_code, s) \<leftarrow> object_add_external_reference (dir_name d) session s;
     if error_code \<noteq> API_E_SUCCESS then Some (Inl error_code, s)
     else do {
       nm \<leftarrow> objs s (dir_name d);
       Some (Inr (obj_id nm), s)
     }
   }"

text \<open>
  \<open>readdir\<close>: an error, the end of the directory (answer 0), or an entry with its type and its
  name of up to as many bytes as the answer says.
\<close>

datatype dirent = Dirent_end | Dirent int string

definition ask_dirent :: "apid \<Rightarrow> (errno + dirent) \<times> apid" where
  "ask_dirent s = (case ask s of
       (Inl en, s) \<Rightarrow> (Inl en, s)
     | (Inr k, s) \<Rightarrow>
         if k = 0 then (Inr Dirent_end, s)
         else (let (d_type, s) = ask_int s; (cs, s) = ask_bytes (nat k) s
               in (Inr (Dirent d_type (takeWhile (\<lambda>c. c \<noteq> CHR 0x00) cs)), s)))"

definition is_dot :: "string \<Rightarrow> bool" where "is_dot name \<longleftrightarrow> name = ''.'' \<or> name = ''..''"

lemma ask_int_length: "ask_int s = (i, t) \<Longrightarrow> length (answers t) \<le> length (answers s)"
  by (auto simp: ask_int_def ask_def split: list.splits sum.splits)

lemma ask_ints_length: "ask_ints n s = (is, t) \<Longrightarrow> length (answers t) \<le> length (answers s)"
  by (induction n arbitrary: s "is" t) (fastforce split: prod.splits dest: ask_int_length)+

lemma ask_dirent_length:
  "ask_dirent s = (Inr (Dirent d_type name), t) \<Longrightarrow> length (answers t) < length (answers s)"
  by (auto simp: ask_dirent_def ask_bytes_def ask_def split: list.splits sum.splits prod.splits if_splits
      dest!: ask_int_length ask_ints_length)

text \<open>The loop of \<open>directory_get_next_entry\<close>: the next entry that is not one of the two dots.\<close>

function directory_next_dirent :: "apid \<Rightarrow> (errno + dirent) \<times> apid" where
  "directory_next_dirent s = (case ask_dirent s of
       (Inl en, s) \<Rightarrow> (Inl en, s)
     | (Inr Dirent_end, s) \<Rightarrow> (Inr Dirent_end, s)
     | (Inr (Dirent d_type name), s) \<Rightarrow>
         if is_dot name then directory_next_dirent s else (Inr (Dirent d_type name), s))"
  by pat_completeness auto

termination
  by (relation "measure (\<lambda>s. length (answers s))") (auto dest: ask_dirent_length [OF sym])

declare directory_next_dirent.simps [simp del]

definition directory_get_next_entry ::
    "addr \<Rightarrow> addr \<Rightarrow> apid \<Rightarrow> ((apie + addr \<times> directory_entry_type) \<times> apid) option" where
  "directory_get_next_entry a session s = do {
     d \<leftarrow> the_directory s a;
     case directory_next_dirent s of
       (Inl en, s) \<Rightarrow> Some (Inl (api_get_error_code_from_errno en), s)
     | (Inr Dirent_end, s) \<Rightarrow> Some (Inl API_E_NO_MORE_DATA, s)
     | (Inr (Dirent d_type entry), s) \<Rightarrow>
         if length entry > DIRECTORY_MAX_ENTRY_LENGTH then Some (Inl API_E_OUT_OF_RANGE, s)
         else do {
           let buffer = string_append (lib s) directory_buffer_size
                          (take (dir_name_length d) (dir_buffer d)) entry;
           s \<leftarrow> put_directory a (d\<lparr>dir_buffer := buffer\<rparr>) s;
           let type' = directory_entry_type_from_dirent d_type;
           let (r, s) =
             (if type' = DIRECTORY_ENTRY_TYPE_UNKNOWN then
                (case ask_stat s of
                   (Inl en, s) \<Rightarrow> (Inl (api_get_error_code_from_errno en), s)
                 | (Inr st, s) \<Rightarrow> (Inr (directory_entry_type_from_mode (st_mode st)), s))
              else (Inr type', s));
           case r of
             Inl e \<Rightarrow> Some (Inl e, s)
           | Inr type' \<Rightarrow> do {
               (r, s) \<leftarrow> string_wrap buffer (Some session) OBJECT_CREATE_FLAG_EXTERNAL s;
               case r of
                 Inl e \<Rightarrow> Some (Inl e, s)
               | Inr b \<Rightarrow> Some (Inr (b, type'), s)
             }
         }
   }"

definition directory_rewind :: "addr \<Rightarrow> apid \<Rightarrow> (apie \<times> apid) option" where
  "directory_rewind a s = do {
     d \<leftarrow> the_directory s a;
     Some (API_E_SUCCESS, emit (Ev_rewinddir (dir_dp d)) s)
   }"

end
