(* ===== verification/Process_Object.thy ===== *)
theory Process_Object
  imports List_Facts Directory_Object
begin

text \<open>
  Process objects: \<open>process.c\<close>. A process object holds the strings, lists and files its child
  process was started with. A thread waits for the child and writes every change of its state
  to a pipe; the event loop reads the changes from the pipe.
\<close>

section \<open>States of a child process\<close>

fun process_state_code :: "process_state \<Rightarrow> u8" where
  "process_state_code PROCESS_STATE_UNKNOWN = 0"
| "process_state_code PROCESS_STATE_RUNNING = 1"
| "process_state_code PROCESS_STATE_ERROR = 2"
| "process_state_code PROCESS_STATE_EXITED = 3"
| "process_state_code PROCESS_STATE_KILLED = 4"
| "process_state_code PROCESS_STATE_STOPPED = 5"

fun process_get_state_name :: "process_state \<Rightarrow> string" where
  "process_get_state_name PROCESS_STATE_UNKNOWN = ''unknown''"
| "process_get_state_name PROCESS_STATE_RUNNING = ''running''"
| "process_get_state_name PROCESS_STATE_ERROR = ''error''"
| "process_get_state_name PROCESS_STATE_EXITED = ''exited''"
| "process_get_state_name PROCESS_STATE_KILLED = ''killed''"
| "process_get_state_name PROCESS_STATE_STOPPED = ''stopped''"

record process_state_change =
  change_state :: process_state
  change_timestamp :: u64
  change_exit_code :: u8

text \<open>The change that \<open>process_wait\<close> makes of a wait status.\<close>

definition process_state_change_of_status :: "u32 \<Rightarrow> u64 \<Rightarrow> process_state_change" where
  "process_state_change_of_status status timestamp =
     (if WIFEXITED status then
        (let exit_code = ucast (WEXITSTATUS status) :: u8;
             state = (if exit_code = of_nat PROCESS_E_INTERNAL_ERROR \<or>
                         exit_code = of_nat PROCESS_E_CANNOT_EXECUTE \<or>
                         exit_code = of_nat PROCESS_E_DOES_NOT_EXIST
                      then PROCESS_STATE_ERROR else PROCESS_STATE_EXITED)
         in \<lparr>change_state = state, change_timestamp = timestamp, change_exit_code = exit_code\<rparr>)
      else if WIFSIGNALED status then
        \<lparr>change_state = PROCESS_STATE_KILLED, change_timestamp = timestamp,
         change_exit_code = ucast (WTERMSIG status)\<rparr>
      else if WIFSTOPPED status then
        \<lparr>change_state = PROCESS_STATE_STOPPED, change_timestamp = timestamp,
         change_exit_code = ucast (WSTOPSIG status)\<rparr>
      else if WIFCONTINUED status then
        \<lparr>change_state = PROCESS_STATE_RUNNING, change_timestamp = timestamp, change_exit_code = 0\<rparr>
      else
        \<lparr>change_state = PROCESS_STATE_UNKNOWN, change_timestamp = timestamp, change_exit_code = 0\<rparr>)"

text \<open>
  One round of \<open>process_wait\<close>: \<open>waitpid\<close>, \<open>time\<close> and the write to the pipe. The result is the
  change that was written, if any, and whether the thread goes on.
\<close>

definition process_wait_round :: "apid \<Rightarrow> process_state_change option \<times> bool \<times> apid" where
  "process_wait_round s = (case ask_retry s of
       (Inl _, s) \<Rightarrow> (None, False, s)
     | (Inr status, s) \<Rightarrow>
         (let (now, s) = ask_int s;
              change = process_state_change_of_status (of_int status) (of_int now)
          in case ask s of
               (Inl _, s) \<Rightarrow> (None, False, s)
             | (Inr _, s) \<Rightarrow> (Some change, process_state_is_alive (change_state change), s)))"

lemma ask_retry_length:
  "ask_retry s = (r, t) \<Longrightarrow> length (answers t) < length (answers s) \<or> answers t = [] \<and> r = Inr 0"
proof -
  assume "ask_retry s = (r, t)"
  moreover have "length (dropWhile (is_interrupted (lib s)) (answers s)) \<le> length (answers s)"
    by (rule length_dropWhile_le)
  ultimately show ?thesis
    by (auto simp: ask_retry_def ask_def split: list.splits)
qed

lemma process_wait_round_length:
  assumes "process_wait_round s = (c, True, t)"
  shows "length (answers t) < length (answers s)"
proof -
  obtain status u where u: "ask_retry s = (Inr status, u)" "length (answers t) \<le> length (answers u)"
    and alive: "process_state_is_alive (change_state (process_state_change_of_status (of_int status) 
       (of_int (fst (ask_int u)))))"
    using assms
    by (auto simp: process_wait_round_def ask_def ask_int_def Let_def split: list.splits sum.splits prod.splits if_splits)
  have "status \<noteq> 0"
    using alive by (auto simp: process_state_change_of_status_def wait_status_defs split: if_splits)
  then show ?thesis using ask_retry_length [OF u(1)] u(2) by auto
qed

text \<open>The thread \<open>process_wait\<close>: the changes it writes, in their order.\<close>

function process_wait :: "apid \<Rightarrow> process_state_change list \<times> apid" where
  "process_wait s = (case process_wait_round s of
       (None, _, s) \<Rightarrow> ([], s)
     | (Some c, False, s) \<Rightarrow> ([c], s)
     | (Some c, True, s) \<Rightarrow> (let (cs, s) = process_wait s in (c # cs, s)))"
  by pat_completeness auto

termination
  by (relation "measure (\<lambda>s. length (answers s))") (auto dest: process_wait_round_length [OF sym])

declare process_wait.simps [simp del]

section \<open>Changes of state\<close>

definition the_process :: "apid \<Rightarrow> addr \<Rightarrow> process_obj option" where
  "the_process s a = do {
     ob \<leftarrow> objs s a;
     case payload ob of P_Process p \<Rightarrow> Some p | _ \<Rightarrow> None
   }"

definition put_process :: "addr \<Rightarrow> process_obj \<Rightarrow> apid \<Rightarrow> apid option" where
  "put_process a p s = do {
     ob \<leftarrow> objs s a;
     Some (put_obj a (ob\<lparr>payload := P_Process p\<rparr>) s)
   }"

definition process_is_alive :: "process_obj \<Rightarrow> bool" where
  "process_is_alive p = process_state_is_alive (proc_state p)"

text \<open>\<open>process_handle_state_change\<close>, with what \<open>pipe_read\<close> delivers.\<close>

definition process_handle_state_change ::
    "addr \<Rightarrow> (errno + process_state_change) \<Rightarrow> apid \<Rightarrow> apid option" where
  "process_handle_state_change a r s = (case r of
       Inl _ \<Rightarrow> Some s
     | Inr change \<Rightarrow> do {
         p \<leftarrow> the_process s a;
         let p = p\<lparr>proc_state := change_state change, proc_timestamp := change_timestamp change,
                   proc_exit_code := change_exit_code change\<rparr>;
         let p = (if \<not> process_is_alive p then p\<lparr>proc_pid := 0\<rparr> else p);
         s \<leftarrow> put_process a p s;
         let s = (case proc_state_changed p of
             Some opaque \<Rightarrow> emit (Ev_process_state_changed opaque) s | None \<Rightarrow> s);
         ob \<leftarrow> objs s a;
         let s = (if external_reference_count ob > 0
                  then emit (Ev_process_state_changed_callback (obj_id ob) (change_state change)
                    (change_timestamp change) (change_exit_code change)) s else s);
         if proc_release_on_death p \<and> \<not> process_is_alive p then do {
           s \<leftarrow> put_process a (p\<lparr>proc_release_on_death := False\<rparr>) s;
           object_remove_internal_reference a s
         } else Some s
       })"

definition process_get_error_code_name :: "nat \<Rightarrow> string" where
  "process_get_error_code_name error_code =
     (if error_code = PROCESS_E_INTERNAL_ERROR then ''PROCESS_E_INTERNAL_ERROR''
      else if error_code = PROCESS_E_CANNOT_EXECUTE then ''PROCESS_E_CANNOT_EXECUTE''
      else if error_code = PROCESS_E_DOES_NOT_EXIST then ''PROCESS_E_DOES_NOT_EXIST''
      else ''<unknown>'')"

definition process_kill :: "addr \<Rightarrow> int \<Rightarrow> apid \<Rightarrow> (apie \<times> apid) option" where
  "process_kill a signal s = do {
     p \<leftarrow> the_process s a;
     if \<not> process_is_alive p then Some (API_E_INVALID_OPERATION, s)
     else (case ask (emit (Ev_kill (proc_pid p) signal) s) of
         (Inl en, s) \<Rightarrow> Some (api_get_error_code_from_errno en, s)
       | (Inr _, s) \<Rightarrow> Some (API_E_SUCCESS, s))
   }"

section \<open>Information\<close>

text \<open>
  \<open>process_get_command\<close> and \<open>process_get_stdio\<close> add an external reference to several objects,
  one after the other; when one of them fails the earlier ones are taken back, the last one
  first.
\<close>

primrec add_external_references :: "addr list \<Rightarrow> addr list \<Rightarrow> addr \<Rightarrow> apid \<Rightarrow> (apie \<times> apid) option" where
  "add_external_references added [] session s = Some (API_E_SUCCESS, s)"
| "add_external_references added (a # as) session s = do {
     (error_code, s) \<leftarrow> object_add_external_reference a session s;
     if error_code \<noteq> API_E_SUCCESS then do {
       s \<leftarrow> fold (\<lambda>b r. do { s \<leftarrow> r; object_remove_external_reference b session s }) added (Some s);
       Some (error_code, s)
     } else add_external_references (a # added) as session s
   }"

primrec object_ids :: "addr list \<Rightarrow> apid \<Rightarrow> u16 list option" where
  "object_ids [] s = Some []"
| "object_ids (a # as) s = do { ob \<leftarrow> objs s a; is \<leftarrow> object_ids as s; Some (obj_id ob # is) }"

definition get_referenced_ids :: "addr list \<Rightarrow> addr \<Rightarrow> apid \<Rightarrow> ((apie + u16 list) \<times> apid) option" where
  "get_referenced_ids as session s = do {
     (error_code, s) \<leftarrow> add_external_references [] as session s;
     if error_code \<noteq> API_E_SUCCESS then Some (Inl error_code, s)
     else do { is \<leftarrow> object_ids as s; Some (Inr is, s) }
   }"

definition process_get_command :: "addr \<Rightarrow> addr \<Rightarrow> apid \<Rightarrow> ((apie + u16 list) \<times> apid) option" where
  "process_get_command a session s = do {
     p \<leftarrow> the_process s a;
     get_referenced_ids [proc_executable p, proc_arguments p, proc_environment p,
       proc_working_directory p] session s
   }"

definition process_get_stdio :: "addr \<Rightarrow> addr \<Rightarrow> apid \<Rightarrow> ((apie + u16 list) \<times> apid) option" where
  "process_get_stdio a session s = do {
     p \<leftarrow> the_process s a;
     get_referenced_ids [proc_stdin p, proc_stdout p, proc_stderr p] session s
   }"

definition process_get_identity :: "addr \<Rightarrow> apid \<Rightarrow> (apie \<times> u32 \<times> u32 \<times> u32) option" where
  "process_get_identity a s = do {
     p \<leftarrow> the_process s a;
     Some (API_E_SUCCESS, of_int (proc_pid p), proc_uid p, proc_gid p)
   }"

definition process_get_state :: "addr \<Rightarrow> apid \<Rightarrow> (apie \<times> u8 \<times> u64 \<times> u8) option" where
  "process_get_state a s = do {
     p \<leftarrow> the_process s a;
     Some (API_E_SUCCESS, process_state_code (proc_state p), proc_timestamp p, proc_exit_code p)
   }"

end
