(* ===== verification/Process_Spawn.thy ===== *)
theory Process_Spawn
  imports Process_Object
begin

text \<open>
  \<open>process_spawn\<close> of \<open>process.c\<close>: taking the executable, the arguments, the environment, the
  working directory and the three standard files, forking, and making the process object. The
  phases of the code are nested definitions; each one gives back what it took when a later one
  fails. \<open>process_spawn_child\<close> is what the child process does.
\<close>

section \<open>The child process\<close>

text \<open>Calls in a row, each of which must succeed.\<close>

primrec calls_succeed :: "nat \<Rightarrow> apid \<Rightarrow> apie \<times> apid" where
  "calls_succeed 0 s = (API_E_SUCCESS, s)"
| "calls_succeed (Suc n) s = (case ask s of
       (Inl en, s) \<Rightarrow> (api_get_error_code_from_errno en, s)
     | (Inr _, s) \<Rightarrow> calls_succeed n s)"

text \<open>
  After \<open>process_set_identity\<close> the child changes the directory, asks for the number of files
  and redirects its three standard files: five calls. Then it reports success to the parent and
  executes the program. The result is what it reported to the parent and the code it exits with,
  \<open>None\<close> when it became the program.
\<close>

definition process_child_error :: "apie list \<Rightarrow> apie \<Rightarrow> apid \<Rightarrow> apie list \<times> nat option \<times> apid" where
  "process_child_error reported error_code s = (case ask s of
       (Inl _, s) \<Rightarrow> (reported, Some PROCESS_E_INTERNAL_ERROR, s)
     | (Inr _, s) \<Rightarrow> (reported @ [error_code], Some PROCESS_E_INTERNAL_ERROR, s))"

definition process_spawn_child ::
    "string \<Rightarrow> string list \<Rightarrow> string list \<Rightarrow> u32 \<Rightarrow> u32 \<Rightarrow> apid \<Rightarrow> apie list \<times> nat option \<times> apid" where
  "process_spawn_child executable arguments environment uid gid s =
     (case process_fork_child s of
        (Inl code, s) \<Rightarrow> ([], Some code, s)
      | (Inr _, s) \<Rightarrow>
     (case process_set_identity uid gid s of
        (e, _, s) \<Rightarrow>
          if e \<noteq> API_E_SUCCESS then process_child_error [] e s
          else
     (case calls_succeed 5 s of
        (e, s) \<Rightarrow>
          if e \<noteq> API_E_SUCCESS then process_child_error [] e s
          else
     (case ask s of
        (Inl en, s) \<Rightarrow> process_child_error [] (api_get_error_code_from_errno en) s
      | (Inr _, s) \<Rightarrow>
     (case ask (emit (Ev_exec executable arguments environment) s) of
        (Inl en, s) \<Rightarrow> ([API_E_SUCCESS],
           Some (if en = ENOENT then PROCESS_E_DOES_NOT_EXIST else PROCESS_E_CANNOT_EXECUTE), s)
      | (Inr _, s) \<Rightarrow> ([API_E_SUCCESS], None, s))))))"

section \<open>The parent process\<close>

primrec collect_buffers :: "addr list \<Rightarrow> apid \<Rightarrow> ((apie + string list) \<times> apid) option" where
  "collect_buffers [] s = (case ask s of
       (Inl en, s) \<Rightarrow> Some (Inl (api_get_error_code_from_errno en), s)
     | (Inr _, s) \<Rightarrow> Some (Inr [], s))"
| "collect_buffers (a # as) s = (case ask s of
       (Inl en, s) \<Rightarrow> Some (Inl (api_get_error_code_from_errno en), s)
     | (Inr _, s) \<Rightarrow> do {
         cs \<leftarrow> string_chars s a;
         (r, s) \<leftarrow> collect_buffers as s;
         Some (map_sum id (\<lambda>css. cs # css) r, s)
       })"

text \<open>An array of C strings with a null pointer at its end: \<open>array_create\<close> and the appending.\<close>

definition string_array :: "addr list \<Rightarrow> apid \<Rightarrow> ((apie + string list) \<times> apid) option" where
  "string_array as s = (case ask s of
       (Inl en, s) \<Rightarrow> Some (Inl (api_get_error_code_from_errno en), s)
     | (Inr _, s) \<Rightarrow> collect_buffers as s)"

definition close_pipe :: "int \<Rightarrow> int \<Rightarrow> apid \<Rightarrow> apid" where
  "close_pipe p0 p1 s = emit (Ev_close p1) (emit (Ev_close p0) s)"

text \<open>
  The phases 12 to 15, with the process object allocated. When \<open>event_add_source\<close> fails, the
  variable \<open>error_code\<close> still says success, and so does the result.
\<close>

definition process_create_object ::
    "addr \<Rightarrow> process_obj \<Rightarrow> addr option \<Rightarrow> u32 \<Rightarrow> apid \<Rightarrow> ((apie + addr) \<times> apid) option" where
  "process_create_object a p session object_create_flags s =
     (case ask s of
        (Inl en, s) \<Rightarrow> Some (Inl (api_get_error_code_from_errno en), s)
      | (Inr pp, s) \<Rightarrow>
     (case event_add_source (Pipe_read_handle pp) s of
        (False, s) \<Rightarrow> Some (Inl API_E_SUCCESS, emit (Ev_pipe_destroy pp) s)
      | (True, s) \<Rightarrow> do {
          (r, s) \<leftarrow> create_or_free a (P_Process (p\<lparr>proc_state_change_pipe := pp\<rparr>)) session
                      (object_create_flags OR OBJECT_CREATE_FLAG_INTERNAL) s;
          case r of
            Inl e \<Rightarrow> Some (Inl e,
              emit (Ev_pipe_destroy pp) (emit (Ev_event_remove_source (Pipe_read_handle pp)) s))
          | Inr a \<Rightarrow> Some (Inr a, emit (Ev_thread_create a) s)
        }))"

text \<open>
  The phases 10 and 11: fork, the report of the child, and the object. The fields of \<open>p\<close> that
  are not known before are set here.
\<close>

definition process_spawn_fork ::
    "process_obj \<Rightarrow> addr option \<Rightarrow> u32 \<Rightarrow> apid \<Rightarrow> ((apie + addr) \<times> apid) option" where
  "process_spawn_fork p session object_create_flags s =
     (case ask s of
        (Inl en, s) \<Rightarrow> Some (Inl (api_get_error_code_from_errno en), s)
      | (Inr _, s) \<Rightarrow>
     (let (pipe0, s) = ask_int s; (pipe1, s) = ask_int s
      in case process_fork s of
        (Inl e, s) \<Rightarrow> Some (Inl e, close_pipe pipe0 pipe1 s)
      | (Inr pid, s) \<Rightarrow>
     (let fail = (\<lambda>e s. Some (Inl e, close_pipe pipe0 pipe1 (emit (Ev_kill pid 9) s)))
      in case ask s of
        (Inl en, s) \<Rightarrow> fail (api_get_error_code_from_errno en) s
      | (Inr _, s) \<Rightarrow>
     (let (code, s) = ask_int s; error_code = apie_of_code (nat code)
      in if error_code \<noteq> API_E_SUCCESS then fail error_code s
         else
     (case calloc s of
        (None, s) \<Rightarrow> fail API_E_NO_FREE_MEMORY s
      | (Some a, s) \<Rightarrow>
     (let (now, s) = ask_int s
      in do {
        (r, s) \<leftarrow> process_create_object a
          (p\<lparr>proc_pid := pid, proc_state := PROCESS_STATE_RUNNING, proc_timestamp := of_int now,
             proc_exit_code := 0\<rparr>) session object_create_flags s;
        case r of
          Inl e \<Rightarrow> fail e s
        | Inr a \<Rightarrow> Some (Inr a, close_pipe pipe0 pipe1 s)
      }))))))"

text \<open>
  The record of the parameters; the files are filled in by the phases 7 to 9, which take them
  one after the other and give them back in the opposite order.
\<close>

definition or_release ::
    "(addr \<Rightarrow> apid \<Rightarrow> apid option) \<Rightarrow> addr \<Rightarrow> ((apie + addr) \<times> apid) option \<Rightarrow>
     ((apie + addr) \<times> apid) option" where
  "or_release release a m = do {
     (r, s) \<leftarrow> m;
     case r of
       Inl e \<Rightarrow> do { s \<leftarrow> release a s; Some (Inl e, s) }
     | Inr b \<Rightarrow> Some (Inr b, s)
   }"

definition with_acquired ::
    "((apie + addr) \<times> apid) option \<Rightarrow> (addr \<Rightarrow> apid \<Rightarrow> apid option) \<Rightarrow>
     (addr \<Rightarrow> apid \<Rightarrow> ((apie + addr) \<times> apid) option) \<Rightarrow> ((apie + addr) \<times> apid) option" where
  "with_acquired m release body = do {
     (r, s) \<leftarrow> m;
     case r of
       Inl e \<Rightarrow> Some (Inl e, s)
     | Inr a \<Rightarrow> or_release release a (body a s)
   }"

definition process_spawn_files ::
    "process_obj \<Rightarrow> u16 \<Rightarrow> u16 \<Rightarrow> u16 \<Rightarrow> addr option \<Rightarrow> u32 \<Rightarrow> apid \<Rightarrow> ((apie + addr) \<times> apid) option" where
  "process_spawn_files p stdin_id stdout_id stderr_id session object_create_flags s =
     with_acquired (file_get_acquired stdin_id s) file_release (\<lambda>stdin s.
     with_acquired (file_get_acquired stdout_id s) file_release (\<lambda>stdout s.
     with_acquired (file_get_acquired stderr_id s) file_release (\<lambda>stderr s.
       process_spawn_fork (p\<lparr>proc_stdin := stdin, proc_stdout := stdout, proc_stderr := stderr\<rparr>)
         session object_create_flags s)))"

definition zero_process :: process_obj where
  "zero_process = \<lparr>proc_executable = 0, proc_arguments = 0, proc_environment = 0,
     proc_working_directory = 0, proc_uid = 0, proc_gid = 0, proc_pid = 0, proc_stdin = 0,
     proc_stdout = 0, proc_stderr = 0, proc_release_on_death = False, proc_state_changed = None,
     proc_state = PROCESS_STATE_UNKNOWN, proc_timestamp = 0, proc_exit_code = 0,
     proc_state_change_pipe = 0\<rparr>"

definition process_spawn ::
    "u16 \<Rightarrow> u16 \<Rightarrow> u16 \<Rightarrow> u16 \<Rightarrow> u32 \<Rightarrow> u32 \<Rightarrow> u16 \<Rightarrow> u16 \<Rightarrow> u16 \<Rightarrow> addr option \<Rightarrow> u32 \<Rightarrow> bool \<Rightarrow>
     addr option \<Rightarrow> apid \<Rightarrow> ((apie + addr) \<times> apid) option" where
  "process_spawn executable_id arguments_id environment_id working_directory_id uid gid
     stdin_id stdout_id stderr_id session object_create_flags release_on_death state_changed s =
   with_acquired (string_get_acquired_and_locked executable_id s) string_unlock_and_release
   (\<lambda>executable s. do {
     name \<leftarrow> string_chars s executable;
     if name = [] then Some (Inl API_E_INVALID_PARAMETER, s)
     else
       with_acquired (list_get_acquired_and_locked arguments_id OBJECT_TYPE_STRING s)
         list_unlock_and_release
       (\<lambda>arguments s. do {
         al \<leftarrow> the_list s arguments;
         (r, s) \<leftarrow> string_array (executable # items al) s;
         case r of
           Inl e \<Rightarrow> Some (Inl e, s)
         | Inr argv \<Rightarrow>
             with_acquired (list_get_acquired_and_locked environment_id OBJECT_TYPE_STRING s)
               list_unlock_and_release
             (\<lambda>environment s. do {
               el \<leftarrow> the_list s environment;
               (r, s) \<leftarrow> string_array (items el) s;
               case r of
                 Inl e \<Rightarrow> Some (Inl e, s)
               | Inr envp \<Rightarrow>
                   with_acquired (string_get_acquired_and_locked working_directory_id s)
                     string_unlock_and_release
                   (\<lambda>working_directory s. do {
                     wd \<leftarrow> string_chars s working_directory;
                     if wd = [] then Some (Inl API_E_INVALID_PARAMETER, s)
                     else if hd wd \<noteq> CHR ''/'' then Some (Inl API_E_INVALID_PARAMETER, s)
                     else process_spawn_files
                       (zero_process\<lparr>proc_executable := executable, proc_arguments := arguments,
                          proc_environment := environment,
                          proc_working_directory := working_directory, proc_uid := uid,
                          proc_gid := gid, proc_release_on_death := release_on_death,
                          proc_state_changed := state_changed\<rparr>)
                       stdin_id stdout_id stderr_id session object_create_flags s
                   })
             })
       })
   })"

end
