(* ===== verification/Creation.thy ===== *)
theory Creation
  imports System
begin

text \<open>
  A calculus for the operations that create an object out of others: they take references and
  locks one after the other, and give them back in the opposite order when a later step fails.
  \<open>creates R L hs session f P s m\<close> says that the run \<open>m\<close>, from a state \<open>s\<close> in which the
  references \<open>hs\<close> are held on top of \<open>R\<close> and \<open>L\<close>, either makes a new object with a payload that
  satisfies \<open>P\<close> and now holds what was taken, or leaves \<open>hs\<close> with the caller. The second half is
  claimed only when no external reference is asked for: a failure after the external reference
  was added leaves that reference behind.
\<close>

definition gained ::
    "(addr \<Rightarrow> nat) \<Rightarrow> (addr \<Rightarrow> nat) \<Rightarrow> addr \<Rightarrow> payload \<Rightarrow> addr option \<Rightarrow> u32 \<Rightarrow> apid \<Rightarrow> apid \<Rightarrow> bool" where
  "gained R L a p session f s s' \<longleftrightarrow>
     objs s a = None \<and> inv (R(a := created_refs f)) (L(a := created_locks f)) {} s' \<and>
     (refs_linked s \<longrightarrow> refs_linked s') \<and>
     map_option payload (objs s' a) = Some p \<and>
     (\<forall>b. b \<noteq> a \<longrightarrow> map_option payload (objs s' b) = map_option payload (objs s b)) \<and>
     (\<forall>b sb. ext_count s' b sb = ext_count s b sb + (if b = a then created_externals f session sb else 0)) \<and>
     dom (sess s') = dom (sess s) \<and> stock_strings s' = stock_strings s \<and> lib s' = lib s"

definition creates ::
    "(addr \<Rightarrow> nat) \<Rightarrow> (addr \<Rightarrow> nat) \<Rightarrow> (addr \<times> bool) list \<Rightarrow> addr option \<Rightarrow> u32 \<Rightarrow> (payload \<Rightarrow> bool) \<Rightarrow>
     apid \<Rightarrow> ((apie + addr) \<times> apid) option \<Rightarrow> bool" where
  "creates R L hs session f P s m \<longleftrightarrow>
     (f AND OBJECT_CREATE_FLAG_EXTERNAL = 0 \<longrightarrow> m \<noteq> None) \<and>
     (\<forall>a s'. m = Some (Inr a, s') \<longrightarrow> (\<exists>p. P p \<and> gained R L a p session f s s')) \<and>
     (\<forall>e s'. m = Some (Inl e, s') \<and> f AND OBJECT_CREATE_FLAG_EXTERNAL = 0 \<longrightarrow>
        inv (add_refs R hs) (add_locks L hs) {} s' \<and> (refs_linked s \<longrightarrow> refs_linked s') \<and>
        dom (sess s') = dom (sess s) \<and> stock_strings s' = stock_strings s \<and> lib s' = lib s)"

lemma createsD:
  assumes "creates R L hs session f P s m"
  shows "f AND OBJECT_CREATE_FLAG_EXTERNAL = 0 \<Longrightarrow> m \<noteq> None"
    and "m = Some (Inr a, s') \<Longrightarrow> \<exists>p. P p \<and> gained R L a p session f s s'"
    and "\<lbrakk>m = Some (Inl e, s'); f AND OBJECT_CREATE_FLAG_EXTERNAL = 0\<rbrakk> \<Longrightarrow>
      inv (add_refs R hs) (add_locks L hs) {} s' \<and> (refs_linked s \<longrightarrow> refs_linked s')"
  using assms unfolding creates_def by blast+

lemma creates_weaken:
  assumes "creates R L hs session f P s m" "\<And>p. P p \<Longrightarrow> Q p"
  shows "creates R L hs session f Q s m"
  using assms unfolding creates_def by blast

lemma creates_failed:
  assumes "inv (add_refs R hs) (add_locks L hs) {} s" "quiet s t"
  shows "creates R L hs session f P s (Some (Inl e, t))"
  using quiet_inv [OF assms] quiet_facts(1) [OF assms(2)] quiet_fields [OF assms(2)]
  by (simp add: creates_def)

lemma gained_cong:
  assumes "objs t = objs s" "ext_count t = ext_count s" "refs_linked t = refs_linked s"
    "dom (sess t) = dom (sess s)" "stock_strings t = stock_strings s" "lib t = lib s"
  shows "gained R L a p session f t u = gained R L a p session f s u"
  by (simp add: gained_def assms)

lemma creates_after:
  assumes "quiet s t" "creates R L hs session f P t m"
  shows "creates R L hs session f P s m"
proof -
  have "gained R L a p session f t u = gained R L a p session f s u" for a p u
    using quiet_fields [OF assms(1)] quiet_facts [OF assms(1)] by (intro gained_cong) simp_all
  then show ?thesis
    using assms(2) quiet_fields [OF assms(1)] quiet_facts(1) [OF assms(1)] unfolding creates_def by simp
qed

lemma created_gained: "created R L a p session f s s' \<Longrightarrow> gained R L a p session f s s'"
  by (auto simp: created_def gained_def create_frame_def)

lemma creates_object:
  assumes i: "inv (add_refs R (holds p)) (add_locks L (holds p)) {} s" "\<forall>b. L b \<le> R b"
    and a: "objs t a = None" "a < next_addr t" "quiet s t"
    and "payload_wf s p" "P p" "\<forall>sa. session = Some sa \<longrightarrow> sess s sa \<noteq> None"
  shows "creates R L (holds p) session f P s (create_or_free a p session f t)"
proof (rule creates_after [OF a(3)])
  have it: "inv (add_refs R (holds p)) (add_locks L (holds p)) {} t" using i(1) a(3) by (rule quiet_inv)
  have wf: "payload_wf t p" using assms(6) quiet_facts(2) [OF a(3)] by (cases p) simp_all
  have live: "\<forall>sa. session = Some sa \<longrightarrow> sess t sa \<noteq> None" using assms(8) quiet_fields [OF a(3)] by simp
  obtain r u where run: "create_or_free a p session f t = Some (r, u)"
    and post: "case r of Inr b \<Rightarrow> b = a \<and> created R L a p session f t u
      | Inl e \<Rightarrow> e \<noteq> API_E_SUCCESS \<and> create_frame a t u \<and> (refs_linked t \<longrightarrow> refs_linked u) \<and> objs u a = None \<and>
          (f AND OBJECT_CREATE_FLAG_EXTERNAL = 0 \<longrightarrow> inv (add_refs R (holds p)) (add_locks L (holds p)) {} u)"
    using create_or_free_spec [OF it a(1,2) wf i(2) live, of f] by (rule yields_pairE)
  show "creates R L (holds p) session f P t (create_or_free a p session f t)"
    using post assms(7) created_gained unfolding run creates_def
    by (cases r) (auto simp: create_frame_def)
qed

text \<open>Steps after the run: on failure and on success something quiet may happen.\<close>

lemma gained_quiet:
  assumes "gained R L a p session f s t" "quiet t u"
  shows "gained R L a p session f s u"
  using assms(1) quiet_inv [OF _ assms(2)] quiet_fields [OF assms(2)] quiet_facts [OF assms(2)]
  by (simp add: gained_def)

lemma creates_finally:
  assumes "creates R L hs session f P s m" "\<And>t. quiet t (g t)" "\<And>a t. quiet t (h a t)"
  shows "creates R L hs session f P s (do {
     (r, t) \<leftarrow> m;
     case r of Inl e \<Rightarrow> Some (Inl e, g t) | Inr a \<Rightarrow> Some (Inr a, h a t) })"
proof (cases m)
  case None
  then show ?thesis using assms(1) by (simp add: creates_def)
next
  case (Some x)
  obtain r t where x: "x = (r, t)" by (cases x)
  show ?thesis
  proof (cases r)
    case (Inl e)
    then show ?thesis
      using assms(1) Some x quiet_inv [OF _ assms(2) [of t]] quiet_fields [OF assms(2) [of t]]
        quiet_facts(1) [OF assms(2) [of t]]
      by (simp add: creates_def)
  next
    case (Inr a)
    then show ?thesis using assms(1) Some x gained_quiet [OF _ assms(3)] by (auto simp: creates_def)
  qed
qed

text \<open>
  Taking something for the run and giving it back when the run fails. A taker is anything that
  adds one reference, and a lock when \<open>l\<close> says so.
\<close>

definition taken :: "(addr \<Rightarrow> nat) \<Rightarrow> (addr \<Rightarrow> nat) \<Rightarrow> addr \<times> bool \<Rightarrow> apid \<Rightarrow> apid \<Rightarrow> bool" where
  "taken R L h s t \<longleftrightarrow>
     inv (add_refs R [h]) (add_locks L [h]) {} t \<and> releases {} s t \<and> dom (objs t) = dom (objs s) \<and>
     inv R L {} s"

lemma add_refs_append: "add_refs R (h # hs) = add_refs (add_refs R hs) [h]"
  "add_locks L (h # hs) = add_locks (add_locks L hs) [h]"
  by (auto simp: add_refs_def add_locks_def cnt_refs_def cnt_locks_def fun_eq_iff)

lemma taken_facts:
  assumes "taken R L h s t"
  shows "ext_count t = ext_count s" "refs_linked s \<Longrightarrow> refs_linked t" "sess t = sess s"
    "stock_strings t = stock_strings s" "lib t = lib s" "is_type t = is_type s"
    "map_option payload (objs t b) = map_option payload (objs s b)"
proof -
  have i: "inv R L {} s" "inv (add_refs R [h]) (add_locks L [h]) {} t" and r: "releases {} s t"
    and d: "dom (objs t) = dom (objs s)" using assms by (simp_all add: taken_def)
  show "ext_count t = ext_count s"
    using releases_ext_count [OF _ _ r] i by (simp add: inv_def fun_eq_iff)
  show "refs_linked s \<Longrightarrow> refs_linked t" using releases_refs_linked [OF r] by simp
  show "sess t = sess s" "stock_strings t = stock_strings s" "lib t = lib s"
    using r by (simp_all add: releases_def)
  show same: "map_option payload (objs t b) = map_option payload (objs s b)" for b
  proof (cases "objs t b")
    case None
    then have "objs s b = None" using d by (metis domIff)
    then show ?thesis using None by simp
  next
    case (Some ob')
    then obtain ob where "objs s b = Some ob" "same_but_counts ob ob'" using releasesD(1) [OF r] by blast
    then show ?thesis using Some same_but_countsD [of ob ob'] by simp
  qed
  show "is_type t = is_type s"
  proof (intro ext iffI)
    fix ty b
    show "is_type t ty b \<Longrightarrow> is_type s ty b" by (rule releases_type [OF r])
    assume "is_type s ty b"
    then obtain ob where ob: "objs s b = Some ob" "obj_type ob = ty" by (auto simp: is_type_def)
    then obtain ob' where ob': "objs t b = Some ob'" using d by (metis domD domI)
    from releasesD(1) [OF r this] ob same_but_countsD show "is_type t ty b"
      using ob' by (force simp: is_type_def)
  qed
qed

lemma creates_taken:
  assumes "h = (y, l)"
    and "taken (add_refs R hs) (add_locks L hs) h s t" "creates R L (h # hs) session f P t m"
    and "\<And>u. \<lbrakk>inv (add_refs R (h # hs)) (add_locks L (h # hs)) {} u; \<forall>b. add_locks L hs b \<le> add_refs R hs b\<rbrakk> \<Longrightarrow>
      yields (release y u) (\<lambda>v. inv (add_refs R hs) (add_locks L hs) {} v \<and> releases {} u v)"
  shows "creates R L hs session f P s (do {
     (r, u) \<leftarrow> m;
     case r of Inl e \<Rightarrow> do { v \<leftarrow> release y u; Some (Inl e, v) } | Inr a \<Rightarrow> Some (Inr a, u) })"
proof (cases m)
  case None
  then show ?thesis using assms(3) by (simp add: creates_def)
next
  case (Some x)
  obtain r u where x: "x = (r, u)" by (cases x)
  note t = taken_facts [OF assms(2)]
  show ?thesis
  proof (cases r)
    case (Inr a)
    then obtain p where p: "P p" "gained R L a p session f t u" using createsD(2) [OF assms(3)] Some x by blast
    have "objs s a = None" using p(2) t(7) [of a] by (simp add: gained_def)
    then have "gained R L a p session f s u" using p(2) t by (simp add: gained_def)
    then show ?thesis using p(1) Some x Inr by (auto simp: creates_def)
  next
    case (Inl e)
    show ?thesis
    proof (cases "f AND OBJECT_CREATE_FLAG_EXTERNAL = 0")
      case True
      then have u: "inv (add_refs R (h # hs)) (add_locks L (h # hs)) {} u" "refs_linked t \<longrightarrow> refs_linked u"
        "dom (sess u) = dom (sess t)" "stock_strings u = stock_strings t" "lib u = lib t"
        using assms(3) Some x Inl by (simp_all add: creates_def)
      have "\<forall>b. add_locks L hs b \<le> add_refs R hs b"
        using assms(2) by (simp add: taken_def inv_def counts_ok_def)
      from assms(4) [OF u(1) this]
      obtain v where v: "release y u = Some v" "inv (add_refs R hs) (add_locks L hs) {} v" "releases {} u v"
        by (elim yieldsE) blast
      have "refs_linked s \<longrightarrow> refs_linked v" using u(2) t(2) releases_refs_linked [OF v(3)] by blast
      then show ?thesis using Some x Inl v u t by (simp add: creates_def releases_def)
    next
      case False
      then show ?thesis using Some x Inl by (auto simp: creates_def split: Option.bind_splits)
    qed
  qed
qed

lemma release_locked:
  assumes "inv (add_refs R ((x, True) # hs)) (add_locks L ((x, True) # hs)) {} u"
  shows "yields (string_unlock_and_release x u) (\<lambda>v. inv (add_refs R hs) (add_locks L hs) {} v \<and> releases {} u v)"
proof -
  have pos: "0 < add_locks L ((x, True) # hs) x" by (simp add: add_locks_def)
  have eqs: "(add_refs R ((x, True) # hs))(x := add_refs R ((x, True) # hs) x - 1) = add_refs R hs"
    "(add_locks L ((x, True) # hs))(x := add_locks L ((x, True) # hs) x - 1) = add_locks L hs"
    by (simp_all add: add_refs_def add_locks_def fun_eq_iff)
  show ?thesis using string_unlock_and_release_spec [OF assms pos] unfolding eqs .
qed

lemma release_unlocked:
  assumes "inv (add_refs R ((x, False) # hs)) (add_locks L ((x, False) # hs)) {} u"
    and le: "\<forall>b. add_locks L hs b \<le> add_refs R hs b"
  shows "yields (object_remove_internal_reference x u) (\<lambda>v. inv (add_refs R hs) (add_locks L hs) {} v \<and> releases {} u v)"
proof -
  have locks: "add_locks L ((x, False) # hs) = add_locks L hs"
    by (simp add: add_locks_def fun_eq_iff)
  have less: "add_locks L hs x < add_refs R ((x, False) # hs) x"
    using le [rule_format, of x] by (simp add: add_refs_def add_locks_def)
  have eq: "(add_refs R ((x, False) # hs))(x := add_refs R ((x, False) # hs) x - 1) = add_refs R hs"
    by (simp add: add_refs_def fun_eq_iff)
  show ?thesis using remove_internal_reference_spec [OF assms(1) [unfolded locks] less] unfolding eq .
qed

lemma creates_run:
  assumes "yields m0 (\<lambda>(r, t). case r of
       Inr a \<Rightarrow> taken (add_refs R hs) (add_locks L hs) (a, l) s t \<and> Q a t
     | Inl e \<Rightarrow> t = s)"
    and "inv (add_refs R hs) (add_locks L hs) {} s"
    and "\<And>a t. \<lbrakk>taken (add_refs R hs) (add_locks L hs) (a, l) s t; Q a t\<rbrakk> \<Longrightarrow>
      creates R L ((a, l) # hs) session f P t (body a t)"
    and "\<And>a u. \<lbrakk>inv (add_refs R ((a, l) # hs)) (add_locks L ((a, l) # hs)) {} u;
      \<forall>b. add_locks L hs b \<le> add_refs R hs b\<rbrakk> \<Longrightarrow>
      yields (release a u) (\<lambda>v. inv (add_refs R hs) (add_locks L hs) {} v \<and> releases {} u v)"
  shows "creates R L hs session f P s (do {
     (r, t) \<leftarrow> m0;
     case r of Inl e \<Rightarrow> Some (Inl e, t)
     | Inr a \<Rightarrow> do {
         (r, u) \<leftarrow> body a t;
         case r of Inl e \<Rightarrow> do { v \<leftarrow> release a u; Some (Inl e, v) } | Inr b \<Rightarrow> Some (Inr b, u) } })"
proof -
  obtain r t where r: "m0 = Some (r, t)" and post: "case r of
       Inr a \<Rightarrow> taken (add_refs R hs) (add_locks L hs) (a, l) s t \<and> Q a t | Inl e \<Rightarrow> t = s"
    using assms(1) by (rule yields_pairE)
  show ?thesis
  proof (cases r)
    case (Inl e)
    then show ?thesis using r post creates_failed [OF assms(2) quiet_refl] by simp
  next
    case (Inr a)
    then have k: "taken (add_refs R hs) (add_locks L hs) (a, l) s t" "Q a t" using post by simp_all
    show ?thesis
      unfolding r Inr bind.bind_lunit prod.case sum.case
      by (rule creates_taken [OF refl k(1) assms(3) [OF k]]) (rule assms(4))
  qed
qed

text \<open>What \<open>string_get_acquired_and_locked\<close> takes.\<close>

lemma string_taken:
  assumes "inv R L {} s"
  shows "yields (string_get_acquired_and_locked i s) (\<lambda>(r, t). case r of
       Inr a \<Rightarrow> taken R L (a, True) s t \<and> is_type t OBJECT_TYPE_STRING a \<and>
         (\<exists>ob. objs s a = Some ob \<and> obj_id ob = i)
     | Inl e \<Rightarrow> t = s)"
proof -
  obtain r t where r: "string_get_acquired_and_locked i s = Some (r, t)" and post: "case r of
       Inr a \<Rightarrow> (\<exists>ob. objs s a = Some ob \<and> obj_id ob = i \<and> obj_type ob = OBJECT_TYPE_STRING) \<and>
         inv (R(a := R a + 1)) (L(a := L a + 1)) {} t \<and> releases {} s t \<and> dom (objs t) = dom (objs s)
     | Inl e \<Rightarrow> e = API_E_UNKNOWN_OBJECT_ID \<and> t = s"
    by (rule yields_pairE [OF string_get_acquired_and_locked_spec [OF assms]])
  show ?thesis
  proof (cases r)
    case (Inl e)
    then show ?thesis using r post by simp
  next
    case (Inr a)
    with post obtain ob where ob: "objs s a = Some ob" "obj_id ob = i" "obj_type ob = OBJECT_TYPE_STRING"
      and t: "inv (R(a := R a + 1)) (L(a := L a + 1)) {} t" "releases {} s t" "dom (objs t) = dom (objs s)" by auto
    have k: "taken R L (a, True) s t" using t assms by (simp add: taken_def)
    moreover have "is_type t OBJECT_TYPE_STRING a" using taken_facts(6) [OF k] ob by (simp add: is_type_def)
    ultimately show ?thesis using r Inr ob by simp
  qed
qed

end
