(* ===== verification/File_Facts.thy ===== *)
theory File_Facts
  imports File_Open List_Facts Creation
begin

text \<open>
  Facts about file objects: permissions and modes carry the same nine bits; the operations on a
  file change nothing but this file, the trace and the answers; a read in the background never
  delivers more than was asked for; the sources registered with the event loop agree with the
  members of the file; creating a file object keeps the invariant.
\<close>

section \<open>Permissions\<close>

lemma bit_or_if: "bit (or_if x b v y) n \<longleftrightarrow> bit y n \<or> x AND b \<noteq> 0 \<and> bit v n"
  by (simp add: or_if_def bit_or_iff)

lemma and_power_not_zero: "x AND 2 ^ i \<noteq> 0 \<longleftrightarrow> bit (x :: 'a::len word) i"
  by (simp add: and_exp_eq_0_iff_not_bit)

lemma mode_powers:
  "S_IRUSR = 2 ^ 8" "S_IWUSR = 2 ^ 7" "S_IXUSR = 2 ^ 6" "S_IRGRP = 2 ^ 5" "S_IWGRP = 2 ^ 4"
  "S_IXGRP = 2 ^ 3" "S_IROTH = 2 ^ 2" "S_IWOTH = 2 ^ 1" "S_IXOTH = 2 ^ 0"
  by (simp_all add: mode_defs)

lemma permission_powers:
  "FILE_PERMISSION_USER_READ = 2 ^ 8" "FILE_PERMISSION_USER_WRITE = 2 ^ 7"
  "FILE_PERMISSION_USER_EXECUTE = 2 ^ 6" "FILE_PERMISSION_GROUP_READ = 2 ^ 5"
  "FILE_PERMISSION_GROUP_WRITE = 2 ^ 4" "FILE_PERMISSION_GROUP_EXECUTE = 2 ^ 3"
  "FILE_PERMISSION_OTHERS_READ = 2 ^ 2" "FILE_PERMISSION_OTHERS_WRITE = 2 ^ 1"
  "FILE_PERMISSION_OTHERS_EXECUTE = 2 ^ 0"
  by (simp_all add: file_permission_defs)

lemma less_9: "n < 9 \<longleftrightarrow> n = 8 \<or> n = 7 \<or> n = 6 \<or> n = 5 \<or> n = 4 \<or> n = 3 \<or> n = 2 \<or> n = 1 \<or> n = (0::nat)"
  by auto

lemma bit_power:
  "i < 16 \<Longrightarrow> bit (2 ^ i :: u16) n \<longleftrightarrow> n = i" "i < 32 \<Longrightarrow> bit (2 ^ i :: u32) n \<longleftrightarrow> n = i"
  by (auto simp: bit_exp_iff)

lemma bit_powers:
  "bit (2 ^ 8 :: u16) n \<longleftrightarrow> n = 8" "bit (2 ^ 7 :: u16) n \<longleftrightarrow> n = 7" "bit (2 ^ 6 :: u16) n \<longleftrightarrow> n = 6"
  "bit (2 ^ 5 :: u16) n \<longleftrightarrow> n = 5" "bit (2 ^ 4 :: u16) n \<longleftrightarrow> n = 4" "bit (2 ^ 3 :: u16) n \<longleftrightarrow> n = 3"
  "bit (2 ^ 2 :: u16) n \<longleftrightarrow> n = 2" "bit (2 ^ 1 :: u16) n \<longleftrightarrow> n = 1" "bit (2 ^ 0 :: u16) n \<longleftrightarrow> n = 0"
  "bit (2 ^ 8 :: u32) n \<longleftrightarrow> n = 8" "bit (2 ^ 7 :: u32) n \<longleftrightarrow> n = 7" "bit (2 ^ 6 :: u32) n \<longleftrightarrow> n = 6"
  "bit (2 ^ 5 :: u32) n \<longleftrightarrow> n = 5" "bit (2 ^ 4 :: u32) n \<longleftrightarrow> n = 4" "bit (2 ^ 3 :: u32) n \<longleftrightarrow> n = 3"
  "bit (2 ^ 2 :: u32) n \<longleftrightarrow> n = 2" "bit (2 ^ 1 :: u32) n \<longleftrightarrow> n = 1" "bit (2 ^ 0 :: u32) n \<longleftrightarrow> n = 0"
  by (rule bit_power; simp)+

lemma nine_bits:
  "(((((((((False \<or> b 8 \<and> n = 8) \<or> b 7 \<and> n = 7) \<or> b 6 \<and> n = 6) \<or> b 5 \<and> n = 5) \<or> b 4 \<and> n = 4) \<or>
     b 3 \<and> n = 3) \<or> b 2 \<and> n = 2) \<or> b 1 \<and> n = 1) \<or> b 0 \<and> n = 0) \<longleftrightarrow> n < 9 \<and> b (n :: nat)"
  unfolding less_9 by blast

lemma bit_mode: "bit (file_get_mode_from_permissions p) n \<longleftrightarrow> n < 9 \<and> bit p n"
  unfolding nine_bits [symmetric] file_get_mode_from_permissions_def Let_def bit_or_if mode_powers
    permission_powers and_power_not_zero
  by (simp only: bit_powers bit_0_eq bot_apply bot_bool_def)

lemma bit_permissions: "bit (file_get_permissions_from_stat_mode m) n \<longleftrightarrow> n < 9 \<and> bit m n"
  unfolding nine_bits [symmetric] file_get_permissions_from_stat_mode_def Let_def bit_or_if mode_powers
    permission_powers and_power_not_zero
  by (simp only: bit_powers bit_0_eq bot_apply bot_bool_def)

lemma permission_all: "FILE_PERMISSION_ALL = mask 9"
  by (simp add: file_permission_defs mask_eq_exp_minus_1)

section \<open>Operations on one file\<close>

text \<open>Only the file at \<open>a\<close>, which keeps its name, the answers and the trace may differ.\<close>

definition file_changed :: "addr \<Rightarrow> apid \<Rightarrow> apid \<Rightarrow> bool" where
  "file_changed a s s' \<longleftrightarrow> s'\<lparr>objs := objs s, answers := answers s, trace := trace s\<rparr> = s \<and>
     (\<exists>ob f f'. objs s a = Some ob \<and> payload ob = P_File f \<and> file_name f' = file_name f \<and>
        objs s' = (objs s)(a := Some (ob\<lparr>payload := P_File f'\<rparr>)))"

lemma the_fileE:
  assumes "the_file s a = Some f"
  obtains ob where "objs s a = Some ob" "payload ob = P_File f"
  using assms by (auto simp: the_file_def split: Option.bind_splits payload.splits)

lemma file_changed_refl:
  assumes "the_file s a = Some f"
  shows "file_changed a s s"
proof -
  obtain ob where ob: "objs s a = Some ob" "payload ob = P_File f" using assms by (rule the_fileE)
  then have "objs s = (objs s)(a := Some (ob\<lparr>payload := P_File f\<rparr>))"
    by (cases ob) (simp add: fun_upd_idem)
  then show ?thesis unfolding file_changed_def using ob by auto
qed

lemma file_changed_emit [simp]: "file_changed a s s' \<Longrightarrow> file_changed a s (emit e s')"
  by (simp add: file_changed_def emit_def)

lemma file_changed_answers [simp]: "file_changed a s s' \<Longrightarrow> file_changed a s (s'\<lparr>answers := rs\<rparr>)"
  by (simp add: file_changed_def)

lemma file_changed_only_answers: "file_changed a s t \<Longrightarrow> only_answers t u \<Longrightarrow> file_changed a s u"
  by (auto simp: only_answers_def)

lemma only_answers_fields:
  "only_answers s s' \<Longrightarrow> objs s' = objs s \<and> trace s' = trace s \<and> lib s' = lib s \<and> the_file s' = the_file s"
  by (auto simp: only_answers_def the_file_def fun_eq_iff)

lemma the_file_emit [simp]: "the_file (emit e s) = the_file s"
  by (simp add: the_file_def fun_eq_iff)

lemma the_file_answers [simp]: "the_file (s\<lparr>answers := x\<rparr>) = the_file s"
  by (simp add: the_file_def fun_eq_iff)

lemma the_file_objs: "objs s a = Some ob \<Longrightarrow> payload ob = P_File f \<Longrightarrow> the_file s a = Some f"
  by (simp add: the_file_def)

lemma file_changed_put:
  assumes "file_changed a s t" "the_file t a = Some f" "file_name f' = file_name f"
  shows "\<exists>u. put_file a f' t = Some u \<and> file_changed a s u \<and> the_file u a = Some f' \<and>
     trace u = trace t \<and> lib u = lib t \<and> answers u = answers t \<and>
     (\<forall>ob. objs t a = Some ob \<longrightarrow> objs u a = Some (ob\<lparr>payload := P_File f'\<rparr>))"
proof -
  obtain ob f0 f1 where *: "objs s a = Some ob" "payload ob = P_File f0" "file_name f1 = file_name f0"
    "objs t = (objs s)(a := Some (ob\<lparr>payload := P_File f1\<rparr>))"
    and frame: "t\<lparr>objs := objs s, answers := answers s, trace := trace s\<rparr> = s"
    using assms(1) unfolding file_changed_def by blast
  then have "f1 = f" using assms(2) by (simp add: the_file_def)
  let ?ob = "ob\<lparr>payload := P_File f'\<rparr>"
  have run: "put_file a f' t = Some (put_obj a ?ob t)" using * by (simp add: put_file_def)
  have "objs (put_obj a ?ob t) = (objs s)(a := Some ?ob)" using * by (simp add: put_obj_def)
  moreover have "(put_obj a ?ob t)\<lparr>objs := objs s, answers := answers s, trace := trace s\<rparr> = s"
    using frame by (simp add: put_obj_def)
  ultimately have "file_changed a s (put_obj a ?ob t)"
    unfolding file_changed_def using * \<open>f1 = f\<close> assms(3) by auto
  then show ?thesis using run * by (simp add: the_file_def put_obj_def)
qed

lemma inv_file_changed:
  assumes "inv R L {} s" "file_changed a s s'"
  shows "inv R L {} s'"
proof -
  obtain ob f f' where *: "objs s a = Some ob" "payload ob = P_File f" "file_name f' = file_name f"
    "objs s' = (objs s)(a := Some (ob\<lparr>payload := P_File f'\<rparr>))"
    and frame: "s'\<lparr>objs := objs s, answers := answers s, trace := trace s\<rparr> = s"
    using assms(2) unfolding file_changed_def by blast
  have "object_wf s ob" using inv_arrays(2) [OF assms(1) *(1)] by simp
  then have "inv R L {} (put_obj a (ob\<lparr>payload := P_File f'\<rparr>) s)"
    using assms(1) * by (intro inv_put_payload [OF assms(1) *(1)]) (simp_all add: object_wf_def inv_def counts_ok_def)
  moreover have "s' = (put_obj a (ob\<lparr>payload := P_File f'\<rparr>) s)\<lparr>answers := answers s', trace := trace s'\<rparr>"
    by (subst frame [symmetric]) (simp add: put_obj_def *(4) [symmetric])
  ultimately show ?thesis
    using only_emits_inv [of "put_obj a (ob\<lparr>payload := P_File f'\<rparr>) s" s'] by (simp add: only_emits_def)
qed

section \<open>Reading in the background\<close>

lemma file_do_read_spec:
  "file_do_read f n s = (r, s') \<Longrightarrow> only_answers s s' \<and> (\<forall>cs. r = Inr cs \<longrightarrow> length cs \<le> n)"
  by (auto simp: file_do_read_def pipe_handle_read_def file_handle_read_def
      dest: only_answers_ask_read split: if_splits)

definition async_callback :: "object \<Rightarrow> apie \<Rightarrow> char list \<Rightarrow> event list" where
  "async_callback ob e b =
     (if external_reference_count ob > 0 then [Ev_async_file_read_callback (obj_id ob) e b] else [])"

lemma send_async_read_callback:
  assumes "objs s a = Some ob"
  shows "\<exists>s'. file_send_async_read_callback a e b s = Some s' \<and> trace s' = trace s @ async_callback ob e b \<and>
     lib s' = lib s \<and> objs s' = objs s \<and> (\<forall>t. file_changed a t s \<longrightarrow> file_changed a t s')"
  using assms by (simp add: file_send_async_read_callback_def async_callback_def)

text \<open>The same file but for the state of the read in the background.\<close>

definition with_async :: "bool \<Rightarrow> u64 \<Rightarrow> file_obj \<Rightarrow> file_obj" where
  "with_async p n f = f\<lparr>file_async_read_in_progress := p, file_length_to_read_async := n\<rparr>"

lemma with_async_fields [simp]:
  "file_async_read_in_progress (with_async p n f) = p" "file_length_to_read_async (with_async p n f) = n"
  "file_async_read_eventfd (with_async p n f) = file_async_read_eventfd f"
  "file_name (with_async p n f) = file_name f" "file_type (with_async p n f) = file_type f"
  "file_events (with_async p n f) = file_events f" "file_pipe (with_async p n f) = file_pipe f"
  "file_fd (with_async p n f) = file_fd f" "file_flags (with_async p n f) = file_flags f"
  by (simp_all add: with_async_def)

lemma with_async_same: "with_async (file_async_read_in_progress f) (file_length_to_read_async f) f = f"
  by (simp add: with_async_def)

lemma stop_async_read:
  assumes "file_changed a s t" "objs t a = Some ob" "payload ob = P_File f0" "file_name f = file_name f0"
  shows "\<exists>u. file_stop_async_read a f t = Some u \<and> file_changed a s u \<and>
     trace u = trace t @ [Ev_event_remove_source (Fd (file_async_read_eventfd f))] \<and>
     objs u a = Some (ob\<lparr>payload := P_File (with_async False 0 f)\<rparr>) \<and> lib u = lib t"
proof -
  let ?t = "emit (Ev_event_remove_source (Fd (file_async_read_eventfd f))) t"
  have "the_file ?t a = Some f0" using assms by (simp add: the_file_objs)
  from file_changed_put [OF file_changed_emit [OF assms(1)] this, of "with_async False 0 f"] show ?thesis
    using assms(2,4) by (auto simp: file_stop_async_read_def with_async_def)
qed

lemma async_length:
  fixes left :: u64
  defines "n \<equiv> (if ucast FILE_MAX_READ_ASYNC_BUFFER_LENGTH > left then ucast left
     else FILE_MAX_READ_ASYNC_BUFFER_LENGTH) :: u8"
  shows "unat n = min 60 (unat left)"
proof -
  have u: "unat (ucast FILE_MAX_READ_ASYNC_BUFFER_LENGTH :: u64) = 60"
    by (simp add: FILE_MAX_READ_ASYNC_BUFFER_LENGTH_def)
  show ?thesis
  proof (cases "left < ucast FILE_MAX_READ_ASYNC_BUFFER_LENGTH")
    case True
    then have "unat left < 60" using u by (simp add: word_less_nat_alt)
    then have "take_bit 8 (unat left) = unat left" by (intro take_bit_nat_eq_self) simp
    then show ?thesis using True \<open>unat left < 60\<close> by (simp add: n_def unsigned_ucast_eq)
  next
    case False
    then have "60 \<le> unat left" using u by (simp add: word_less_nat_alt not_less)
    then show ?thesis using False by (simp add: n_def FILE_MAX_READ_ASYNC_BUFFER_LENGTH_def)
  qed
qed

text \<open>What one event does to a read in the background.\<close>

definition async_round :: "file_obj \<Rightarrow> object \<Rightarrow> apid \<Rightarrow> bool \<Rightarrow> u64 \<Rightarrow> apid \<Rightarrow> bool" where
  "async_round f ob s p left s' \<longleftrightarrow>
     (p \<and> left = file_length_to_read_async f \<and> trace s' = trace s) \<or>
     (\<exists>e b. length b \<le> min 60 (unat (file_length_to_read_async f)) \<and> (e \<noteq> API_E_SUCCESS \<longrightarrow> b = []) \<and>
        (if p then e = API_E_SUCCESS \<and> b \<noteq> [] \<and> left \<noteq> 0 \<and>
              unat left + length b = unat (file_length_to_read_async f) \<and>
              trace s' = trace s @ async_callback ob e b
         else left = 0 \<and> trace s' = trace s @
              Ev_event_remove_source (Fd (file_async_read_eventfd f)) # async_callback ob e b))"

lemma async_read_spec:
  assumes ob: "objs s a = Some ob" "payload ob = P_File f" and p: "file_async_read_in_progress f"
  shows "\<exists>s' p left. file_handle_async_read a s = Some s' \<and> file_changed a s s' \<and>
     objs s' a = Some (ob\<lparr>payload := P_File (with_async p left f)\<rparr>) \<and> async_round f ob s p left s'"
proof -
  let ?left = "file_length_to_read_async f"
  let ?n = "(if ucast FILE_MAX_READ_ASYNC_BUFFER_LENGTH > ?left then ucast ?left
     else FILE_MAX_READ_ASYNC_BUFFER_LENGTH) :: u8"
  have f: "the_file s a = Some f" using ob by (rule the_file_objs)
  obtain r t where r: "file_do_read f (unat ?n) s = (r, t)" by (cases "file_do_read f (unat ?n) s")
  have t: "only_answers s t" and len: "\<And>cs. r = Inr cs \<Longrightarrow> length cs \<le> min 60 (unat ?left)"
    using file_do_read_spec [OF r] unfolding async_length by auto
  have ct: "file_changed a s t" using file_changed_refl [OF f] t by (rule file_changed_only_answers)
  have ot: "objs t a = Some ob" and lt: "lib t = lib s" and tr: "trace t = trace s"
    using only_answers_fields [OF t] ob(1) by simp_all
  have keep: "ob = ob\<lparr>payload := P_File (with_async True ?left f)\<rparr>"
    using ob(2) p with_async_same [of f] by (cases ob) simp
  have stop: "\<exists>u v. file_stop_async_read a f' t = Some u \<and> file_send_async_read_callback a e b u = Some v \<and>
       file_changed a s v \<and> objs v a = Some (ob\<lparr>payload := P_File (with_async False 0 f')\<rparr>) \<and>
       trace v = trace s @ Ev_event_remove_source (Fd (file_async_read_eventfd f')) # async_callback ob e b"
    if same: "file_name f' = file_name f" "file_async_read_eventfd f' = file_async_read_eventfd f" for f' e b
  proof -
    obtain u where u: "file_stop_async_read a f' t = Some u" "file_changed a s u"
      "trace u = trace t @ [Ev_event_remove_source (Fd (file_async_read_eventfd f'))]"
      "objs u a = Some (ob\<lparr>payload := P_File (with_async False 0 f')\<rparr>)"
      using stop_async_read [OF ct ot ob(2) same(1)] by blast
    from send_async_read_callback [OF u(4), of e b] show ?thesis
      using u tr same(2) by (auto simp: async_callback_def)
  qed
  have body: "file_handle_async_read a s = (case (r, t) of
      (Inl en, s) \<Rightarrow>
         if errno_interrupted (lib s) en then Some s
         else if errno_would_block (lib s) en then do {
           s \<leftarrow> file_stop_async_read a f s;
           file_send_async_read_callback a API_E_SUCCESS [] s
         } else do {
           s \<leftarrow> file_stop_async_read a f s;
           file_send_async_read_callback a (api_get_error_code_from_errno en) [] s
         }
     | (Inr buffer, s) \<Rightarrow> do {
         let left = ?left - of_nat (length buffer);
         let f = f\<lparr>file_length_to_read_async := left\<rparr>;
         s \<leftarrow> (if buffer = [] \<or> left = 0 then file_stop_async_read a f s else put_file a f s);
         file_send_async_read_callback a API_E_SUCCESS buffer s
       })"
    unfolding r [symmetric] using f p by (simp add: file_handle_async_read_def)
  show ?thesis
  proof (cases r)
    case (Inl en)
    show ?thesis
    proof (cases "errno_interrupted (lib t) en")
      case True
      then have "file_handle_async_read a s = Some t" using Inl by (simp add: body)
      then show ?thesis using ct ot tr keep unfolding async_round_def by metis
    next
      case False
      obtain e where run: "file_handle_async_read a s = do {
           s \<leftarrow> file_stop_async_read a f t; file_send_async_read_callback a e [] s }"
        using False Inl by (cases "errno_would_block (lib t) en") (simp_all add: body)
      from stop [of f e "[]"] obtain v where v: "file_handle_async_read a s = Some v" "file_changed a s v"
        "objs v a = Some (ob\<lparr>payload := P_File (with_async False 0 f)\<rparr>)"
        "trace v = trace s @ Ev_event_remove_source (Fd (file_async_read_eventfd f)) # async_callback ob e []"
        unfolding run by auto
      have "async_round f ob s False 0 v"
        unfolding async_round_def using v(4) by (intro disjI2 exI [of _ e] exI [of _ "[]"]) simp
      then show ?thesis using v by blast
    qed
  next
    case (Inr b)
    let ?rest = "?left - of_nat (length b)" and ?f = "f\<lparr>file_length_to_read_async := ?left - of_nat (length b)\<rparr>"
    note len = len [OF Inr]
    have rest: "unat ?rest + length b = unat ?left"
    proof -
      have "unat (of_nat (length b) :: u64) = length b" using len by (intro unat_of_nat_u64) simp
      then show ?thesis using len by (simp add: unat_sub_if')
    qed
    show ?thesis
    proof (cases "b = [] \<or> ?rest = 0")
      case True
      have run: "file_handle_async_read a s = do {
           s \<leftarrow> file_stop_async_read a ?f t; file_send_async_read_callback a API_E_SUCCESS b s }"
        using True Inr by (simp add: body Let_def)
      from stop [of ?f API_E_SUCCESS b] obtain v where v: "file_handle_async_read a s = Some v" "file_changed a s v"
        "objs v a = Some (ob\<lparr>payload := P_File (with_async False 0 f)\<rparr>)"
        "trace v = trace s @ Ev_event_remove_source (Fd (file_async_read_eventfd f)) # async_callback ob API_E_SUCCESS b"
        unfolding run by (auto simp: with_async_def)
      have "async_round f ob s False 0 v" unfolding async_round_def using v(4) len by auto
      then show ?thesis using v by blast
    next
      case False
      have "the_file t a = Some f" using ot ob(2) by (rule the_file_objs)
      from file_changed_put [OF ct this, of ?f] obtain u where u: "put_file a ?f t = Some u" "file_changed a s u"
        "trace u = trace t" "objs u a = Some (ob\<lparr>payload := P_File ?f\<rparr>)" using ot by auto
      have f': "?f = with_async True ?rest f" using p by (simp add: with_async_def)
      from send_async_read_callback [OF u(4), of API_E_SUCCESS b] obtain v where
        v: "file_send_async_read_callback a API_E_SUCCESS b u = Some v" "file_changed a s v"
          "objs v a = Some (ob\<lparr>payload := P_File (with_async True ?rest f)\<rparr>)"
          "trace v = trace s @ async_callback ob API_E_SUCCESS b"
        using u tr f' by (auto simp: async_callback_def)
      have "file_handle_async_read a s = Some v" using False Inr u(1) v(1) by (simp add: body Let_def)
      moreover have "async_round f ob s True ?rest v"
        unfolding async_round_def using v(4) len rest False by fastforce
      ultimately show ?thesis using v by blast
    qed
  qed
qed

text \<open>The characters the client of a file receives, and the event loop calling the handler.\<close>

fun delivered :: "u16 \<Rightarrow> event list \<Rightarrow> char list" where
  "delivered i [] = []"
| "delivered i (Ev_async_file_read_callback j e b # es) =
     (if j = i \<and> e = API_E_SUCCESS then b else []) @ delivered i es"
| "delivered i (_ # es) = delivered i es"

lemma delivered_append [simp]: "delivered i (es @ fs) = delivered i es @ delivered i fs"
  by (induction i es rule: delivered.induct) simp_all

primrec async_events :: "nat \<Rightarrow> addr \<Rightarrow> apid \<Rightarrow> apid option" where
  "async_events 0 a s = Some s"
| "async_events (Suc n) a s = do {
     f \<leftarrow> the_file s a;
     if file_async_read_in_progress f then do {
       s \<leftarrow> file_handle_async_read a s;
       async_events n a s
     } else Some s
   }"

lemma async_round_delivered:
  assumes "async_round f ob s p left s'" "0 < external_reference_count ob"
  shows "\<exists>b. delivered (obj_id ob) (trace s') = delivered (obj_id ob) (trace s) @ b \<and>
     (if p then length b + unat left = unat (file_length_to_read_async f)
      else length b \<le> unat (file_length_to_read_async f))"
  using assms unfolding async_round_def async_callback_def
  by (auto split: if_splits)

lemma async_read_total:
  assumes "objs s a = Some ob" "payload ob = P_File f" "0 < external_reference_count ob"
    "file_async_read_in_progress f"
  shows "\<exists>s' f' b. async_events n a s = Some s' \<and> the_file s' a = Some f' \<and>
     delivered (obj_id ob) (trace s') = delivered (obj_id ob) (trace s) @ b \<and>
     (if file_async_read_in_progress f'
      then length b + unat (file_length_to_read_async f') = unat (file_length_to_read_async f)
      else length b \<le> unat (file_length_to_read_async f))"
  using assms
proof (induction n arbitrary: s ob f)
  case 0
  then show ?case by (simp add: the_file_objs)
next
  case (Suc n)
  note ob = Suc.prems(1,2)
  obtain s1 p left where s1: "file_handle_async_read a s = Some s1"
    "objs s1 a = Some (ob\<lparr>payload := P_File (with_async p left f)\<rparr>)" "async_round f ob s p left s1"
    using async_read_spec [OF ob Suc.prems(4)] by blast
  obtain b where b: "delivered (obj_id ob) (trace s1) = delivered (obj_id ob) (trace s) @ b"
     "if p then length b + unat left = unat (file_length_to_read_async f)
      else length b \<le> unat (file_length_to_read_async f)"
    using async_round_delivered [OF s1(3) Suc.prems(3)] by blast
  have run: "async_events (Suc n) a s = async_events n a s1"
    using the_file_objs [OF ob] Suc.prems(4) s1(1) by simp
  show ?case
  proof (cases p)
    case True
    let ?ob = "ob\<lparr>payload := P_File (with_async p left f)\<rparr>"
    from Suc.IH [OF s1(2)] obtain s' f' b' where
      "async_events n a s1 = Some s'" "the_file s' a = Some f'"
      "delivered (obj_id ob) (trace s') = delivered (obj_id ob) (trace s1) @ b'"
      "if file_async_read_in_progress f' then length b' + unat (file_length_to_read_async f') = unat left
       else length b' \<le> unat left"
      using Suc.prems(3) True by (auto cong: if_cong)
    then show ?thesis using b True unfolding run by (auto split: if_splits)
  next
    case False
    have f1: "the_file s1 a = Some (with_async p left f)" using s1(2) by (rule the_file_objs) simp
    then have "async_events n a s1 = Some s1" using False by (cases n) simp_all
    then show ?thesis using b False f1 unfolding run by auto
  qed
qed

section \<open>Sources of the event loop\<close>

text \<open>Whether a handle is registered after the events of a trace.\<close>

definition registered :: "handle \<Rightarrow> event list \<Rightarrow> bool" where
  "registered h tr = fold (\<lambda>e r. if e = Ev_event_add_source h then True
     else if e = Ev_event_remove_source h then False else r) tr False"

lemma registered_snoc [simp]: "registered h (tr @ [e]) =
  (if e = Ev_event_add_source h then True else if e = Ev_event_remove_source h then False else registered h tr)"
  by (simp add: registered_def)

lemma registered_callback [simp]:
  "registered h (tr @ async_callback ob e b) = registered h tr"
  "registered h (tr @ x # async_callback ob e b) = registered h (tr @ [x])"
  by (simp_all add: registered_def async_callback_def)

definition file_sources :: "file_obj \<Rightarrow> event list \<Rightarrow> bool" where
  "file_sources f tr \<longleftrightarrow>
     (file_async_read_in_progress f \<longleftrightarrow> registered (Fd (file_async_read_eventfd f)) tr) \<and>
     (file_events f AND FILE_EVENT_READABLE \<noteq> 0 \<longleftrightarrow> registered (Pipe_read_handle (file_pipe f)) tr) \<and>
     (file_events f AND FILE_EVENT_WRITABLE \<noteq> 0 \<longleftrightarrow> registered (Pipe_write_handle (file_pipe f)) tr)"

lemma event_bits:
  fixes e :: u16
  shows "(e AND NOT FILE_EVENT_READABLE) AND FILE_EVENT_WRITABLE = e AND FILE_EVENT_WRITABLE"
    "(e AND NOT FILE_EVENT_WRITABLE) AND FILE_EVENT_READABLE = e AND FILE_EVENT_READABLE"
    "(e OR FILE_EVENT_READABLE) AND FILE_EVENT_WRITABLE = e AND FILE_EVENT_WRITABLE"
    "(e OR FILE_EVENT_WRITABLE) AND FILE_EVENT_READABLE = e AND FILE_EVENT_READABLE"
    "(e AND NOT FILE_EVENT_READABLE) AND FILE_EVENT_READABLE = 0"
    "(e AND NOT FILE_EVENT_WRITABLE) AND FILE_EVENT_WRITABLE = 0"
    "(e OR FILE_EVENT_READABLE) AND FILE_EVENT_READABLE \<noteq> 0"
    "(e OR FILE_EVENT_WRITABLE) AND FILE_EVENT_WRITABLE \<noteq> 0"
  by (simp_all add: FILE_EVENT_READABLE_def FILE_EVENT_WRITABLE_def and.assoc bit.conj_disj_distrib2)

text \<open>A file with other events.\<close>

definition with_events :: "u16 \<Rightarrow> object \<Rightarrow> file_obj \<Rightarrow> object" where
  "with_events evs ob f = ob\<lparr>payload := P_File (f\<lparr>file_events := evs\<rparr>)\<rparr>"

lemma event_occurred_spec:
  assumes ob: "objs s a = Some ob" "payload ob = P_File f"
    and op: "op = do {
      f \<leftarrow> the_file s a;
      let s = emit (Ev_event_remove_source (h f)) s;
      s \<leftarrow> put_file a (f\<lparr>file_events := file_events f AND NOT ev\<rparr>) s;
      file_send_events_occurred_callback a ev s }"
  shows "\<exists>s' es. op = Some s' \<and> file_changed a s s' \<and>
     objs s' a = Some (with_events (file_events f AND NOT ev) ob f) \<and>
     trace s' = trace s @ Ev_event_remove_source (h f) # es \<and>
     es = (if 0 < external_reference_count ob then [Ev_file_events_occurred_callback (obj_id ob) ev] else [])"
proof -
  let ?s = "emit (Ev_event_remove_source (h f)) s" and ?f = "f\<lparr>file_events := file_events f AND NOT ev\<rparr>"
  have f: "the_file s a = Some f" using ob by (rule the_file_objs)
  then have "the_file ?s a = Some f" by simp
  from file_changed_put [OF file_changed_emit [OF file_changed_refl [OF f]] this, of ?f] show ?thesis
    using ob f by (auto simp: op file_send_events_occurred_callback_def with_events_def)
qed

lemma set_event_spec:
  assumes t: "file_changed a s t" and ob: "objs t a = Some ob" "payload ob = P_File f"
  shows "\<exists>e u evs. file_set_event a ev h events t = Some (e, u) \<and> file_changed a s u \<and>
     objs u a = Some (with_events evs ob f) \<and>
     (events AND ev \<noteq> 0 \<and> file_events f AND ev = 0 \<and> e = API_E_SUCCESS \<and> evs = file_events f OR ev \<and>
        trace u = trace t @ [Ev_event_add_source h] \<or>
      events AND ev = 0 \<and> file_events f AND ev \<noteq> 0 \<and> e = API_E_SUCCESS \<and> evs = file_events f AND NOT ev \<and>
        trace u = trace t @ [Ev_event_remove_source h] \<or>
      evs = file_events f \<and> trace u = trace t \<and>
        (if e = API_E_SUCCESS then (events AND ev = 0) = (file_events f AND ev = 0)
         else e = API_E_INTERNAL_ERROR))"
proof -
  have f: "the_file t a = Some f" using ob by (rule the_file_objs)
  have same: "with_events (file_events f) ob f = ob" using ob(2) by (cases ob) (simp add: with_events_def)
  consider (add) "events AND ev \<noteq> 0 \<and> file_events f AND ev = 0"
    | (remove) "events AND ev = 0 \<and> file_events f AND ev \<noteq> 0"
    | (keep) "(events AND ev = 0) = (file_events f AND ev = 0)" by blast
  then show ?thesis
  proof cases
    case add
    obtain r u where r: "ask t = (r, u)" by (cases "ask t")
    note u = only_answers_ask [OF r]
    note uf = only_answers_fields [OF u] and tu = file_changed_only_answers [OF t u]
    show ?thesis
    proof (cases r)
      case (Inl en)
      then have "file_set_event a ev h events t = Some (API_E_INTERNAL_ERROR, u)"
        using add f r by (simp add: file_set_event_def event_add_source_def)
      moreover have "objs u a = Some (with_events (file_events f) ob f)" using same uf ob by simp
      ultimately show ?thesis using tu uf by fastforce
    next
      case (Inr v)
      have "the_file (emit (Ev_event_add_source h) u) a = Some f" using uf f by simp
      from file_changed_put [OF file_changed_emit [OF tu] this, of "f\<lparr>file_events := file_events f OR ev\<rparr>"]
      show ?thesis
        using Inr add f r uf ob
        by (auto simp: file_set_event_def event_add_source_def with_events_def)
    qed
  next
    case remove
    have "the_file (emit (Ev_event_remove_source h) t) a = Some f" using f by simp
    from file_changed_put [OF file_changed_emit [OF t] this, of "f\<lparr>file_events := file_events f AND NOT ev\<rparr>"]
    show ?thesis using remove f ob by (auto simp: file_set_event_def with_events_def)
  next
    case keep
    then have "file_set_event a ev h events t = Some (API_E_SUCCESS, t)"
      using f by (auto simp: file_set_event_def)
    then show ?thesis using t ob same keep by fastforce
  qed
qed

lemma with_events_simps [simp]:
  "with_events evs' (with_events evs ob f) (f\<lparr>file_events := evs\<rparr>) = with_events evs' ob f"
  "payload (with_events evs ob f) = P_File (f\<lparr>file_events := evs\<rparr>)"
  "obj_id (with_events evs ob f) = obj_id ob"
  "external_reference_count (with_events evs ob f) = external_reference_count ob"
  by (simp_all add: with_events_def)

lemma event_bits_distinct: "FILE_EVENT_READABLE \<noteq> FILE_EVENT_WRITABLE"
  by (simp add: FILE_EVENT_READABLE_def FILE_EVENT_WRITABLE_def)

text \<open>The sources after one of the halves of \<open>file_set_events\<close>.\<close>

lemma set_readable_sources:
  assumes "file_set_event a FILE_EVENT_READABLE (Pipe_read_handle (file_pipe f)) events t = Some (e, u)"
    and "file_changed a s t" "objs t a = Some ob" "payload ob = P_File f"
  shows "\<exists>evs. file_changed a s u \<and> objs u a = Some (with_events evs ob f) \<and>
     (file_sources f (trace t) \<longrightarrow> file_sources (f\<lparr>file_events := evs\<rparr>) (trace u)) \<and>
     evs AND FILE_EVENT_WRITABLE = file_events f AND FILE_EVENT_WRITABLE \<and>
     (e = API_E_SUCCESS \<longrightarrow> (evs AND FILE_EVENT_READABLE = 0) = (events AND FILE_EVENT_READABLE = 0))"
  using set_event_spec [OF assms(2-4), of FILE_EVENT_READABLE "Pipe_read_handle (file_pipe f)" events]
  unfolding assms(1)
  by (elim exE conjE disjE) (auto simp: file_sources_def event_bits split: if_splits)

lemma set_writable_sources:
  assumes "file_set_event a FILE_EVENT_WRITABLE (Pipe_write_handle (file_pipe f)) events t = Some (e, u)"
    and "file_changed a s t" "objs t a = Some ob" "payload ob = P_File f"
  shows "\<exists>evs. file_changed a s u \<and> objs u a = Some (with_events evs ob f) \<and>
     (file_sources f (trace t) \<longrightarrow> file_sources (f\<lparr>file_events := evs\<rparr>) (trace u)) \<and>
     evs AND FILE_EVENT_READABLE = file_events f AND FILE_EVENT_READABLE \<and>
     (e = API_E_SUCCESS \<longrightarrow> (evs AND FILE_EVENT_WRITABLE = 0) = (events AND FILE_EVENT_WRITABLE = 0))"
  using set_event_spec [OF assms(2-4), of FILE_EVENT_WRITABLE "Pipe_write_handle (file_pipe f)" events]
  unfolding assms(1)
  by (elim exE conjE disjE) (auto simp: file_sources_def event_bits split: if_splits)

lemma set_events_spec:
  assumes ob: "objs s a = Some ob" "payload ob = P_File f"
  shows "\<exists>e s' evs. file_set_events a events s = Some (e, s') \<and> file_changed a s s' \<and>
     objs s' a = Some (with_events evs ob f) \<and>
     (file_sources f (trace s) \<longrightarrow> file_sources (f\<lparr>file_events := evs\<rparr>) (trace s')) \<and>
     (if file_type f \<noteq> FILE_TYPE_PIPE then e = API_E_NOT_SUPPORTED \<and> s' = s
      else if events AND NOT FILE_EVENT_ALL \<noteq> 0 then e = API_E_INVALID_PARAMETER \<and> s' = s
      else if e = API_E_SUCCESS then
        (evs AND FILE_EVENT_READABLE = 0) = (events AND FILE_EVENT_READABLE = 0) \<and>
        (evs AND FILE_EVENT_WRITABLE = 0) = (events AND FILE_EVENT_WRITABLE = 0)
      else e = API_E_INTERNAL_ERROR)"
proof (cases "file_type f = FILE_TYPE_PIPE \<and> events AND NOT FILE_EVENT_ALL = 0")
  case False
  have f: "the_file s a = Some f" using ob by (rule the_file_objs)
  have "with_events (file_events f) ob f = ob" using ob(2) by (cases ob) (simp add: with_events_def)
  then show ?thesis
    using False f ob file_changed_refl [OF f] by (auto simp: file_set_events_def intro!: exI [of _ "file_events f"])
next
  case True
  have f: "the_file s a = Some f" using ob by (rule the_file_objs)
  note refl = file_changed_refl [OF f]
  obtain e1 s1 where r1: "file_set_event a FILE_EVENT_READABLE (Pipe_read_handle (file_pipe f)) events s = Some (e1, s1)"
    and i1: "e1 = API_E_SUCCESS \<or> e1 = API_E_INTERNAL_ERROR"
    using set_event_spec [OF refl ob, of FILE_EVENT_READABLE "Pipe_read_handle (file_pipe f)" events]
    by (auto split: if_splits)
  from set_readable_sources [OF r1 refl ob] obtain evs1 where s1: "file_changed a s s1"
    "objs s1 a = Some (with_events evs1 ob f)"
    "file_sources f (trace s) \<longrightarrow> file_sources (f\<lparr>file_events := evs1\<rparr>) (trace s1)"
    "e1 = API_E_SUCCESS \<longrightarrow> (evs1 AND FILE_EVENT_READABLE = 0) = (events AND FILE_EVENT_READABLE = 0)" by blast
  show ?thesis
  proof (cases "e1 = API_E_SUCCESS")
    case False
    then have "file_set_events a events s = Some (e1, s1)" using True f r1 by (simp add: file_set_events_def)
    then show ?thesis using s1 i1 False True by auto
  next
    case ok: True
    let ?f = "f\<lparr>file_events := evs1\<rparr>"
    have h: "Pipe_write_handle (file_pipe ?f) = Pipe_write_handle (file_pipe f)" by simp
    have p1: "payload (with_events evs1 ob f) = P_File ?f" by simp
    obtain e2 s2 where r2: "file_set_event a FILE_EVENT_WRITABLE (Pipe_write_handle (file_pipe ?f)) events s1 = Some (e2, s2)"
      and i2: "e2 = API_E_SUCCESS \<or> e2 = API_E_INTERNAL_ERROR"
      using set_event_spec [OF s1(1,2) p1, of FILE_EVENT_WRITABLE "Pipe_write_handle (file_pipe ?f)" events]
      by (auto split: if_splits)
    from set_writable_sources [OF r2 s1(1,2) p1] obtain evs2 where s2: "file_changed a s s2"
      "objs s2 a = Some (with_events evs2 ob f)"
      "file_sources ?f (trace s1) \<longrightarrow> file_sources (f\<lparr>file_events := evs2\<rparr>) (trace s2)"
      "evs2 AND FILE_EVENT_READABLE = evs1 AND FILE_EVENT_READABLE"
      "e2 = API_E_SUCCESS \<longrightarrow> (evs2 AND FILE_EVENT_WRITABLE = 0) = (events AND FILE_EVENT_WRITABLE = 0)" by auto
    have "file_set_events a events s = Some (e2, s2)"
      using True f r1 r2 ok by (simp add: file_set_events_def)
    then show ?thesis using s1(3,4) s2 ok i2 True by auto
  qed
qed

text \<open>What happens to one file: events of the event loop and requests of clients.\<close>

inductive file_step :: "addr \<Rightarrow> apid \<Rightarrow> apid \<Rightarrow> bool" for a where
  async_event: "file_handle_async_read a s = Some s' \<Longrightarrow> file_step a s s'"
| readable_event: "file_handle_readable_event a s = Some s' \<Longrightarrow> file_step a s s'"
| writable_event: "file_handle_writable_event a s = Some s' \<Longrightarrow> file_step a s s'"
| read_started: "file_read_async a n s = Some (PACKET_E_SUCCESS, s') \<Longrightarrow> file_step a s s'"
| read_refused: "\<lbrakk>file_read_async a n s = Some (e, s'); the_file s a = Some f;
    file_async_read_in_progress f \<or> n > INT64_MAX\<rbrakk> \<Longrightarrow> file_step a s s'"
| read_aborted: "file_abort_async_read a s = Some (e, s') \<Longrightarrow> file_step a s s'"
| events_set: "file_set_events a events s = Some (e, s') \<Longrightarrow> file_step a s s'"

text \<open>A step that leaves the file changed as the invariants of its sources want it.\<close>

definition sources_kept :: "addr \<Rightarrow> file_obj \<Rightarrow> apid \<Rightarrow> apid \<Rightarrow> bool" where
  "sources_kept a f s s' \<longleftrightarrow> file_changed a s s' \<and> (\<exists>f'. the_file s' a = Some f' \<and>
     (file_sources f (trace s) \<longrightarrow> file_sources f' (trace s')))"

lemma event_occurred_sources:
  assumes ob: "objs s a = Some ob" "payload ob = P_File f"
  shows "file_handle_readable_event a s = Some s' \<Longrightarrow> sources_kept a f s s'"
    and "file_handle_writable_event a s = Some s' \<Longrightarrow> sources_kept a f s s'"
proof -
  assume run: "file_handle_readable_event a s = Some s'"
  obtain es where s': "file_changed a s s'"
    "objs s' a = Some (with_events (file_events f AND NOT FILE_EVENT_READABLE) ob f)"
    "trace s' = trace s @ Ev_event_remove_source (Pipe_read_handle (file_pipe f)) # es"
    "es = (if 0 < external_reference_count ob
       then [Ev_file_events_occurred_callback (obj_id ob) FILE_EVENT_READABLE] else [])"
    using event_occurred_spec [OF ob refl, of "\<lambda>f. Pipe_read_handle (file_pipe f)" FILE_EVENT_READABLE] run
    unfolding file_handle_readable_event_def by auto
  then show "sources_kept a f s s'"
    using the_file_objs [OF s'(2)] by (auto simp: sources_kept_def file_sources_def event_bits registered_def)
next
  assume run: "file_handle_writable_event a s = Some s'"
  obtain es where s': "file_changed a s s'"
    "objs s' a = Some (with_events (file_events f AND NOT FILE_EVENT_WRITABLE) ob f)"
    "trace s' = trace s @ Ev_event_remove_source (Pipe_write_handle (file_pipe f)) # es"
    "es = (if 0 < external_reference_count ob
       then [Ev_file_events_occurred_callback (obj_id ob) FILE_EVENT_WRITABLE] else [])"
    using event_occurred_spec [OF ob refl, of "\<lambda>f. Pipe_write_handle (file_pipe f)" FILE_EVENT_WRITABLE] run
    unfolding file_handle_writable_event_def by auto
  then show "sources_kept a f s s'"
    using the_file_objs [OF s'(2)] by (auto simp: sources_kept_def file_sources_def event_bits registered_def)
qed

lemma async_event_sources:
  assumes ob: "objs s a = Some ob" "payload ob = P_File f" and run: "file_handle_async_read a s = Some s'"
  shows "sources_kept a f s s'"
proof (cases "file_async_read_in_progress f")
  case True
  obtain p left where s': "file_changed a s s'" "objs s' a = Some (ob\<lparr>payload := P_File (with_async p left f)\<rparr>)"
    "async_round f ob s p left s'"
    using async_read_spec [OF ob True] run by auto
  have "the_file s' a = Some (with_async p left f)" using s'(2) by (rule the_file_objs) simp
  then show ?thesis
    using s'(1,3) True unfolding sources_kept_def async_round_def file_sources_def
    by (cases p) auto
next
  case False
  have f: "the_file s a = Some f" using ob by (rule the_file_objs)
  then have "s' = emit (Ev_event_remove_source (Fd (file_async_read_eventfd f))) s"
    using False run by (simp add: file_handle_async_read_def)
  then show ?thesis
    using f False file_changed_refl [OF f] by (auto simp: sources_kept_def file_sources_def)
qed

lemma abort_spec:
  assumes ob: "objs s a = Some ob" "payload ob = P_File f"
  shows "\<exists>s'. file_abort_async_read a s = Some (API_E_SUCCESS, s') \<and> sources_kept a f s s' \<and>
     objs s' a = Some (ob\<lparr>payload := P_File (with_async False
       (if file_async_read_in_progress f then 0 else file_length_to_read_async f) f)\<rparr>)"
proof (cases "file_async_read_in_progress f")
  case True
  have f: "the_file s a = Some f" using ob by (rule the_file_objs)
  from stop_async_read [OF file_changed_refl [OF f] ob refl] obtain u where u:
    "file_stop_async_read a f s = Some u" "file_changed a s u"
    "trace u = trace s @ [Ev_event_remove_source (Fd (file_async_read_eventfd f))]"
    "objs u a = Some (ob\<lparr>payload := P_File (with_async False 0 f)\<rparr>)" by blast
  from send_async_read_callback [OF u(4), of API_E_OPERATION_ABORTED "[]"] obtain v where v:
    "file_send_async_read_callback a API_E_OPERATION_ABORTED [] u = Some v" "file_changed a s v" "objs v = objs u"
    "trace v = trace s @ Ev_event_remove_source (Fd (file_async_read_eventfd f)) #
       async_callback ob API_E_OPERATION_ABORTED []"
    using u by (auto simp: async_callback_def)
  have "the_file v a = Some (with_async False 0 f)" using u(4) v(3) by (simp add: the_file_def)
  then show ?thesis
    using True f u v by (auto simp: file_abort_async_read_def sources_kept_def file_sources_def)
next
  case False
  have f: "the_file s a = Some f" using ob by (rule the_file_objs)
  have "ob\<lparr>payload := P_File (with_async False (file_length_to_read_async f) f)\<rparr> = ob"
    using ob(2) False with_async_same [of f] by (cases ob) simp
  then show ?thesis
    using False f ob file_changed_refl [OF f] by (simp add: file_abort_async_read_def sources_kept_def)
qed

text \<open>Starting to read in the background, with the failure of the event loop as its own case.\<close>

lemma read_async_spec:
  assumes ob: "objs s a = Some ob" "payload ob = P_File f"
  shows "\<exists>e s'. file_read_async a n s = Some (e, s') \<and> file_changed a s s' \<and>
     (if n > INT64_MAX \<or> file_async_read_in_progress f
      then e = (if n > INT64_MAX then PACKET_E_INVALID_PARAMETER else PACKET_E_UNKNOWN_ERROR) \<and>
           objs s' a = Some ob \<and> (\<exists>e'. trace s' = trace s @ async_callback ob e' [])
      else objs s' a = Some (ob\<lparr>payload := P_File (with_async True n f)\<rparr>) \<and>
        (if e = PACKET_E_SUCCESS
         then trace s' = trace s @ [Ev_event_add_source (Fd (file_async_read_eventfd f))]
         else e = PACKET_E_UNKNOWN_ERROR \<and> trace s' = trace s @ async_callback ob API_E_INTERNAL_ERROR []))"
proof (cases "n > INT64_MAX \<or> file_async_read_in_progress f")
  case True
  have f: "the_file s a = Some f" using ob by (rule the_file_objs)
  let ?e = "if n > INT64_MAX then API_E_OUT_OF_RANGE else API_E_INVALID_OPERATION"
  from send_async_read_callback [OF ob(1), of ?e "[]"] show ?thesis
    using True f ob file_changed_refl [OF f] by (auto simp: file_read_async_def)
next
  case False
  have f: "the_file s a = Some f" using ob by (rule the_file_objs)
  from file_changed_put [OF file_changed_refl [OF f] f, of "with_async True n f"] obtain t where t:
    "put_file a (with_async True n f) s = Some t" "file_changed a s t" "trace t = trace s"
    "objs t a = Some (ob\<lparr>payload := P_File (with_async True n f)\<rparr>)" using ob by auto
  obtain r u where r: "ask t = (r, u)" by (cases "ask t")
  note u = only_answers_ask [OF r]
  note uf = only_answers_fields [OF u] and tu = file_changed_only_answers [OF t(2) u]
  show ?thesis
  proof (cases r)
    case (Inl en)
    have "objs u a = Some (ob\<lparr>payload := P_File (with_async True n f)\<rparr>)" using uf t(4) by simp
    from send_async_read_callback [OF this, of API_E_INTERNAL_ERROR "[]"] show ?thesis
      using False f Inl r t uf tu
      by (auto simp: file_read_async_def event_add_source_def with_async_def async_callback_def)
  next
    case (Inr v)
    then show ?thesis
      using False f r t uf tu by (simp add: file_read_async_def event_add_source_def with_async_def)
  qed
qed

lemma file_step_sources:
  assumes "file_step a s s'" "the_file s a = Some f"
  shows "sources_kept a f s s'"
proof -
  obtain ob where ob: "objs s a = Some ob" "payload ob = P_File f" using assms(2) by (rule the_fileE)
  from assms(1) show ?thesis
  proof cases
    case async_event
    then show ?thesis by (rule async_event_sources [OF ob])
  next
    case readable_event
    then show ?thesis by (rule event_occurred_sources [OF ob])
  next
    case writable_event
    then show ?thesis by (rule event_occurred_sources [OF ob])
  next
    case (read_started n)
    then show ?thesis
      using read_async_spec [OF ob, of n]
      by (auto simp: sources_kept_def file_sources_def the_file_def split: if_splits)
  next
    case (read_refused n e f0)
    then show ?thesis
      using read_async_spec [OF ob, of n] assms(2) ob
      by (auto simp: sources_kept_def file_sources_def the_file_def split: if_splits)
  next
    case (read_aborted e)
    then show ?thesis using abort_spec [OF ob] by auto
  next
    case (events_set events e)
    then show ?thesis
      using set_events_spec [OF ob, of events] by (auto simp: sources_kept_def the_file_def)
  qed
qed

lemma file_steps_sources:
  assumes "(file_step a)\<^sup>*\<^sup>* s s'" "inv R L {} s" "the_file s a = Some f" "file_sources f (trace s)"
  shows "inv R L {} s' \<and> (\<exists>f'. the_file s' a = Some f' \<and> file_sources f' (trace s'))"
  using assms(1)
proof (induction rule: rtranclp_induct)
  case base
  then show ?case using assms by blast
next
  case (step t u)
  then obtain f' where f': "the_file t a = Some f'" "file_sources f' (trace t)" by blast
  have "sources_kept a f' t u" by (rule file_step_sources [OF step.hyps(2) f'(1)])
  then show ?case using step.IH f' inv_file_changed unfolding sources_kept_def by blast
qed

section \<open>Creating file objects\<close>

definition new_file :: "addr \<Rightarrow> u32 \<Rightarrow> payload \<Rightarrow> bool" where
  "new_file name flags p \<longleftrightarrow> (\<exists>f. p = P_File f \<and> file_name f = name \<and> file_flags f = flags \<and>
     file_events f = 0 \<and> \<not> file_async_read_in_progress f)"

lemma file_create_object_spec:
  assumes i: "inv (add_refs R [(name, True)]) (add_locks L [(name, True)]) {} s" and le: "\<forall>b. L b \<le> R b"
    and name: "is_type s OBJECT_TYPE_STRING name" and live: "\<forall>sa. session = Some sa \<longrightarrow> sess s sa \<noteq> None"
    and q: "quiet s t"
  shows "creates R L [(name, True)] session f (new_file name flags) s (file_create_object name fd flags session f t)"
proof -
  obtain st t1 where st: "ask_stat t = (st, t1)" by (cases "ask_stat t")
  have q1: "quiet s t1" by (rule quiet_ask_stat [OF q st])
  show ?thesis
  proof (cases st)
    case (Inl en)
    then show ?thesis
      using st creates_failed [OF i quiet_emit [OF q1]] by (simp add: file_create_object_def)
  next
    case st': (Inr stt)
    obtain m t2 where m: "calloc t1 = (m, t2)" by (cases "calloc t1")
    have q2: "quiet s t2" by (rule quiet_calloc [OF q1 m])
    show ?thesis
    proof (cases m)
      case None
      then show ?thesis
        using st st' m creates_failed [OF i quiet_emit [OF q2]] by (simp add: file_create_object_def)
    next
      case (Some a)
      obtain ev t3 where ev: "ask t2 = (ev, t3)" by (cases "ask t2")
      have q3: "quiet s t3" by (rule quiet_ask [OF q2 ev])
      have "only_answers t2 t3" by (rule only_answers_ask [OF ev])
      then have a: "objs t3 a = None" "a < next_addr t3"
        using calloc_address [OF i q1] m Some by (auto simp: only_answers_def)
      show ?thesis
      proof (cases ev)
        case (Inl en)
        then show ?thesis
          using st st' m Some ev creates_failed [OF i quiet_emit [OF q3]] by (simp add: file_create_object_def)
      next
        case (Inr e)
        let ?f = "\<lparr>file_type = file_get_type_from_stat_mode (st_mode stt), file_name = name,
                   file_flags = flags, file_events = 0, file_fd = fd, file_pipe = 0,
                   file_async_read_eventfd = e, file_async_read_in_progress = False,
                   file_length_to_read_async = 0, file_is_pipe_ops = False\<rparr>"
        have p: "inv (add_refs R (holds (P_File ?f))) (add_locks L (holds (P_File ?f))) {} s"
          "payload_wf s (P_File ?f)" "new_file name flags (P_File ?f)"
          using i name by (simp_all add: new_file_def)
        have run: "file_create_object name fd flags session f t = do {
            (r, u) \<leftarrow> create_or_free a (P_File ?f) session f t3;
            case r of Inl er \<Rightarrow> Some (Inl er, emit (Ev_close fd) (emit (Ev_close e) u)) | Inr a \<Rightarrow> Some (Inr a, u) }"
          using st st' m Some ev Inr by (simp add: file_create_object_def)
        show ?thesis
          unfolding run using creates_object [where P = "new_file name flags", OF p(1) le a q3 p(2,3) live]
          by (intro creates_finally) simp_all
      qed
    qed
  qed
qed

lemma quiet_file_open_as_wait: "quiet s v \<Longrightarrow> file_open_as_wait fd v = (r, w) \<Longrightarrow> quiet s w"
  by (auto simp: file_open_as_wait_def close_if_valid_def Let_def
      split: prod.splits sum.splits if_splits dest: quiet_ask_retry)

lemma quiet_file_open_as:
  assumes "quiet s t" "file_open_as t = (r, u)"
  shows "quiet s u"
proof -
  obtain r1 t1 where t1: "ask t = (r1, t1)" by (cases "ask t")
  obtain p0 t2 where t2: "ask_int t1 = (p0, t2)" by (cases "ask_int t1")
  obtain p1 t3 where t3: "ask_int t2 = (p1, t3)" by (cases "ask_int t2")
  obtain r4 t4 where t4: "process_fork t3 = (r4, t4)" by (cases "process_fork t3")
  obtain r5 t5 where t5: "ask_retry (emit (Ev_close p1) t4) = (r5, t5)"
    by (cases "ask_retry (emit (Ev_close p1) t4)")
  obtain r6 t6 where t6: "ask_retry (emit (Ev_close p0) t5) = (r6, t6)"
    by (cases "ask_retry (emit (Ev_close p0) t5)")
  obtain fd t7 where t7: "ask_int t5 = (fd, t7)" by (cases "ask_int t5")
  have q1: "quiet s t1" by (rule quiet_ask [OF assms(1) t1])
  have q3: "quiet s t3" by (rule quiet_ask_int [OF quiet_ask_int [OF q1 t2] t3])
  have q4: "quiet s t4" by (rule quiet_process_fork [OF q3 t4])
  have q5: "quiet s t5" by (rule quiet_ask_retry [OF quiet_emit [OF q4] t5])
  have q6: "quiet s t6" by (rule quiet_ask_retry [OF quiet_emit [OF q5] t6])
  have q7: "quiet s (emit (Ev_close p0) t7)" by (rule quiet_emit [OF quiet_ask_int [OF q5 t7]])
  note run = assms(2) [unfolded file_open_as_def]
  show ?thesis
  proof (cases r1)
    case (Inl e1)
    then show ?thesis using run t1 q1 by simp
  next
    case r1: (Inr v1)
    show ?thesis
    proof (cases r4)
      case (Inl e4)
      then show ?thesis using run t1 r1 t2 t3 t4 q4 by simp
    next
      case r4: (Inr v4)
      show ?thesis
        using run t1 r1 t2 t3 t4 r4 t5 t6 t7 q6 quiet_file_open_as_wait [OF q7]
        by (cases r5) (simp_all add: Let_def)
    qed
  qed
qed

lemma quiet_file_open_handle:
  assumes "quiet s t" "file_open_handle name oflags mode uid gid t = (r, u)"
  shows "quiet s u"
proof (cases "geteuid (lib t) = uid \<and> getegid (lib t) = gid")
  case True
  obtain r1 t1 where t1: "ask (emit (Ev_open name oflags mode) t) = (r1, t1)"
    by (cases "ask (emit (Ev_open name oflags mode) t)")
  have "quiet s t1" by (rule quiet_ask [OF quiet_emit [OF assms(1)] t1])
  then show ?thesis using assms(2) True t1 by (cases r1) (simp_all add: file_open_handle_def)
next
  case False
  then have "file_open_as t = (r, u)" using assms(2) unfolding file_open_handle_def by (simp only: if_False)
  then show ?thesis by (rule quiet_file_open_as [OF assms(1)])
qed

lemma file_open_named_spec:
  assumes i: "inv (add_refs R [(name, True)]) (add_locks L [(name, True)]) {} s" and le: "\<forall>b. L b \<le> R b"
    and name: "is_type s OBJECT_TYPE_STRING name" and live: "\<forall>sa. session = Some sa \<longrightarrow> sess s sa \<noteq> None"
  shows "creates R L [(name, True)] session f (new_file name flags) s
     (file_open_named name flags permissions uid gid session f s)"
proof -
  obtain chars where chars: "string_chars s name = Some chars" by (rule string_chars_live [OF i name]) simp
  let ?o = "O_NOCTTY OR file_get_oflags_from_flags flags"
  let ?m = "if flags AND FILE_FLAG_CREATE \<noteq> 0 then file_get_mode_from_permissions permissions else 0"
  note fail = creates_failed [OF i, of _ session f "new_file name flags"]
  have open': "creates R L [(name, True)] session f (new_file name flags) s
     (case file_open_handle chars ?o ?m uid gid t of
        (Inl e, s) \<Rightarrow> Some (Inl e, s) | (Inr fd, s) \<Rightarrow> file_create_object name fd flags session f s)"
    if "quiet s t" for t
  proof -
    obtain r u where r: "file_open_handle chars ?o ?m uid gid t = (r, u)"
      by (cases "file_open_handle chars ?o ?m uid gid t")
    have "quiet s u" by (rule quiet_file_open_handle [OF that r])
    then show ?thesis
      using fail file_create_object_spec [OF i le name live] unfolding r by (cases r) simp_all
  qed
  show ?thesis
  proof (cases "chars = [] \<or> hd chars \<noteq> CHR ''/''")
    case True
    then show ?thesis using chars fail [OF quiet_refl] by (auto simp: file_open_named_def)
  next
    case False
    obtain r t where t: "ask (emit (Ev_unlink chars) s) = (r, t)" by (cases "ask (emit (Ev_unlink chars) s)")
    have qt: "quiet s t" by (rule quiet_ask [OF quiet_emit [OF quiet_refl] t])
    show ?thesis
    proof (cases "flags AND FILE_FLAG_REPLACE = 0")
      case True
      then show ?thesis using False chars open' [OF quiet_refl] by (simp add: file_open_named_def Let_def)
    next
      case replace: False
      then show ?thesis
        using False chars t fail [OF qt] open' [OF qt]
        by (cases r) (simp_all add: file_open_named_def Let_def)
    qed
  qed
qed

lemma file_open_spec:
  assumes i: "inv R L {} s" and live: "\<forall>sa. session = Some sa \<longrightarrow> sess s sa \<noteq> None"
  shows "creates R L [] session f (\<lambda>p. \<exists>name ob. objs s name = Some ob \<and> obj_id ob = name_id \<and> new_file name flags p) s
     (file_open name_id flags permissions uid gid session f s)"
proof (cases "file_flags_ok flags permissions")
  case False
  have "inv (add_refs R []) (add_locks L []) {} s" using i by simp
  from creates_failed [OF this quiet_refl] show ?thesis using False by (simp add: file_open_def)
next
  case True
  have i0: "inv (add_refs R []) (add_locks L []) {} s" using i by simp
  have le: "\<forall>b. L b \<le> R b" using i by (simp add: inv_def counts_ok_def)
  let ?P = "\<lambda>p. \<exists>name ob. objs s name = Some ob \<and> obj_id ob = name_id \<and> new_file name flags p"
  let ?Q = "\<lambda>a t. is_type t OBJECT_TYPE_STRING a \<and> (\<exists>ob. objs s a = Some ob \<and> obj_id ob = name_id)"
  have acquire: "yields (string_get_acquired_and_locked name_id s) (\<lambda>(r, t). case r of
      Inr a \<Rightarrow> taken (add_refs R []) (add_locks L []) (a, True) s t \<and> ?Q a t | Inl e \<Rightarrow> t = s)"
    by (rule string_taken [OF i0])
  have body: "creates R L [(name, True)] session f ?P t
     (file_open_named name flags permissions uid gid session f t)"
    if k: "taken (add_refs R []) (add_locks L []) (name, True) s t" and q: "?Q name t" for name t
  proof -
    have it: "inv (add_refs R [(name, True)]) (add_locks L [(name, True)]) {} t" using k by (simp add: taken_def)
    have live': "\<forall>sa. session = Some sa \<longrightarrow> sess t sa \<noteq> None" using live taken_facts(3) [OF k] by simp
    from q have name: "is_type t OBJECT_TYPE_STRING name" by blast
    show ?thesis by (rule creates_weaken [OF file_open_named_spec [OF it le name live']]) (use q in blast)
  qed
  have run: "file_open name_id flags permissions uid gid session f s = do {
     (r, t) \<leftarrow> string_get_acquired_and_locked name_id s;
     case r of Inl e \<Rightarrow> Some (Inl e, t)
     | Inr a \<Rightarrow> do {
         (r, u) \<leftarrow> file_open_named a flags permissions uid gid session f t;
         case r of Inl e \<Rightarrow> do { v \<leftarrow> string_unlock_and_release a u; Some (Inl e, v) } | Inr b \<Rightarrow> Some (Inr b, u) } }"
    using True by (simp add: file_open_def)
  show ?thesis unfolding run by (rule creates_run [OF acquire i0 body]; (assumption | rule release_locked))
qed

end
