(* ===== verification/Process_Facts.thy ===== *)
theory Process_Facts
  imports Process_Spawn File_Facts
begin

text \<open>
  Facts about process objects: what the thread reports of a child process, what the child reports
  to its parent, changes of state, the references a client gets, and the life of the references
  that \<open>process_spawn\<close> takes.
\<close>

section \<open>Spawning\<close>

lemma list_taken:
  assumes "inv R L {} s"
  shows "yields (list_get_acquired_and_locked i ty s) (\<lambda>(r, t). case r of
       Inr a \<Rightarrow> taken R L (a, True) s t \<and> is_type t OBJECT_TYPE_LIST a \<and>
         (\<exists>ob. objs s a = Some ob \<and> obj_id ob = i) \<and>
         (\<exists>lo. the_list t a = Some lo \<and> (\<forall>x\<in>set (items lo). is_type t ty x))
     | Inl e \<Rightarrow> t = s)"
proof -
  obtain r t where r: "list_get_acquired_and_locked i ty s = Some (r, t)" and post: "case r of
       Inr a \<Rightarrow> (\<exists>ob lo. objs s a = Some ob \<and> obj_id ob = i \<and> payload ob = P_List lo \<and>
           (\<forall>x\<in>set (items lo). is_type s ty x)) \<and>
         inv (R(a := R a + 1)) (L(a := L a + 1)) {} t \<and> releases {} s t \<and> dom (objs t) = dom (objs s)
     | Inl e \<Rightarrow> t = s \<and> (e = API_E_UNKNOWN_OBJECT_ID \<or>
         e = API_E_WRONG_LIST_ITEM_TYPE \<and> (\<exists>a ob lo. objs s a = Some ob \<and> obj_id ob = i \<and>
           payload ob = P_List lo \<and> \<not> (\<forall>x\<in>set (items lo). is_type s ty x)))"
    by (rule yields_pairE [OF list_get_acquired_and_locked_spec [OF assms]])
  show ?thesis
  proof (cases r)
    case (Inl e)
    then show ?thesis using r post by simp
  next
    case (Inr a)
    with post obtain ob lo where ob: "objs s a = Some ob" "obj_id ob = i" "payload ob = P_List lo"
      and items: "\<forall>x\<in>set (items lo). is_type s ty x"
      and t: "inv (R(a := R a + 1)) (L(a := L a + 1)) {} t" "releases {} s t" "dom (objs t) = dom (objs s)" by auto
    have k: "taken R L (a, True) s t" using t assms by (simp add: taken_def)
    obtain ob' where ob': "objs t a = Some ob'" "payload ob' = P_List lo"
      using taken_facts(7) [OF k, of a] ob by auto
    have "obj_type ob = OBJECT_TYPE_LIST"
      using inv_arrays(2) [OF assms ob(1)] ob(3) by (simp add: object_wf_def)
    then have "is_type t OBJECT_TYPE_LIST a" using taken_facts(6) [OF k] ob by (simp add: is_type_def)
    moreover have "the_list t a = Some lo" using ob' by (simp add: the_list_def)
    ultimately show ?thesis using r Inr ob k items taken_facts(6) [OF k] by simp
  qed
qed

lemma file_taken:
  assumes "inv R L {} s"
  shows "yields (file_get_acquired i s) (\<lambda>(r, t). case r of
       Inr a \<Rightarrow> taken R L (a, False) s t \<and> is_type t OBJECT_TYPE_FILE a \<and>
         (\<exists>ob. objs s a = Some ob \<and> obj_id ob = i)
     | Inl e \<Rightarrow> t = s)"
proof -
  obtain r where r: "inventory_get_object OBJECT_TYPE_FILE i s = Some r" and post: "case r of
       Inr a \<Rightarrow> \<exists>ob. objs s a = Some ob \<and> obj_id ob = i \<and> has_type OBJECT_TYPE_FILE ob
     | Inl e \<Rightarrow> e = API_E_UNKNOWN_OBJECT_ID \<and>
         (\<forall>a ob. objs s a = Some ob \<and> has_type OBJECT_TYPE_FILE ob \<longrightarrow> obj_id ob \<noteq> i)"
    using inventory_get_object_spec [OF assms] by (rule yieldsE)
  show ?thesis
  proof (cases r)
    case (Inl e)
    then show ?thesis using r by (simp add: file_get_acquired_def)
  next
    case (Inr a)
    with post obtain ob where ob: "objs s a = Some ob" "obj_id ob = i" "obj_type ob = OBJECT_TYPE_FILE"
      by (auto simp: has_type_def)
    then have "objs s a \<noteq> None" by simp
    from add_internal_reference_spec [OF assms this] obtain t where
      t: "object_add_internal_reference a s = Some t" "inv (R(a := R a + 1)) L {} t" "releases {} s t"
        "dom (objs t) = dom (objs s)" by (auto elim: yieldsE)
    have k: "taken R L (a, False) s t" using t assms by (simp add: taken_def)
    moreover have "is_type t OBJECT_TYPE_FILE a" using taken_facts(6) [OF k] ob by (simp add: is_type_def)
    ultimately show ?thesis using r Inr ob t(1) by (simp add: file_get_acquired_def)
  qed
qed

lemma quiet_collect_buffers:
  assumes "inv R L {} s" "quiet s t" "\<forall>x\<in>set as. is_type s OBJECT_TYPE_STRING x"
  shows "\<exists>r u. collect_buffers as t = Some (r, u) \<and> quiet s u"
  using assms(2,3)
proof (induction as arbitrary: t)
  case Nil
  obtain r u where r: "ask t = (r, u)" by (cases "ask t")
  then show ?case using quiet_ask [OF Nil(1) r] by (cases r) simp_all
next
  case (Cons a as)
  obtain r u where r: "ask t = (r, u)" by (cases "ask t")
  have q: "quiet s u" by (rule quiet_ask [OF Cons.prems(1) r])
  obtain cs where cs: "string_chars s a = Some cs"
    using Cons.prems(2) by (auto intro: string_chars_live [OF assms(1)])
  have cu: "string_chars u a = Some cs" using quiet_facts(4) [OF q] cs by simp
  obtain r' v where v: "collect_buffers as u = Some (r', v)" "quiet s v"
    using Cons.IH [OF q] Cons.prems(2) by auto
  show ?case using r v cu q by (cases r) simp_all
qed

lemma quiet_string_array:
  assumes "inv R L {} s" "\<forall>x\<in>set as. is_type s OBJECT_TYPE_STRING x"
  shows "\<exists>r u. string_array as s = Some (r, u) \<and> quiet s u"
proof -
  obtain r u where r: "ask s = (r, u)" by (cases "ask s")
  have q: "quiet s u" by (rule quiet_ask [OF quiet_refl r])
  from quiet_collect_buffers [OF assms(1) q assms(2)] show ?thesis
    using r q by (cases r) (auto simp: string_array_def)
qed

lemma quiet_event_add_source:
  assumes "quiet s t" "event_add_source h t = (b, u)"
  shows "quiet s u"
proof -
  obtain r v where r: "ask t = (r, v)" by (cases "ask t")
  show ?thesis using assms(2) r quiet_ask [OF assms(1) r] by (cases r) (auto simp: event_add_source_def)
qed

lemma process_create_object_spec:
  assumes i: "inv (add_refs R (holds (P_Process p))) (add_locks L (holds (P_Process p))) {} s"
    and le: "\<forall>b. L b \<le> R b" and a: "objs t a = None" "a < next_addr t" and q: "quiet s t"
    and wf: "payload_wf s (P_Process p)" and P: "\<forall>pp. P (P_Process (p\<lparr>proc_state_change_pipe := pp\<rparr>))"
    and live: "\<forall>sa. session = Some sa \<longrightarrow> sess s sa \<noteq> None"
  shows "creates R L (holds (P_Process p)) session (f OR OBJECT_CREATE_FLAG_INTERNAL) P s
     (process_create_object a p session f t)"
proof -
  obtain r1 t1 where t1: "ask t = (r1, t1)" by (cases "ask t")
  have q1: "quiet s t1" by (rule quiet_ask [OF q t1])
  have o1: "only_answers t t1" by (rule only_answers_ask [OF t1])
  note fail = creates_failed [OF i]
  show ?thesis
  proof (cases r1)
    case (Inl e)
    then show ?thesis using t1 fail [OF q1] by (simp add: process_create_object_def)
  next
    case (Inr pp)
    obtain b t2 where t2: "event_add_source (Pipe_read_handle pp) t1 = (b, t2)"
      by (cases "event_add_source (Pipe_read_handle pp) t1")
    have q2: "quiet s t2" by (rule quiet_event_add_source [OF q1 t2])
    show ?thesis
    proof (cases b)
      case False
      then show ?thesis using t1 Inr t2 fail [OF quiet_emit [OF q2]] by (simp add: process_create_object_def)
    next
      case True
      let ?p = "p\<lparr>proc_state_change_pipe := pp\<rparr>"
      have "quiet t t2" by (rule quiet_event_add_source [OF quiet_only_answers [OF o1] t2])
      then have a2: "objs t2 a = None" "a < next_addr t2" using a quiet_fields [of t t2] by auto
      have h: "holds (P_Process ?p) = holds (P_Process p)" "payload_wf s (P_Process ?p)" using wf by simp_all
      have run: "process_create_object a p session f t = do {
          (r, u) \<leftarrow> create_or_free a (P_Process ?p) session (f OR OBJECT_CREATE_FLAG_INTERNAL) t2;
          case r of Inl er \<Rightarrow> Some (Inl er, emit (Ev_pipe_destroy pp) (emit (Ev_event_remove_source (Pipe_read_handle pp)) u))
          | Inr a \<Rightarrow> Some (Inr a, emit (Ev_thread_create a) u) }"
        using t1 Inr t2 True by (simp add: process_create_object_def)
      have "creates R L (holds (P_Process ?p)) session (f OR OBJECT_CREATE_FLAG_INTERNAL) P s
          (create_or_free a (P_Process ?p) session (f OR OBJECT_CREATE_FLAG_INTERNAL) t2)"
        using i P by (intro creates_object [where P = P, OF _ le a2 q2 h(2) _ live]) (simp_all only: h)
      then show ?thesis unfolding run h(1) by (intro creates_finally) simp_all
    qed
  qed
qed

text \<open>A new process holds \<open>hs\<close> and has the identity and the members that were asked for.\<close>

definition new_process :: "(addr \<times> bool) list \<Rightarrow> u32 \<Rightarrow> u32 \<Rightarrow> bool \<Rightarrow> addr option \<Rightarrow> payload \<Rightarrow> bool" where
  "new_process hs uid gid release_on_death state_changed q \<longleftrightarrow> (\<exists>p. q = P_Process p \<and> holds q = hs \<and>
     proc_uid p = uid \<and> proc_gid p = gid \<and> proc_release_on_death p = release_on_death \<and>
     proc_state_changed p = state_changed \<and> proc_state p = PROCESS_STATE_RUNNING \<and> proc_exit_code p = 0)"

lemma process_spawn_fork_spec:
  assumes i: "inv (add_refs R (holds (P_Process p))) (add_locks L (holds (P_Process p))) {} s"
    and le: "\<forall>b. L b \<le> R b" and wf: "payload_wf s (P_Process p)"
    and live: "\<forall>sa. session = Some sa \<longrightarrow> sess s sa \<noteq> None"
  shows "creates R L (holds (P_Process p)) session (f OR OBJECT_CREATE_FLAG_INTERNAL)
     (new_process (holds (P_Process p)) (proc_uid p) (proc_gid p) (proc_release_on_death p) (proc_state_changed p)) s
     (process_spawn_fork p session f s)"
proof -
  let ?P = "new_process (holds (P_Process p)) (proc_uid p) (proc_gid p) (proc_release_on_death p) (proc_state_changed p)"
  note fail = creates_failed [OF i, of _ session "f OR OBJECT_CREATE_FLAG_INTERNAL" ?P]
  obtain r1 t1 where t1: "ask s = (r1, t1)" by (cases "ask s")
  obtain p0 t2 where t2: "ask_int t1 = (p0, t2)" by (cases "ask_int t1")
  obtain p1 t3 where t3: "ask_int t2 = (p1, t3)" by (cases "ask_int t2")
  obtain r4 t4 where t4: "process_fork t3 = (r4, t4)" by (cases "process_fork t3")
  obtain r5 t5 where t5: "ask t4 = (r5, t5)" by (cases "ask t4")
  obtain code t6 where t6: "ask_int t5 = (code, t6)" by (cases "ask_int t5")
  obtain m t7 where t7: "calloc t6 = (m, t7)" by (cases "calloc t6")
  obtain now t8 where t8: "ask_int t7 = (now, t8)" by (cases "ask_int t7")
  have q1: "quiet s t1" by (rule quiet_ask [OF quiet_refl t1])
  have q3: "quiet s t3" by (rule quiet_ask_int [OF quiet_ask_int [OF q1 t2] t3])
  have q4: "quiet s t4" by (rule quiet_process_fork [OF q3 t4])
  have q5: "quiet s t5" by (rule quiet_ask [OF q4 t5])
  have q6: "quiet s t6" by (rule quiet_ask_int [OF q5 t6])
  have q7: "quiet s t7" by (rule quiet_calloc [OF q6 t7])
  have q8: "quiet s t8" by (rule quiet_ask_int [OF q7 t8])
  have close: "quiet t u \<Longrightarrow> quiet t (close_pipe p0 p1 u)" for t u by (simp add: close_pipe_def)
  show ?thesis
  proof (cases r1)
    case (Inl e)
    then show ?thesis using t1 fail [OF q1] by (simp add: process_spawn_fork_def)
  next
    case r1: (Inr v1)
    show ?thesis
    proof (cases r4)
      case (Inl e)
      then show ?thesis
        using t1 r1 t2 t3 t4 fail [OF close [OF q4]] by (simp add: process_spawn_fork_def)
    next
      case r4: (Inr pid)
      show ?thesis
      proof (cases r5)
        case (Inl e)
        then show ?thesis
          using t1 r1 t2 t3 t4 r4 t5 fail [OF close [OF quiet_emit [OF q5]]] by (simp add: process_spawn_fork_def)
      next
        case r5: (Inr v5)
        show ?thesis
        proof (cases "apie_of_code (nat code) = API_E_SUCCESS")
          case False
          then show ?thesis
            using t1 r1 t2 t3 t4 r4 t5 r5 t6 fail [OF close [OF quiet_emit [OF q6]]]
            by (simp add: process_spawn_fork_def Let_def)
        next
          case ok: True
          show ?thesis
          proof (cases m)
            case None
            then show ?thesis
              using t1 r1 t2 t3 t4 r4 t5 r5 t6 ok t7 fail [OF close [OF quiet_emit [OF q7]]]
              by (simp add: process_spawn_fork_def Let_def)
          next
            case (Some a)
            let ?p = "p\<lparr>proc_pid := pid, proc_state := PROCESS_STATE_RUNNING, proc_timestamp := of_int now,
               proc_exit_code := 0\<rparr>"
            have h: "holds (P_Process ?p) = holds (P_Process p)" "payload_wf s (P_Process ?p)" using wf by simp_all
            have P: "\<forall>pp. ?P (P_Process (?p\<lparr>proc_state_change_pipe := pp\<rparr>))" by (simp add: new_process_def)
            have "objs t7 a = None" "a < next_addr t7" using calloc_address [OF i q6] t7 Some by simp_all
            then have a: "objs t8 a = None" "a < next_addr t8"
              using only_answers_ask_int [OF t8] by (auto simp: only_answers_def)
            have run: "process_spawn_fork p session f s = do {
                (r, u) \<leftarrow> process_create_object a ?p session f t8;
                case r of Inl e \<Rightarrow> Some (Inl e, close_pipe p0 p1 (emit (Ev_kill pid 9) u))
                | Inr a \<Rightarrow> Some (Inr a, close_pipe p0 p1 u) }"
              using t1 r1 t2 t3 t4 r4 t5 r5 t6 ok t7 Some t8 by (simp add: process_spawn_fork_def Let_def)
            have "creates R L (holds (P_Process p)) session (f OR OBJECT_CREATE_FLAG_INTERNAL) ?P s
               (process_create_object a ?p session f t8)"
              using process_create_object_spec [where P = ?P, OF _ le a q8 h(2) P live] i unfolding h(1) by blast
            then show ?thesis unfolding run by (intro creates_finally) (simp_all add: close_pipe_def)
          qed
        qed
      qed
    qed
  qed
qed

lemma creates_acquired:
  assumes "yields m0 (\<lambda>(r, t). case r of
       Inr a \<Rightarrow> taken (add_refs R hs) (add_locks L hs) (a, l) s t \<and> Q a t
     | Inl e \<Rightarrow> t = s)"
    and "inv (add_refs R hs) (add_locks L hs) {} s"
    and "\<And>a t. \<lbrakk>taken (add_refs R hs) (add_locks L hs) (a, l) s t; Q a t;
      inv (add_refs R ((a, l) # hs)) (add_locks L ((a, l) # hs)) {} t\<rbrakk> \<Longrightarrow>
      creates R L ((a, l) # hs) session f P t (body a t)"
    and "\<And>a u. \<lbrakk>inv (add_refs R ((a, l) # hs)) (add_locks L ((a, l) # hs)) {} u;
      \<forall>b. add_locks L hs b \<le> add_refs R hs b\<rbrakk> \<Longrightarrow>
      yields (release a u) (\<lambda>v. inv (add_refs R hs) (add_locks L hs) {} v \<and> releases {} u v)"
  shows "creates R L hs session f P s (with_acquired m0 release body)"
  unfolding with_acquired_def or_release_def
proof (rule creates_run [OF assms(1,2)])
  fix a t
  assume k: "taken (add_refs R hs) (add_locks L hs) (a, l) s t" and "Q a t"
  moreover have "inv (add_refs R ((a, l) # hs)) (add_locks L ((a, l) # hs)) {} t"
    using k by (simp add: taken_def add_refs_append(1) [of R] add_refs_append(2) [of L] del: add_one)
  ultimately show "creates R L ((a, l) # hs) session f P t (body a t)" by (rule assms(3))
qed (rule assms(4))

lemma release_file:
  "\<lbrakk>inv (add_refs R ((a, False) # hs)) (add_locks L ((a, False) # hs)) {} u;
    \<forall>b. add_locks L hs b \<le> add_refs R hs b\<rbrakk> \<Longrightarrow>
   yields (file_release a u) (\<lambda>v. inv (add_refs R hs) (add_locks L hs) {} v \<and> releases {} u v)"
  unfolding file_release_def by (rule release_unlocked)

lemma release_list:
  "inv (add_refs R ((a, True) # hs)) (add_locks L ((a, True) # hs)) {} u \<Longrightarrow>
   yields (list_unlock_and_release a u) (\<lambda>v. inv (add_refs R hs) (add_locks L hs) {} v \<and> releases {} u v)"
proof -
  have "list_unlock_and_release = string_unlock_and_release"
    by (simp add: fun_eq_iff list_unlock_and_release_def string_unlock_and_release_def)
  then show "inv (add_refs R ((a, True) # hs)) (add_locks L ((a, True) # hs)) {} u \<Longrightarrow> ?thesis"
    using release_locked by simp
qed

text \<open>The strings and lists of a process that is to be spawned.\<close>

definition command_types :: "process_obj \<Rightarrow> apid \<Rightarrow> bool" where
  "command_types p s \<longleftrightarrow> is_type s OBJECT_TYPE_STRING (proc_executable p) \<and>
     is_type s OBJECT_TYPE_LIST (proc_arguments p) \<and> is_type s OBJECT_TYPE_LIST (proc_environment p) \<and>
     is_type s OBJECT_TYPE_STRING (proc_working_directory p)"

definition command_holds :: "process_obj \<Rightarrow> (addr \<times> bool) list" where
  "command_holds p = [(proc_working_directory p, True), (proc_environment p, True),
     (proc_arguments p, True), (proc_executable p, True)]"

lemma process_spawn_files_spec:
  assumes i: "inv (add_refs R (command_holds p)) (add_locks L (command_holds p)) {} s"
    and le: "\<forall>b. L b \<le> R b" and types: "command_types p s"
    and live: "\<forall>sa. session = Some sa \<longrightarrow> sess s sa \<noteq> None"
  shows "creates R L (command_holds p) session (f OR OBJECT_CREATE_FLAG_INTERNAL)
     (\<lambda>q. \<exists>hs. new_process (hs @ command_holds p) (proc_uid p) (proc_gid p) (proc_release_on_death p)
        (proc_state_changed p) q) s
     (process_spawn_files p stdin_id stdout_id stderr_id session f s)"
  unfolding process_spawn_files_def
proof (rule creates_acquired [OF file_taken [OF i] i])
  fix stdin t1
  assume k1: "taken (add_refs R (command_holds p)) (add_locks L (command_holds p)) (stdin, False) s t1"
    and Q1: "is_type t1 OBJECT_TYPE_FILE stdin \<and> (\<exists>ob. objs s stdin = Some ob \<and> obj_id ob = stdin_id)"
    and i1: "inv (add_refs R ((stdin, False) # command_holds p)) (add_locks L ((stdin, False) # command_holds p)) {} t1"
  show "creates R L ((stdin, False) # command_holds p) session (f OR OBJECT_CREATE_FLAG_INTERNAL)
     (\<lambda>q. \<exists>hs. new_process (hs @ command_holds p) (proc_uid p) (proc_gid p) (proc_release_on_death p)
        (proc_state_changed p) q) t1
     (with_acquired (file_get_acquired stdout_id t1) file_release (\<lambda>stdout s.
      with_acquired (file_get_acquired stderr_id s) file_release (\<lambda>stderr s.
        process_spawn_fork (p\<lparr>proc_stdin := stdin, proc_stdout := stdout, proc_stderr := stderr\<rparr>) session f s)))"
  proof (rule creates_acquired [OF file_taken [OF i1] i1])
    fix stdout t2
    assume k2: "taken (add_refs R ((stdin, False) # command_holds p)) (add_locks L ((stdin, False) # command_holds p))
        (stdout, False) t1 t2"
      and Q2: "is_type t2 OBJECT_TYPE_FILE stdout \<and> (\<exists>ob. objs t1 stdout = Some ob \<and> obj_id ob = stdout_id)"
      and i2: "inv (add_refs R ((stdout, False) # (stdin, False) # command_holds p))
        (add_locks L ((stdout, False) # (stdin, False) # command_holds p)) {} t2"
    show "creates R L ((stdout, False) # (stdin, False) # command_holds p) session (f OR OBJECT_CREATE_FLAG_INTERNAL)
       (\<lambda>q. \<exists>hs. new_process (hs @ command_holds p) (proc_uid p) (proc_gid p) (proc_release_on_death p)
          (proc_state_changed p) q) t2
       (with_acquired (file_get_acquired stderr_id t2) file_release (\<lambda>stderr s.
          process_spawn_fork (p\<lparr>proc_stdin := stdin, proc_stdout := stdout, proc_stderr := stderr\<rparr>) session f s))"
    proof (rule creates_acquired [OF file_taken [OF i2] i2])
      fix stderr t3
      assume k3: "taken (add_refs R ((stdout, False) # (stdin, False) # command_holds p))
          (add_locks L ((stdout, False) # (stdin, False) # command_holds p)) (stderr, False) t2 t3"
        and Q3: "is_type t3 OBJECT_TYPE_FILE stderr \<and> (\<exists>ob. objs t2 stderr = Some ob \<and> obj_id ob = stderr_id)"
        and i3: "inv (add_refs R ((stderr, False) # (stdout, False) # (stdin, False) # command_holds p))
          (add_locks L ((stderr, False) # (stdout, False) # (stdin, False) # command_holds p)) {} t3"
      let ?p = "p\<lparr>proc_stdin := stdin, proc_stdout := stdout, proc_stderr := stderr\<rparr>"
      have h: "holds (P_Process ?p) = (stderr, False) # (stdout, False) # (stdin, False) # command_holds p"
        by (simp add: command_holds_def)
      have "is_type t3 = is_type s" "is_type t3 = is_type t1" "is_type t3 = is_type t2"
        using taken_facts(6) [OF k1] taken_facts(6) [OF k2] taken_facts(6) [OF k3] by simp_all
      then have wf: "payload_wf t3 (P_Process ?p)"
        using types Q1 Q2 Q3 by (simp add: command_types_def)
      have live3: "\<forall>sa. session = Some sa \<longrightarrow> sess t3 sa \<noteq> None"
        using live taken_facts(3) [OF k1] taken_facts(3) [OF k2] taken_facts(3) [OF k3] by simp
      have P: "new_process (holds (P_Process ?p)) (proc_uid ?p) (proc_gid ?p) (proc_release_on_death ?p) (proc_state_changed ?p) q \<Longrightarrow>
         \<exists>hs. new_process (hs @ command_holds p) (proc_uid p) (proc_gid p) (proc_release_on_death p) (proc_state_changed p) q" for q
        unfolding h by (rule exI [of _ "[(stderr, False), (stdout, False), (stdin, False)]"]) simp
      from i3 have "inv (add_refs R (holds (P_Process ?p))) (add_locks L (holds (P_Process ?p))) {} t3" unfolding h .
      from creates_weaken [OF process_spawn_fork_spec [OF this le wf live3, of f] P]
      show "creates R L ((stderr, False) # (stdout, False) # (stdin, False) # command_holds p) session
          (f OR OBJECT_CREATE_FLAG_INTERNAL)
          (\<lambda>q. \<exists>hs. new_process (hs @ command_holds p) (proc_uid p) (proc_gid p) (proc_release_on_death p)
             (proc_state_changed p) q) t3 (process_spawn_fork ?p session f t3)"
        unfolding h .
    qed (rule release_file; assumption)
  qed (rule release_file; assumption)
qed (rule release_file; assumption)

text \<open>The innermost phase of \<open>process_spawn\<close> that takes a string: the working directory.\<close>

lemma creates_string_array:
  assumes i: "inv (add_refs R hs) (add_locks L hs) {} s" and items: "\<forall>x\<in>set as. is_type s OBJECT_TYPE_STRING x"
    and body: "\<And>css u. quiet s u \<Longrightarrow> creates R L hs session f P u (body css u)"
  shows "creates R L hs session f P s (do {
     (r, u) \<leftarrow> string_array as s;
     case r of Inl e \<Rightarrow> Some (Inl e, u) | Inr css \<Rightarrow> body css u })"
proof -
  obtain r u where r: "string_array as s = Some (r, u)" and q: "quiet s u"
    using quiet_string_array [OF i items] by blast
  show ?thesis
    using r creates_failed [OF i q] creates_after [OF q body [OF q]] by (cases r) simp_all
qed

lemma process_spawn_spec:
  assumes i: "inv R L {} s" and live: "\<forall>sa. session = Some sa \<longrightarrow> sess s sa \<noteq> None"
  shows "creates R L [] session (f OR OBJECT_CREATE_FLAG_INTERNAL)
     (\<lambda>q. \<exists>hs. new_process hs uid gid release_on_death state_changed q) s
     (process_spawn executable_id arguments_id environment_id working_directory_id uid gid
        stdin_id stdout_id stderr_id session f release_on_death state_changed s)"
proof -
  let ?f = "f OR OBJECT_CREATE_FLAG_INTERNAL"
  let ?P = "\<lambda>q. \<exists>hs. new_process hs uid gid release_on_death state_changed q"
  have le: "\<forall>b. L b \<le> R b" using i by (simp add: inv_def counts_ok_def)
  have i0: "inv (add_refs R []) (add_locks L []) {} s" using i by simp
  show ?thesis
    unfolding process_spawn_def
  proof (rule creates_acquired [OF string_taken [OF i0] i0])
    fix x1 t1
    assume k1: "taken (add_refs R []) (add_locks L []) (x1, True) s t1"
      and Q1: "is_type t1 OBJECT_TYPE_STRING x1 \<and> (\<exists>ob. objs s x1 = Some ob \<and> obj_id ob = executable_id)"
      and i1: "inv (add_refs R [(x1, True)]) (add_locks L [(x1, True)]) {} t1"
    obtain name where name: "string_chars t1 x1 = Some name"
      using Q1 by (auto intro: string_chars_live [OF i1])
    note fail1 = creates_failed [OF i1 quiet_refl]
    show "creates R L [(x1, True)] session ?f ?P t1 (do {
       name \<leftarrow> string_chars t1 x1;
       if name = [] then Some (Inl API_E_INVALID_PARAMETER, t1)
       else
         with_acquired (list_get_acquired_and_locked arguments_id OBJECT_TYPE_STRING t1) list_unlock_and_release
         (\<lambda>arguments s. do {
           al \<leftarrow> the_list s arguments;
           (r, s) \<leftarrow> string_array (x1 # items al) s;
           case r of
             Inl e \<Rightarrow> Some (Inl e, s)
           | Inr argv \<Rightarrow>
               with_acquired (list_get_acquired_and_locked environment_id OBJECT_TYPE_STRING s) list_unlock_and_release
               (\<lambda>environment s. do {
                 el \<leftarrow> the_list s environment;
                 (r, s) \<leftarrow> string_array (items el) s;
                 case r of
                   Inl e \<Rightarrow> Some (Inl e, s)
                 | Inr envp \<Rightarrow>
                     with_acquired (string_get_acquired_and_locked working_directory_id s) string_unlock_and_release
                     (\<lambda>working_directory s. do {
                       wd \<leftarrow> string_chars s working_directory;
                       if wd = [] then Some (Inl API_E_INVALID_PARAMETER, s)
                       else if hd wd \<noteq> CHR ''/'' then Some (Inl API_E_INVALID_PARAMETER, s)
                       else process_spawn_files
                         (zero_process\<lparr>proc_executable := x1, proc_arguments := arguments,
                            proc_environment := environment,
                            proc_working_directory := working_directory, proc_uid := uid,
                            proc_gid := gid, proc_release_on_death := release_on_death,
                            proc_state_changed := state_changed\<rparr>)
                         stdin_id stdout_id stderr_id session f s
                     })
               })
         }) })"
    proof (cases "name = []")
      case True
      then show ?thesis using name fail1 by simp
    next
      case False
      show ?thesis
        unfolding name bind.bind_lunit if_not_P [OF False]
      proof (rule creates_acquired [OF list_taken [OF i1] i1])
        fix x2 t2
        assume k2: "taken (add_refs R [(x1, True)]) (add_locks L [(x1, True)]) (x2, True) t1 t2"
          and Q2: "is_type t2 OBJECT_TYPE_LIST x2 \<and> (\<exists>ob. objs t1 x2 = Some ob \<and> obj_id ob = arguments_id) \<and>
            (\<exists>lo. the_list t2 x2 = Some lo \<and> (\<forall>x\<in>set (items lo). is_type t2 OBJECT_TYPE_STRING x))"
          and i2: "inv (add_refs R [(x2, True), (x1, True)]) (add_locks L [(x2, True), (x1, True)]) {} t2"
        obtain al where al: "the_list t2 x2 = Some al" "\<forall>x\<in>set (items al). is_type t2 OBJECT_TYPE_STRING x"
          using Q2 by blast
        have items2: "\<forall>x\<in>set (x1 # items al). is_type t2 OBJECT_TYPE_STRING x"
          using al(2) Q1 taken_facts(6) [OF k2] by simp
        show "creates R L [(x2, True), (x1, True)] session ?f ?P t2 (do {
           al \<leftarrow> the_list t2 x2;
           (r, s) \<leftarrow> string_array (x1 # items al) t2;
           case r of
             Inl e \<Rightarrow> Some (Inl e, s)
           | Inr argv \<Rightarrow>
               with_acquired (list_get_acquired_and_locked environment_id OBJECT_TYPE_STRING s) list_unlock_and_release
               (\<lambda>environment s. do {
                 el \<leftarrow> the_list s environment;
                 (r, s) \<leftarrow> string_array (items el) s;
                 case r of
                   Inl e \<Rightarrow> Some (Inl e, s)
                 | Inr envp \<Rightarrow>
                     with_acquired (string_get_acquired_and_locked working_directory_id s) string_unlock_and_release
                     (\<lambda>working_directory s. do {
                       wd \<leftarrow> string_chars s working_directory;
                       if wd = [] then Some (Inl API_E_INVALID_PARAMETER, s)
                       else if hd wd \<noteq> CHR ''/'' then Some (Inl API_E_INVALID_PARAMETER, s)
                       else process_spawn_files
                         (zero_process\<lparr>proc_executable := x1, proc_arguments := x2,
                            proc_environment := environment,
                            proc_working_directory := working_directory, proc_uid := uid,
                            proc_gid := gid, proc_release_on_death := release_on_death,
                            proc_state_changed := state_changed\<rparr>)
                         stdin_id stdout_id stderr_id session f s
                     })
               })
         })"
          unfolding al(1) bind.bind_lunit
        proof (rule creates_string_array [OF i2 items2])
          fix argv u2
          assume u2: "quiet t2 u2"
          note j2 = quiet_inv [OF i2 u2]
          show "creates R L [(x2, True), (x1, True)] session ?f ?P u2
             (with_acquired (list_get_acquired_and_locked environment_id OBJECT_TYPE_STRING u2) list_unlock_and_release
               (\<lambda>environment s. do {
                 el \<leftarrow> the_list s environment;
                 (r, s) \<leftarrow> string_array (items el) s;
                 case r of
                   Inl e \<Rightarrow> Some (Inl e, s)
                 | Inr envp \<Rightarrow>
                     with_acquired (string_get_acquired_and_locked working_directory_id s) string_unlock_and_release
                     (\<lambda>working_directory s. do {
                       wd \<leftarrow> string_chars s working_directory;
                       if wd = [] then Some (Inl API_E_INVALID_PARAMETER, s)
                       else if hd wd \<noteq> CHR ''/'' then Some (Inl API_E_INVALID_PARAMETER, s)
                       else process_spawn_files
                         (zero_process\<lparr>proc_executable := x1, proc_arguments := x2,
                            proc_environment := environment,
                            proc_working_directory := working_directory, proc_uid := uid,
                            proc_gid := gid, proc_release_on_death := release_on_death,
                            proc_state_changed := state_changed\<rparr>)
                         stdin_id stdout_id stderr_id session f s
                     })
               }))"
          proof (rule creates_acquired [OF list_taken [OF j2] j2])
            fix x3 t3
            assume k3: "taken (add_refs R [(x2, True), (x1, True)]) (add_locks L [(x2, True), (x1, True)]) (x3, True) u2 t3"
              and Q3: "is_type t3 OBJECT_TYPE_LIST x3 \<and> (\<exists>ob. objs u2 x3 = Some ob \<and> obj_id ob = environment_id) \<and>
                (\<exists>lo. the_list t3 x3 = Some lo \<and> (\<forall>x\<in>set (items lo). is_type t3 OBJECT_TYPE_STRING x))"
              and i3: "inv (add_refs R [(x3, True), (x2, True), (x1, True)])
                (add_locks L [(x3, True), (x2, True), (x1, True)]) {} t3"
            obtain el where el: "the_list t3 x3 = Some el" "\<forall>x\<in>set (items el). is_type t3 OBJECT_TYPE_STRING x"
              using Q3 by blast
            show "creates R L [(x3, True), (x2, True), (x1, True)] session ?f ?P t3 (do {
                 el \<leftarrow> the_list t3 x3;
                 (r, s) \<leftarrow> string_array (items el) t3;
                 case r of
                   Inl e \<Rightarrow> Some (Inl e, s)
                 | Inr envp \<Rightarrow>
                     with_acquired (string_get_acquired_and_locked working_directory_id s) string_unlock_and_release
                     (\<lambda>working_directory s. do {
                       wd \<leftarrow> string_chars s working_directory;
                       if wd = [] then Some (Inl API_E_INVALID_PARAMETER, s)
                       else if hd wd \<noteq> CHR ''/'' then Some (Inl API_E_INVALID_PARAMETER, s)
                       else process_spawn_files
                         (zero_process\<lparr>proc_executable := x1, proc_arguments := x2, proc_environment := x3,
                            proc_working_directory := working_directory, proc_uid := uid,
                            proc_gid := gid, proc_release_on_death := release_on_death,
                            proc_state_changed := state_changed\<rparr>)
                         stdin_id stdout_id stderr_id session f s
                     }) })"
              unfolding el(1) bind.bind_lunit
            proof (rule creates_string_array [OF i3 el(2)])
              fix envp u3
              assume u3: "quiet t3 u3"
              note j3 = quiet_inv [OF i3 u3]
              show "creates R L [(x3, True), (x2, True), (x1, True)] session ?f ?P u3
                (with_acquired (string_get_acquired_and_locked working_directory_id u3) string_unlock_and_release
                     (\<lambda>working_directory s. do {
                       wd \<leftarrow> string_chars s working_directory;
                       if wd = [] then Some (Inl API_E_INVALID_PARAMETER, s)
                       else if hd wd \<noteq> CHR ''/'' then Some (Inl API_E_INVALID_PARAMETER, s)
                       else process_spawn_files
                         (zero_process\<lparr>proc_executable := x1, proc_arguments := x2, proc_environment := x3,
                            proc_working_directory := working_directory, proc_uid := uid,
                            proc_gid := gid, proc_release_on_death := release_on_death,
                            proc_state_changed := state_changed\<rparr>)
                         stdin_id stdout_id stderr_id session f s
                     }))"
              proof (rule creates_acquired [OF string_taken [OF j3] j3])
                fix x4 t4
                let ?p = "zero_process\<lparr>proc_executable := x1, proc_arguments := x2, proc_environment := x3,
                   proc_working_directory := x4, proc_uid := uid, proc_gid := gid,
                   proc_release_on_death := release_on_death, proc_state_changed := state_changed\<rparr>"
                assume k4: "taken (add_refs R [(x3, True), (x2, True), (x1, True)])
                    (add_locks L [(x3, True), (x2, True), (x1, True)]) (x4, True) u3 t4"
                  and Q4: "is_type t4 OBJECT_TYPE_STRING x4 \<and> (\<exists>ob. objs u3 x4 = Some ob \<and> obj_id ob = working_directory_id)"
                  and i4: "inv (add_refs R [(x4, True), (x3, True), (x2, True), (x1, True)])
                    (add_locks L [(x4, True), (x3, True), (x2, True), (x1, True)]) {} t4"
                obtain wd where wd: "string_chars t4 x4 = Some wd" using Q4 by (auto intro: string_chars_live [OF i4])
                have h: "command_holds ?p = [(x4, True), (x3, True), (x2, True), (x1, True)]"
                  by (simp add: command_holds_def)
                have same: "is_type t4 = is_type t1" "is_type t4 = is_type t2" "is_type t4 = is_type t3"
                  using taken_facts(6) [OF k2] taken_facts(6) [OF k3] taken_facts(6) [OF k4]
                    quiet_facts(2) [OF u2] quiet_facts(2) [OF u3] by simp_all
                have types: "command_types ?p t4"
                  using Q1 Q2 Q3 Q4 same by (simp add: command_types_def)
                have live4: "\<forall>sa. session = Some sa \<longrightarrow> sess t4 sa \<noteq> None"
                  using live taken_facts(3) [OF k1] taken_facts(3) [OF k2] taken_facts(3) [OF k3]
                    taken_facts(3) [OF k4] quiet_fields(3) [OF u2] quiet_fields(3) [OF u3] by simp
                from i4 have i4': "inv (add_refs R (command_holds ?p)) (add_locks L (command_holds ?p)) {} t4" unfolding h .
                have "creates R L [(x4, True), (x3, True), (x2, True), (x1, True)] session ?f ?P t4
                    (process_spawn_files ?p stdin_id stdout_id stderr_id session f t4)"
                  using creates_weaken [OF process_spawn_files_spec [OF i4' le types live4, where f = f], where Q = ?P] unfolding h by auto
                then show "creates R L [(x4, True), (x3, True), (x2, True), (x1, True)] session ?f ?P t4 (do {
                    wd \<leftarrow> string_chars t4 x4;
                    if wd = [] then Some (Inl API_E_INVALID_PARAMETER, t4)
                    else if hd wd \<noteq> CHR ''/'' then Some (Inl API_E_INVALID_PARAMETER, t4)
                    else process_spawn_files ?p stdin_id stdout_id stderr_id session f t4 })"
                  using wd creates_failed [OF i4 quiet_refl] by simp
              qed (rule release_locked)
            qed
          qed (rule release_list)
        qed
      qed (rule release_list)
    qed
  qed (rule release_locked)
qed

end
