(* ===== verification/Example_States.thy ===== *)
theory Example_States
  imports List_Facts
begin

text \<open>
  Small concrete states of the daemon: no object at all, and one session with one reference to
  one string that the daemon itself also refers to. They show that the invariant can hold and
  are the inputs of the witnesses.
\<close>

lemma inv_initial: "inv (\<lambda>_. 0) (\<lambda>_. 0) {} (initial_apid dl rs)"
  by (simp add: inv_defs initial_apid_def held_def held_locks_def)

lemma refs_linked_initial: "refs_linked (initial_apid dl rs)"
  by (simp add: refs_linked_def initial_apid_def)

definition example_lib :: daemonlib where
  "example_lib = \<lparr>grow_allocation = (\<lambda>n. n), errno_interrupted = (\<lambda>e. e = EINTR),
     errno_would_block = (\<lambda>e. e = EWOULDBLOCK), PIPE_FLAG_NON_BLOCKING_READ = 1,
     PIPE_FLAG_NON_BLOCKING_WRITE = 2, string_copy = (\<lambda>n src. take (n - 1) src),
     string_append = (\<lambda>n dst src. take (n - 1) (dst @ src)), geteuid = 0, getegid = 0,
     errno_truncated = EOVERFLOW, get_errno_name = (\<lambda>_. ''error''), errno_number = (\<lambda>_. 0),
     string_ends_with = (\<lambda>x y _. drop (length x - length y) x = y)\<rparr>"

definition example_string :: object where
  "example_string = \<lparr>obj_id = 1, obj_type = OBJECT_TYPE_STRING, internal_reference_count = 1,
     external_references = [2], external_reference_count = 1, lock_count = 0,
     payload = P_String \<lparr>str_buffer = [Some CHR ''h'', Some CHR ''i'', Some (CHR 0x00)],
       str_length = 2, str_allocated = 3\<rparr>\<rparr>"

definition example_session :: session where
  "example_session = \<lparr>session_id = 1, session_timer_delay = 60000000, session_references = [2],
     session_reference_count = 1\<rparr>"

definition example_reference :: external_reference where
  "example_reference = \<lparr>ref_object = 0, ref_session = 1, ref_count = 1\<rparr>"

definition example_state :: apid where
  "example_state = \<lparr>objs = [0 \<mapsto> example_string], refs = [2 \<mapsto> example_reference],
     sess = [1 \<mapsto> example_session], next_addr = 3,
     objects = (\<lambda>t. if t = OBJECT_TYPE_STRING then [0] else []), sessions = [1], stock_strings = [],
     next_object_id = 2, next_session_id = 2, lib = example_lib, answers = [], trace = []\<rparr>"

lemmas example_defs = example_state_def example_string_def example_session_def example_reference_def

definition example_refs :: "addr \<Rightarrow> nat" where
  "example_refs a = (if a = 0 then 1 else 0)"

lemma inv_example: "inv example_refs (\<lambda>_. 0) {} example_state"
proof -
  have held: "held example_state {} b = 0" "held_locks example_state {} b = 0" for b
    by (simp_all add: held_def held_locks_def holds_of_def example_defs)
  have "string_wf \<lparr>str_buffer = [Some CHR ''h'', Some CHR ''i'', Some (CHR 0x00)], str_length = 2, str_allocated = 3\<rparr>"
    by (auto simp: string_wf_def INT32_MAX_def dest!: less_2_cases)
  then have "inventory_ok {} example_state"
    by (auto simp: inventory_ok_def is_type_def object_wf_def OBJECT_ID_ZERO_def example_defs split: if_splits)
  moreover have "references_ok example_state"
    by (auto simp: references_ok_def refs_total_def session_of_def example_defs split: if_splits)
  moreover have "sessions_ok example_state"
    by (auto simp: sessions_ok_def SESSION_ID_ZERO_def example_defs split: if_splits)
  moreover have "heap_bounded example_state"
    by (auto simp: heap_bounded_def example_defs)
  moreover have "counts_ok example_refs (\<lambda>_. 0) {} example_state"
    by (auto simp: counts_ok_def held example_refs_def) (auto simp: example_defs split: if_splits)
  ultimately show ?thesis by (simp add: inv_def)
qed

definition the_string_obj :: "object \<Rightarrow> string_obj" where
  "the_string_obj ob = (case payload ob of P_String so \<Rightarrow> so | _ \<Rightarrow> \<lparr>str_buffer = [], str_length = 0, str_allocated = 0\<rparr>)"

text \<open>The same with a list that holds the string and that the session refers to.\<close>

definition example_item :: object where
  "example_item = example_string\<lparr>internal_reference_count := 2, lock_count := 1\<rparr>"

definition example_list :: object where
  "example_list = \<lparr>obj_id = 2, obj_type = OBJECT_TYPE_LIST, internal_reference_count = 0,
     external_references = [4], external_reference_count = 1, lock_count = 0,
     payload = P_List \<lparr>items = [0]\<rparr>\<rparr>"

definition example_list_state :: apid where
  "example_list_state = example_state\<lparr>objs := [0 \<mapsto> example_item, 3 \<mapsto> example_list],
     refs := [2 \<mapsto> example_reference, 4 \<mapsto> \<lparr>ref_object = 3, ref_session = 1, ref_count = 1\<rparr>],
     sess := [1 \<mapsto> example_session\<lparr>session_references := [2, 4], session_reference_count := 2\<rparr>],
     next_addr := 5,
     objects := (\<lambda>t. if t = OBJECT_TYPE_STRING then [0] else if t = OBJECT_TYPE_LIST then [3] else []),
     next_object_id := 3\<rparr>"

lemmas example_list_defs = example_list_state_def example_item_def example_list_def example_defs

lemma example_string_wf:
  "string_wf \<lparr>str_buffer = [Some CHR ''h'', Some CHR ''i'', Some (CHR 0x00)], str_length = 2, str_allocated = 3\<rparr>"
  by (auto simp: string_wf_def INT32_MAX_def dest!: less_2_cases)

lemma lessThan_5: "{..<5::nat} = {0, 1, 2, 3, 4}"
  by auto

lemma inv_example_list: "inv example_refs (\<lambda>_. 0) {} example_list_state"
proof -
  have bound: "next_addr example_list_state = 5" by (simp add: example_list_defs)
  have held: "held example_list_state {} b = (if b = 0 then 1 else 0)"
    "held_locks example_list_state {} b = (if b = 0 then 1 else 0)" for b
    unfolding held_def held_locks_def bound lessThan_5
    by (simp_all add: holds_of_def example_list_defs)
  have "inventory_ok {} example_list_state"
    using example_string_wf
    by (auto simp: inventory_ok_def is_type_def object_wf_def OBJECT_ID_ZERO_def example_list_defs split: if_splits)
  moreover have "references_ok example_list_state"
    by (auto simp: references_ok_def refs_total_def session_of_def example_list_defs split: if_splits)
  moreover have "sessions_ok example_list_state"
    by (auto simp: sessions_ok_def SESSION_ID_ZERO_def example_list_defs split: if_splits)
  moreover have "heap_bounded example_list_state"
    by (auto simp: heap_bounded_def example_list_defs)
  moreover have "counts_ok example_refs (\<lambda>_. 0) {} example_list_state"
    by (auto simp: counts_ok_def held example_refs_def) (auto simp: example_list_defs split: if_splits)
  ultimately show ?thesis by (simp add: inv_def)
qed

lemma lib_ok_example: "lib_ok (lib example_state)"
  by (simp add: lib_ok_def example_state_def example_lib_def)

text \<open>
  A state with one session, in which the daemon runs out of memory at the fourth request. A
  session whose first reference is to a freed object cannot expire.
\<close>

definition failing_session :: session where
  "failing_session = \<lparr>session_id = 1, session_timer_delay = 60000000, session_references = [],
     session_reference_count = 0\<rparr>"

definition failing_state :: apid where
  "failing_state = (initial_apid example_lib [Inr 0, Inr 0, Inr 0, Inl ENOMEM])
     \<lparr>sess := [0 \<mapsto> failing_session], next_addr := 1, sessions := [0], next_session_id := 2\<rparr>"

lemma dangling_reference_crash:
  assumes "sess s sa = Some se" "session_references se = r # rs" "refs s r = Some er"
    and "objs s (ref_object er) = None"
  shows "session_expire sa s = None"
  using assms by (simp add: session_expire_def session_expire_helper_def session_remove_external_references_def
      node_remove_def)

end
