(* ===== verification/Process_Changes.thy ===== *)
theory Process_Changes
  imports Process_Facts Example_States
begin

text \<open>
  Facts about running processes: changes of state keep the invariant and give the reference of
  the child process back once; the information functions take one reference per object or none
  at all; what the waiting thread and the child process report; and a small state with a
  process.
\<close>

section \<open>Changes of the process struct\<close>

lemma the_processE:
  assumes "the_process s a = Some p"
  obtains ob where "objs s a = Some ob" "payload ob = P_Process p"
  using assms by (auto simp: the_process_def split: Option.bind_splits payload.splits)

lemma the_process_emit [simp]: "the_process (emit e s) = the_process s"
  by (simp add: the_process_def fun_eq_iff)

text \<open>Members other than the references may change.\<close>

lemma put_process_spec:
  assumes "inv R L {} s" "objs s a = Some ob" "payload ob = P_Process p"
    and "holds (P_Process p') = holds (P_Process p)"
  shows "\<exists>t. put_process a p' s = Some t \<and> inv R L {} t \<and> objs t a = Some (ob\<lparr>payload := P_Process p'\<rparr>) \<and>
     the_process t a = Some p' \<and> trace t = trace s"
proof -
  have "object_wf s ob" using inv_arrays(2) [OF assms(1,2)] by simp
  then have "payload_wf s (P_Process p')" using assms(3,4) by (simp add: object_wf_def)
  then have "inv R L {} (put_obj a (ob\<lparr>payload := P_Process p'\<rparr>) s)"
    using assms by (intro inv_put_payload [OF assms(1,2)]) (simp_all add: inv_def counts_ok_def del: holds.simps)
  then show ?thesis using assms(2) by (simp add: put_process_def the_process_def put_obj_def)
qed

definition changed_process :: "process_state_change \<Rightarrow> process_obj \<Rightarrow> process_obj" where
  "changed_process c p =
     (let p = p\<lparr>proc_state := change_state c, proc_timestamp := change_timestamp c,
                proc_exit_code := change_exit_code c\<rparr>
      in if process_state_is_alive (change_state c) then p else p\<lparr>proc_pid := 0\<rparr>)"

lemma changed_process_fields [simp]:
  "holds (P_Process (changed_process c p)) = holds (P_Process p)"
  "proc_release_on_death (changed_process c p) = proc_release_on_death p"
  "proc_state_changed (changed_process c p) = proc_state_changed p"
  "process_is_alive (changed_process c p) = process_state_is_alive (change_state c)"
  "proc_state (changed_process c p) = change_state c"
  by (simp_all add: changed_process_def process_is_alive_def Let_def)

definition change_events :: "process_obj \<Rightarrow> object \<Rightarrow> process_state_change \<Rightarrow> event list" where
  "change_events p ob c =
     (case proc_state_changed p of Some opaque \<Rightarrow> [Ev_process_state_changed opaque] | None \<Rightarrow> []) @
     (if external_reference_count ob > 0
      then [Ev_process_state_changed_callback (obj_id ob) (change_state c) (change_timestamp c) (change_exit_code c)]
      else [])"

lemma handle_state_change_run:
  assumes "objs s a = Some ob" "payload ob = P_Process p"
    and t: "put_process a (changed_process c p) s = Some t"
      "objs t a = Some (ob\<lparr>payload := P_Process (changed_process c p)\<rparr>)"
  shows "process_handle_state_change a (Inr c) s =
    (let u = t\<lparr>trace := trace t @ change_events p ob c\<rparr>
     in if proc_release_on_death p \<and> \<not> process_state_is_alive (change_state c)
        then Option.bind (put_process a ((changed_process c p)\<lparr>proc_release_on_death := False\<rparr>) u)
               (object_remove_internal_reference a)
        else Some u)"
proof -
  have p: "the_process s a = Some p" using assms(1,2) by (simp add: the_process_def)
  let ?p1 = "p\<lparr>proc_state := change_state c, proc_timestamp := change_timestamp c, proc_exit_code := change_exit_code c\<rparr>"
  have p1: "(if \<not> process_is_alive ?p1 then ?p1\<lparr>proc_pid := 0\<rparr> else ?p1) = changed_process c p"
    by (simp add: changed_process_def process_is_alive_def)
  show ?thesis
    unfolding process_handle_state_change_def sum.case p bind.bind_lunit Let_def p1 t(1) changed_process_fields
    using t(2) by (cases "proc_state_changed p") (simp_all add: change_events_def emit_def)
qed

lemma handle_state_change_spec:
  assumes i: "inv R L {} s" and ob: "objs s a = Some ob" "payload ob = P_Process p"
    and held: "proc_release_on_death p \<Longrightarrow> L a < R a"
  shows "\<exists>s'. process_handle_state_change a (Inr c) s = Some s' \<and>
    (if proc_release_on_death p \<and> \<not> process_state_is_alive (change_state c)
     then inv (R(a := R a - 1)) L {} s'
     else inv R L {} s' \<and> objs s' a = Some (ob\<lparr>payload := P_Process (changed_process c p)\<rparr>) \<and>
       trace s' = trace s @ change_events p ob c)"
proof -
  let ?p = "changed_process c p"
  obtain t where t: "put_process a ?p s = Some t" "inv R L {} t" "objs t a = Some (ob\<lparr>payload := P_Process ?p\<rparr>)"
    "trace t = trace s"
    using put_process_spec [OF i ob changed_process_fields(1)] by blast
  let ?u = "t\<lparr>trace := trace t @ change_events p ob c\<rparr>"
  have u: "inv R L {} ?u" using t(2) only_emits_inv [of t ?u] by (simp add: only_emits_def)
  note run = handle_state_change_run [OF ob t(1,3), unfolded Let_def]
  show ?thesis
  proof (cases "proc_release_on_death p \<and> \<not> process_state_is_alive (change_state c)")
    case False
    then show ?thesis using run u t by auto
  next
    case True
    obtain v where v: "put_process a (?p\<lparr>proc_release_on_death := False\<rparr>) ?u = Some v" "inv R L {} v"
      using put_process_spec [OF u, of a "ob\<lparr>payload := P_Process ?p\<rparr>" ?p "?p\<lparr>proc_release_on_death := False\<rparr>"] t(3)
      by auto
    have "L a < R a" using True held by simp
    from remove_internal_reference_spec [OF v(2) this] show ?thesis
      using run True v by (auto simp: yields_iff_ex)
  qed
qed

text \<open>The event loop handing all changes that the waiting thread wrote to the process object.\<close>

primrec handle_state_changes :: "addr \<Rightarrow> process_state_change list \<Rightarrow> apid \<Rightarrow> apid option" where
  "handle_state_changes a [] s = Some s"
| "handle_state_changes a (c # cs) s = do {
     s \<leftarrow> process_handle_state_change a (Inr c) s;
     handle_state_changes a cs s
   }"

lemma handle_state_changes_spec:
  assumes "inv R L {} s" "the_process s a = Some p" "proc_release_on_death p" "L a < R a"
    and "list_all (\<lambda>c. process_state_is_alive (change_state c)) (butlast cs)"
  shows "\<exists>s'. handle_state_changes a cs s = Some s' \<and>
    (if cs \<noteq> [] \<and> \<not> process_state_is_alive (change_state (last cs)) then inv (R(a := R a - 1)) L {} s'
     else inv R L {} s' \<and> (\<exists>p'. the_process s' a = Some p' \<and> proc_release_on_death p'))"
  using assms(1-3,5)
proof (induction cs arbitrary: s p)
  case Nil
  then show ?case by simp
next
  case (Cons c cs)
  obtain ob where ob: "objs s a = Some ob" "payload ob = P_Process p" using Cons.prems(2) by (rule the_processE)
  from handle_state_change_spec [OF Cons.prems(1) ob assms(4), of c] Cons.prems(3) obtain t where
    t: "process_handle_state_change a (Inr c) s = Some t"
      "if \<not> process_state_is_alive (change_state c) then inv (R(a := R a - 1)) L {} t
       else inv R L {} t \<and> objs t a = Some (ob\<lparr>payload := P_Process (changed_process c p)\<rparr>)"
    by (auto split: if_splits)
  show ?case
  proof (cases cs)
    case Nil
    then show ?thesis using t Cons.prems(3) by (auto simp: the_process_def)
  next
    case (Cons d ds)
    then have alive: "process_state_is_alive (change_state c)"
      and rest: "list_all (\<lambda>c. process_state_is_alive (change_state c)) (butlast cs)"
      using Cons.prems(4) by auto
    have "the_process t a = Some (changed_process c p)" using t alive by (simp add: the_process_def)
    from Cons.IH [OF _ this _ rest] show ?thesis using t alive Cons Cons.prems(3) by auto
  qed
qed

section \<open>The waiting thread\<close>

lemma process_wait_alive: "list_all (\<lambda>c. process_state_is_alive (change_state c)) (butlast (fst (process_wait s)))"
proof (induction s rule: process_wait.induct)
  case (1 s)
  obtain c k t where r: "process_wait_round s = (c, k, t)" by (cases "process_wait_round s")
  show ?case
  proof (cases c)
    case None
    then show ?thesis using r by (simp add: process_wait.simps [of s])
  next
    case (Some ch)
    show ?thesis
    proof (cases k)
      case False
      then show ?thesis using r Some by (simp add: process_wait.simps [of s])
    next
      case True
      have "process_state_is_alive (change_state ch)"
        using r Some True by (auto simp: process_wait_round_def Let_def split: prod.splits sum.splits)
      moreover have "list_all (\<lambda>c. process_state_is_alive (change_state c)) (butlast (fst (process_wait t)))"
        using 1 [OF r [symmetric] Some refl] True by simp
      ultimately show ?thesis
        using r Some True by (cases "process_wait t") (auto simp: process_wait.simps [of s])
    qed
  qed
qed

section \<open>References of the information functions\<close>

lemma drop_added:
  assumes "inv R L {} s" "\<And>b. int (count_list added b) \<le> ext_count s b sa"
  shows "\<exists>s'. fold (\<lambda>b r. do { s \<leftarrow> r; object_remove_external_reference b sa s }) added (Some s) = Some s' \<and>
     inv R L {} s' \<and>
     (\<forall>b sb. ext_count s' b sb = ext_count s b sb - (if sb = sa then int (count_list added b) else 0))"
  using assms
proof (induction added arbitrary: s)
  case Nil
  then show ?case by simp
next
  case (Cons x xs)
  have pos: "0 < ext_count s x sa" using Cons.prems(2) [of x] by simp
  then obtain ob where ob: "objs s x = Some ob" by (auto simp: ext_count_def split: option.splits)
  have "x \<notin> {}" by simp
  from remove_external_reference_spec [OF Cons.prems(1) ob this, of sa] pos obtain t where
    t: "object_remove_external_reference x sa s = Some t" "inv R L {} t"
      "\<forall>b sb. ext_count t b sb = ext_count s b sb - (if b = x \<and> sb = sa then 1 else 0)"
    by (auto simp: yields_iff_ex)
  have "int (count_list xs b) \<le> ext_count t b sa" for b
    using Cons.prems(2) [of b] t(3) by (auto split: if_splits)
  from Cons.IH [OF t(2) this] show ?case using t by auto
qed

lemma add_external_references_spec:
  assumes "inv R L {} s" "sess s sa \<noteq> None" "\<And>a. a \<in> set as \<Longrightarrow> objs s a \<noteq> None"
    and "\<And>b. int (count_list added b) \<le> ext_count s b sa"
  shows "\<exists>e s'. add_external_references added as sa s = Some (e, s') \<and> inv R L {} s' \<and>
     (if e = API_E_SUCCESS
      then (\<forall>b sb. ext_count s' b sb = ext_count s b sb + (if sb = sa then int (count_list as b) else 0)) \<and>
        (\<forall>b. map_option obj_id (objs s' b) = map_option obj_id (objs s b))
      else e = API_E_NO_FREE_MEMORY \<and>
        (\<forall>b sb. ext_count s' b sb = ext_count s b sb - (if sb = sa then int (count_list added b) else 0)))"
  using assms
proof (induction as arbitrary: s added)
  case Nil
  then show ?case by simp
next
  case (Cons x xs)
  obtain ob where ob: "objs s x = Some ob" using Cons.prems(3) by auto
  obtain e t where t: "object_add_external_reference x sa s = Some (e, t)" "inv R L {} t"
    "e = API_E_SUCCESS \<or> e = API_E_NO_FREE_MEMORY"
    "\<forall>b sb. ext_count t b sb = ext_count s b sb + (if e = API_E_SUCCESS \<and> b = x \<and> sb = sa then 1 else 0)"
    using add_external_reference_spec [OF Cons.prems(1) ob Cons.prems(2)] by (auto elim!: yields_pairE)
  obtain ob' where ob': "objs t = (objs s)(x := Some ob')" "same_but_externals ob ob'"
    using add_external_reference_frame(1) [OF t(1) ob] by blast
  have ids: "map_option obj_id (objs t b) = map_option obj_id (objs s b)" for b
    using ob ob' by (auto simp: same_but_externals_fields)
  show ?case
  proof (cases "e = API_E_SUCCESS")
    case False
    have "int (count_list added b) \<le> ext_count t b sa" for b using Cons.prems(4) [of b] t(4) False by simp
    from drop_added [OF t(2) this] show ?thesis using t False by auto
  next
    case True
    have "dom (sess t) = dom (sess s)" by (rule add_external_reference_frame(7) [OF t(1) ob])
    then have live: "sess t sa \<noteq> None" using Cons.prems(2) by (auto simp: dom_def)
    have objs: "objs t a \<noteq> None" if "a \<in> set xs" for a using Cons.prems(3) that ob' by auto
    have "int (count_list (x # added) b) \<le> ext_count t b sa" for b
      using Cons.prems(4) [of b] t(4) True by auto
    from Cons.IH [OF t(2) live objs this] obtain e' u where
      u: "add_external_references (x # added) xs sa t = Some (e', u)" "inv R L {} u"
      "if e' = API_E_SUCCESS
       then (\<forall>b sb. ext_count u b sb = ext_count t b sb + (if sb = sa then int (count_list xs b) else 0)) \<and>
         (\<forall>b. map_option obj_id (objs u b) = map_option obj_id (objs t b))
       else e' = API_E_NO_FREE_MEMORY \<and>
         (\<forall>b sb. ext_count u b sb = ext_count t b sb - (if sb = sa then int (count_list (x # added) b) else 0))"
      by blast
    then show ?thesis using t True ids by (auto split: if_splits)
  qed
qed

lemma object_ids_cong:
  "(\<And>b. map_option obj_id (objs t b) = map_option obj_id (objs s b)) \<Longrightarrow> object_ids as t = object_ids as s"
proof (induction as)
  case (Cons x xs)
  from Cons.prems [of x] show ?case
    using Cons by (cases "objs s x"; cases "objs t x") auto
qed simp

lemma object_ids_live: "(\<And>a. a \<in> set as \<Longrightarrow> objs s a \<noteq> None) \<Longrightarrow> \<exists>is. object_ids as s = Some is"
  by (induction as) fastforce+

lemma get_referenced_ids_spec:
  assumes "inv R L {} s" "sess s sa \<noteq> None" "\<And>a. a \<in> set as \<Longrightarrow> objs s a \<noteq> None"
  shows "\<exists>r s'. get_referenced_ids as sa s = Some (r, s') \<and> inv R L {} s' \<and> (case r of
       Inr is \<Rightarrow> object_ids as s = Some is \<and>
         (\<forall>b sb. ext_count s' b sb = ext_count s b sb + (if sb = sa then int (count_list as b) else 0))
     | Inl e \<Rightarrow> e = API_E_NO_FREE_MEMORY \<and> (\<forall>b sb. ext_count s' b sb = ext_count s b sb))"
proof -
  have nonneg: "0 \<le> ext_count s b sa" for b using assms(1) ext_count_nonneg by (simp add: inv_def)
  obtain e t where t: "add_external_references [] as sa s = Some (e, t)" "inv R L {} t"
    "if e = API_E_SUCCESS
      then (\<forall>b sb. ext_count t b sb = ext_count s b sb + (if sb = sa then int (count_list as b) else 0)) \<and>
        (\<forall>b. map_option obj_id (objs t b) = map_option obj_id (objs s b))
      else e = API_E_NO_FREE_MEMORY \<and> (\<forall>b sb. ext_count t b sb = ext_count s b sb)"
    using add_external_references_spec [OF assms, where added = "[]" and as = as] nonneg by (auto cong: if_cong)
  obtain "is" where ids: "object_ids as s = Some is" using object_ids_live [of as s] assms(3) by blast
  show ?thesis
  proof (cases "e = API_E_SUCCESS")
    case True
    then have "object_ids as t = Some is" using object_ids_cong [of t s as] t(3) ids by simp
    then show ?thesis using t True ids by (simp add: get_referenced_ids_def)
  next
    case False
    then show ?thesis using t by (auto simp: get_referenced_ids_def)
  qed
qed

section \<open>The child process\<close>

lemma child_error_cases:
  assumes "process_child_error [] e s = (reported, code, t)" "e \<noteq> API_E_SUCCESS"
  shows "length reported \<le> 1 \<and> code = Some PROCESS_E_INTERNAL_ERROR \<and> reported \<noteq> [API_E_SUCCESS]"
  using assms by (auto simp: process_child_error_def split: prod.splits sum.splits)

definition child_ok ::
    "string \<Rightarrow> string list \<Rightarrow> string list \<Rightarrow> u32 \<Rightarrow> u32 \<Rightarrow> apie list \<times> nat option \<times> apid \<Rightarrow> bool" where
  "child_ok executable arguments environment uid gid = (\<lambda>(reported, code, s').
     length reported \<le> 1 \<and>
     (case code of
        None \<Rightarrow> reported = [API_E_SUCCESS] \<and> Ev_exec executable arguments environment \<in> set (trace s')
      | Some c \<Rightarrow> c \<in> {PROCESS_E_INTERNAL_ERROR, PROCESS_E_CANNOT_EXECUTE, PROCESS_E_DOES_NOT_EXIST} \<and>
          (reported = [API_E_SUCCESS] \<longleftrightarrow> c \<noteq> PROCESS_E_INTERNAL_ERROR)) \<and>
     (reported = [API_E_SUCCESS] \<longrightarrow>
        (\<exists>t u. process_set_identity uid gid t = (API_E_SUCCESS, identity_calls uid gid, u))))"

lemma child_ok_error:
  assumes "e \<noteq> API_E_SUCCESS"
  shows "child_ok x ar en uid gid (process_child_error [] e s)"
proof -
  obtain rep code t where r: "process_child_error [] e s = (rep, code, t)"
    by (cases "process_child_error [] e s") auto
  show ?thesis using child_error_cases [OF r assms] unfolding r by (simp add: child_ok_def)
qed

lemma process_spawn_child_ok: "child_ok x ar en uid gid (process_spawn_child x ar en uid gid s)"
proof -
  obtain r1 s1 where r1: "process_fork_child s = (r1, s1)" by (cases "process_fork_child s")
  obtain e2 made s2 where r2: "process_set_identity uid gid s1 = (e2, made, s2)"
    by (cases "process_set_identity uid gid s1") auto
  obtain e3 s3 where r3: "calls_succeed 5 s2 = (e3, s3)" by (cases "calls_succeed 5 s2")
  obtain r4 s4 where r4: "ask s3 = (r4, s4)" by (cases "ask s3")
  obtain r5 s5 where r5: "ask (emit (Ev_exec x ar en) s4) = (r5, s5)" by (cases "ask (emit (Ev_exec x ar en) s4)")
  have codes: "PROCESS_E_CANNOT_EXECUTE \<noteq> PROCESS_E_INTERNAL_ERROR" "PROCESS_E_DOES_NOT_EXIST \<noteq> PROCESS_E_INTERNAL_ERROR"
    by (simp_all add: PROCESS_E_CANNOT_EXECUTE_def PROCESS_E_INTERNAL_ERROR_def PROCESS_E_DOES_NOT_EXIST_def)
  show ?thesis
  proof (cases "isl r1 \<or> e2 \<noteq> API_E_SUCCESS \<or> e3 \<noteq> API_E_SUCCESS \<or> isl r4")
    case True
    show ?thesis
    proof (cases r1)
      case (Inl code)
      then have "code = PROCESS_E_INTERNAL_ERROR"
        using r1 by (auto simp: process_fork_child_def split: prod.splits sum.splits)
      then show ?thesis using r1 Inl by (simp add: process_spawn_child_def child_ok_def)
    next
      case (Inr v)
      have run: "process_spawn_child x ar en uid gid s =
         (if e2 \<noteq> API_E_SUCCESS then process_child_error [] e2 s2
          else if e3 \<noteq> API_E_SUCCESS then process_child_error [] e3 s3
          else process_child_error [] (case r4 of Inl e \<Rightarrow> api_get_error_code_from_errno e | Inr _ \<Rightarrow> API_E_UNKNOWN_ERROR) s4)"
        using True r1 r2 r3 r4 Inr by (cases r4) (simp_all add: process_spawn_child_def)
      show ?thesis unfolding run by (cases r4) (simp_all add: child_ok_error)
    qed
  next
    case False
    have "made = identity_calls uid gid" using False process_set_identity_complete [OF r2] by simp
    then have id: "\<exists>t u. process_set_identity uid gid t = (API_E_SUCCESS, identity_calls uid gid, u)"
      using r2 False by blast
    have tr: "trace s5 = trace s4 @ [Ev_exec x ar en]"
      using only_answers_ask [OF r5] by (auto simp: only_answers_def)
    show ?thesis
      using False r1 r2 r3 r4 r5 id tr codes
      by (cases r1; cases r4; cases r5) (auto simp: process_spawn_child_def child_ok_def)
  qed
qed

section \<open>Creating directories\<close>

definition mkdirs :: "string \<Rightarrow> u32 \<Rightarrow> u32 \<Rightarrow> apid \<Rightarrow> apid \<Rightarrow> bool" where
  "mkdirs name mode flags s s' \<longleftrightarrow> (\<exists>evs. trace s' = trace s @ evs \<and>
     list_all (\<lambda>ev. \<exists>n. 0 < n \<and> n \<le> length name \<and> ev = Ev_mkdir (take n name) mode) evs \<and>
     (flags AND DIRECTORY_FLAG_RECURSIVE = 0 \<longrightarrow> evs = [Ev_mkdir name mode]))"

lemma directory_create_failed_trace:
  "directory_create_failed en flags s = (e, t) \<Longrightarrow> trace t = trace s"
  by (auto simp: directory_create_failed_def only_answers_def split: prod.splits sum.splits if_splits
      dest!: only_answers_ask_stat)

lemma directory_create_helper_spec:
  assumes "name \<noteq> []" "hd name = CHR ''/''"
  shows "\<exists>e s'. directory_create_helper name flags mode s = Some (e, s') \<and> mkdirs name mode flags s s'"
  using assms
proof (induction name flags mode s rule: directory_create_helper.induct)
  case (1 name flags mode s)
  have len: "0 < length name" using 1(2) by simp
  have self: "list_all (\<lambda>ev. \<exists>n. 0 < n \<and> n \<le> length name \<and> ev = Ev_mkdir (take n name) mode) [Ev_mkdir name mode]"
    using len by auto
  obtain r1 s1 where r1: "ask (emit (Ev_mkdir name mode) s) = (r1, s1)" by (cases "ask (emit (Ev_mkdir name mode) s)")
  have t1: "trace s1 = trace s @ [Ev_mkdir name mode]"
    using only_answers_ask [OF r1] by (auto simp: only_answers_def)
  note simps = directory_create_helper.simps [of name flags mode s]
  show ?case
  proof (cases "\<exists>en. r1 = Inl en \<and> en = ENOENT \<and> flags AND DIRECTORY_FLAG_RECURSIVE \<noteq> 0")
    case False
    show ?thesis
    proof (cases r1)
      case (Inr v)
      then show ?thesis using simps r1 t1 self by (auto simp: mkdirs_def)
    next
      case (Inl en)
      obtain e t where f: "directory_create_failed en flags s1 = (e, t)" by (cases "directory_create_failed en flags s1")
      show ?thesis
        using simps r1 Inl t1 self False f directory_create_failed_trace [OF f]
        by (cases "en = ENOENT") (auto simp: mkdirs_def)
    qed
  next
    case True
    have "CHR ''/'' \<in> set name" using 1(2,3) by (metis hd_in_set)
    then obtain p where p: "strrchr name CHR ''/'' = Some p" by (auto simp: strrchr_def)
    have less: "p < length name" by (rule strrchr_less [OF p])
    have "\<exists>e2 s2. (if p \<noteq> 0 then directory_create_helper (take p name) flags mode s1 else Some (API_E_SUCCESS, s1)) =
        Some (e2, s2) \<and> (\<exists>evs. trace s2 = trace s1 @ evs \<and>
          list_all (\<lambda>ev. \<exists>n. 0 < n \<and> n \<le> length name \<and> ev = Ev_mkdir (take n name) mode) evs)"
    proof (cases "p = 0")
      case True
      then show ?thesis by auto
    next
      case pos: False
      have "take p name \<noteq> []" "hd (take p name) = CHR ''/''" using pos 1(2,3) by (simp_all add: hd_take)
      with 1(1) [OF r1 [symmetric] _ _ _ p pos] True obtain e2 s2 where
        run: "directory_create_helper (take p name) flags mode s1 = Some (e2, s2)"
        and m: "mkdirs (take p name) mode flags s1 s2" by auto
      from m obtain evs where evs: "trace s2 = trace s1 @ evs"
        "list_all (\<lambda>ev. \<exists>n. 0 < n \<and> n \<le> length (take p name) \<and> ev = Ev_mkdir (take n (take p name)) mode) evs"
        by (auto simp: mkdirs_def)
      have "list_all (\<lambda>ev. \<exists>n. 0 < n \<and> n \<le> length name \<and> ev = Ev_mkdir (take n name) mode) evs"
        by (rule list.pred_mono_strong [OF evs(2)]) (use less in \<open>auto simp: min_def split: if_splits\<close>)
      then show ?thesis using run evs(1) pos by auto
    qed
    then obtain e2 s2 evs where r2: "(if p \<noteq> 0 then directory_create_helper (take p name) flags mode s1
          else Some (API_E_SUCCESS, s1)) = Some (e2, s2)" "trace s2 = trace s1 @ evs"
        "list_all (\<lambda>ev. \<exists>n. 0 < n \<and> n \<le> length name \<and> ev = Ev_mkdir (take n name) mode) evs" by blast
    obtain r3 s3 where r3: "ask (emit (Ev_mkdir name mode) s2) = (r3, s3)" by (cases "ask (emit (Ev_mkdir name mode) s2)")
    have t3: "trace s3 = trace s2 @ [Ev_mkdir name mode]"
      using only_answers_ask [OF r3] by (auto simp: only_answers_def)
    obtain e4 s4 where r4: "directory_create_failed (case r3 of Inl en \<Rightarrow> en | Inr _ \<Rightarrow> EINVAL) flags s3 = (e4, s4)"
      by (cases "directory_create_failed (case r3 of Inl en \<Rightarrow> en | Inr _ \<Rightarrow> EINVAL) flags s3")
    have t4: "trace s4 = trace s3" by (rule directory_create_failed_trace [OF r4])
    have run: "directory_create_helper name flags mode s =
       (if e2 \<noteq> API_E_SUCCESS then Some (e2, s2)
        else (case r3 of Inr _ \<Rightarrow> Some (API_E_SUCCESS, s3) | Inl _ \<Rightarrow> Some (e4, s4)))"
      using simps r1 True p r2(1) r3 r4 by (auto split: sum.splits)
    show ?thesis
      unfolding run using True r2(2,3) t1 t3 t4 self by (cases r3) (auto simp: mkdirs_def)
  qed
qed

section \<open>Wait statuses\<close>

lemma status_masks: "(0x7F :: u32) = mask 7" "(0xFF :: u32) = mask 8" "(0xFF00 :: u32) = push_bit 8 (mask 8)"
  by (simp_all add: mask_eq_exp_minus_1)

lemma exit_status:
  fixes c :: u8
  shows "push_bit 8 (ucast c) AND mask 7 = (0 :: u32)"
    and "drop_bit 8 (push_bit 8 (ucast c) AND push_bit 8 (mask 8)) = (ucast c :: u32)"
  by (rule bit_word_eqI, auto simp: bit_simps dest: bit_imp_le_length)+

lemma stop_status:
  fixes c :: u8
  shows "(push_bit 8 (ucast c) OR mask 7) AND mask 7 = (mask 7 :: u32)"
    and "(push_bit 8 (ucast c) OR mask 7) AND mask 8 = (mask 7 :: u32)"
    and "drop_bit 8 ((push_bit 8 (ucast c) OR mask 7) AND push_bit 8 (mask 8)) = (ucast c :: u32)"
  by (rule bit_word_eqI, auto simp: bit_simps dest: bit_imp_le_length)+

lemma kill_status:
  fixes sg :: "7 word"
  shows "ucast sg AND mask 7 = (ucast sg :: u32)" "ucast sg AND mask 8 = (ucast sg :: u32)"
  by (rule bit_word_eqI, auto simp: bit_simps dest: bit_imp_le_length)+

lemma kill_signal:
  fixes sg :: "7 word"
  shows "(ucast sg :: u32) = 0 \<longleftrightarrow> sg = 0" "(ucast sg :: u32) = mask 7 \<longleftrightarrow> sg = 127"
proof -
  have "unat sg < 128" using unsigned_less [of sg] by simp
  then have u: "unat (ucast sg :: u32) = unat sg" by (simp add: unsigned_ucast_eq take_bit_nat_eq_self)
  then show "(ucast sg :: u32) = 0 \<longleftrightarrow> sg = 0" by (metis unsigned_0 word_unat_eq_iff)
  have "(ucast sg :: u32) = mask 7 \<longleftrightarrow> unat (ucast sg :: u32) = 127"
    by (simp add: word_unat_eq_iff mask_eq_exp_minus_1)
  also have "\<dots> \<longleftrightarrow> sg = 127" unfolding u by (simp add: word_unat_eq_iff)
  finally show "(ucast sg :: u32) = mask 7 \<longleftrightarrow> sg = 127" .
qed

lemmas status_facts = exit_status stop_status kill_status kill_signal

end
