(* ===== verification/File_Properties.thy ===== *)
theory File_Properties
  imports Example_States File_Facts
begin

text \<open>
  The properties of file objects and of the calls of the kernel they make, and a small state
  with a file for their witnesses.
\<close>

section \<open>A state with a file\<close>

text \<open>
  The string at address 0 is the name of the file at address 3, and the session at address 1
  refers to both.
\<close>

definition example_file_object :: "file_obj \<Rightarrow> object" where
  "example_file_object f = example_list\<lparr>obj_type := OBJECT_TYPE_FILE, payload := P_File f\<rparr>"

definition example_file_state :: "file_obj \<Rightarrow> apid" where
  "example_file_state f = example_list_state\<lparr>objs := [0 \<mapsto> example_item, 3 \<mapsto> example_file_object f],
     objects := (\<lambda>t. if t = OBJECT_TYPE_STRING then [0] else if t = OBJECT_TYPE_FILE then [3] else [])\<rparr>"

definition example_pipe :: file_obj where
  "example_pipe = \<lparr>file_type = FILE_TYPE_PIPE, file_name = 0, file_flags = 1, file_events = 0,
     file_fd = -1, file_pipe = 7, file_async_read_eventfd = 9, file_async_read_in_progress = False,
     file_length_to_read_async = 0, file_is_pipe_ops = True\<rparr>"

definition example_reading_pipe :: file_obj where
  "example_reading_pipe = example_pipe\<lparr>file_async_read_in_progress := True, file_length_to_read_async := 3\<rparr>"

definition example_regular_file :: file_obj where
  "example_regular_file = example_pipe\<lparr>file_type := FILE_TYPE_REGULAR, file_fd := 5, file_is_pipe_ops := False\<rparr>"

lemmas example_file_defs = example_file_state_def example_file_object_def

lemma inv_example_file:
  assumes "file_name f = 0"
  shows "inv example_refs (\<lambda>_. 0) {} (example_file_state f)"
proof -
  let ?s = "example_file_state f"
  have bound: "next_addr ?s = 5" by (simp add: example_file_defs example_list_defs)
  have held: "held ?s {} b = (if b = 0 then 1 else 0)" "held_locks ?s {} b = (if b = 0 then 1 else 0)" for b
    using assms unfolding held_def held_locks_def bound lessThan_5
    by (simp_all add: holds_of_def example_file_defs example_list_defs)
  have "inventory_ok {} ?s"
    using example_string_wf assms
    by (auto simp: inventory_ok_def is_type_def object_wf_def OBJECT_ID_ZERO_def example_file_defs
        example_list_defs split: if_splits)
  moreover have "references_ok ?s"
    by (auto simp: references_ok_def refs_total_def session_of_def example_file_defs example_list_defs
        split: if_splits)
  moreover have "sessions_ok ?s"
    by (auto simp: sessions_ok_def SESSION_ID_ZERO_def example_file_defs example_list_defs split: if_splits)
  moreover have "heap_bounded ?s"
    by (auto simp: heap_bounded_def example_file_defs example_list_defs)
  moreover have "counts_ok example_refs (\<lambda>_. 0) {} ?s"
    by (auto simp: counts_ok_def held example_refs_def)
      (auto simp: example_file_defs example_list_defs split: if_splits)
  ultimately show ?thesis by (simp add: inv_def)
qed

lemma example_file_at [simp]:
  "objs (example_file_state f) 3 = Some (example_file_object f)" "trace (example_file_state f) = []"
  "payload (example_file_object f) = P_File f" "external_reference_count (example_file_object f) = 1"
  "obj_id (example_file_object f) = 2"
  by (simp_all add: example_file_defs example_list_defs)

section \<open>Permissions\<close>

text \<open>
  C19. The permission bits of the API and the mode bits of the kernel carry the same nine bits:
  turning permissions into a mode and back, whatever file type the kernel adds to the mode, gives
  the permissions without the unknown bits, and a mode that went through the API and back has
  lost everything but its nine permission bits.
\<close>

theorem permissions_roundtrip:
  "file_get_permissions_from_stat_mode (file_get_mode_from_permissions p OR (t AND S_IFMT)) =
     p AND FILE_PERMISSION_ALL \<and>
   file_get_mode_from_permissions (file_get_permissions_from_stat_mode m) = m AND mask 9"
proof
  have type_bits: "\<not> bit (S_IFMT :: u32) n" if "n < 9" for n
    using that unfolding less_9 by (auto simp: S_IFMT_def)
  show "file_get_permissions_from_stat_mode (file_get_mode_from_permissions p OR (t AND S_IFMT)) =
     p AND FILE_PERMISSION_ALL"
    by (rule bit_word_eqI) (auto simp: bit_permissions bit_mode permission_all bit_or_iff bit_and_iff bit_mask_iff type_bits)
  show "file_get_mode_from_permissions (file_get_permissions_from_stat_mode m) = m AND mask 9"
    by (rule bit_word_eqI) (auto simp: bit_permissions bit_mode bit_and_iff bit_mask_iff)
qed

section \<open>Reading in the background\<close>

text \<open>
  C20. However often the event loop calls the handler of a read in the background, and whatever
  the kernel answers, the handler does not fail, and the client receives, in the callbacks that
  report success, never more characters than it asked for; while the read goes on, the number
  of characters it got and the number still to read add up to the number it asked for.
\<close>

theorem async_read_bounded:
  assumes "objs s a = Some ob" and "payload ob = P_File f" and "0 < external_reference_count ob"
    and "file_async_read_in_progress f"
  shows "\<exists>s' f' b. async_events n a s = Some s' \<and> the_file s' a = Some f' \<and>
     delivered (obj_id ob) (trace s') = delivered (obj_id ob) (trace s) @ b \<and>
     (if file_async_read_in_progress f'
      then length b + unat (file_length_to_read_async f') = unat (file_length_to_read_async f)
      else length b \<le> unat (file_length_to_read_async f))"
  using assms by (rule async_read_total)

theorem async_read_bounded_witness:
  "\<exists>s' f' b. async_events 4 3 (example_file_state example_reading_pipe) = Some s' \<and> the_file s' 3 = Some f' \<and>
     delivered 2 (trace s') = b \<and>
     (if file_async_read_in_progress f' then length b + unat (file_length_to_read_async f') = 3
      else length b \<le> 3)"
proof -
  have "file_async_read_in_progress example_reading_pipe" "file_length_to_read_async example_reading_pipe = 3"
    by (simp_all add: example_reading_pipe_def)
  with async_read_bounded [of "example_file_state example_reading_pipe" 3 "example_file_object example_reading_pipe"
      example_reading_pipe 4] show ?thesis by (simp cong: if_cong)
qed





text \<open>
  C22. Choosing the events of a file. Only pipes have events and only the known ones; otherwise
  nothing changes. When the call reports success the file waits for exactly the chosen events;
  when the event loop refuses a source the call reports an internal error, and even then the
  file and the event loop agree.
\<close>

theorem events_chosen:
  assumes "objs s a = Some ob" and "payload ob = P_File f"
  shows "\<exists>e s' evs. file_set_events a events s = Some (e, s') \<and>
     the_file s' a = Some (f\<lparr>file_events := evs\<rparr>) \<and>
     (file_sources f (trace s) \<longrightarrow> file_sources (f\<lparr>file_events := evs\<rparr>) (trace s')) \<and>
     (if file_type f \<noteq> FILE_TYPE_PIPE then e = API_E_NOT_SUPPORTED \<and> s' = s
      else if events AND NOT FILE_EVENT_ALL \<noteq> 0 then e = API_E_INVALID_PARAMETER \<and> s' = s
      else if e = API_E_SUCCESS then
        (evs AND FILE_EVENT_READABLE = 0) = (events AND FILE_EVENT_READABLE = 0) \<and>
        (evs AND FILE_EVENT_WRITABLE = 0) = (events AND FILE_EVENT_WRITABLE = 0)
      else e = API_E_INTERNAL_ERROR)"
  using set_events_spec [OF assms, of events]
  by (elim exE conjE) (intro exI conjI, assumption, simp_all add: the_file_def with_events_def)

theorem events_chosen_witness:
  "\<exists>e s' evs. file_set_events 3 1 (example_file_state example_pipe) = Some (e, s') \<and>
     the_file s' 3 = Some (example_pipe\<lparr>file_events := evs\<rparr>) \<and>
     (e = API_E_SUCCESS \<longrightarrow> evs AND FILE_EVENT_READABLE \<noteq> 0 \<and> evs AND FILE_EVENT_WRITABLE = 0)"
proof -
  let ?s = "example_file_state example_pipe"
  have pipe: "file_type example_pipe = FILE_TYPE_PIPE" by (simp add: example_pipe_def)
  have one: "(1 :: u16) AND NOT FILE_EVENT_ALL = 0" "(1 :: u16) AND FILE_EVENT_READABLE \<noteq> 0"
    "(1 :: u16) AND FILE_EVENT_WRITABLE = 0"
    by (simp_all add: FILE_EVENT_ALL_def FILE_EVENT_READABLE_def FILE_EVENT_WRITABLE_def)
  show ?thesis
    using events_chosen [of ?s 3 "example_file_object example_pipe" example_pipe 1] one
    by (simp only: example_file_at pipe refl if_False not_True_eq_False) (fastforce split: if_splits)
qed



section \<open>Opening\<close>







text \<open>
  C25. The information about a file. Of a pipe it has no name and takes no reference. Of any
  other file, success means that the client gets the ID of the name with one reference to it,
  and the type the file had when it was opened. The reference is added before the kernel is
  asked, and it is kept when the kernel refuses: the client is told of an error and yet has one
  more reference to the name.
\<close>

theorem information:
  assumes "inv R L {} s" and "objs s a = Some ob" and "payload ob = P_File f" and "sess s sa \<noteq> None"
  shows "\<exists>r s'. file_get_info a sa s = Some (r, s') \<and> inv R L {} s' \<and>
     (if file_type f = FILE_TYPE_PIPE
      then (\<forall>b sb. ext_count s' b sb = ext_count s b sb) \<and>
        (\<forall>i. r = Inr i \<longrightarrow> info_type i = FILE_TYPE_PIPE \<and> info_name_id i = OBJECT_ID_ZERO)
      else (\<exists>e t. object_add_external_reference (file_name f) sa s = Some (e, t) \<and>
        (if e \<noteq> API_E_SUCCESS then r = Inl e \<and> (\<forall>b sb. ext_count s' b sb = ext_count s b sb)
         else (\<forall>b sb. ext_count s' b sb = ext_count s b sb + (if b = file_name f \<and> sb = sa then 1 else 0)) \<and>
           (\<forall>en rs. answers t = Inl en # rs \<longrightarrow> r = Inl (api_get_error_code_from_errno en)) \<and>
           (\<forall>i. r = Inr i \<longrightarrow> info_type i = file_type f \<and>
              (\<exists>nm. objs s (file_name f) = Some nm \<and> info_name_id i = obj_id nm)))))"
proof -
  have f: "the_file s a = Some f" using assms(2,3) by (rule the_file_objs)
  show ?thesis
  proof (cases "file_type f = FILE_TYPE_PIPE")
    case True
    obtain r t where t: "ask s = (r, t)" by (cases "ask s")
    have "quiet s t" by (rule quiet_ask [OF quiet_refl t])
    then show ?thesis
      using True f t quiet_inv [OF assms(1)] quiet_facts(5) by (cases r) (auto simp: file_get_info_def)
  next
    case False
    have "is_type s OBJECT_TYPE_STRING (file_name f)"
    proof -
      have "object_wf s ob" using assms(1,2) by (auto simp: inv_def inventory_ok_def)
      then show ?thesis using assms(3) by (simp add: object_wf_def)
    qed
    then obtain nm where nm: "objs s (file_name f) = Some nm" by (auto simp: is_type_def)
    obtain e t where t: "object_add_external_reference (file_name f) sa s = Some (e, t)" "inv R L {} t"
      "e = API_E_SUCCESS \<or> e = API_E_NO_FREE_MEMORY"
      "\<forall>b sb. ext_count t b sb = ext_count s b sb + (if e = API_E_SUCCESS \<and> b = file_name f \<and> sb = sa then 1 else 0)"
      using add_external_reference_spec [OF assms(1) nm assms(4)] by (auto elim!: yields_pairE)
    obtain nm' where nm': "objs t (file_name f) = Some nm'" "obj_id nm' = obj_id nm"
    proof -
      obtain nm' where "objs t = (objs s)(file_name f := Some nm')" "same_but_externals nm nm'"
        using add_external_reference_frame(1) [OF t(1) nm] by blast
      then show ?thesis using that by (cases nm; cases nm') (simp add: same_but_externals_def)
    qed
    obtain r u where u: "ask_stat t = (r, u)" by (cases "ask_stat t")
    have q: "quiet t u" by (rule quiet_ask_stat [OF quiet_refl u])
    have refused: "r = Inl en" if "answers t = Inl en # rs" for en rs
      using u that by (auto simp: ask_stat_def ask_def)
    show ?thesis
      using False f t nm nm' u q quiet_inv [OF t(2) q] quiet_facts(5) [OF q] refused
      by (cases r) (auto simp: file_get_info_def)
  qed
qed

theorem information_witness:
  "\<exists>r s'. file_get_info 3 1 ((example_file_state example_regular_file)\<lparr>answers := [Inl EBADF]\<rparr>) = Some (r, s') \<and>
     r = Inl API_E_BAD_FILE_DESCRIPTOR \<and>
     ext_count s' 0 1 = ext_count (example_file_state example_regular_file) 0 1 + 1"
proof -
  let ?s = "(example_file_state example_regular_file)\<lparr>answers := [Inl EBADF]\<rparr>"
  have i: "inv example_refs (\<lambda>_. 0) {} ?s"
    using inv_example_file [of example_regular_file]
    by (simp add: example_regular_file_def example_pipe_def)
  have ob: "objs ?s 3 = Some (example_file_object example_regular_file)" "sess ?s 1 \<noteq> None"
    by (simp_all add: example_file_state_def example_list_defs)
  have f: "file_name example_regular_file = 0" "file_type example_regular_file \<noteq> FILE_TYPE_PIPE"
    by (simp_all add: example_regular_file_def example_pipe_def)
  have "map_option (map_prod id answers) (object_add_external_reference 0 1 ?s) = Some (API_E_SUCCESS, [Inl EBADF])"
    by code_simp
  then obtain t where t: "object_add_external_reference 0 1 ?s = Some (API_E_SUCCESS, t)" "answers t = [Inl EBADF]"
    by (cases "object_add_external_reference 0 1 ?s") auto
  have "ext_count (x\<lparr>answers := y\<rparr>) = ext_count x" for x y by (rule quiet_facts(5)) (rule quiet_only_answers, simp)
  with information [OF i ob(1) _ ob(2), of example_regular_file] f t show ?thesis
    by (auto split: if_splits)
qed

end
