(* ===== verification/Process_Properties.thy ===== *)
theory Process_Properties
  imports Process_Changes File_Properties
begin

text \<open>
  The properties of processes and directories, and a small state with a process.
\<close>

section \<open>A state with a process\<close>

text \<open>
  The string at 0 is the executable and the working directory of the process at 6 and the name
  of the file at 5, which is all three of its standard files; the empty list at 3 is its
  arguments and its environment. The daemon itself still refers to the string, and the running
  child to the process.
\<close>

definition example_process :: process_obj where
  "example_process = zero_process\<lparr>proc_arguments := 3, proc_environment := 3, proc_stdin := 5,
     proc_stdout := 5, proc_stderr := 5, proc_pid := 99, proc_release_on_death := True,
     proc_state := PROCESS_STATE_RUNNING\<rparr>"

definition example_internal :: "u16 \<Rightarrow> object_type \<Rightarrow> int \<Rightarrow> int \<Rightarrow> payload \<Rightarrow> object" where
  "example_internal i t n l p = \<lparr>obj_id = i, obj_type = t, internal_reference_count = n,
     external_references = [], external_reference_count = 0, lock_count = l, payload = p\<rparr>"

definition example_process_state :: apid where
  "example_process_state = example_state\<lparr>
     objs := [0 \<mapsto> example_string\<lparr>internal_reference_count := 4, lock_count := 3\<rparr>,
              3 \<mapsto> example_internal 2 OBJECT_TYPE_LIST 2 2 (P_List \<lparr>items = []\<rparr>),
              5 \<mapsto> example_internal 3 OBJECT_TYPE_FILE 3 0 (P_File example_pipe),
              6 \<mapsto> example_internal 4 OBJECT_TYPE_PROCESS 1 0 (P_Process example_process)],
     next_addr := 7,
     objects := (\<lambda>t. if t = OBJECT_TYPE_STRING then [0] else if t = OBJECT_TYPE_LIST then [3]
       else if t = OBJECT_TYPE_FILE then [5] else if t = OBJECT_TYPE_PROCESS then [6] else []),
     next_object_id := 5\<rparr>"

lemmas example_process_defs = example_process_state_def example_internal_def example_process_def
  zero_process_def example_pipe_def example_defs

definition process_refs :: "addr \<Rightarrow> nat" where
  "process_refs a = (if a = 0 \<or> a = 6 then 1 else 0)"

lemma lessThan_7: "{..<7::nat} = {0, 1, 2, 3, 4, 5, 6}"
  by auto

lemma inv_example_process: "inv process_refs (\<lambda>_. 0) {} example_process_state"
proof -
  let ?s = example_process_state
  have bound: "next_addr ?s = 7" by (simp add: example_process_defs)
  have held: "held ?s {} b = (if b = 0 then 3 else if b = 3 then 2 else if b = 5 then 3 else 0)"
    "held_locks ?s {} b = (if b = 0 then 3 else if b = 3 then 2 else 0)" for b
    unfolding held_def held_locks_def bound lessThan_7
    by (simp_all add: holds_of_def cnt_refs_def cnt_locks_def example_process_defs)
  have "inventory_ok {} ?s"
    using example_string_wf
    by (auto simp: inventory_ok_def is_type_def object_wf_def OBJECT_ID_ZERO_def example_process_defs
        split: if_splits)
  moreover have "references_ok ?s"
    by (auto simp: references_ok_def refs_total_def session_of_def example_process_defs split: if_splits)
  moreover have "sessions_ok ?s"
    by (auto simp: sessions_ok_def SESSION_ID_ZERO_def example_process_defs split: if_splits)
  moreover have "heap_bounded ?s"
    by (auto simp: heap_bounded_def example_process_defs)
  moreover have "counts_ok process_refs (\<lambda>_. 0) {} ?s"
    by (auto simp: counts_ok_def held process_refs_def) (auto simp: example_process_defs split: if_splits)
  ultimately show ?thesis by (simp add: inv_def)
qed

lemma example_process_at: "the_process example_process_state 6 = Some example_process"
  by (simp add: the_process_def example_process_state_def example_internal_def)

section \<open>Spawning\<close>



text \<open>
  C27. A process that could not be registered with the event loop is reported as spawned: when
  the child started and its state pipe was created, but the event loop refuses the pipe, the
  child is killed and no object is made, and the error code is \<open>API_E_SUCCESS\<close>.
\<close>

theorem spawn_reports_success:
  assumes "answers s = [Inr 0, Inr p0, Inr p1, Inr 0, Inr pid, Inr 0, Inr 0, Inr 0, Inr now, Inr pp, Inl en]"
  shows "\<exists>s'. process_spawn_fork p session f s = Some (Inl API_E_SUCCESS, s') \<and> objs s' = objs s \<and>
     Ev_kill pid 9 \<in> set (trace s')"
  using assms
  by (simp add: process_spawn_fork_def ask_def ask_int_def process_fork_def calloc_def process_create_object_def
      event_add_source_def close_pipe_def apie_of_code_def apie_enumerators_def)

theorem spawn_reports_success_witness:
  "\<exists>s'. process_spawn_fork example_process None OBJECT_CREATE_FLAG_INTERNAL
     (example_process_state\<lparr>answers := [Inr 0, Inr 10, Inr 11, Inr 0, Inr 4711, Inr 0, Inr 0, Inr 0, Inr 1400000000,
        Inr 7, Inl ENOMEM]\<rparr>) = Some (Inl API_E_SUCCESS, s') \<and> Ev_kill 4711 9 \<in> set (trace s')"
  using spawn_reports_success [of "example_process_state\<lparr>answers := [Inr 0, Inr 10, Inr 11, Inr 0, Inr 4711, Inr 0,
      Inr 0, Inr 0, Inr 1400000000, Inr 7, Inl ENOMEM]\<rparr>" 10 11 4711 1400000000 7 ENOMEM example_process None
      OBJECT_CREATE_FLAG_INTERNAL] by auto


section \<open>Changes of state\<close>


text \<open>
  C30. The life of a child in the daemon. The changes that the waiting thread writes, handed to
  the process object one after the other, never touch freed memory; the reference that stands
  for the running child is given back exactly once, with the last change, when that change says
  that the child is gone, and it is kept otherwise.
\<close>

theorem child_reference_released_once:
  assumes "inv R L {} s" and "the_process s a = Some p" and "proc_release_on_death p" and "L a < R a"
    and "cs = fst (process_wait t)"
  shows "\<exists>s'. handle_state_changes a cs s = Some s' \<and>
    (if cs \<noteq> [] \<and> \<not> process_state_is_alive (change_state (last cs)) then inv (R(a := R a - 1)) L {} s'
     else inv R L {} s' \<and> (\<exists>p'. the_process s' a = Some p' \<and> proc_release_on_death p'))"
  using assms by (intro handle_state_changes_spec) (simp_all add: process_wait_alive)

theorem child_reference_released_once_witness:
  "\<exists>s'. handle_state_changes 6 (fst (process_wait (initial_apid example_lib [Inr 256, Inr 5, Inr 0])))
       example_process_state = Some s' \<and> inv (process_refs(6 := 0)) (\<lambda>_. 0) {} s'"
proof -
  let ?t = "initial_apid example_lib [Inr 256, Inr 5, Inr 0]"
  have cs: "fst (process_wait ?t) = [\<lparr>change_state = PROCESS_STATE_EXITED, change_timestamp = 5, change_exit_code = 1\<rparr>]"
    by code_simp
  have "proc_release_on_death example_process" by (simp add: example_process_def)
  from child_reference_released_once [OF inv_example_process example_process_at this _ refl, of ?t] show ?thesis
    unfolding cs by (simp add: process_refs_def)
qed

text \<open>
  C31. Asking for the command of a process gives the client the IDs of the executable, the
  arguments, the environment and the working directory, and one reference to each of them, two
  to an object that is named twice. When there is no memory for one of the references, those
  that were added before are taken back: the client has exactly the references it had.
\<close>

theorem command_references:
  assumes "inv R L {} s" and "the_process s a = Some p" and "sess s sa \<noteq> None"
  shows "\<exists>r s'. process_get_command a sa s = Some (r, s') \<and> inv R L {} s' \<and> (case r of
       Inr is \<Rightarrow> map (\<lambda>b. map_option obj_id (objs s b))
             [proc_executable p, proc_arguments p, proc_environment p, proc_working_directory p] = map Some is \<and>
         (\<forall>b sb. ext_count s' b sb = ext_count s b sb + (if sb = sa then int (count_list
             [proc_executable p, proc_arguments p, proc_environment p, proc_working_directory p] b) else 0))
     | Inl e \<Rightarrow> e = API_E_NO_FREE_MEMORY \<and> (\<forall>b sb. ext_count s' b sb = ext_count s b sb))"
proof -
  let ?as = "[proc_executable p, proc_arguments p, proc_environment p, proc_working_directory p]"
  obtain ob where ob: "objs s a = Some ob" "payload ob = P_Process p" using assms(2) by (rule the_processE)
  have "object_wf s ob" using inv_arrays(2) [OF assms(1) ob(1)] by simp
  then have live: "b \<in> set ?as \<Longrightarrow> objs s b \<noteq> None" for b
    using ob(2) by (auto simp: object_wf_def is_type_def)
  have ids: "map (\<lambda>b. map_option obj_id (objs s b)) as = map Some is" if "object_ids as s = Some is" for as "is"
    using that by (induction as arbitrary: "is") (auto split: Option.bind_splits)
  obtain r s' where r: "get_referenced_ids ?as sa s = Some (r, s')" "inv R L {} s'" "case r of
       Inr is \<Rightarrow> object_ids ?as s = Some is \<and>
         (\<forall>b sb. ext_count s' b sb = ext_count s b sb + (if sb = sa then int (count_list ?as b) else 0))
     | Inl e \<Rightarrow> e = API_E_NO_FREE_MEMORY \<and> (\<forall>b sb. ext_count s' b sb = ext_count s b sb)"
    using get_referenced_ids_spec [OF assms(1,3) live] by blast
  have run: "process_get_command a sa s = Some (r, s')"
    using assms(2) r(1) unfolding process_get_command_def by (simp only: bind.bind_lunit)
  show ?thesis
  proof (intro exI conjI)
    show "process_get_command a sa s = Some (r, s')" by (rule run)
    show "inv R L {} s'" by (rule r(2))
    show "case r of
       Inr is \<Rightarrow> map (\<lambda>b. map_option obj_id (objs s b)) ?as = map Some is \<and>
         (\<forall>b sb. ext_count s' b sb = ext_count s b sb + (if sb = sa then int (count_list ?as b) else 0))
     | Inl e \<Rightarrow> e = API_E_NO_FREE_MEMORY \<and> (\<forall>b sb. ext_count s' b sb = ext_count s b sb)"
      using r(3) ids [of ?as] by (cases r) (simp_all only: sum.case simp_thms)
  qed
qed

theorem command_references_witness:
  "\<exists>r s'. process_get_command 6 1 example_process_state = Some (r, s') \<and> inv process_refs (\<lambda>_. 0) {} s' \<and>
     (case r of
        Inr is \<Rightarrow> is = [1, 2, 2, 1] \<and> ext_count s' 3 1 = ext_count example_process_state 3 1 + 2
      | Inl e \<Rightarrow> e = API_E_NO_FREE_MEMORY)"
proof -
  have live: "sess example_process_state 1 \<noteq> None" by (simp add: example_process_defs)
  have p: "proc_executable example_process = 0" "proc_arguments example_process = 3"
    "proc_environment example_process = 3" "proc_working_directory example_process = 0"
    by (simp_all add: example_process_def zero_process_def)
  have ids: "map_option obj_id (objs example_process_state 0) = Some 1" "map_option obj_id (objs example_process_state 3) = Some 2"
    by (simp_all add: example_process_defs)
  obtain r s' where r: "process_get_command 6 1 example_process_state = Some (r, s')" "inv process_refs (\<lambda>_. 0) {} s'"
    "case r of Inr is \<Rightarrow> map (\<lambda>b. map_option obj_id (objs example_process_state b)) [0, 3, 3, 0] = map Some is \<and>
         (\<forall>b sb. ext_count s' b sb = ext_count example_process_state b sb + (if sb = 1 then int (count_list [0, 3, 3, 0] b) else 0))
     | Inl e \<Rightarrow> e = API_E_NO_FREE_MEMORY \<and> (\<forall>b sb. ext_count s' b sb = ext_count example_process_state b sb)"
    using command_references [OF inv_example_process example_process_at live] unfolding p by blast
  then show ?thesis using ids by (cases r) (auto simp: map_eq_Cons_conv Cons_eq_map_conv)
qed

section \<open>Directories\<close>

text \<open>
  C32. Creating a directory with its parents: for an absolute name the recursion always ends,
  whatever \<open>mkdir\<close> answers, and the only directories it tries to create are prefixes of the
  name; without the flag for parents the name itself is tried exactly once.
\<close>

theorem directory_creation:
  assumes "name \<noteq> []" and "hd name = CHR ''/''"
  shows "\<exists>e s' evs. directory_create_helper name flags mode s = Some (e, s') \<and> trace s' = trace s @ evs \<and>
     list_all (\<lambda>ev. \<exists>n. 0 < n \<and> n \<le> length name \<and> ev = Ev_mkdir (take n name) mode) evs \<and>
     (if flags AND DIRECTORY_FLAG_RECURSIVE = 0 then evs = [Ev_mkdir name mode] else True)"
  using directory_create_helper_spec [OF assms, of flags mode s] by (auto simp: mkdirs_def)

theorem directory_creation_witness:
  "\<exists>e s' evs. directory_create_helper ''/a/b'' DIRECTORY_FLAG_RECURSIVE 448
       (initial_apid example_lib [Inl ENOENT, Inl EEXIST]) = Some (e, s') \<and>
     trace s' = evs \<and> list_all (\<lambda>ev. \<exists>n. 0 < n \<and> n \<le> 4 \<and> ev = Ev_mkdir (take n ''/a/b'') 448) evs"
  using directory_creation [of "''/a/b''" DIRECTORY_FLAG_RECURSIVE 448 "initial_apid example_lib [Inl ENOENT, Inl EEXIST]"]
  by (auto simp: initial_apid_def eval_nat_numeral)

end
