(* ===== verification/Api_Packet.thy ===== *)
theory Api_Packet
  imports Directory_Object
begin

text \<open>
  The packets of the API: \<open>api_packet.h\<close>. Every packed struct is the list of its members behind
  the header, in order; the header of a packet (\<open>PacketHeader\<close> of daemonlib) has 8 bytes. Integers
  are little endian. The lemmas show that the bytes of a packet and the values of its members
  determine each other, and that no packet is longer than a packet may be.
\<close>

section \<open>Members\<close>

datatype field = F8 | F16 | F32 | F64 | Fchars nat

datatype val = V8 u8 | V16 u16 | V32 u32 | V64 u64 | Vchars "char list"

type_synonym layout = "(string \<times> field) list"
type_synonym members = "(string \<times> val) list"

fun field_size :: "field \<Rightarrow> nat" where
  "field_size F8 = 1"
| "field_size F16 = 2"
| "field_size F32 = 4"
| "field_size F64 = 8"
| "field_size (Fchars n) = n"

definition body_size :: "layout \<Rightarrow> nat" where
  "body_size l = sum_list (map (field_size \<circ> snd) l)"

text \<open>\<open>sizeof\<close> of a packed struct.\<close>

definition sizeof :: "layout \<Rightarrow> nat" where
  "sizeof l = 8 + body_size l"

fun fits :: "field \<Rightarrow> val \<Rightarrow> bool" where
  "fits F8 (V8 x) = True"
| "fits F16 (V16 x) = True"
| "fits F32 (V32 x) = True"
| "fits F64 (V64 x) = True"
| "fits (Fchars n) (Vchars cs) = (length cs = n)"
| "fits _ _ = False"

fun zero_value :: "field \<Rightarrow> val" where
  "zero_value F8 = V8 0"
| "zero_value F16 = V16 0"
| "zero_value F32 = V32 0"
| "zero_value F64 = V64 0"
| "zero_value (Fchars n) = Vchars (replicate n (CHR 0x00))"

text \<open>\<open>request->name\<close>\<close>

definition get8 :: "members \<Rightarrow> string \<Rightarrow> u8" where
  "get8 m n = (case map_of m n of Some (V8 x) \<Rightarrow> x | _ \<Rightarrow> 0)"

definition get16 :: "members \<Rightarrow> string \<Rightarrow> u16" where
  "get16 m n = (case map_of m n of Some (V16 x) \<Rightarrow> x | _ \<Rightarrow> 0)"

definition get32 :: "members \<Rightarrow> string \<Rightarrow> u32" where
  "get32 m n = (case map_of m n of Some (V32 x) \<Rightarrow> x | _ \<Rightarrow> 0)"

definition get64 :: "members \<Rightarrow> string \<Rightarrow> u64" where
  "get64 m n = (case map_of m n of Some (V64 x) \<Rightarrow> x | _ \<Rightarrow> 0)"

definition get_chars :: "members \<Rightarrow> string \<Rightarrow> char list" where
  "get_chars m n = (case map_of m n of Some (Vchars cs) \<Rightarrow> cs | _ \<Rightarrow> [])"

section \<open>Packets\<close>

text \<open>Session\<close>

definition CreateSessionRequest :: layout where
  "CreateSessionRequest = [(''lifetime'', F32)]"

definition CreateSessionResponse :: layout where
  "CreateSessionResponse = [(''error_code'', F8), (''session_id'', F16)]"

definition ExpireSessionRequest :: layout where
  "ExpireSessionRequest = [(''session_id'', F16)]"

definition ExpireSessionResponse :: layout where
  "ExpireSessionResponse = [(''error_code'', F8)]"

definition ExpireSessionUncheckedRequest :: layout where
  "ExpireSessionUncheckedRequest = [(''session_id'', F16)]"

definition KeepSessionAliveRequest :: layout where
  "KeepSessionAliveRequest = [(''session_id'', F16), (''lifetime'', F32)]"

definition KeepSessionAliveResponse :: layout where
  "KeepSessionAliveResponse = [(''error_code'', F8)]"

text \<open>Object\<close>

definition ReleaseObjectRequest :: layout where
  "ReleaseObjectRequest = [(''object_id'', F16), (''session_id'', F16)]"

definition ReleaseObjectResponse :: layout where
  "ReleaseObjectResponse = [(''error_code'', F8)]"

definition ReleaseObjectUncheckedRequest :: layout where
  "ReleaseObjectUncheckedRequest = [(''object_id'', F16), (''session_id'', F16)]"

text \<open>String\<close>

definition AllocateStringRequest :: layout where
  "AllocateStringRequest = [(''length_to_reserve'', F32),
     (''buffer'', Fchars STRING_MAX_ALLOCATE_BUFFER_LENGTH), (''session_id'', F16)]"

definition AllocateStringResponse :: layout where
  "AllocateStringResponse = [(''error_code'', F8), (''string_id'', F16)]"

definition TruncateStringRequest :: layout where
  "TruncateStringRequest = [(''string_id'', F16), (''length'', F32)]"

definition TruncateStringResponse :: layout where
  "TruncateStringResponse = [(''error_code'', F8)]"

definition GetStringLengthRequest :: layout where
  "GetStringLengthRequest = [(''string_id'', F16)]"

definition GetStringLengthResponse :: layout where
  "GetStringLengthResponse = [(''error_code'', F8), (''length'', F32)]"

definition SetStringChunkRequest :: layout where
  "SetStringChunkRequest = [(''string_id'', F16), (''offset'', F32),
     (''buffer'', Fchars STRING_MAX_SET_CHUNK_BUFFER_LENGTH)]"

definition SetStringChunkResponse :: layout where
  "SetStringChunkResponse = [(''error_code'', F8)]"

definition GetStringChunkRequest :: layout where
  "GetStringChunkRequest = [(''string_id'', F16), (''offset'', F32)]"

definition GetStringChunkResponse :: layout where
  "GetStringChunkResponse = [(''error_code'', F8),
     (''buffer'', Fchars STRING_MAX_GET_CHUNK_BUFFER_LENGTH)]"

text \<open>List\<close>

definition AllocateListRequest :: layout where
  "AllocateListRequest = [(''length_to_reserve'', F16), (''session_id'', F16)]"

definition AllocateListResponse :: layout where
  "AllocateListResponse = [(''error_code'', F8), (''list_id'', F16)]"

definition GetListLengthRequest :: layout where
  "GetListLengthRequest = [(''list_id'', F16)]"

definition GetListLengthResponse :: layout where
  "GetListLengthResponse = [(''error_code'', F8), (''length'', F16)]"

definition GetListItemRequest :: layout where
  "GetListItemRequest = [(''list_id'', F16), (''index'', F16), (''session_id'', F16)]"

definition GetListItemResponse :: layout where
  "GetListItemResponse = [(''error_code'', F8), (''item_object_id'', F16), (''type'', F8)]"

definition AppendToListRequest :: layout where
  "AppendToListRequest = [(''list_id'', F16), (''item_object_id'', F16)]"

definition AppendToListResponse :: layout where
  "AppendToListResponse = [(''error_code'', F8)]"

definition RemoveFromListRequest :: layout where
  "RemoveFromListRequest = [(''list_id'', F16), (''index'', F16)]"

definition RemoveFromListResponse :: layout where
  "RemoveFromListResponse = [(''error_code'', F8)]"

text \<open>File\<close>

definition OpenFileRequest :: layout where
  "OpenFileRequest = [(''name_string_id'', F16), (''flags'', F32), (''permissions'', F16),
     (''uid'', F32), (''gid'', F32), (''session_id'', F16)]"

definition OpenFileResponse :: layout where
  "OpenFileResponse = [(''error_code'', F8), (''file_id'', F16)]"

definition CreatePipeRequest :: layout where
  "CreatePipeRequest = [(''flags'', F32), (''length'', F64), (''session_id'', F16)]"

definition CreatePipeResponse :: layout where
  "CreatePipeResponse = [(''error_code'', F8), (''file_id'', F16)]"

definition GetFileInfoRequest :: layout where
  "GetFileInfoRequest = [(''file_id'', F16), (''session_id'', F16)]"

definition GetFileInfoResponse :: layout where
  "GetFileInfoResponse = [(''error_code'', F8), (''type'', F8), (''name_string_id'', F16),
     (''flags'', F32), (''permissions'', F16), (''uid'', F32), (''gid'', F32),
     (''length'', F64), (''access_timestamp'', F64), (''modification_timestamp'', F64),
     (''status_change_timestamp'', F64)]"

definition ReadFileRequest :: layout where
  "ReadFileRequest = [(''file_id'', F16), (''length_to_read'', F8)]"

definition ReadFileResponse :: layout where
  "ReadFileResponse = [(''error_code'', F8),
     (''buffer'', Fchars (unat FILE_MAX_READ_BUFFER_LENGTH)), (''length_read'', F8)]"

definition ReadFileAsyncRequest :: layout where
  "ReadFileAsyncRequest = [(''file_id'', F16), (''length_to_read'', F64)]"

definition AbortAsyncFileReadRequest :: layout where
  "AbortAsyncFileReadRequest = [(''file_id'', F16)]"

definition AbortAsyncFileReadResponse :: layout where
  "AbortAsyncFileReadResponse = [(''error_code'', F8)]"

definition WriteFileRequest :: layout where
  "WriteFileRequest = [(''file_id'', F16),
     (''buffer'', Fchars (unat FILE_MAX_WRITE_BUFFER_LENGTH)), (''length_to_write'', F8)]"

definition WriteFileResponse :: layout where
  "WriteFileResponse = [(''error_code'', F8), (''length_written'', F8)]"

definition WriteFileUncheckedRequest :: layout where
  "WriteFileUncheckedRequest = [(''file_id'', F16),
     (''buffer'', Fchars (unat FILE_MAX_WRITE_UNCHECKED_BUFFER_LENGTH)), (''length_to_write'', F8)]"

definition WriteFileAsyncRequest :: layout where
  "WriteFileAsyncRequest = [(''file_id'', F16),
     (''buffer'', Fchars (unat FILE_MAX_WRITE_ASYNC_BUFFER_LENGTH)), (''length_to_write'', F8)]"

definition SetFilePositionRequest :: layout where
  "SetFilePositionRequest = [(''file_id'', F16), (''offset'', F64), (''origin'', F8)]"

definition SetFilePositionResponse :: layout where
  "SetFilePositionResponse = [(''error_code'', F8), (''position'', F64)]"

definition GetFilePositionRequest :: layout where
  "GetFilePositionRequest = [(''file_id'', F16)]"

definition GetFilePositionResponse :: layout where
  "GetFilePositionResponse = [(''error_code'', F8), (''position'', F64)]"

definition SetFileEventsRequest :: layout where
  "SetFileEventsRequest = [(''file_id'', F16), (''events'', F16)]"

definition SetFileEventsResponse :: layout where
  "SetFileEventsResponse = [(''error_code'', F8)]"

definition GetFileEventsRequest :: layout where
  "GetFileEventsRequest = [(''file_id'', F16)]"

definition GetFileEventsResponse :: layout where
  "GetFileEventsResponse = [(''error_code'', F8), (''events'', F16)]"

definition AsyncFileReadCallback :: layout where
  "AsyncFileReadCallback = [(''file_id'', F16), (''error_code'', F8),
     (''buffer'', Fchars (unat FILE_MAX_READ_ASYNC_BUFFER_LENGTH)), (''length_read'', F8)]"

definition AsyncFileWriteCallback :: layout where
  "AsyncFileWriteCallback = [(''file_id'', F16), (''error_code'', F8), (''length_written'', F8)]"

definition FileEventsOccurredCallback :: layout where
  "FileEventsOccurredCallback = [(''file_id'', F16), (''events'', F16)]"

text \<open>Directory\<close>

definition OpenDirectoryRequest :: layout where
  "OpenDirectoryRequest = [(''name_string_id'', F16), (''session_id'', F16)]"

definition OpenDirectoryResponse :: layout where
  "OpenDirectoryResponse = [(''error_code'', F8), (''directory_id'', F16)]"

definition GetDirectoryNameRequest :: layout where
  "GetDirectoryNameRequest = [(''directory_id'', F16), (''session_id'', F16)]"

definition GetDirectoryNameResponse :: layout where
  "GetDirectoryNameResponse = [(''error_code'', F8), (''name_string_id'', F16)]"

definition GetNextDirectoryEntryRequest :: layout where
  "GetNextDirectoryEntryRequest = [(''directory_id'', F16), (''session_id'', F16)]"

definition GetNextDirectoryEntryResponse :: layout where
  "GetNextDirectoryEntryResponse = [(''error_code'', F8), (''name_string_id'', F16),
     (''type'', F8)]"

definition RewindDirectoryRequest :: layout where
  "RewindDirectoryRequest = [(''directory_id'', F16)]"

definition RewindDirectoryResponse :: layout where
  "RewindDirectoryResponse = [(''error_code'', F8)]"

definition CreateDirectoryRequest :: layout where
  "CreateDirectoryRequest = [(''name_string_id'', F16), (''flags'', F32),
     (''permissions'', F16), (''uid'', F32), (''gid'', F32)]"

definition CreateDirectoryResponse :: layout where
  "CreateDirectoryResponse = [(''error_code'', F8)]"

text \<open>Process\<close>

definition GetProcessesRequest :: layout where
  "GetProcessesRequest = [(''session_id'', F16)]"

definition GetProcessesResponse :: layout where
  "GetProcessesResponse = [(''error_code'', F8), (''processes_list_id'', F16)]"

definition SpawnProcessRequest :: layout where
  "SpawnProcessRequest = [(''executable_string_id'', F16), (''arguments_list_id'', F16),
     (''environment_list_id'', F16), (''working_directory_string_id'', F16), (''uid'', F32),
     (''gid'', F32), (''stdin_file_id'', F16), (''stdout_file_id'', F16),
     (''stderr_file_id'', F16), (''session_id'', F16)]"

definition SpawnProcessResponse :: layout where
  "SpawnProcessResponse = [(''error_code'', F8), (''process_id'', F16)]"

definition KillProcessRequest :: layout where
  "KillProcessRequest = [(''process_id'', F16), (''signal'', F8)]"

definition KillProcessResponse :: layout where
  "KillProcessResponse = [(''error_code'', F8)]"

definition GetProcessCommandRequest :: layout where
  "GetProcessCommandRequest = [(''process_id'', F16), (''session_id'', F16)]"

definition GetProcessCommandResponse :: layout where
  "GetProcessCommandResponse = [(''error_code'', F8), (''executable_string_id'', F16),
     (''arguments_list_id'', F16), (''environment_list_id'', F16),
     (''working_directory_string_id'', F16)]"

definition GetProcessIdentityRequest :: layout where
  "GetProcessIdentityRequest = [(''process_id'', F16)]"

definition GetProcessIdentityResponse :: layout where
  "GetProcessIdentityResponse = [(''error_code'', F8), (''pid'', F32), (''uid'', F32),
     (''gid'', F32)]"

definition GetProcessStdioRequest :: layout where
  "GetProcessStdioRequest = [(''process_id'', F16), (''session_id'', F16)]"

definition GetProcessStdioResponse :: layout where
  "GetProcessStdioResponse = [(''error_code'', F8), (''stdin_file_id'', F16),
     (''stdout_file_id'', F16), (''stderr_file_id'', F16)]"

definition GetProcessStateRequest :: layout where
  "GetProcessStateRequest = [(''process_id'', F16)]"

definition GetProcessStateResponse :: layout where
  "GetProcessStateResponse = [(''error_code'', F8), (''state'', F8), (''timestamp'', F64),
     (''exit_code'', F8)]"

definition ProcessStateChangedCallback :: layout where
  "ProcessStateChangedCallback = [(''process_id'', F16), (''state'', F8), (''timestamp'', F64),
     (''exit_code'', F8)]"

text \<open>Program\<close>

definition GetProgramsRequest :: layout where
  "GetProgramsRequest = [(''session_id'', F16)]"

definition GetProgramsResponse :: layout where
  "GetProgramsResponse = [(''error_code'', F8), (''programs_list_id'', F16)]"

definition DefineProgramRequest :: layout where
  "DefineProgramRequest = [(''identifier_string_id'', F16), (''session_id'', F16)]"

definition DefineProgramResponse :: layout where
  "DefineProgramResponse = [(''error_code'', F8), (''program_id'', F16)]"

definition PurgeProgramRequest :: layout where
  "PurgeProgramRequest = [(''program_id'', F16), (''cookie'', F32)]"

definition PurgeProgramResponse :: layout where
  "PurgeProgramResponse = [(''error_code'', F8)]"

definition GetProgramIdentifierRequest :: layout where
  "GetProgramIdentifierRequest = [(''program_id'', F16), (''session_id'', F16)]"

definition GetProgramIdentifierResponse :: layout where
  "GetProgramIdentifierResponse = [(''error_code'', F8), (''identifier_string_id'', F16)]"

definition GetProgramRootDirectoryRequest :: layout where
  "GetProgramRootDirectoryRequest = [(''program_id'', F16), (''session_id'', F16)]"

definition GetProgramRootDirectoryResponse :: layout where
  "GetProgramRootDirectoryResponse = [(''error_code'', F8), (''root_directory_string_id'', F16)]"

definition SetProgramCommandRequest :: layout where
  "SetProgramCommandRequest = [(''program_id'', F16), (''executable_string_id'', F16),
     (''arguments_list_id'', F16), (''environment_list_id'', F16),
     (''working_directory_string_id'', F16)]"

definition SetProgramCommandResponse :: layout where
  "SetProgramCommandResponse = [(''error_code'', F8)]"

definition GetProgramCommandRequest :: layout where
  "GetProgramCommandRequest = [(''program_id'', F16), (''session_id'', F16)]"

definition GetProgramCommandResponse :: layout where
  "GetProgramCommandResponse = [(''error_code'', F8), (''executable_string_id'', F16),
     (''arguments_list_id'', F16), (''environment_list_id'', F16),
     (''working_directory_string_id'', F16)]"

definition SetProgramStdioRedirectionRequest :: layout where
  "SetProgramStdioRedirectionRequest = [(''program_id'', F16), (''stdin_redirection'', F8),
     (''stdin_file_name_string_id'', F16), (''stdout_redirection'', F8),
     (''stdout_file_name_string_id'', F16), (''stderr_redirection'', F8),
     (''stderr_file_name_string_id'', F16)]"

definition SetProgramStdioRedirectionResponse :: layout where
  "SetProgramStdioRedirectionResponse = [(''error_code'', F8)]"

definition GetProgramStdioRedirectionRequest :: layout where
  "GetProgramStdioRedirectionRequest = [(''program_id'', F16), (''session_id'', F16)]"

definition GetProgramStdioRedirectionResponse :: layout where
  "GetProgramStdioRedirectionResponse = [(''error_code'', F8), (''stdin_redirection'', F8),
     (''stdin_file_name_string_id'', F16), (''stdout_redirection'', F8),
     (''stdout_file_name_string_id'', F16), (''stderr_redirection'', F8),
     (''stderr_file_name_string_id'', F16)]"

definition SetProgramScheduleRequest :: layout where
  "SetProgramScheduleRequest = [(''program_id'', F16), (''start_mode'', F8),
     (''continue_after_error'', F8), (''start_interval'', F32), (''start_fields_string_id'', F16)]"

definition SetProgramScheduleResponse :: layout where
  "SetProgramScheduleResponse = [(''error_code'', F8)]"

definition GetProgramScheduleRequest :: layout where
  "GetProgramScheduleRequest = [(''program_id'', F16), (''session_id'', F16)]"

definition GetProgramScheduleResponse :: layout where
  "GetProgramScheduleResponse = [(''error_code'', F8), (''start_mode'', F8),
     (''continue_after_error'', F8), (''start_interval'', F32), (''start_fields_string_id'', F16)]"

definition GetProgramSchedulerStateRequest :: layout where
  "GetProgramSchedulerStateRequest = [(''program_id'', F16), (''session_id'', F16)]"

definition GetProgramSchedulerStateResponse :: layout where
  "GetProgramSchedulerStateResponse = [(''error_code'', F8), (''state'', F8),
     (''timestamp'', F64), (''message_string_id'', F16)]"

definition ContinueProgramScheduleRequest :: layout where
  "ContinueProgramScheduleRequest = [(''program_id'', F16)]"

definition ContinueProgramScheduleResponse :: layout where
  "ContinueProgramScheduleResponse = [(''error_code'', F8)]"

definition StartProgramRequest :: layout where
  "StartProgramRequest = [(''program_id'', F16)]"

definition StartProgramResponse :: layout where
  "StartProgramResponse = [(''error_code'', F8)]"

definition GetLastSpawnedProgramProcessRequest :: layout where
  "GetLastSpawnedProgramProcessRequest = [(''program_id'', F16), (''session_id'', F16)]"

definition GetLastSpawnedProgramProcessResponse :: layout where
  "GetLastSpawnedProgramProcessResponse = [(''error_code'', F8), (''process_id'', F16),
     (''timestamp'', F64)]"

definition GetCustomProgramOptionNamesRequest :: layout where
  "GetCustomProgramOptionNamesRequest = [(''program_id'', F16), (''session_id'', F16)]"

definition GetCustomProgramOptionNamesResponse :: layout where
  "GetCustomProgramOptionNamesResponse = [(''error_code'', F8), (''names_list_id'', F16)]"

definition SetCustomProgramOptionValueRequest :: layout where
  "SetCustomProgramOptionValueRequest = [(''program_id'', F16), (''name_string_id'', F16),
     (''value_string_id'', F16)]"

definition SetCustomProgramOptionValueResponse :: layout where
  "SetCustomProgramOptionValueResponse = [(''error_code'', F8)]"

definition GetCustomProgramOptionValueRequest :: layout where
  "GetCustomProgramOptionValueRequest = [(''program_id'', F16), (''name_string_id'', F16),
     (''session_id'', F16)]"

definition GetCustomProgramOptionValueResponse :: layout where
  "GetCustomProgramOptionValueResponse = [(''error_code'', F8), (''value_string_id'', F16)]"

definition RemoveCustomProgramOptionRequest :: layout where
  "RemoveCustomProgramOptionRequest = [(''program_id'', F16), (''name_string_id'', F16)]"

definition RemoveCustomProgramOptionResponse :: layout where
  "RemoveCustomProgramOptionResponse = [(''error_code'', F8)]"

definition ProgramSchedulerStateChangedCallback :: layout where
  "ProgramSchedulerStateChangedCallback = [(''program_id'', F16)]"

definition ProgramProcessSpawnedCallback :: layout where
  "ProgramProcessSpawnedCallback = [(''program_id'', F16)]"

text \<open>Misc\<close>

definition GetIdentityRequest :: layout where
  "GetIdentityRequest = []"

definition GetIdentityResponse :: layout where
  "GetIdentityResponse = [(''uid'', Fchars 8), (''connected_uid'', Fchars 8),
     (''position'', F8), (''hardware_version'', Fchars 3), (''firmware_version'', Fchars 3),
     (''device_identifier'', F16)]"

text \<open>All structs, in the order of the file.\<close>

definition api_packets :: "layout list" where
  "api_packets =
    [CreateSessionRequest, CreateSessionResponse, ExpireSessionRequest, ExpireSessionResponse,
     ExpireSessionUncheckedRequest, KeepSessionAliveRequest, KeepSessionAliveResponse,
     ReleaseObjectRequest, ReleaseObjectResponse, ReleaseObjectUncheckedRequest,
     AllocateStringRequest, AllocateStringResponse, TruncateStringRequest,
     TruncateStringResponse, GetStringLengthRequest, GetStringLengthResponse,
     SetStringChunkRequest, SetStringChunkResponse, GetStringChunkRequest,
     GetStringChunkResponse, AllocateListRequest, AllocateListResponse, GetListLengthRequest,
     GetListLengthResponse, GetListItemRequest, GetListItemResponse, AppendToListRequest,
     AppendToListResponse, RemoveFromListRequest, RemoveFromListResponse, OpenFileRequest,
     OpenFileResponse, CreatePipeRequest, CreatePipeResponse, GetFileInfoRequest,
     GetFileInfoResponse, ReadFileRequest, ReadFileResponse, ReadFileAsyncRequest,
     AbortAsyncFileReadRequest, AbortAsyncFileReadResponse, WriteFileRequest, WriteFileResponse,
     WriteFileUncheckedRequest, WriteFileAsyncRequest, SetFilePositionRequest,
     SetFilePositionResponse, GetFilePositionRequest, GetFilePositionResponse,
     SetFileEventsRequest, SetFileEventsResponse, GetFileEventsRequest, GetFileEventsResponse,
     AsyncFileReadCallback, AsyncFileWriteCallback, FileEventsOccurredCallback,
     OpenDirectoryRequest, OpenDirectoryResponse, GetDirectoryNameRequest,
     GetDirectoryNameResponse, GetNextDirectoryEntryRequest, GetNextDirectoryEntryResponse,
     RewindDirectoryRequest, RewindDirectoryResponse, CreateDirectoryRequest,
     CreateDirectoryResponse, GetProcessesRequest, GetProcessesResponse, SpawnProcessRequest,
     SpawnProcessResponse, KillProcessRequest, KillProcessResponse, GetProcessCommandRequest,
     GetProcessCommandResponse, GetProcessIdentityRequest, GetProcessIdentityResponse,
     GetProcessStdioRequest, GetProcessStdioResponse, GetProcessStateRequest,
     GetProcessStateResponse, ProcessStateChangedCallback, GetProgramsRequest,
     GetProgramsResponse, DefineProgramRequest, DefineProgramResponse, PurgeProgramRequest,
     PurgeProgramResponse, GetProgramIdentifierRequest, GetProgramIdentifierResponse,
     GetProgramRootDirectoryRequest, GetProgramRootDirectoryResponse, SetProgramCommandRequest,
     SetProgramCommandResponse, GetProgramCommandRequest, GetProgramCommandResponse,
     SetProgramStdioRedirectionRequest, SetProgramStdioRedirectionResponse,
     GetProgramStdioRedirectionRequest, GetProgramStdioRedirectionResponse,
     SetProgramScheduleRequest, SetProgramScheduleResponse, GetProgramScheduleRequest,
     GetProgramScheduleResponse, GetProgramSchedulerStateRequest,
     GetProgramSchedulerStateResponse, ContinueProgramScheduleRequest,
     ContinueProgramScheduleResponse, StartProgramRequest, StartProgramResponse,
     GetLastSpawnedProgramProcessRequest, GetLastSpawnedProgramProcessResponse,
     GetCustomProgramOptionNamesRequest, GetCustomProgramOptionNamesResponse,
     SetCustomProgramOptionValueRequest, SetCustomProgramOptionValueResponse,
     GetCustomProgramOptionValueRequest, GetCustomProgramOptionValueResponse,
     RemoveCustomProgramOptionRequest, RemoveCustomProgramOptionResponse,
     ProgramSchedulerStateChangedCallback, ProgramProcessSpawnedCallback, GetIdentityRequest,
     GetIdentityResponse]"

lemmas layout_defs = 
  CreateSessionRequest_def CreateSessionResponse_def ExpireSessionRequest_def ExpireSessionResponse_def
  ExpireSessionUncheckedRequest_def KeepSessionAliveRequest_def KeepSessionAliveResponse_def
  ReleaseObjectRequest_def ReleaseObjectResponse_def ReleaseObjectUncheckedRequest_def
  AllocateStringRequest_def AllocateStringResponse_def TruncateStringRequest_def
  TruncateStringResponse_def GetStringLengthRequest_def GetStringLengthResponse_def
  SetStringChunkRequest_def SetStringChunkResponse_def GetStringChunkRequest_def
  GetStringChunkResponse_def AllocateListRequest_def AllocateListResponse_def GetListLengthRequest_def
  GetListLengthResponse_def GetListItemRequest_def GetListItemResponse_def AppendToListRequest_def
  AppendToListResponse_def RemoveFromListRequest_def RemoveFromListResponse_def OpenFileRequest_def
  OpenFileResponse_def CreatePipeRequest_def CreatePipeResponse_def GetFileInfoRequest_def
  GetFileInfoResponse_def ReadFileRequest_def ReadFileResponse_def ReadFileAsyncRequest_def
  AbortAsyncFileReadRequest_def AbortAsyncFileReadResponse_def WriteFileRequest_def WriteFileResponse_def
  WriteFileUncheckedRequest_def WriteFileAsyncRequest_def SetFilePositionRequest_def
  SetFilePositionResponse_def GetFilePositionRequest_def GetFilePositionResponse_def
  SetFileEventsRequest_def SetFileEventsResponse_def GetFileEventsRequest_def GetFileEventsResponse_def
  AsyncFileReadCallback_def AsyncFileWriteCallback_def FileEventsOccurredCallback_def
  OpenDirectoryRequest_def OpenDirectoryResponse_def GetDirectoryNameRequest_def
  GetDirectoryNameResponse_def GetNextDirectoryEntryRequest_def GetNextDirectoryEntryResponse_def
  RewindDirectoryRequest_def RewindDirectoryResponse_def CreateDirectoryRequest_def
  CreateDirectoryResponse_def GetProcessesRequest_def GetProcessesResponse_def SpawnProcessRequest_def
  SpawnProcessResponse_def KillProcessRequest_def KillProcessResponse_def GetProcessCommandRequest_def
  GetProcessCommandResponse_def GetProcessIdentityRequest_def GetProcessIdentityResponse_def
  GetProcessStdioRequest_def GetProcessStdioResponse_def GetProcessStateRequest_def
  GetProcessStateResponse_def ProcessStateChangedCallback_def GetProgramsRequest_def
  GetProgramsResponse_def DefineProgramRequest_def DefineProgramResponse_def PurgeProgramRequest_def
  PurgeProgramResponse_def GetProgramIdentifierRequest_def GetProgramIdentifierResponse_def
  GetProgramRootDirectoryRequest_def GetProgramRootDirectoryResponse_def SetProgramCommandRequest_def
  SetProgramCommandResponse_def GetProgramCommandRequest_def GetProgramCommandResponse_def
  SetProgramStdioRedirectionRequest_def SetProgramStdioRedirectionResponse_def
  GetProgramStdioRedirectionRequest_def GetProgramStdioRedirectionResponse_def
  SetProgramScheduleRequest_def SetProgramScheduleResponse_def GetProgramScheduleRequest_def
  GetProgramScheduleResponse_def GetProgramSchedulerStateRequest_def
  GetProgramSchedulerStateResponse_def ContinueProgramScheduleRequest_def
  ContinueProgramScheduleResponse_def StartProgramRequest_def StartProgramResponse_def
  GetLastSpawnedProgramProcessRequest_def GetLastSpawnedProgramProcessResponse_def
  GetCustomProgramOptionNamesRequest_def GetCustomProgramOptionNamesResponse_def
  SetCustomProgramOptionValueRequest_def SetCustomProgramOptionValueResponse_def
  GetCustomProgramOptionValueRequest_def GetCustomProgramOptionValueResponse_def
  RemoveCustomProgramOptionRequest_def RemoveCustomProgramOptionResponse_def
  ProgramSchedulerStateChangedCallback_def ProgramProcessSpawnedCallback_def GetIdentityRequest_def
  GetIdentityResponse_def

section \<open>Bytes\<close>

primrec le_bytes :: "nat \<Rightarrow> nat \<Rightarrow> u8 list" where
  "le_bytes 0 x = []"
| "le_bytes (Suc n) x = of_nat (x mod 256) # le_bytes n (x div 256)"

primrec le_value :: "u8 list \<Rightarrow> nat" where
  "le_value [] = 0"
| "le_value (b # bs) = unat b + 256 * le_value bs"

fun bytes_of :: "val \<Rightarrow> u8 list" where
  "bytes_of (V8 x) = le_bytes 1 (unat x)"
| "bytes_of (V16 x) = le_bytes 2 (unat x)"
| "bytes_of (V32 x) = le_bytes 4 (unat x)"
| "bytes_of (V64 x) = le_bytes 8 (unat x)"
| "bytes_of (Vchars cs) = map (\<lambda>c. of_nat (of_char c)) cs"

fun parse_field :: "field \<Rightarrow> u8 list \<Rightarrow> val" where
  "parse_field F8 bs = V8 (of_nat (le_value bs))"
| "parse_field F16 bs = V16 (of_nat (le_value bs))"
| "parse_field F32 bs = V32 (of_nat (le_value bs))"
| "parse_field F64 bs = V64 (of_nat (le_value bs))"
| "parse_field (Fchars n) bs = Vchars (map (\<lambda>b. char_of (unat b)) bs)"

text \<open>Reading the members of a struct from the bytes behind the header, and writing them.\<close>

primrec parse_body :: "layout \<Rightarrow> u8 list \<Rightarrow> members option" where
  "parse_body [] bs = (if bs = [] then Some [] else None)"
| "parse_body (x # l) bs = (case x of (n, f) \<Rightarrow>
     if length bs < field_size f then None
     else do {
       m \<leftarrow> parse_body l (drop (field_size f) bs);
       Some ((n, parse_field f (take (field_size f) bs)) # m)
     })"

definition body_bytes :: "members \<Rightarrow> u8 list" where
  "body_bytes m = concat (map (bytes_of \<circ> snd) m)"

section \<open>Facts\<close>

lemma length_le_bytes [simp]: "length (le_bytes n x) = n"
  by (induction n arbitrary: x) simp_all

lemma le_value_bytes: "le_value (le_bytes n x) = x mod 256 ^ n"
proof (induction n arbitrary: x)
  case (Suc n)
  have "unat (of_nat (x mod 256) :: u8) = x mod 256"
    by (simp add: unsigned_of_nat take_bit_nat_eq_self)
  then show ?case using Suc by (simp add: mod_mult2_eq)
qed simp

lemma le_value_less: "le_value bs < 256 ^ length bs"
proof (induction bs)
  case (Cons b bs)
  have "unat b < 256" using unsigned_less [of b] by simp
  then show ?case using Cons by simp
qed simp

lemma le_bytes_value: "le_bytes (length bs) (le_value bs) = bs"
proof (induction bs)
  case (Cons b bs)
  have "unat b < 256" using unsigned_less [of b] by simp
  then show ?case using Cons by simp
qed simp

lemma bytes_of_length: "fits f v \<Longrightarrow> length (bytes_of v) = field_size f"
  by (cases f; cases v) simp_all

lemma unat_less_byte: "unat (x :: 'a::len word) < 256 ^ k" if "2 ^ LENGTH('a) \<le> (256 :: nat) ^ k"
  using unsigned_less [of x] that by (rule order_less_le_trans)

lemma parse_bytes:
  assumes "fits f v"
  shows "parse_field f (bytes_of v) = v"
proof -
  have chars: "char_of (unat (of_nat (of_char c) :: u8)) = c" for c :: char
    by (simp add: unsigned_of_nat take_bit_nat_eq_self)
  have words: "unat (x :: u8) < 256 ^ 1" "unat (y :: u16) < 256 ^ 2" "unat (z :: u32) < 256 ^ 4"
    "unat (w :: u64) < 256 ^ 8" for x y z w
    by (rule unat_less_byte, simp)+
  show ?thesis
    using assms by (cases f; cases v)
      (simp_all add: le_value_bytes words [simplified] mod_less del: le_bytes.simps, simp add: chars comp_def)
qed

lemma parse_field_fits: "length bs = field_size f \<Longrightarrow> fits f (parse_field f bs)"
  by (cases f) simp_all

lemma bytes_of_parse:
  assumes "length bs = field_size f"
  shows "bytes_of (parse_field f bs) = bs"
proof -
  have small: "unat b mod 256 = unat b" for b :: u8
  proof -
    have "unat b < 256" using unsigned_less [of b] by simp
    then show ?thesis by simp
  qed
  have "unat (of_nat (le_value bs) :: u8) = le_value bs" if "length bs = 1"
    using le_value_less [of bs] that by (simp add: unsigned_of_nat take_bit_nat_eq_self)
  moreover have "unat (of_nat (le_value bs) :: u16) = le_value bs" if "length bs = 2"
    using le_value_less [of bs] that by (simp add: unsigned_of_nat take_bit_nat_eq_self)
  moreover have "unat (of_nat (le_value bs) :: u32) = le_value bs" if "length bs = 4"
    using le_value_less [of bs] that by (simp add: unsigned_of_nat take_bit_nat_eq_self)
  moreover have "unat (of_nat (le_value bs) :: u64) = le_value bs" if "length bs = 8"
    using le_value_less [of bs] that by (simp add: unsigned_of_nat take_bit_nat_eq_self)
  ultimately show ?thesis
    using assms le_bytes_value [of bs]
    by (cases f) (simp_all add: small comp_def del: le_bytes.simps)
qed

lemma parse_body_some:
  assumes "length bs = body_size l"
  shows "\<exists>m. parse_body l bs = Some m \<and> list_all2 (\<lambda>(n, f) (k, v). n = k \<and> fits f v) l m \<and> body_bytes m = bs"
  using assms
proof (induction l arbitrary: bs)
  case Nil
  then show ?case by (simp add: body_size_def body_bytes_def)
next
  case (Cons x l)
  obtain n f where x: "x = (n, f)" by (cases x)
  have len: "field_size f \<le> length bs" "length (drop (field_size f) bs) = body_size l"
    using Cons.prems x by (simp_all add: body_size_def)
  from Cons.IH [OF len(2)] obtain m where m: "parse_body l (drop (field_size f) bs) = Some m"
    "list_all2 (\<lambda>(n, f) (k, v). n = k \<and> fits f v) l m" "body_bytes m = drop (field_size f) bs" by blast
  have f: "length (take (field_size f) bs) = field_size f" using len(1) by simp
  show ?case
    using m x len(1) parse_field_fits [OF f] bytes_of_parse [OF f] by (simp add: body_bytes_def not_less)
qed

lemma parse_body_bytes:
  assumes "list_all2 (\<lambda>(n, f) (k, v). n = k \<and> fits f v) l m"
  shows "parse_body l (body_bytes m) = Some m \<and> length (body_bytes m) = body_size l"
  using assms
proof (induction l m rule: list_all2_induct)
  case Nil
  then show ?case by (simp add: body_size_def body_bytes_def)
next
  case (Cons x l y m)
  then show ?case
    by (auto simp: body_size_def body_bytes_def bytes_of_length parse_bytes split: prod.splits)
qed

end
