(* ===== verification/Api_Function.thy ===== *)
theory Api_Function
  imports Api_Packet
begin

text \<open>
  The numbers of the functions and callbacks of the API (\<open>APIFunctionID\<close> of \<open>api.c\<close>;
  \<open>FUNCTION_GET_IDENTITY\<close> is defined by daemonlib) and their names.
\<close>

definition FUNCTION_CREATE_SESSION :: u8 where "FUNCTION_CREATE_SESSION = 1"
definition FUNCTION_EXPIRE_SESSION :: u8 where "FUNCTION_EXPIRE_SESSION = 2"
definition FUNCTION_EXPIRE_SESSION_UNCHECKED :: u8 where "FUNCTION_EXPIRE_SESSION_UNCHECKED = 3"
definition FUNCTION_KEEP_SESSION_ALIVE :: u8 where "FUNCTION_KEEP_SESSION_ALIVE = 4"
definition FUNCTION_RELEASE_OBJECT :: u8 where "FUNCTION_RELEASE_OBJECT = 5"
definition FUNCTION_RELEASE_OBJECT_UNCHECKED :: u8 where "FUNCTION_RELEASE_OBJECT_UNCHECKED = 6"
definition FUNCTION_ALLOCATE_STRING :: u8 where "FUNCTION_ALLOCATE_STRING = 7"
definition FUNCTION_TRUNCATE_STRING :: u8 where "FUNCTION_TRUNCATE_STRING = 8"
definition FUNCTION_GET_STRING_LENGTH :: u8 where "FUNCTION_GET_STRING_LENGTH = 9"
definition FUNCTION_SET_STRING_CHUNK :: u8 where "FUNCTION_SET_STRING_CHUNK = 10"
definition FUNCTION_GET_STRING_CHUNK :: u8 where "FUNCTION_GET_STRING_CHUNK = 11"
definition FUNCTION_ALLOCATE_LIST :: u8 where "FUNCTION_ALLOCATE_LIST = 12"
definition FUNCTION_GET_LIST_LENGTH :: u8 where "FUNCTION_GET_LIST_LENGTH = 13"
definition FUNCTION_GET_LIST_ITEM :: u8 where "FUNCTION_GET_LIST_ITEM = 14"
definition FUNCTION_APPEND_TO_LIST :: u8 where "FUNCTION_APPEND_TO_LIST = 15"
definition FUNCTION_REMOVE_FROM_LIST :: u8 where "FUNCTION_REMOVE_FROM_LIST = 16"
definition FUNCTION_OPEN_FILE :: u8 where "FUNCTION_OPEN_FILE = 17"
definition FUNCTION_CREATE_PIPE :: u8 where "FUNCTION_CREATE_PIPE = 18"
definition FUNCTION_GET_FILE_INFO :: u8 where "FUNCTION_GET_FILE_INFO = 19"
definition FUNCTION_READ_FILE :: u8 where "FUNCTION_READ_FILE = 20"
definition FUNCTION_READ_FILE_ASYNC :: u8 where "FUNCTION_READ_FILE_ASYNC = 21"
definition FUNCTION_ABORT_ASYNC_FILE_READ :: u8 where "FUNCTION_ABORT_ASYNC_FILE_READ = 22"
definition FUNCTION_WRITE_FILE :: u8 where "FUNCTION_WRITE_FILE = 23"
definition FUNCTION_WRITE_FILE_UNCHECKED :: u8 where "FUNCTION_WRITE_FILE_UNCHECKED = 24"
definition FUNCTION_WRITE_FILE_ASYNC :: u8 where "FUNCTION_WRITE_FILE_ASYNC = 25"
definition FUNCTION_SET_FILE_POSITION :: u8 where "FUNCTION_SET_FILE_POSITION = 26"
definition FUNCTION_GET_FILE_POSITION :: u8 where "FUNCTION_GET_FILE_POSITION = 27"
definition FUNCTION_SET_FILE_EVENTS :: u8 where "FUNCTION_SET_FILE_EVENTS = 28"
definition FUNCTION_GET_FILE_EVENTS :: u8 where "FUNCTION_GET_FILE_EVENTS = 29"
definition CALLBACK_ASYNC_FILE_READ :: u8 where "CALLBACK_ASYNC_FILE_READ = 30"
definition CALLBACK_ASYNC_FILE_WRITE :: u8 where "CALLBACK_ASYNC_FILE_WRITE = 31"
definition CALLBACK_FILE_EVENTS_OCCURRED :: u8 where "CALLBACK_FILE_EVENTS_OCCURRED = 32"
definition FUNCTION_OPEN_DIRECTORY :: u8 where "FUNCTION_OPEN_DIRECTORY = 33"
definition FUNCTION_GET_DIRECTORY_NAME :: u8 where "FUNCTION_GET_DIRECTORY_NAME = 34"
definition FUNCTION_GET_NEXT_DIRECTORY_ENTRY :: u8 where "FUNCTION_GET_NEXT_DIRECTORY_ENTRY = 35"
definition FUNCTION_REWIND_DIRECTORY :: u8 where "FUNCTION_REWIND_DIRECTORY = 36"
definition FUNCTION_CREATE_DIRECTORY :: u8 where "FUNCTION_CREATE_DIRECTORY = 37"
definition FUNCTION_GET_PROCESSES :: u8 where "FUNCTION_GET_PROCESSES = 38"
definition FUNCTION_SPAWN_PROCESS :: u8 where "FUNCTION_SPAWN_PROCESS = 39"
definition FUNCTION_KILL_PROCESS :: u8 where "FUNCTION_KILL_PROCESS = 40"
definition FUNCTION_GET_PROCESS_COMMAND :: u8 where "FUNCTION_GET_PROCESS_COMMAND = 41"
definition FUNCTION_GET_PROCESS_IDENTITY :: u8 where "FUNCTION_GET_PROCESS_IDENTITY = 42"
definition FUNCTION_GET_PROCESS_STDIO :: u8 where "FUNCTION_GET_PROCESS_STDIO = 43"
definition FUNCTION_GET_PROCESS_STATE :: u8 where "FUNCTION_GET_PROCESS_STATE = 44"
definition CALLBACK_PROCESS_STATE_CHANGED :: u8 where "CALLBACK_PROCESS_STATE_CHANGED = 45"
definition FUNCTION_GET_PROGRAMS :: u8 where "FUNCTION_GET_PROGRAMS = 46"
definition FUNCTION_DEFINE_PROGRAM :: u8 where "FUNCTION_DEFINE_PROGRAM = 47"
definition FUNCTION_PURGE_PROGRAM :: u8 where "FUNCTION_PURGE_PROGRAM = 48"
definition FUNCTION_GET_PROGRAM_IDENTIFIER :: u8 where "FUNCTION_GET_PROGRAM_IDENTIFIER = 49"
definition FUNCTION_GET_PROGRAM_ROOT_DIRECTORY :: u8 where "FUNCTION_GET_PROGRAM_ROOT_DIRECTORY = 50"
definition FUNCTION_SET_PROGRAM_COMMAND :: u8 where "FUNCTION_SET_PROGRAM_COMMAND = 51"
definition FUNCTION_GET_PROGRAM_COMMAND :: u8 where "FUNCTION_GET_PROGRAM_COMMAND = 52"
definition FUNCTION_SET_PROGRAM_STDIO_REDIRECTION :: u8 where "FUNCTION_SET_PROGRAM_STDIO_REDIRECTION = 53"
definition FUNCTION_GET_PROGRAM_STDIO_REDIRECTION :: u8 where "FUNCTION_GET_PROGRAM_STDIO_REDIRECTION = 54"
definition FUNCTION_SET_PROGRAM_SCHEDULE :: u8 where "FUNCTION_SET_PROGRAM_SCHEDULE = 55"
definition FUNCTION_GET_PROGRAM_SCHEDULE :: u8 where "FUNCTION_GET_PROGRAM_SCHEDULE = 56"
definition FUNCTION_GET_PROGRAM_SCHEDULER_STATE :: u8 where "FUNCTION_GET_PROGRAM_SCHEDULER_STATE = 57"
definition FUNCTION_CONTINUE_PROGRAM_SCHEDULE :: u8 where "FUNCTION_CONTINUE_PROGRAM_SCHEDULE = 58"
definition FUNCTION_START_PROGRAM :: u8 where "FUNCTION_START_PROGRAM = 59"
definition FUNCTION_GET_LAST_SPAWNED_PROGRAM_PROCESS :: u8 where "FUNCTION_GET_LAST_SPAWNED_PROGRAM_PROCESS = 60"
definition FUNCTION_GET_CUSTOM_PROGRAM_OPTION_NAMES :: u8 where "FUNCTION_GET_CUSTOM_PROGRAM_OPTION_NAMES = 61"
definition FUNCTION_SET_CUSTOM_PROGRAM_OPTION_VALUE :: u8 where "FUNCTION_SET_CUSTOM_PROGRAM_OPTION_VALUE = 62"
definition FUNCTION_GET_CUSTOM_PROGRAM_OPTION_VALUE :: u8 where "FUNCTION_GET_CUSTOM_PROGRAM_OPTION_VALUE = 63"
definition FUNCTION_REMOVE_CUSTOM_PROGRAM_OPTION :: u8 where "FUNCTION_REMOVE_CUSTOM_PROGRAM_OPTION = 64"
definition CALLBACK_PROGRAM_SCHEDULER_STATE_CHANGED :: u8 where "CALLBACK_PROGRAM_SCHEDULER_STATE_CHANGED = 65"
definition CALLBACK_PROGRAM_PROCESS_SPAWNED :: u8 where "CALLBACK_PROGRAM_PROCESS_SPAWNED = 66"
definition FUNCTION_GET_IDENTITY :: u8 where "FUNCTION_GET_IDENTITY = 255"

lemmas api_function_defs =
  FUNCTION_CREATE_SESSION_def FUNCTION_EXPIRE_SESSION_def FUNCTION_EXPIRE_SESSION_UNCHECKED_def
  FUNCTION_KEEP_SESSION_ALIVE_def FUNCTION_RELEASE_OBJECT_def FUNCTION_RELEASE_OBJECT_UNCHECKED_def
  FUNCTION_ALLOCATE_STRING_def FUNCTION_TRUNCATE_STRING_def FUNCTION_GET_STRING_LENGTH_def
  FUNCTION_SET_STRING_CHUNK_def FUNCTION_GET_STRING_CHUNK_def FUNCTION_ALLOCATE_LIST_def
  FUNCTION_GET_LIST_LENGTH_def FUNCTION_GET_LIST_ITEM_def FUNCTION_APPEND_TO_LIST_def
  FUNCTION_REMOVE_FROM_LIST_def FUNCTION_OPEN_FILE_def FUNCTION_CREATE_PIPE_def
  FUNCTION_GET_FILE_INFO_def FUNCTION_READ_FILE_def FUNCTION_READ_FILE_ASYNC_def
  FUNCTION_ABORT_ASYNC_FILE_READ_def FUNCTION_WRITE_FILE_def FUNCTION_WRITE_FILE_UNCHECKED_def
  FUNCTION_WRITE_FILE_ASYNC_def FUNCTION_SET_FILE_POSITION_def FUNCTION_GET_FILE_POSITION_def
  FUNCTION_SET_FILE_EVENTS_def FUNCTION_GET_FILE_EVENTS_def CALLBACK_ASYNC_FILE_READ_def
  CALLBACK_ASYNC_FILE_WRITE_def CALLBACK_FILE_EVENTS_OCCURRED_def FUNCTION_OPEN_DIRECTORY_def
  FUNCTION_GET_DIRECTORY_NAME_def FUNCTION_GET_NEXT_DIRECTORY_ENTRY_def FUNCTION_REWIND_DIRECTORY_def
  FUNCTION_CREATE_DIRECTORY_def FUNCTION_GET_PROCESSES_def FUNCTION_SPAWN_PROCESS_def
  FUNCTION_KILL_PROCESS_def FUNCTION_GET_PROCESS_COMMAND_def FUNCTION_GET_PROCESS_IDENTITY_def
  FUNCTION_GET_PROCESS_STDIO_def FUNCTION_GET_PROCESS_STATE_def CALLBACK_PROCESS_STATE_CHANGED_def
  FUNCTION_GET_PROGRAMS_def FUNCTION_DEFINE_PROGRAM_def FUNCTION_PURGE_PROGRAM_def
  FUNCTION_GET_PROGRAM_IDENTIFIER_def FUNCTION_GET_PROGRAM_ROOT_DIRECTORY_def FUNCTION_SET_PROGRAM_COMMAND_def
  FUNCTION_GET_PROGRAM_COMMAND_def FUNCTION_SET_PROGRAM_STDIO_REDIRECTION_def FUNCTION_GET_PROGRAM_STDIO_REDIRECTION_def
  FUNCTION_SET_PROGRAM_SCHEDULE_def FUNCTION_GET_PROGRAM_SCHEDULE_def FUNCTION_GET_PROGRAM_SCHEDULER_STATE_def
  FUNCTION_CONTINUE_PROGRAM_SCHEDULE_def FUNCTION_START_PROGRAM_def FUNCTION_GET_LAST_SPAWNED_PROGRAM_PROCESS_def
  FUNCTION_GET_CUSTOM_PROGRAM_OPTION_NAMES_def FUNCTION_SET_CUSTOM_PROGRAM_OPTION_VALUE_def FUNCTION_GET_CUSTOM_PROGRAM_OPTION_VALUE_def
  FUNCTION_REMOVE_CUSTOM_PROGRAM_OPTION_def CALLBACK_PROGRAM_SCHEDULER_STATE_CHANGED_def CALLBACK_PROGRAM_PROCESS_SPAWNED_def
  FUNCTION_GET_IDENTITY_def

definition api_function_names :: "(u8 \<times> string) list" where
  "api_function_names = [
     (FUNCTION_CREATE_SESSION, ''create-session''),
     (FUNCTION_EXPIRE_SESSION, ''expire-session''),
     (FUNCTION_EXPIRE_SESSION_UNCHECKED, ''expire-session-unchecked''),
     (FUNCTION_KEEP_SESSION_ALIVE, ''keep-session-alive''),
     (FUNCTION_RELEASE_OBJECT, ''release-object''),
     (FUNCTION_RELEASE_OBJECT_UNCHECKED, ''release-object-unchecked''),
     (FUNCTION_ALLOCATE_STRING, ''allocate-string''),
     (FUNCTION_TRUNCATE_STRING, ''truncate-string''),
     (FUNCTION_GET_STRING_LENGTH, ''get-string-length''),
     (FUNCTION_SET_STRING_CHUNK, ''set-string-chunk''),
     (FUNCTION_GET_STRING_CHUNK, ''get-string-chunk''),
     (FUNCTION_ALLOCATE_LIST, ''allocate-list''),
     (FUNCTION_GET_LIST_LENGTH, ''get-list-length''),
     (FUNCTION_GET_LIST_ITEM, ''get-list-item''),
     (FUNCTION_APPEND_TO_LIST, ''append-to-list''),
     (FUNCTION_REMOVE_FROM_LIST, ''remove-from-list''),
     (FUNCTION_OPEN_FILE, ''open-file''),
     (FUNCTION_CREATE_PIPE, ''create-pipe''),
     (FUNCTION_GET_FILE_INFO, ''get-file-info''),
     (FUNCTION_READ_FILE, ''read-file''),
     (FUNCTION_READ_FILE_ASYNC, ''read-file-async''),
     (FUNCTION_ABORT_ASYNC_FILE_READ, ''abort-async-file-read''),
     (FUNCTION_WRITE_FILE, ''write-file''),
     (FUNCTION_WRITE_FILE_UNCHECKED, ''write-file-unchecked''),
     (FUNCTION_WRITE_FILE_ASYNC, ''write-file-async''),
     (FUNCTION_SET_FILE_POSITION, ''set-file-position''),
     (FUNCTION_GET_FILE_POSITION, ''get-file-position''),
     (FUNCTION_SET_FILE_EVENTS, ''set-file-events''),
     (FUNCTION_GET_FILE_EVENTS, ''get-file-events''),
     (CALLBACK_ASYNC_FILE_READ, ''async-file-read''),
     (CALLBACK_ASYNC_FILE_WRITE, ''async-file-write''),
     (CALLBACK_FILE_EVENTS_OCCURRED, ''file-events-occurred''),
     (FUNCTION_OPEN_DIRECTORY, ''open-directory''),
     (FUNCTION_GET_DIRECTORY_NAME, ''get-directory-name''),
     (FUNCTION_GET_NEXT_DIRECTORY_ENTRY, ''get-next-directory-entry''),
     (FUNCTION_REWIND_DIRECTORY, ''rewind-directory''),
     (FUNCTION_CREATE_DIRECTORY, ''create-directory''),
     (FUNCTION_GET_PROCESSES, ''get-processes''),
     (FUNCTION_SPAWN_PROCESS, ''spawn-process''),
     (FUNCTION_KILL_PROCESS, ''kill-process''),
     (FUNCTION_GET_PROCESS_COMMAND, ''get-process-command''),
     (FUNCTION_GET_PROCESS_IDENTITY, ''get-process-identity''),
     (FUNCTION_GET_PROCESS_STDIO, ''get-process-stdio''),
     (FUNCTION_GET_PROCESS_STATE, ''get-process-state''),
     (CALLBACK_PROCESS_STATE_CHANGED, ''process-state-changed''),
     (FUNCTION_GET_PROGRAMS, ''get-programs''),
     (FUNCTION_DEFINE_PROGRAM, ''define-program''),
     (FUNCTION_PURGE_PROGRAM, ''purge-program''),
     (FUNCTION_GET_PROGRAM_IDENTIFIER, ''get-program-identifier''),
     (FUNCTION_GET_PROGRAM_ROOT_DIRECTORY, ''get-program-root-directory''),
     (FUNCTION_SET_PROGRAM_COMMAND, ''set-program-command''),
     (FUNCTION_GET_PROGRAM_COMMAND, ''get-program-command''),
     (FUNCTION_SET_PROGRAM_STDIO_REDIRECTION, ''set-program-stdio-redirection''),
     (FUNCTION_GET_PROGRAM_STDIO_REDIRECTION, ''get-program-stdio-redirection''),
     (FUNCTION_SET_PROGRAM_SCHEDULE, ''set-program-schedule''),
     (FUNCTION_GET_PROGRAM_SCHEDULE, ''get-program-schedule''),
     (FUNCTION_GET_PROGRAM_SCHEDULER_STATE, ''get-program-scheduler-state''),
     (FUNCTION_CONTINUE_PROGRAM_SCHEDULE, ''continue-program-schedule''),
     (FUNCTION_START_PROGRAM, ''start-program''),
     (FUNCTION_GET_LAST_SPAWNED_PROGRAM_PROCESS, ''get-last-spawned-program-process''),
     (FUNCTION_GET_CUSTOM_PROGRAM_OPTION_NAMES, ''get-custom-program-option-names''),
     (FUNCTION_SET_CUSTOM_PROGRAM_OPTION_VALUE, ''set-custom-program-option-value''),
     (FUNCTION_GET_CUSTOM_PROGRAM_OPTION_VALUE, ''get-custom-program-option-value''),
     (FUNCTION_REMOVE_CUSTOM_PROGRAM_OPTION, ''remove-custom-program-option''),
     (CALLBACK_PROGRAM_PROCESS_SPAWNED, ''program-process-spawned''),
     (CALLBACK_PROGRAM_SCHEDULER_STATE_CHANGED, ''program-scheduler-state-changed''),
     (FUNCTION_GET_IDENTITY, ''get-identity'')]"

definition api_get_function_name :: "u8 \<Rightarrow> string" where
  "api_get_function_name function_id = (case map_of api_function_names function_id of
     Some name \<Rightarrow> name | None \<Rightarrow> ''<unknown>'')"

end
