(* ===== verification/Api_Dispatch.thy ===== *)
theory Api_Dispatch
  imports Api_Function Process_Spawn
begin

text \<open>
  The handlers of the API and their dispatcher: \<open>api.c\<close>. The \<open>CALL_\<dots>\<close> macros are functions here; a
  handler is such a function applied to the struct of the response and to the body that the
  macro is given. A member of a response that the body does not set is zero; when an operation
  fails all members but the error code are taken as zero. The operations of \<open>program.c\<close> are a
  parameter.
\<close>

section \<open>Requests and responses\<close>

text \<open>A request and a response, with the header taken apart.\<close>

record request =
  request_uid :: u32
  request_length :: u8
  request_function_id :: u8
  request_sequence_number :: "4 word"
  request_response_expected :: bool
  request_body :: "u8 list"

record response =
  response_uid :: u32
  response_length :: u8
  response_function_id :: u8
  response_sequence_number :: "4 word"
  response_response_expected :: bool
  response_packet_error :: packet_e
  response_members :: members

text \<open>What the API is started with, and what it calls outside of the modelled parts.\<close>

record api_env =
  api_uid :: u32
  base58_encode :: "u32 \<Rightarrow> string"
  program_operation :: "u8 \<Rightarrow> addr option \<Rightarrow> addr option \<Rightarrow> members \<Rightarrow> apid \<Rightarrow> (members \<times> apid) option"

text \<open>What a handler sends: an empty response, if one is expected, or a struct.\<close>

datatype reply = Reply_empty packet_e | Reply_struct layout members

type_synonym handler = "members \<Rightarrow> apid \<Rightarrow> (reply \<times> apid) option"

definition api_prepare_response :: "request \<Rightarrow> nat \<Rightarrow> response" where
  "api_prepare_response request length' =
     \<lparr>response_uid = request_uid request, response_length = of_nat length',
      response_function_id = request_function_id request,
      response_sequence_number = request_sequence_number request,
      response_response_expected = True, response_packet_error = PACKET_E_SUCCESS,
      response_members = []\<rparr>"

definition api_send_response_if_expected :: "request \<Rightarrow> packet_e \<Rightarrow> response option" where
  "api_send_response_if_expected request error_code =
     (if \<not> request_response_expected request then None
      else Some ((api_prepare_response request 8)\<lparr>response_packet_error := error_code\<rparr>))"

definition fill_members :: "layout \<Rightarrow> members \<Rightarrow> members" where
  "fill_members l m = map (\<lambda>(n, f). (n, case map_of m n of Some v \<Rightarrow> v | None \<Rightarrow> zero_value f)) l"

definition send_reply :: "request \<Rightarrow> reply \<Rightarrow> response option" where
  "send_reply request reply = (case reply of
       Reply_empty error_code \<Rightarrow> api_send_response_if_expected request error_code
     | Reply_struct l m \<Rightarrow>
         Some ((api_prepare_response request (sizeof l))\<lparr>response_members := fill_members l m\<rparr>))"

section \<open>Macros\<close>

definition error_code :: "apie \<Rightarrow> string \<times> val" where
  "error_code e = (''error_code'', V8 (of_nat (apie_code e)))"

text \<open>\<open>response.error_code = operation(\<dots>, &response.member)\<close>\<close>

definition respond :: "('a \<Rightarrow> members) \<Rightarrow> ((apie + 'a) \<times> apid) option \<Rightarrow> (members \<times> apid) option" where
  "respond f m = do {
     (r, s) \<leftarrow> m;
     Some (case r of Inl e \<Rightarrow> [error_code e] | Inr x \<Rightarrow> error_code API_E_SUCCESS # f x, s)
   }"

definition respond_code :: "(apie \<times> apid) option \<Rightarrow> (members \<times> apid) option" where
  "respond_code m = do { (e, s) \<leftarrow> m; Some ([error_code e], s) }"

definition finish :: "layout \<Rightarrow> (members \<times> apid) option \<Rightarrow> (reply \<times> apid) option" where
  "finish l m = do { (response, s) \<leftarrow> m; Some (Reply_struct l response, s) }"

definition finish_procedure :: "(packet_e \<times> apid) option \<Rightarrow> (reply \<times> apid) option" where
  "finish_procedure m = do { (e, s) \<leftarrow> m; Some (Reply_empty e, s) }"

definition CALL_FUNCTION :: "layout \<Rightarrow> (members \<Rightarrow> apid \<Rightarrow> (members \<times> apid) option) \<Rightarrow> handler" where
  "CALL_FUNCTION l body request s = finish l (body request s)"

definition CALL_TYPE_FUNCTION ::
    "layout \<Rightarrow> object_type \<Rightarrow> string \<Rightarrow> (addr \<Rightarrow> members \<Rightarrow> apid \<Rightarrow> (members \<times> apid) option) \<Rightarrow> handler" where
  "CALL_TYPE_FUNCTION l t id_name body request s = do {
     r \<leftarrow> inventory_get_object t (get16 request id_name) s;
     finish l (case r of Inl e \<Rightarrow> Some ([error_code e], s) | Inr a \<Rightarrow> body a request s)
   }"

definition CALL_FUNCTION_WITH_SESSION ::
    "layout \<Rightarrow> (addr \<Rightarrow> members \<Rightarrow> apid \<Rightarrow> (members \<times> apid) option) \<Rightarrow> handler" where
  "CALL_FUNCTION_WITH_SESSION l body request s = do {
     r \<leftarrow> inventory_get_session (get16 request ''session_id'') s;
     finish l (case r of Inl e \<Rightarrow> Some ([error_code e], s) | Inr sa \<Rightarrow> body sa request s)
   }"

definition CALL_TYPE_FUNCTION_WITH_SESSION ::
    "layout \<Rightarrow> object_type \<Rightarrow> string \<Rightarrow> (addr \<Rightarrow> addr \<Rightarrow> members \<Rightarrow> apid \<Rightarrow> (members \<times> apid) option) \<Rightarrow>
     handler" where
  "CALL_TYPE_FUNCTION_WITH_SESSION l t id_name body request s = do {
     r \<leftarrow> inventory_get_object t (get16 request id_name) s;
     case r of
       Inl e \<Rightarrow> finish l (Some ([error_code e], s))
     | Inr a \<Rightarrow> CALL_FUNCTION_WITH_SESSION l (body a) request s
   }"

definition CALL_FUNCTION_WITH_STRING ::
    "layout \<Rightarrow> string \<Rightarrow> (addr \<Rightarrow> members \<Rightarrow> apid \<Rightarrow> (members \<times> apid) option) \<Rightarrow> handler" where
  "CALL_FUNCTION_WITH_STRING l id_name body request s = do {
     r \<leftarrow> string_get (get16 request id_name) s;
     finish l (case r of Inl e \<Rightarrow> Some ([error_code e], s) | Inr a \<Rightarrow> body a request s)
   }"

definition CALL_SESSION_FUNCTION ::
    "layout \<Rightarrow> (addr \<Rightarrow> members \<Rightarrow> apid \<Rightarrow> (members \<times> apid) option) \<Rightarrow> handler" where
  "CALL_SESSION_FUNCTION = CALL_FUNCTION_WITH_SESSION"

definition CALL_SESSION_PROCEDURE :: "(addr \<Rightarrow> members \<Rightarrow> apid \<Rightarrow> (packet_e \<times> apid) option) \<Rightarrow> handler" where
  "CALL_SESSION_PROCEDURE body request s = do {
     r \<leftarrow> inventory_get_session (get16 request ''session_id'') s;
     finish_procedure (case r of
       Inl e \<Rightarrow> Some (api_get_packet_error_code e, s) | Inr sa \<Rightarrow> body sa request s)
   }"

definition CALL_OBJECT_FUNCTION_WITH_SESSION ::
    "layout \<Rightarrow> (addr \<Rightarrow> addr \<Rightarrow> members \<Rightarrow> apid \<Rightarrow> (members \<times> apid) option) \<Rightarrow> handler" where
  "CALL_OBJECT_FUNCTION_WITH_SESSION l = CALL_TYPE_FUNCTION_WITH_SESSION l OBJECT_TYPE_ANY ''object_id''"

definition CALL_OBJECT_PROCEDURE_WITH_SESSION ::
    "(addr \<Rightarrow> addr \<Rightarrow> members \<Rightarrow> apid \<Rightarrow> (packet_e \<times> apid) option) \<Rightarrow> handler" where
  "CALL_OBJECT_PROCEDURE_WITH_SESSION body request s = do {
     r \<leftarrow> inventory_get_object OBJECT_TYPE_ANY (get16 request ''object_id'') s;
     case r of
       Inl e \<Rightarrow> finish_procedure (Some (api_get_packet_error_code e, s))
     | Inr a \<Rightarrow> CALL_SESSION_PROCEDURE (body a) request s
   }"

text \<open>With an error handler, which may send a callback.\<close>

definition CALL_FILE_PROCEDURE ::
    "(members \<Rightarrow> apie \<Rightarrow> apid \<Rightarrow> apid) \<Rightarrow> (addr \<Rightarrow> members \<Rightarrow> apid \<Rightarrow> (packet_e \<times> apid) option) \<Rightarrow>
     handler" where
  "CALL_FILE_PROCEDURE error_handler body request s = do {
     r \<leftarrow> inventory_get_object OBJECT_TYPE_FILE (get16 request ''file_id'') s;
     finish_procedure (case r of
       Inl e \<Rightarrow> Some (api_get_packet_error_code e, error_handler request e s)
     | Inr a \<Rightarrow> body a request s)
   }"

text \<open>The ID of a new object, which the functions that make objects store through a pointer.\<close>

definition with_object_id :: "((apie + addr) \<times> apid) option \<Rightarrow> ((apie + u16) \<times> apid) option" where
  "with_object_id m = do {
     (r, s) \<leftarrow> m;
     case r of
       Inl e \<Rightarrow> Some (Inl e, s)
     | Inr a \<Rightarrow> do { ob \<leftarrow> objs s a; Some (Inr (obj_id ob), s) }
   }"

text \<open>A buffer of \<open>n\<close> bytes, zero behind what is copied into it.\<close>

definition pad :: "nat \<Rightarrow> char list \<Rightarrow> char list" where
  "pad n cs = take n (cs @ replicate n (CHR 0x00))"

section \<open>Sessions and objects\<close>

definition api_create_session :: "handler" where
  "api_create_session = CALL_FUNCTION CreateSessionResponse (\<lambda>request s.
     respond (\<lambda>i. [(''session_id'', V16 i)]) (session_create (get32 request ''lifetime'') s))"

definition api_expire_session :: "handler" where
  "api_expire_session = CALL_SESSION_FUNCTION ExpireSessionResponse (\<lambda>session request s.
     respond_code (session_expire session s))"

definition api_expire_session_unchecked :: "handler" where
  "api_expire_session_unchecked = CALL_SESSION_PROCEDURE (\<lambda>session request s. session_expire_unchecked session s)"

definition api_keep_session_alive :: "handler" where
  "api_keep_session_alive = CALL_SESSION_FUNCTION KeepSessionAliveResponse (\<lambda>session request s.
     respond_code (session_keep_alive session (get32 request ''lifetime'') s))"

definition api_release_object :: "handler" where
  "api_release_object = CALL_OBJECT_FUNCTION_WITH_SESSION ReleaseObjectResponse (\<lambda>object session request s.
     respond_code (object_release object session s))"

definition api_release_object_unchecked :: "handler" where
  "api_release_object_unchecked = CALL_OBJECT_PROCEDURE_WITH_SESSION (\<lambda>object session request s.
     object_release_unchecked object session s)"

section \<open>Strings and lists\<close>

definition CALL_STRING_FUNCTION ::
    "layout \<Rightarrow> (addr \<Rightarrow> members \<Rightarrow> apid \<Rightarrow> (members \<times> apid) option) \<Rightarrow> handler" where
  "CALL_STRING_FUNCTION l = CALL_TYPE_FUNCTION l OBJECT_TYPE_STRING ''string_id''"

definition api_allocate_string :: "handler" where
  "api_allocate_string = CALL_FUNCTION_WITH_SESSION AllocateStringResponse (\<lambda>session request s.
     respond (\<lambda>i. [(''string_id'', V16 i)])
       (string_allocate (get32 request ''length_to_reserve'') (get_chars request ''buffer'') session s))"

definition api_truncate_string :: "handler" where
  "api_truncate_string = CALL_STRING_FUNCTION TruncateStringResponse (\<lambda>string request s.
     respond_code (string_truncate string (get32 request ''length'') s))"

definition api_get_string_length :: "handler" where
  "api_get_string_length = CALL_STRING_FUNCTION GetStringLengthResponse (\<lambda>string request s. do {
     (e, length') \<leftarrow> string_get_length string s;
     Some ([error_code e, (''length'', V32 length')], s) })"

definition api_set_string_chunk :: "handler" where
  "api_set_string_chunk = CALL_STRING_FUNCTION SetStringChunkResponse (\<lambda>string request s.
     respond_code (string_set_chunk string (get32 request ''offset'') (get_chars request ''buffer'') s))"

definition api_get_string_chunk :: "handler" where
  "api_get_string_chunk = CALL_STRING_FUNCTION GetStringChunkResponse (\<lambda>string request s. do {
     (e, buffer) \<leftarrow> string_get_chunk string (get32 request ''offset'') s;
     Some ([error_code e, (''buffer'', Vchars buffer)], s) })"

definition CALL_LIST_FUNCTION ::
    "layout \<Rightarrow> (addr \<Rightarrow> members \<Rightarrow> apid \<Rightarrow> (members \<times> apid) option) \<Rightarrow> handler" where
  "CALL_LIST_FUNCTION l = CALL_TYPE_FUNCTION l OBJECT_TYPE_LIST ''list_id''"

definition api_allocate_list :: "handler" where
  "api_allocate_list = CALL_FUNCTION_WITH_SESSION AllocateListResponse (\<lambda>session request s.
     respond (\<lambda>i. [(''list_id'', V16 i)]) (with_object_id
       (list_allocate (get16 request ''length_to_reserve'') (Some session) OBJECT_CREATE_FLAG_EXTERNAL s)))"

definition api_get_list_length :: "handler" where
  "api_get_list_length = CALL_LIST_FUNCTION GetListLengthResponse (\<lambda>list request s. do {
     (e, length') \<leftarrow> list_get_length list s;
     Some ([error_code e, (''length'', V16 length')], s) })"

definition api_get_list_item :: "handler" where
  "api_get_list_item = CALL_TYPE_FUNCTION_WITH_SESSION GetListItemResponse OBJECT_TYPE_LIST ''list_id''
     (\<lambda>list session request s.
        respond (\<lambda>(i, t). [(''item_object_id'', V16 i), (''type'', V8 (of_int (object_type_code t)))])
          (list_get_item list (get16 request ''index'') session s))"

definition api_append_to_list :: "handler" where
  "api_append_to_list = CALL_LIST_FUNCTION AppendToListResponse (\<lambda>list request s.
     respond_code (list_append_to list (get16 request ''item_object_id'') s))"

definition api_remove_from_list :: "handler" where
  "api_remove_from_list = CALL_LIST_FUNCTION RemoveFromListResponse (\<lambda>list request s.
     respond_code (list_remove_from list (get16 request ''index'') s))"

section \<open>Files\<close>

definition CALL_FILE_FUNCTION ::
    "layout \<Rightarrow> (addr \<Rightarrow> members \<Rightarrow> apid \<Rightarrow> (members \<times> apid) option) \<Rightarrow> handler" where
  "CALL_FILE_FUNCTION l = CALL_TYPE_FUNCTION l OBJECT_TYPE_FILE ''file_id''"

definition api_open_file :: "handler" where
  "api_open_file = CALL_FUNCTION_WITH_SESSION OpenFileResponse (\<lambda>session request s.
     respond (\<lambda>i. [(''file_id'', V16 i)]) (with_object_id
       (file_open (get16 request ''name_string_id'') (get32 request ''flags'') (get16 request ''permissions'')
          (get32 request ''uid'') (get32 request ''gid'') (Some session) OBJECT_CREATE_FLAG_EXTERNAL s)))"

definition api_create_pipe :: "handler" where
  "api_create_pipe = CALL_FUNCTION_WITH_SESSION CreatePipeResponse (\<lambda>session request s.
     respond (\<lambda>i. [(''file_id'', V16 i)]) (with_object_id
       (pipe_create_ops (get32 request ''flags'') (get64 request ''length'') (Some session)
          OBJECT_CREATE_FLAG_EXTERNAL s)))"

definition api_get_file_info :: "handler" where
  "api_get_file_info = CALL_TYPE_FUNCTION_WITH_SESSION GetFileInfoResponse OBJECT_TYPE_FILE ''file_id''
     (\<lambda>file session request s.
        respond (\<lambda>i. [(''type'', V8 (file_type_code (info_type i))), (''name_string_id'', V16 (info_name_id i)),
             (''flags'', V32 (info_flags i)), (''permissions'', V16 (info_permissions i)),
             (''uid'', V32 (info_uid i)), (''gid'', V32 (info_gid i)), (''length'', V64 (info_length i)),
             (''access_timestamp'', V64 (info_access_timestamp i)),
             (''modification_timestamp'', V64 (info_modification_timestamp i)),
             (''status_change_timestamp'', V64 (info_status_change_timestamp i))])
          (file_get_info file session s))"

definition api_read_file :: "handler" where
  "api_read_file = CALL_FILE_FUNCTION ReadFileResponse (\<lambda>file request s.
     respond (\<lambda>cs. [(''buffer'', Vchars (pad (unat FILE_MAX_READ_BUFFER_LENGTH) cs)),
         (''length_read'', V8 (of_nat (length cs)))])
       (file_read file (get8 request ''length_to_read'') s))"

definition api_read_file_async :: "handler" where
  "api_read_file_async = CALL_FILE_PROCEDURE
     (\<lambda>request e. emit (Ev_async_file_read_callback (get16 request ''file_id'') e []))
     (\<lambda>file request s. file_read_async file (get64 request ''length_to_read'') s)"

definition api_abort_async_file_read :: "handler" where
  "api_abort_async_file_read = CALL_FILE_FUNCTION AbortAsyncFileReadResponse (\<lambda>file request s.
     respond_code (file_abort_async_read file s))"

definition api_write_file :: "handler" where
  "api_write_file = CALL_FILE_FUNCTION WriteFileResponse (\<lambda>file request s.
     respond (\<lambda>n. [(''length_written'', V8 n)])
       (file_write file (get_chars request ''buffer'') (get8 request ''length_to_write'') s))"

definition api_write_file_unchecked :: "handler" where
  "api_write_file_unchecked = CALL_FILE_PROCEDURE (\<lambda>request e s. s) (\<lambda>file request s.
     file_write_unchecked file (get_chars request ''buffer'') (get8 request ''length_to_write'') s)"

definition api_write_file_async :: "handler" where
  "api_write_file_async = CALL_FILE_PROCEDURE
     (\<lambda>request e. emit (Ev_async_file_write_callback (get16 request ''file_id'') e 0))
     (\<lambda>file request s.
        file_write_async file (get_chars request ''buffer'') (get8 request ''length_to_write'') s)"

definition api_set_file_position :: "handler" where
  "api_set_file_position = CALL_FILE_FUNCTION SetFilePositionResponse (\<lambda>file request s.
     respond (\<lambda>p. [(''position'', V64 p)])
       (file_set_position file (get64 request ''offset'') (get8 request ''origin'') s))"

definition api_get_file_position :: "handler" where
  "api_get_file_position = CALL_FILE_FUNCTION GetFilePositionResponse (\<lambda>file request s.
     respond (\<lambda>p. [(''position'', V64 p)]) (file_get_position file s))"

definition api_set_file_events :: "handler" where
  "api_set_file_events = CALL_FILE_FUNCTION SetFileEventsResponse (\<lambda>file request s.
     respond_code (file_set_events file (get16 request ''events'') s))"

definition api_get_file_events :: "handler" where
  "api_get_file_events = CALL_FILE_FUNCTION GetFileEventsResponse (\<lambda>file request s. do {
     (e, events) \<leftarrow> file_get_events file s;
     Some ([error_code e, (''events'', V16 events)], s) })"

section \<open>Directories\<close>

definition api_open_directory :: "handler" where
  "api_open_directory = CALL_FUNCTION_WITH_SESSION OpenDirectoryResponse (\<lambda>session request s.
     respond (\<lambda>i. [(''directory_id'', V16 i)]) (with_object_id
       (directory_open (get16 request ''name_string_id'') session s)))"

definition api_get_directory_name :: "handler" where
  "api_get_directory_name = CALL_TYPE_FUNCTION_WITH_SESSION GetDirectoryNameResponse OBJECT_TYPE_DIRECTORY ''directory_id''
     (\<lambda>directory session request s.
        respond (\<lambda>i. [(''name_string_id'', V16 i)]) (directory_get_name directory session s))"

definition api_get_next_directory_entry :: "handler" where
  "api_get_next_directory_entry = CALL_TYPE_FUNCTION_WITH_SESSION GetNextDirectoryEntryResponse OBJECT_TYPE_DIRECTORY ''directory_id''
     (\<lambda>directory session request s. do {
        (r, s) \<leftarrow> directory_get_next_entry directory session s;
        case r of
          Inl e \<Rightarrow> Some ([error_code e], s)
        | Inr (a, t) \<Rightarrow> do {
            ob \<leftarrow> objs s a;
            Some ([error_code API_E_SUCCESS, (''name_string_id'', V16 (obj_id ob)),
                   (''type'', V8 (directory_entry_type_code t))], s)
          }
      })"

definition api_rewind_directory :: "handler" where
  "api_rewind_directory = CALL_TYPE_FUNCTION RewindDirectoryResponse OBJECT_TYPE_DIRECTORY ''directory_id''
     (\<lambda>directory request s. respond_code (directory_rewind directory s))"

definition api_create_directory :: "handler" where
  "api_create_directory = CALL_FUNCTION_WITH_STRING CreateDirectoryResponse ''name_string_id'' (\<lambda>name request s. do {
     chars \<leftarrow> string_chars s name;
     respond_code (directory_create chars (get32 request ''flags'') (get16 request ''permissions'')
       (get32 request ''uid'') (get32 request ''gid'') s) })"

section \<open>Processes\<close>

definition api_get_processes :: "handler" where
  "api_get_processes = CALL_FUNCTION_WITH_SESSION GetProcessesResponse (\<lambda>session request s.
     respond (\<lambda>i. [(''processes_list_id'', V16 i)]) (inventory_get_processes session s))"

definition api_spawn_process :: "handler" where
  "api_spawn_process = CALL_FUNCTION_WITH_SESSION SpawnProcessResponse (\<lambda>session request s.
     respond (\<lambda>i. [(''process_id'', V16 i)]) (with_object_id
       (process_spawn (get16 request ''executable_string_id'') (get16 request ''arguments_list_id'')
          (get16 request ''environment_list_id'') (get16 request ''working_directory_string_id'')
          (get32 request ''uid'') (get32 request ''gid'') (get16 request ''stdin_file_id'')
          (get16 request ''stdout_file_id'') (get16 request ''stderr_file_id'') (Some session)
          (OBJECT_CREATE_FLAG_INTERNAL OR OBJECT_CREATE_FLAG_EXTERNAL) True None s)))"

definition CALL_PROCESS_FUNCTION ::
    "layout \<Rightarrow> (addr \<Rightarrow> members \<Rightarrow> apid \<Rightarrow> (members \<times> apid) option) \<Rightarrow> handler" where
  "CALL_PROCESS_FUNCTION l = CALL_TYPE_FUNCTION l OBJECT_TYPE_PROCESS ''process_id''"

text \<open>The IDs of several objects, in the order of the members.\<close>

definition id_members :: "string list \<Rightarrow> u16 list \<Rightarrow> members" where
  "id_members ns is = zip ns (map V16 is)"

definition api_kill_process :: "handler" where
  "api_kill_process = CALL_PROCESS_FUNCTION KillProcessResponse (\<lambda>process request s.
     respond_code (process_kill process (uint (get8 request ''signal'')) s))"

definition api_get_process_command :: "handler" where
  "api_get_process_command = CALL_TYPE_FUNCTION_WITH_SESSION GetProcessCommandResponse OBJECT_TYPE_PROCESS ''process_id''
     (\<lambda>process session request s.
        respond (id_members [''executable_string_id'', ''arguments_list_id'', ''environment_list_id'',
            ''working_directory_string_id'']) (process_get_command process session s))"

definition api_get_process_identity :: "handler" where
  "api_get_process_identity = CALL_PROCESS_FUNCTION GetProcessIdentityResponse (\<lambda>process request s. do {
     (e, pid, uid, gid) \<leftarrow> process_get_identity process s;
     Some ([error_code e, (''pid'', V32 pid), (''uid'', V32 uid), (''gid'', V32 gid)], s) })"

definition api_get_process_stdio :: "handler" where
  "api_get_process_stdio = CALL_TYPE_FUNCTION_WITH_SESSION GetProcessStdioResponse OBJECT_TYPE_PROCESS ''process_id''
     (\<lambda>process session request s.
        respond (id_members [''stdin_file_id'', ''stdout_file_id'', ''stderr_file_id''])
          (process_get_stdio process session s))"

definition api_get_process_state :: "handler" where
  "api_get_process_state = CALL_PROCESS_FUNCTION GetProcessStateResponse (\<lambda>process request s. do {
     (e, state, timestamp, exit_code) \<leftarrow> process_get_state process s;
     Some ([error_code e, (''state'', V8 state), (''timestamp'', V64 timestamp),
            (''exit_code'', V8 exit_code)], s) })"

section \<open>Programs\<close>

definition CALL_PROGRAM_FUNCTION :: "api_env \<Rightarrow> layout \<Rightarrow> u8 \<Rightarrow> handler" where
  "CALL_PROGRAM_FUNCTION env l f = CALL_TYPE_FUNCTION l OBJECT_TYPE_PROGRAM ''program_id''
     (\<lambda>program. program_operation env f (Some program) None)"

definition CALL_PROGRAM_FUNCTION_WITH_SESSION :: "api_env \<Rightarrow> layout \<Rightarrow> u8 \<Rightarrow> handler" where
  "CALL_PROGRAM_FUNCTION_WITH_SESSION env l f =
     CALL_TYPE_FUNCTION_WITH_SESSION l OBJECT_TYPE_PROGRAM ''program_id''
       (\<lambda>program session. program_operation env f (Some program) (Some session))"

definition api_get_programs :: "handler" where
  "api_get_programs = CALL_FUNCTION_WITH_SESSION GetProgramsResponse (\<lambda>session request s.
     respond (\<lambda>i. [(''programs_list_id'', V16 i)]) (inventory_get_programs session s))"

definition api_define_program :: "api_env \<Rightarrow> handler" where
  "api_define_program env = CALL_FUNCTION_WITH_SESSION DefineProgramResponse (\<lambda>session.
     program_operation env FUNCTION_DEFINE_PROGRAM None (Some session))"

definition api_purge_program :: "api_env \<Rightarrow> handler" where
  "api_purge_program env = CALL_PROGRAM_FUNCTION env PurgeProgramResponse FUNCTION_PURGE_PROGRAM"

definition api_get_program_identifier :: "api_env \<Rightarrow> handler" where
  "api_get_program_identifier env = CALL_PROGRAM_FUNCTION_WITH_SESSION env GetProgramIdentifierResponse FUNCTION_GET_PROGRAM_IDENTIFIER"

definition api_get_program_root_directory :: "api_env \<Rightarrow> handler" where
  "api_get_program_root_directory env = CALL_PROGRAM_FUNCTION_WITH_SESSION env GetProgramRootDirectoryResponse FUNCTION_GET_PROGRAM_ROOT_DIRECTORY"

definition api_set_program_command :: "api_env \<Rightarrow> handler" where
  "api_set_program_command env = CALL_PROGRAM_FUNCTION env SetProgramCommandResponse FUNCTION_SET_PROGRAM_COMMAND"

definition api_get_program_command :: "api_env \<Rightarrow> handler" where
  "api_get_program_command env = CALL_PROGRAM_FUNCTION_WITH_SESSION env GetProgramCommandResponse FUNCTION_GET_PROGRAM_COMMAND"

definition api_set_program_stdio_redirection :: "api_env \<Rightarrow> handler" where
  "api_set_program_stdio_redirection env = CALL_PROGRAM_FUNCTION env SetProgramStdioRedirectionResponse FUNCTION_SET_PROGRAM_STDIO_REDIRECTION"

definition api_get_program_stdio_redirection :: "api_env \<Rightarrow> handler" where
  "api_get_program_stdio_redirection env = CALL_PROGRAM_FUNCTION_WITH_SESSION env GetProgramStdioRedirectionResponse FUNCTION_GET_PROGRAM_STDIO_REDIRECTION"

definition api_set_program_schedule :: "api_env \<Rightarrow> handler" where
  "api_set_program_schedule env = CALL_PROGRAM_FUNCTION env SetProgramScheduleResponse FUNCTION_SET_PROGRAM_SCHEDULE"

definition api_get_program_schedule :: "api_env \<Rightarrow> handler" where
  "api_get_program_schedule env = CALL_PROGRAM_FUNCTION_WITH_SESSION env GetProgramScheduleResponse FUNCTION_GET_PROGRAM_SCHEDULE"

definition api_get_program_scheduler_state :: "api_env \<Rightarrow> handler" where
  "api_get_program_scheduler_state env = CALL_PROGRAM_FUNCTION_WITH_SESSION env GetProgramSchedulerStateResponse FUNCTION_GET_PROGRAM_SCHEDULER_STATE"

definition api_continue_program_schedule :: "api_env \<Rightarrow> handler" where
  "api_continue_program_schedule env = CALL_PROGRAM_FUNCTION env ContinueProgramScheduleResponse FUNCTION_CONTINUE_PROGRAM_SCHEDULE"

definition api_start_program :: "api_env \<Rightarrow> handler" where
  "api_start_program env = CALL_PROGRAM_FUNCTION env StartProgramResponse FUNCTION_START_PROGRAM"

definition api_get_last_spawned_program_process :: "api_env \<Rightarrow> handler" where
  "api_get_last_spawned_program_process env = CALL_PROGRAM_FUNCTION_WITH_SESSION env GetLastSpawnedProgramProcessResponse FUNCTION_GET_LAST_SPAWNED_PROGRAM_PROCESS"

definition api_get_custom_program_option_names :: "api_env \<Rightarrow> handler" where
  "api_get_custom_program_option_names env = CALL_PROGRAM_FUNCTION_WITH_SESSION env GetCustomProgramOptionNamesResponse FUNCTION_GET_CUSTOM_PROGRAM_OPTION_NAMES"

definition api_set_custom_program_option_value :: "api_env \<Rightarrow> handler" where
  "api_set_custom_program_option_value env = CALL_PROGRAM_FUNCTION env SetCustomProgramOptionValueResponse FUNCTION_SET_CUSTOM_PROGRAM_OPTION_VALUE"

definition api_get_custom_program_option_value :: "api_env \<Rightarrow> handler" where
  "api_get_custom_program_option_value env = CALL_PROGRAM_FUNCTION_WITH_SESSION env GetCustomProgramOptionValueResponse FUNCTION_GET_CUSTOM_PROGRAM_OPTION_VALUE"

definition api_remove_custom_program_option :: "api_env \<Rightarrow> handler" where
  "api_remove_custom_program_option env = CALL_PROGRAM_FUNCTION env RemoveCustomProgramOptionResponse FUNCTION_REMOVE_CUSTOM_PROGRAM_OPTION"

section \<open>The identity of the brick\<close>

definition api_get_identity :: "api_env \<Rightarrow> handler" where
  "api_get_identity env = CALL_FUNCTION GetIdentityResponse (\<lambda>request s. Some (
     [(''uid'', Vchars (pad 8 (base58_encode env (api_uid env)))), (''connected_uid'', Vchars (pad 8 ''0'')),
      (''position'', V8 48), (''hardware_version'', Vchars [CHR 0x01, CHR 0x00, CHR 0x00]),
      (''firmware_version'', Vchars [CHR 0x02, CHR 0x00, CHR 0x03]), (''device_identifier'', V16 17)], s))"

section \<open>Dispatch\<close>

text \<open>The switch of \<open>api_handle_request\<close>.\<close>

definition api_dispatch_table :: "api_env \<Rightarrow> (u8 \<times> layout \<times> handler) list" where
  "api_dispatch_table env = [
     (FUNCTION_CREATE_SESSION, CreateSessionRequest, api_create_session),
     (FUNCTION_EXPIRE_SESSION, ExpireSessionRequest, api_expire_session),
     (FUNCTION_EXPIRE_SESSION_UNCHECKED, ExpireSessionUncheckedRequest, api_expire_session_unchecked),
     (FUNCTION_KEEP_SESSION_ALIVE, KeepSessionAliveRequest, api_keep_session_alive),
     (FUNCTION_RELEASE_OBJECT, ReleaseObjectRequest, api_release_object),
     (FUNCTION_RELEASE_OBJECT_UNCHECKED, ReleaseObjectUncheckedRequest, api_release_object_unchecked),
     (FUNCTION_ALLOCATE_STRING, AllocateStringRequest, api_allocate_string),
     (FUNCTION_TRUNCATE_STRING, TruncateStringRequest, api_truncate_string),
     (FUNCTION_GET_STRING_LENGTH, GetStringLengthRequest, api_get_string_length),
     (FUNCTION_SET_STRING_CHUNK, SetStringChunkRequest, api_set_string_chunk),
     (FUNCTION_GET_STRING_CHUNK, GetStringChunkRequest, api_get_string_chunk),
     (FUNCTION_ALLOCATE_LIST, AllocateListRequest, api_allocate_list),
     (FUNCTION_GET_LIST_LENGTH, GetListLengthRequest, api_get_list_length),
     (FUNCTION_GET_LIST_ITEM, GetListItemRequest, api_get_list_item),
     (FUNCTION_APPEND_TO_LIST, AppendToListRequest, api_append_to_list),
     (FUNCTION_REMOVE_FROM_LIST, RemoveFromListRequest, api_remove_from_list),
     (FUNCTION_OPEN_FILE, OpenFileRequest, api_open_file),
     (FUNCTION_CREATE_PIPE, CreatePipeRequest, api_create_pipe),
     (FUNCTION_GET_FILE_INFO, GetFileInfoRequest, api_get_file_info),
     (FUNCTION_READ_FILE, ReadFileRequest, api_read_file),
     (FUNCTION_READ_FILE_ASYNC, ReadFileAsyncRequest, api_read_file_async),
     (FUNCTION_ABORT_ASYNC_FILE_READ, AbortAsyncFileReadRequest, api_abort_async_file_read),
     (FUNCTION_WRITE_FILE, WriteFileRequest, api_write_file),
     (FUNCTION_WRITE_FILE_UNCHECKED, WriteFileUncheckedRequest, api_write_file_unchecked),
     (FUNCTION_WRITE_FILE_ASYNC, WriteFileAsyncRequest, api_write_file_async),
     (FUNCTION_SET_FILE_POSITION, SetFilePositionRequest, api_set_file_position),
     (FUNCTION_GET_FILE_POSITION, GetFilePositionRequest, api_get_file_position),
     (FUNCTION_SET_FILE_EVENTS, SetFileEventsRequest, api_set_file_events),
     (FUNCTION_GET_FILE_EVENTS, GetFileEventsRequest, api_get_file_events),
     (FUNCTION_OPEN_DIRECTORY, OpenDirectoryRequest, api_open_directory),
     (FUNCTION_GET_DIRECTORY_NAME, GetDirectoryNameRequest, api_get_directory_name),
     (FUNCTION_GET_NEXT_DIRECTORY_ENTRY, GetNextDirectoryEntryRequest, api_get_next_directory_entry),
     (FUNCTION_REWIND_DIRECTORY, RewindDirectoryRequest, api_rewind_directory),
     (FUNCTION_CREATE_DIRECTORY, CreateDirectoryRequest, api_create_directory),
     (FUNCTION_GET_PROCESSES, GetProcessesRequest, api_get_processes),
     (FUNCTION_SPAWN_PROCESS, SpawnProcessRequest, api_spawn_process),
     (FUNCTION_KILL_PROCESS, KillProcessRequest, api_kill_process),
     (FUNCTION_GET_PROCESS_COMMAND, GetProcessCommandRequest, api_get_process_command),
     (FUNCTION_GET_PROCESS_IDENTITY, GetProcessIdentityRequest, api_get_process_identity),
     (FUNCTION_GET_PROCESS_STDIO, GetProcessStdioRequest, api_get_process_stdio),
     (FUNCTION_GET_PROCESS_STATE, GetProcessStateRequest, api_get_process_state),
     (FUNCTION_GET_PROGRAMS, GetProgramsRequest, api_get_programs),
     (FUNCTION_DEFINE_PROGRAM, DefineProgramRequest, api_define_program env),
     (FUNCTION_PURGE_PROGRAM, PurgeProgramRequest, api_purge_program env),
     (FUNCTION_GET_PROGRAM_IDENTIFIER, GetProgramIdentifierRequest, api_get_program_identifier env),
     (FUNCTION_GET_PROGRAM_ROOT_DIRECTORY, GetProgramRootDirectoryRequest, api_get_program_root_directory env),
     (FUNCTION_SET_PROGRAM_COMMAND, SetProgramCommandRequest, api_set_program_command env),
     (FUNCTION_GET_PROGRAM_COMMAND, GetProgramCommandRequest, api_get_program_command env),
     (FUNCTION_SET_PROGRAM_STDIO_REDIRECTION, SetProgramStdioRedirectionRequest, api_set_program_stdio_redirection env),
     (FUNCTION_GET_PROGRAM_STDIO_REDIRECTION, GetProgramStdioRedirectionRequest, api_get_program_stdio_redirection env),
     (FUNCTION_SET_PROGRAM_SCHEDULE, SetProgramScheduleRequest, api_set_program_schedule env),
     (FUNCTION_GET_PROGRAM_SCHEDULE, GetProgramScheduleRequest, api_get_program_schedule env),
     (FUNCTION_GET_PROGRAM_SCHEDULER_STATE, GetProgramSchedulerStateRequest, api_get_program_scheduler_state env),
     (FUNCTION_CONTINUE_PROGRAM_SCHEDULE, ContinueProgramScheduleRequest, api_continue_program_schedule env),
     (FUNCTION_START_PROGRAM, StartProgramRequest, api_start_program env),
     (FUNCTION_GET_LAST_SPAWNED_PROGRAM_PROCESS, GetLastSpawnedProgramProcessRequest, api_get_last_spawned_program_process env),
     (FUNCTION_GET_CUSTOM_PROGRAM_OPTION_NAMES, GetCustomProgramOptionNamesRequest, api_get_custom_program_option_names env),
     (FUNCTION_SET_CUSTOM_PROGRAM_OPTION_VALUE, SetCustomProgramOptionValueRequest, api_set_custom_program_option_value env),
     (FUNCTION_GET_CUSTOM_PROGRAM_OPTION_VALUE, GetCustomProgramOptionValueRequest, api_get_custom_program_option_value env),
     (FUNCTION_REMOVE_CUSTOM_PROGRAM_OPTION, RemoveCustomProgramOptionRequest, api_remove_custom_program_option env),
     (FUNCTION_GET_IDENTITY, GetIdentityRequest, api_get_identity env)]"

definition api_handle_request :: "api_env \<Rightarrow> request \<Rightarrow> apid \<Rightarrow> (response option \<times> apid) option" where
  "api_handle_request env request s = (case map_of (api_dispatch_table env) (request_function_id request) of
       None \<Rightarrow> Some (api_send_response_if_expected request PACKET_E_FUNCTION_NOT_SUPPORTED, s)
     | Some (l, handler) \<Rightarrow>
         if unat (request_length request) \<noteq> sizeof l
         then Some (api_send_response_if_expected request PACKET_E_INVALID_PARAMETER, s)
         else do {
           m \<leftarrow> parse_body l (request_body request);
           (reply, s) \<leftarrow> handler m s;
           Some (send_reply request reply, s)
         })"

end
