(* ===== verification/Api_Facts.thy ===== *)
theory Api_Facts
  imports Api_Dispatch Process_Changes
begin

text \<open>
  The operations behind the API, put together: every call that neither makes an object nor
  writes into a string returns and keeps the invariant, whatever the request says.
\<close>

section \<open>Calls that return and keep the invariant\<close>

definition serves :: "(addr \<Rightarrow> nat) \<Rightarrow> (addr \<Rightarrow> nat) \<Rightarrow> ('a \<times> apid) option \<Rightarrow> bool" where
  "serves R L m \<longleftrightarrow> yields m (\<lambda>(x, s'). inv R L {} s')"

lemma serves_Some [simp]: "serves R L (Some (x, s)) = inv R L {} s"
  by (simp add: serves_def)

lemma servesI: "m = Some (x, s) \<Longrightarrow> inv R L {} s \<Longrightarrow> serves R L m"
  by simp

lemma serves_yields: "yields m (\<lambda>(x, s'). inv R L {} s' \<and> Q x s') \<Longrightarrow> serves R L m"
  unfolding serves_def by (erule yields_mono) auto

lemma serves_quiet: "inv R L {} s \<Longrightarrow> yields m (\<lambda>(x, s'). quiet s s') \<Longrightarrow> serves R L m"
  unfolding serves_def by (erule yields_mono) (auto intro: quiet_inv)

lemma serves_respond [simp]: "serves R L (respond f m) = serves R L m"
  by (cases m) (auto simp: respond_def serves_def)

lemma serves_respond_code [simp]: "serves R L (respond_code m) = serves R L m"
  by (cases m) (auto simp: respond_code_def serves_def)

lemma serves_finish [simp]: "serves R L (finish l m) = serves R L m"
  by (cases m) (auto simp: finish_def serves_def)

lemma serves_finish_procedure [simp]: "serves R L (finish_procedure m) = serves R L m"
  by (cases m) (auto simp: finish_procedure_def serves_def)

section \<open>Macros\<close>

lemma get_session_cases:
  assumes "inv R L {} s"
  obtains e where "inventory_get_session i s = Some (Inl e)"
  | sa where "inventory_get_session i s = Some (Inr sa)" "sess s sa \<noteq> None"
proof -
  have live: "sess s sa \<noteq> None" if "sa \<in> set (sessions s)" for sa
    using assms that by (auto simp: inv_def sessions_ok_def)
  have "\<exists>r. find_session s i as = Some r \<and> (\<forall>sa. r = Inr sa \<longrightarrow> sess s sa \<noteq> None)"
    if "set as \<subseteq> set (sessions s)" for as
    using that
  proof (induction as)
    case (Cons sa as)
    obtain se where "sess s sa = Some se" using live [of sa] Cons.prems by auto
    then show ?case using Cons by auto
  qed simp
  from this [of "sessions s"] obtain r where
    r: "inventory_get_session i s = Some r" "\<And>sa. r = Inr sa \<Longrightarrow> sess s sa \<noteq> None"
    by (auto simp: inventory_get_session_def)
  then show thesis using that by (cases r) auto
qed

lemma get_object_cases:
  assumes "inv R L {} s"
  obtains "inventory_get_object t i s = Some (Inl API_E_UNKNOWN_OBJECT_ID)"
  | a ob where "inventory_get_object t i s = Some (Inr a)" "objs s a = Some ob" "has_type t ob"
      "obj_type ob = payload_type (payload ob)" "payload_wf s (payload ob)"
proof -
  obtain r where r: "inventory_get_object t i s = Some r" "case r of
       Inr a \<Rightarrow> \<exists>ob. objs s a = Some ob \<and> obj_id ob = i \<and> has_type t ob
     | Inl e \<Rightarrow> e = API_E_UNKNOWN_OBJECT_ID \<and>
         (\<forall>a ob. objs s a = Some ob \<and> has_type t ob \<longrightarrow> obj_id ob \<noteq> i)"
    using inventory_get_object_spec [OF assms] by (rule yieldsE)
  show thesis
  proof (cases r)
    case (Inl e)
    then show thesis using r that(1) by simp
  next
    case (Inr a)
    then obtain ob where ob: "objs s a = Some ob" "has_type t ob" using r(2) by auto
    have "object_wf s ob" using inv_arrays(2) [OF assms ob(1)] by simp
    then show thesis using r(1) Inr ob that(2) by (auto simp: object_wf_def)
  qed
qed

lemma serves_session:
  assumes "inv R L {} s" "\<And>sa. sess s sa \<noteq> None \<Longrightarrow> serves R L (body sa request s)"
  shows "serves R L (CALL_FUNCTION_WITH_SESSION l body request s)"
  using assms(1) by (cases rule: get_session_cases [where i = "get16 request ''session_id''"])
    (simp_all add: CALL_FUNCTION_WITH_SESSION_def assms)

lemma serves_session_procedure:
  assumes "inv R L {} s" "\<And>sa. sess s sa \<noteq> None \<Longrightarrow> serves R L (body sa request s)"
  shows "serves R L (CALL_SESSION_PROCEDURE body request s)"
  using assms(1) by (cases rule: get_session_cases [where i = "get16 request ''session_id''"])
    (simp_all add: CALL_SESSION_PROCEDURE_def assms)

lemma serves_type:
  assumes "inv R L {} s" "\<And>a ob. \<lbrakk>objs s a = Some ob; has_type t ob; obj_type ob = payload_type (payload ob);
    payload_wf s (payload ob)\<rbrakk> \<Longrightarrow> serves R L (body a request s)"
  shows "serves R L (CALL_TYPE_FUNCTION l t n body request s)"
  using assms(1) by (cases rule: get_object_cases [where t = t and i = "get16 request n"])
    (simp_all add: CALL_TYPE_FUNCTION_def assms)

lemma serves_type_session:
  assumes "inv R L {} s" "\<And>a ob sa. \<lbrakk>objs s a = Some ob; has_type t ob; obj_type ob = payload_type (payload ob);
    payload_wf s (payload ob); sess s sa \<noteq> None\<rbrakk> \<Longrightarrow> serves R L (body a sa request s)"
  shows "serves R L (CALL_TYPE_FUNCTION_WITH_SESSION l t n body request s)"
  using assms(1)
proof (cases rule: get_object_cases [where t = t and i = "get16 request n"])
  case 1
  then show ?thesis by (simp add: CALL_TYPE_FUNCTION_WITH_SESSION_def assms(1))
next
  case (2 a ob)
  then show ?thesis
    by (simp add: CALL_TYPE_FUNCTION_WITH_SESSION_def) (rule serves_session [OF assms(1)], rule assms(2))
qed

lemma serves_string:
  assumes "inv R L {} s" "\<And>a. is_type s OBJECT_TYPE_STRING a \<Longrightarrow> serves R L (body a request s)"
  shows "serves R L (CALL_FUNCTION_WITH_STRING l n body request s)"
  using assms(1) by (cases rule: get_object_cases [where t = OBJECT_TYPE_STRING and i = "get16 request n"])
    (auto simp add: CALL_FUNCTION_WITH_STRING_def string_get_def has_type_def is_type_def assms(1) intro: assms(2))

lemma serves_object_procedure:
  assumes "inv R L {} s" "\<And>a sa. \<lbrakk>objs s a \<noteq> None; sess s sa \<noteq> None\<rbrakk> \<Longrightarrow> serves R L (body a sa request s)"
  shows "serves R L (CALL_OBJECT_PROCEDURE_WITH_SESSION body request s)"
  using assms(1)
proof (cases rule: get_object_cases [where t = OBJECT_TYPE_ANY and i = "get16 request ''object_id''"])
  case 1
  then show ?thesis by (simp add: CALL_OBJECT_PROCEDURE_WITH_SESSION_def assms(1))
next
  case (2 a ob)
  then show ?thesis
    by (simp add: CALL_OBJECT_PROCEDURE_WITH_SESSION_def) (rule serves_session_procedure [OF assms(1)], rule assms(2), simp)
qed

lemma serves_file_procedure:
  assumes "inv R L {} s" "\<And>a f. \<lbrakk>the_file s a = Some f\<rbrakk> \<Longrightarrow> serves R L (body a request s)"
    and "\<And>e. inv R L {} (handler request e s)"
  shows "serves R L (CALL_FILE_PROCEDURE handler body request s)"
  using assms(1)
proof (cases rule: get_object_cases [where t = OBJECT_TYPE_FILE and i = "get16 request ''file_id''"])
  case 1
  then show ?thesis by (simp add: CALL_FILE_PROCEDURE_def assms(3))
next
  case (2 a ob)
  then obtain f where "the_file s a = Some f"
    by (cases "payload ob") (auto simp: has_type_def the_file_def)
  then show ?thesis using 2(1) by (simp add: CALL_FILE_PROCEDURE_def assms(2))
qed

text \<open>There are no programs in the model, so every program function ends at the lookup.\<close>

lemma no_program:
  "has_type OBJECT_TYPE_PROGRAM ob \<Longrightarrow> obj_type ob = payload_type (payload ob) \<Longrightarrow> False"
  by (cases "payload ob") (auto simp: has_type_def)

lemma serves_program:
  assumes "inv R L {} s"
  shows "serves R L (CALL_PROGRAM_FUNCTION env l f request s)"
    and "serves R L (CALL_PROGRAM_FUNCTION_WITH_SESSION env l f request s)"
  unfolding CALL_PROGRAM_FUNCTION_def CALL_PROGRAM_FUNCTION_WITH_SESSION_def
  by (rule serves_type serves_type_session, rule assms, drule (1) no_program, simp)+

section \<open>Operations on objects of a type\<close>

lemma typed_payloads:
  assumes "objs s a = Some ob" "has_type t ob" "obj_type ob = payload_type (payload ob)"
  shows "t = OBJECT_TYPE_STRING \<Longrightarrow> \<exists>so. payload ob = P_String so"
    and "t = OBJECT_TYPE_LIST \<Longrightarrow> \<exists>lo. payload ob = P_List lo"
    and "t = OBJECT_TYPE_FILE \<Longrightarrow> \<exists>f. payload ob = P_File f"
    and "t = OBJECT_TYPE_DIRECTORY \<Longrightarrow> \<exists>d. payload ob = P_Directory d"
    and "t = OBJECT_TYPE_PROCESS \<Longrightarrow> \<exists>p. payload ob = P_Process p"
  using assms by (cases "payload ob"; simp add: has_type_def)+

lemma file_do_read_quiet: "file_do_read f n s = (r, t) \<Longrightarrow> quiet s t"
  using file_do_read_spec by (blast intro: quiet_only_answers)

lemma file_do_write_quiet: "file_do_write f cs s = (r, t) \<Longrightarrow> quiet s t"
  by (auto simp: file_do_write_def pipe_handle_write_def file_handle_write_def ask_write_def
      split: if_splits prod.splits sum.splits intro: quiet_ask [OF quiet_emit [OF quiet_refl]])

lemma file_do_seek_quiet: "file_do_seek f n w s = (r, t) \<Longrightarrow> quiet s t"
  by (auto simp: file_do_seek_def pipe_handle_seek_def file_handle_seek_def
      split: if_splits intro: quiet_ask [OF quiet_emit [OF quiet_refl]])

lemma file_live: "the_file s a = Some f \<Longrightarrow> quiet s t \<Longrightarrow> objs t a \<noteq> None"
  using quiet_fields(1) [of s t] by (auto simp: the_file_def split: Option.bind_splits)

lemma callbacks_quiet:
  assumes "the_file s a = Some f" "quiet s t"
  shows "yields (file_send_async_read_callback a e cs t) (quiet s)"
    and "yields (file_send_async_write_callback a e n t) (quiet s)"
  using file_live [OF assms] assms(2)
  by (auto simp: file_send_async_read_callback_def file_send_async_write_callback_def)

lemma file_read_quiet: "the_file s a = Some f \<Longrightarrow> yields (file_read a n s) (\<lambda>(r, t). quiet s t)"
  by (auto simp: file_read_def split: prod.splits sum.splits intro: file_do_read_quiet)

lemma file_write_quiet: "the_file s a = Some f \<Longrightarrow> yields (file_write a cs n s) (\<lambda>(r, t). quiet s t)"
  by (auto simp: file_write_def split: prod.splits sum.splits intro: file_do_write_quiet)

lemma file_write_unchecked_quiet: "the_file s a = Some f \<Longrightarrow> yields (file_write_unchecked a cs n s) (\<lambda>(r, t). quiet s t)"
  by (auto simp: file_write_unchecked_def split: prod.splits sum.splits intro: file_do_write_quiet)

lemma yields_then: "yields m P \<Longrightarrow> (\<And>x. P x \<Longrightarrow> Q (e, x)) \<Longrightarrow> yields (do { s \<leftarrow> m; Some (e, s) }) Q"
  by (cases m) simp_all

lemma file_write_async_quiet:
  assumes "the_file s a = Some f"
  shows "yields (file_write_async a cs n s) (\<lambda>(r, t). quiet s t)"
proof -
  obtain r t where r: "file_do_write f (take (unat n) cs) s = (r, t)" by (cases "file_do_write f (take (unat n) cs) s")
  note cb = callbacks_quiet(2) [OF assms quiet_refl] callbacks_quiet(2) [OF assms file_do_write_quiet [OF r]]
  show ?thesis
    using assms r by (cases r) (auto simp: file_write_async_def intro!: yields_then [OF cb(1)] yields_then [OF cb(2)])
qed

lemma file_position_quiet:
  assumes "the_file s a = Some f"
  shows "yields (file_set_position a off o' s) (\<lambda>(r, t). quiet s t)" "yields (file_get_position a s) (\<lambda>(r, t). quiet s t)"
  using assms by (auto simp: file_set_position_def file_get_position_def Let_def split: prod.splits sum.splits option.splits
      intro: file_do_seek_quiet)

lemma file_get_info_serves:
  assumes "inv R L {} s" "objs s a = Some ob" "payload ob = P_File f" "sess s sa \<noteq> None"
  shows "serves R L (file_get_info a sa s)"
proof -
  have f: "the_file s a = Some f" using assms(2,3) by (rule the_file_objs)
  obtain r t where t: "ask s = (r, t)" by (cases "ask s")
  have qt: "inv R L {} t" by (rule quiet_inv [OF assms(1) quiet_ask [OF quiet_refl t]])
  have "object_wf s ob" using inv_arrays(2) [OF assms(1,2)] by simp
  then obtain nm where nm: "objs s (file_name f) = Some nm" using assms(3) by (auto simp: object_wf_def is_type_def)
  obtain e u where u: "object_add_external_reference (file_name f) sa s = Some (e, u)" "inv R L {} u"
    using add_external_reference_spec [OF assms(1) nm assms(4)] by (auto elim!: yields_pairE)
  obtain nm' where nm': "objs u (file_name f) = Some nm'"
    using add_external_reference_frame(1) [OF u(1) nm] by auto
  obtain r' v where v: "ask_stat u = (r', v)" by (cases "ask_stat u")
  have iv: "inv R L {} v" by (rule quiet_inv [OF u(2) quiet_ask_stat [OF quiet_refl v]])
  show ?thesis
    using f t qt u nm' v iv by (cases r; cases r') (simp_all add: file_get_info_def)
qed

lemma directory_get_name_serves:
  assumes "inv R L {} s" "objs s a = Some ob" "payload ob = P_Directory d" "sess s sa \<noteq> None"
  shows "serves R L (directory_get_name a sa s)"
proof -
  have d: "the_directory s a = Some d" using assms(2,3) by (simp add: the_directory_def)
  have "object_wf s ob" using inv_arrays(2) [OF assms(1,2)] by simp
  then obtain nm where nm: "objs s (dir_name d) = Some nm" using assms(3) by (auto simp: object_wf_def is_type_def)
  obtain e u where u: "object_add_external_reference (dir_name d) sa s = Some (e, u)" "inv R L {} u"
    using add_external_reference_spec [OF assms(1) nm assms(4)] by (auto elim!: yields_pairE)
  obtain nm' where nm': "objs u (dir_name d) = Some nm'"
    using add_external_reference_frame(1) [OF u(1) nm] by auto
  show ?thesis using d u nm' by (simp add: directory_get_name_def)
qed

lemma directory_create_failed_quiet: "directory_create_failed en flags s = (e, t) \<Longrightarrow> quiet s t"
  by (auto simp: directory_create_failed_def split: prod.splits sum.splits if_splits dest: quiet_ask_stat [OF quiet_refl])

lemma directory_create_helper_quiet:
  "directory_create_helper name flags mode s = Some (e, t) \<Longrightarrow> quiet s t"
proof (induction name flags mode s arbitrary: e t rule: directory_create_helper.induct)
  case (1 name flags mode s)
  obtain r1 s1 where r1: "ask (emit (Ev_mkdir name mode) s) = (r1, s1)" by (cases "ask (emit (Ev_mkdir name mode) s)")
  have q1: "quiet s s1" by (rule quiet_ask [OF quiet_emit [OF quiet_refl] r1])
  note simps = directory_create_helper.simps [of name flags mode s]
  show ?case
  proof (cases "r1 = Inl ENOENT \<and> flags AND DIRECTORY_FLAG_RECURSIVE \<noteq> 0")
    case False
    have "quiet s u" if "directory_create_failed en flags s1 = (e', u)" for en e' u
      by (rule quiet_trans [OF q1 directory_create_failed_quiet [OF that]])
    then show ?thesis
      using False 1(2) simps r1 q1 by (cases r1) (auto split: if_splits)
  next
    case True
    then obtain p where p: "strrchr name CHR ''/'' = Some p" using 1(2) simps r1 by (cases "strrchr name CHR ''/''") auto
    obtain e2 s2 where r2: "(if p \<noteq> 0 then directory_create_helper (take p name) flags mode s1
        else Some (API_E_SUCCESS, s1)) = Some (e2, s2)"
      using 1(2) simps r1 True p by (auto split: Option.bind_splits)
    have IH: "quiet s1 t'" if "p \<noteq> 0" "directory_create_helper (take p name) flags mode s1 = Some (e', t')" for e' t'
      using 1(1) [OF r1 [symmetric] _ _ _ p] True that by auto
    have "quiet s1 s2" using r2 IH by (auto split: if_splits)
    then have q2: "quiet s s2" by (rule quiet_trans [OF q1])
    obtain r3 s3 where r3: "ask (emit (Ev_mkdir name mode) s2) = (r3, s3)" by (cases "ask (emit (Ev_mkdir name mode) s2)")
    have q3: "quiet s s3" by (rule quiet_ask [OF quiet_emit [OF q2] r3])
    have q4: "quiet s u" if "directory_create_failed en flags s3 = (e', u)" for en e' u
      by (rule quiet_trans [OF q3 directory_create_failed_quiet [OF that]])
    have "(if e2 \<noteq> API_E_SUCCESS then Some (e2, s2)
       else case r3 of Inr _ \<Rightarrow> Some (API_E_SUCCESS, s3) | Inl en \<Rightarrow> Some (directory_create_failed en flags s3)) = Some (e, t)"
      using 1(2) r1 True p r2 r3 unfolding simps by (simp cong: if_cong)
    then show ?thesis using q2 q3 q4 by (auto split: if_splits sum.splits)
  qed
qed

lemma directory_create_quiet: "yields (directory_create name flags permissions uid gid s) (\<lambda>(e, t). quiet s t)"
proof (cases "name = [] \<or> hd name \<noteq> CHR ''/''")
  case True
  then show ?thesis by (auto simp: directory_create_def)
next
  case False
  obtain r t where t: "ask s = (r, t)" by (cases "ask s")
  have qt: "quiet s t" by (rule quiet_ask [OF quiet_refl t])
  let ?mode = "file_get_mode_from_permissions permissions"
  obtain e u where u: "directory_create_helper name flags ?mode t = Some (e, u)"
    using directory_create_helper_spec [of name flags ?mode t] False by auto
  have qu: "quiet s u" by (rule quiet_trans [OF qt directory_create_helper_quiet [OF u]])
  have qw: "quiet s w" if "directory_create_wait t = (e', w)" for e' w
    using that by (auto simp: directory_create_wait_def Let_def split: prod.splits sum.splits if_splits
        dest!: quiet_process_fork [OF qt] dest: quiet_ask_retry)
  show ?thesis
    using False t u qt qu qw by (cases r) (auto simp: directory_create_def Let_def split: prod.splits)
qed

lemma process_kill_quiet: "the_process s a = Some p \<Longrightarrow> yields (process_kill a sig s) (\<lambda>(e, t). quiet s t)"
  by (auto simp: process_kill_def split: prod.splits sum.splits intro: quiet_ask [OF quiet_emit [OF quiet_refl]])

lemma process_parts_live:
  assumes "payload_wf s (P_Process p)"
  shows "a \<in> set [proc_executable p, proc_arguments p, proc_environment p, proc_working_directory p] \<Longrightarrow> objs s a \<noteq> None"
    and "a \<in> set [proc_stdin p, proc_stdout p, proc_stderr p] \<Longrightarrow> objs s a \<noteq> None"
  using assms by (auto simp: is_type_def)

lemma get_referenced_ids_serves:
  assumes "inv R L {} s" "sess s sa \<noteq> None" "\<And>a. a \<in> set as \<Longrightarrow> objs s a \<noteq> None"
  shows "serves R L (get_referenced_ids as sa s)"
  using get_referenced_ids_spec [OF assms] by (auto intro: servesI)

lemma process_references_serve:
  assumes "inv R L {} s" "the_process s a = Some p" "payload_wf s (P_Process p)" "sess s sa \<noteq> None"
  shows "serves R L (process_get_command a sa s)" "serves R L (process_get_stdio a sa s)"
  using get_referenced_ids_serves [OF assms(1,4) process_parts_live(1) [OF assms(3)]]
    get_referenced_ids_serves [OF assms(1,4) process_parts_live(2) [OF assms(3)]] assms(2)
  by (simp_all only: process_get_command_def process_get_stdio_def bind.bind_lunit)

section \<open>Handlers\<close>

text \<open>
  References that only the daemon itself holds and that do not lock: there are none to lists.
\<close>

definition lists_locked :: "(addr \<Rightarrow> nat) \<Rightarrow> (addr \<Rightarrow> nat) \<Rightarrow> apid \<Rightarrow> bool" where
  "lists_locked R L s \<longleftrightarrow> (\<forall>a. is_type s OBJECT_TYPE_LIST a \<longrightarrow> R a = L a)"

text \<open>The functions that make objects, write into strings, or belong to \<open>program.c\<close> entirely.\<close>

definition making_functions :: "u8 list" where
  "making_functions = [FUNCTION_ALLOCATE_STRING, FUNCTION_SET_STRING_CHUNK, FUNCTION_ALLOCATE_LIST,
     FUNCTION_OPEN_FILE, FUNCTION_CREATE_PIPE, FUNCTION_OPEN_DIRECTORY, FUNCTION_GET_NEXT_DIRECTORY_ENTRY,
     FUNCTION_GET_PROCESSES, FUNCTION_SPAWN_PROCESS, FUNCTION_GET_PROGRAMS, FUNCTION_DEFINE_PROGRAM]"

lemma serves_session_handlers:
  assumes i: "inv R L {} s"
  shows "serves R L (api_create_session m s)" "serves R L (api_expire_session m s)"
  "serves R L (api_expire_session_unchecked m s)" "serves R L (api_keep_session_alive m s)"
proof -
  have expire: "serves R L (session_expire sa s)" if live: "sess s sa \<noteq> None" for sa
  proof -
    obtain se where "sess s sa = Some se" using live by auto
    from session_expire_helper_spec [OF i this] show ?thesis by (auto simp: session_expire_def elim!: yieldsE)
  qed
  show "serves R L (api_create_session m s)"
    using serves_yields [OF session_create_spec [OF i]]
    by (simp add: api_create_session_def CALL_FUNCTION_def)
  show "serves R L (api_expire_session m s)"
    unfolding api_expire_session_def CALL_SESSION_FUNCTION_def by (rule serves_session [OF i]) (simp add: expire)
  show "serves R L (api_expire_session_unchecked m s)"
    unfolding api_expire_session_unchecked_def
  proof (rule serves_session_procedure [OF i])
    fix sa
    assume "sess s sa \<noteq> None"
    from expire [OF this] show "serves R L (session_expire_unchecked sa s)"
      by (cases "session_expire sa s") (auto simp: session_expire_unchecked_def serves_def)
  qed
  show "serves R L (api_keep_session_alive m s)"
    unfolding api_keep_session_alive_def CALL_SESSION_FUNCTION_def
  proof (rule serves_session [OF i])
    fix sa
    assume "sess s sa \<noteq> None"
    then obtain se where "sess s sa = Some se" by auto
    from serves_yields [OF session_keep_alive_spec [OF i this]]
    show "serves R L (respond_code (session_keep_alive sa (get32 m ''lifetime'') s))" by simp
  qed
qed

lemma serves_object_handlers:
  assumes i: "inv R L {} s"
  shows "serves R L (api_release_object m s)" "serves R L (api_release_object_unchecked m s)"
proof -
  have release: "serves R L (object_release a sa s)" if live: "objs s a \<noteq> None" for a sa
  proof -
    obtain ob where ob: "objs s a = Some ob" using live by auto
    have "a \<notin> {}" by simp
    from remove_external_reference_spec [OF i ob this, of sa] show ?thesis
      using ob i by (auto simp: object_release_def elim!: yieldsE)
  qed
  show "serves R L (api_release_object m s)"
    unfolding api_release_object_def CALL_OBJECT_FUNCTION_WITH_SESSION_def
    by (rule serves_type_session [OF i]) (simp add: release)
  show "serves R L (api_release_object_unchecked m s)"
    unfolding api_release_object_unchecked_def
  proof (rule serves_object_procedure [OF i])
    fix a sa
    assume "objs s a \<noteq> None"
    from release [OF this, of sa] show "serves R L (object_release_unchecked a sa s)"
      by (cases "object_release a sa s") (auto simp: object_release_unchecked_def serves_def)
  qed
qed

lemma serves_string_handlers:
  assumes i: "inv R L {} s"
  shows "serves R L (api_truncate_string m s)" "serves R L (api_get_string_length m s)"
  "serves R L (api_get_string_chunk m s)"
  unfolding api_truncate_string_def api_get_string_length_def api_get_string_chunk_def CALL_STRING_FUNCTION_def
proof -
  have str: "string_is s a (string_value so)" if "objs s a = Some ob" "payload ob = P_String so" for a ob so
  proof -
    have so: "the_string s a = Some so" using that by (simp add: the_string_def)
    then show ?thesis using inv_string [OF i so] by (simp add: string_is_def)
  qed
  show "serves R L (CALL_TYPE_FUNCTION TruncateStringResponse OBJECT_TYPE_STRING ''string_id''
      (\<lambda>string request s. respond_code (string_truncate string (get32 request ''length'') s)) m s)"
  proof (rule serves_type [OF i])
    fix a ob
    assume ob: "objs s a = Some ob" "has_type OBJECT_TYPE_STRING ob" "obj_type ob = payload_type (payload ob)"
    obtain so where so: "payload ob = P_String so" using typed_payloads(1) [OF ob] by auto
    have "a \<notin> {}" by simp
    from serves_yields [OF string_truncate_spec [OF i ob(1) so this]]
    show "serves R L (respond_code (string_truncate a (get32 m ''length'') s))" by simp
  qed
  show "serves R L (CALL_TYPE_FUNCTION GetStringLengthResponse OBJECT_TYPE_STRING ''string_id''
      (\<lambda>string request s. do { (e, length') \<leftarrow> string_get_length string s;
         Some ([error_code e, (''length'', V32 length')], s) }) m s)"
  proof (rule serves_type [OF i])
    fix a ob
    assume ob: "objs s a = Some ob" "has_type OBJECT_TYPE_STRING ob" "obj_type ob = payload_type (payload ob)"
    obtain so where so: "payload ob = P_String so" using typed_payloads(1) [OF ob] by auto
    from string_get_length_spec [OF str [OF ob(1) so]]
    show "serves R L (do { (e, length') \<leftarrow> string_get_length a s; Some ([error_code e, (''length'', V32 length')], s) })"
      using i by (auto elim!: yieldsE)
  qed
  show "serves R L (CALL_TYPE_FUNCTION GetStringChunkResponse OBJECT_TYPE_STRING ''string_id''
      (\<lambda>string request s. do { (e, buffer) \<leftarrow> string_get_chunk string (get32 request ''offset'') s;
         Some ([error_code e, (''buffer'', Vchars buffer)], s) }) m s)"
  proof (rule serves_type [OF i])
    fix a ob
    assume ob: "objs s a = Some ob" "has_type OBJECT_TYPE_STRING ob" "obj_type ob = payload_type (payload ob)"
    obtain so where so: "payload ob = P_String so" using typed_payloads(1) [OF ob] by auto
    show "serves R L (do { (e, buffer) \<leftarrow> string_get_chunk a (get32 m ''offset'') s;
         Some ([error_code e, (''buffer'', Vchars buffer)], s) })"
      using i unfolding string_get_chunk_spec [OF str [OF ob(1) so]] by simp
  qed
qed

lemma serves_list_handlers:
  assumes i: "inv R L {} s" and "lists_locked R L s"
  shows "serves R L (api_get_list_length m s)" "serves R L (api_get_list_item m s)"
    "serves R L (api_append_to_list m s)" "serves R L (api_remove_from_list m s)"
  unfolding api_get_list_length_def api_get_list_item_def api_append_to_list_def api_remove_from_list_def
    CALL_LIST_FUNCTION_def
proof -
  have locked: "R a = L a" if "objs s a = Some ob" "has_type OBJECT_TYPE_LIST ob" for a ob
    using assms(2) that by (simp add: lists_locked_def is_type_def has_type_def)
  show "serves R L (CALL_TYPE_FUNCTION GetListLengthResponse OBJECT_TYPE_LIST ''list_id''
      (\<lambda>list request s. do { (e, length') \<leftarrow> list_get_length list s;
         Some ([error_code e, (''length'', V16 length')], s) }) m s)"
  proof (rule serves_type [OF i])
    fix a ob
    assume ob: "objs s a = Some ob" "has_type OBJECT_TYPE_LIST ob" "obj_type ob = payload_type (payload ob)"
    then obtain lo where "payload ob = P_List lo" using typed_payloads(2) [OF ob] by auto
    then show "serves R L (do { (e, length') \<leftarrow> list_get_length a s; Some ([error_code e, (''length'', V16 length')], s) })"
      using i ob(1) by (simp add: list_get_length_def the_list_def)
  qed
  show "serves R L (CALL_TYPE_FUNCTION_WITH_SESSION GetListItemResponse OBJECT_TYPE_LIST ''list_id''
     (\<lambda>list session request s.
        respond (\<lambda>(i, t). [(''item_object_id'', V16 i), (''type'', V8 (of_int (object_type_code t)))])
          (list_get_item list (get16 request ''index'') session s)) m s)"
  proof (rule serves_type_session [OF i])
    fix a ob sa
    assume ob: "objs s a = Some ob" "has_type OBJECT_TYPE_LIST ob" "obj_type ob = payload_type (payload ob)"
      and sa: "sess s sa \<noteq> None"
    then obtain lo where "the_list s a = Some lo" using typed_payloads(2) [OF ob] by (auto simp: the_list_def)
    from serves_yields [OF list_get_item_spec [OF i this sa]]
    show "serves R L (respond (\<lambda>(i, t). [(''item_object_id'', V16 i), (''type'', V8 (of_int (object_type_code t)))])
          (list_get_item a (get16 m ''index'') sa s))" by simp
  qed
  show "serves R L (CALL_TYPE_FUNCTION AppendToListResponse OBJECT_TYPE_LIST ''list_id''
     (\<lambda>list request s. respond_code (list_append_to list (get16 request ''item_object_id'') s)) m s)"
  proof (rule serves_type [OF i])
    fix a ob
    assume ob: "objs s a = Some ob" "has_type OBJECT_TYPE_LIST ob" "obj_type ob = payload_type (payload ob)"
    then obtain lo where lo: "payload ob = P_List lo" using typed_payloads(2) [OF ob] by auto
    from serves_yields [OF list_append_to_spec [OF i ob(1) lo locked [OF ob(1,2)]]]
    show "serves R L (respond_code (list_append_to a (get16 m ''item_object_id'') s))" by simp
  qed
  show "serves R L (CALL_TYPE_FUNCTION RemoveFromListResponse OBJECT_TYPE_LIST ''list_id''
     (\<lambda>list request s. respond_code (list_remove_from list (get16 request ''index'') s)) m s)"
  proof (rule serves_type [OF i])
    fix a ob
    assume ob: "objs s a = Some ob" "has_type OBJECT_TYPE_LIST ob" "obj_type ob = payload_type (payload ob)"
    then obtain lo where lo: "payload ob = P_List lo" using typed_payloads(2) [OF ob] by auto
    from serves_yields [OF list_remove_from_spec [OF i ob(1) lo locked [OF ob(1,2)]]]
    show "serves R L (respond_code (list_remove_from a (get16 m ''index'') s))" by simp
  qed
qed

end
