(* ===== verification/Api_Calls.thy ===== *)
theory Api_Calls
  imports Api_Facts
begin

text \<open>
  The rest of the handlers that make no objects, and the dispatcher: all of them return and keep
  the invariant, and every response answers its request.
\<close>

section \<open>Handlers of files, directories and processes\<close>

lemma serves_file:
  assumes "inv R L {} s" "\<And>a ob f. \<lbrakk>objs s a = Some ob; payload ob = P_File f; the_file s a = Some f\<rbrakk> \<Longrightarrow>
    serves R L (body a request s)"
  shows "serves R L (CALL_FILE_FUNCTION l body request s)"
  unfolding CALL_FILE_FUNCTION_def
proof (rule serves_type [OF assms(1)])
  fix a ob
  assume ob: "objs s a = Some ob" "has_type OBJECT_TYPE_FILE ob" "obj_type ob = payload_type (payload ob)"
  then obtain f where "payload ob = P_File f" using typed_payloads(3) [OF ob] by auto
  then show "serves R L (body a request s)" using assms(2) ob(1) the_file_objs by blast
qed

lemma serves_process:
  assumes "inv R L {} s" "\<And>a p. \<lbrakk>the_process s a = Some p; payload_wf s (P_Process p)\<rbrakk> \<Longrightarrow> serves R L (body a request s)"
  shows "serves R L (CALL_PROCESS_FUNCTION l body request s)"
  unfolding CALL_PROCESS_FUNCTION_def
proof (rule serves_type [OF assms(1)])
  fix a ob
  assume ob: "objs s a = Some ob" "has_type OBJECT_TYPE_PROCESS ob" "obj_type ob = payload_type (payload ob)"
    and wf: "payload_wf s (payload ob)"
  then obtain p where p: "payload ob = P_Process p" using typed_payloads(5) [OF ob] by auto
  then have "the_process s a = Some p" using ob(1) by (simp add: the_process_def)
  then show "serves R L (body a request s)" using assms(2) wf p by metis
qed

lemma serves_process_session:
  assumes "inv R L {} s" "\<And>a p sa. \<lbrakk>the_process s a = Some p; payload_wf s (P_Process p); sess s sa \<noteq> None\<rbrakk> \<Longrightarrow>
    serves R L (body a sa request s)"
  shows "serves R L (CALL_TYPE_FUNCTION_WITH_SESSION l OBJECT_TYPE_PROCESS n body request s)"
proof (rule serves_type_session [OF assms(1)])
  fix a ob sa
  assume ob: "objs s a = Some ob" "has_type OBJECT_TYPE_PROCESS ob" "obj_type ob = payload_type (payload ob)"
    and wf: "payload_wf s (payload ob)" and sa: "sess s sa \<noteq> None"
  then obtain p where p: "payload ob = P_Process p" using typed_payloads(5) [OF ob] by auto
  then have "the_process s a = Some p" using ob(1) by (simp add: the_process_def)
  then show "serves R L (body a sa request s)" using assms(2) wf p sa by metis
qed

lemma async_serve:
  assumes i: "inv R L {} s" and ob: "objs s a = Some ob" "payload ob = P_File f"
  shows "serves R L (file_read_async a n s)" "serves R L (file_abort_async_read a s)" "serves R L (file_set_events a evs s)"
proof -
  obtain e t where t: "file_read_async a n s = Some (e, t)" "file_changed a s t"
    using read_async_spec [OF ob, of n] by blast
  show "serves R L (file_read_async a n s)" by (rule servesI [OF t(1) inv_file_changed [OF i t(2)]])
  obtain t where t: "file_abort_async_read a s = Some (API_E_SUCCESS, t)" "file_changed a s t"
    using abort_spec [OF ob] by (auto simp: sources_kept_def)
  show "serves R L (file_abort_async_read a s)" by (rule servesI [OF t(1) inv_file_changed [OF i t(2)]])
  obtain e t where t: "file_set_events a evs s = Some (e, t)" "file_changed a s t"
    using set_events_spec [OF ob, of evs] by blast
  show "serves R L (file_set_events a evs s)" by (rule servesI [OF t(1) inv_file_changed [OF i t(2)]])
qed

lemma serves_file_handlers:
  assumes i: "inv R L {} s"
  shows "serves R L (api_get_file_info m s)" "serves R L (api_read_file m s)" "serves R L (api_read_file_async m s)"
    "serves R L (api_abort_async_file_read m s)" "serves R L (api_write_file m s)"
    "serves R L (api_write_file_unchecked m s)" "serves R L (api_write_file_async m s)"
proof -
  show "serves R L (api_get_file_info m s)"
    unfolding api_get_file_info_def
  proof (rule serves_type_session [OF i])
    fix a ob sa
    assume ob: "objs s a = Some ob" "has_type OBJECT_TYPE_FILE ob" "obj_type ob = payload_type (payload ob)"
      and sa: "sess s sa \<noteq> None"
    then obtain f where "payload ob = P_File f" using typed_payloads(3) [OF ob] by auto
    from file_get_info_serves [OF i ob(1) this sa] show "serves R L (respond g (file_get_info a sa s))" for g
      unfolding serves_respond .
  qed
  show "serves R L (api_read_file m s)"
    unfolding api_read_file_def
    by (rule serves_file [OF i], unfold serves_respond, rule serves_quiet [OF i file_read_quiet])
  show "serves R L (api_read_file_async m s)"
    unfolding api_read_file_async_def
    by (rule serves_file_procedure [OF i]) (auto simp: i elim!: the_fileE intro: async_serve [OF i])
  show "serves R L (api_abort_async_file_read m s)"
    unfolding api_abort_async_file_read_def
    by (rule serves_file [OF i], unfold serves_respond_code, rule async_serve [OF i])
  show "serves R L (api_write_file m s)"
    unfolding api_write_file_def
    by (rule serves_file [OF i], unfold serves_respond, rule serves_quiet [OF i file_write_quiet])
  show "serves R L (api_write_file_unchecked m s)"
    unfolding api_write_file_unchecked_def
    by (rule serves_file_procedure [OF i]) (auto simp: i intro: serves_quiet [OF i file_write_unchecked_quiet])
  show "serves R L (api_write_file_async m s)"
    unfolding api_write_file_async_def
    by (rule serves_file_procedure [OF i]) (auto simp: i intro: serves_quiet [OF i file_write_async_quiet])
qed

lemma serves_file_position_handlers:
  assumes i: "inv R L {} s"
  shows "serves R L (api_set_file_position m s)" "serves R L (api_get_file_position m s)"
    "serves R L (api_set_file_events m s)" "serves R L (api_get_file_events m s)"
proof -
  show "serves R L (api_set_file_position m s)"
    unfolding api_set_file_position_def
    by (rule serves_file [OF i], unfold serves_respond, rule serves_quiet [OF i file_position_quiet(1)])
  show "serves R L (api_get_file_position m s)"
    unfolding api_get_file_position_def
    by (rule serves_file [OF i], unfold serves_respond, rule serves_quiet [OF i file_position_quiet(2)])
  show "serves R L (api_set_file_events m s)"
    unfolding api_set_file_events_def
    by (rule serves_file [OF i], unfold serves_respond_code, rule async_serve [OF i])
  show "serves R L (api_get_file_events m s)"
    unfolding api_get_file_events_def
    by (rule serves_file [OF i]) (simp add: file_get_events_def i)
qed

lemma serves_directory_handlers:
  assumes i: "inv R L {} s"
  shows "serves R L (api_get_directory_name m s)" "serves R L (api_rewind_directory m s)"
    "serves R L (api_create_directory m s)"
proof -
  show "serves R L (api_get_directory_name m s)"
    unfolding api_get_directory_name_def
  proof (rule serves_type_session [OF i])
    fix a ob sa
    assume ob: "objs s a = Some ob" "has_type OBJECT_TYPE_DIRECTORY ob" "obj_type ob = payload_type (payload ob)"
      and sa: "sess s sa \<noteq> None"
    then obtain d where "payload ob = P_Directory d" using typed_payloads(4) [OF ob] by auto
    from directory_get_name_serves [OF i ob(1) this sa]
    show "serves R L (respond (\<lambda>i. [(''name_string_id'', V16 i)]) (directory_get_name a sa s))" by simp
  qed
  show "serves R L (api_rewind_directory m s)"
    unfolding api_rewind_directory_def
  proof (rule serves_type [OF i])
    fix a ob
    assume ob: "objs s a = Some ob" "has_type OBJECT_TYPE_DIRECTORY ob" "obj_type ob = payload_type (payload ob)"
    then obtain d where "payload ob = P_Directory d" using typed_payloads(4) [OF ob] by auto
    then show "serves R L (respond_code (directory_rewind a s))"
      using ob(1) i by (simp add: directory_rewind_def the_directory_def)
  qed
  show "serves R L (api_create_directory m s)"
    unfolding api_create_directory_def
  proof (rule serves_string [OF i])
    fix a
    assume a: "is_type s OBJECT_TYPE_STRING a"
    obtain chars where "string_chars s a = Some chars" by (rule string_chars_live [OF i a]) simp
    then show "serves R L (do { chars \<leftarrow> string_chars s a;
       respond_code (directory_create chars (get32 m ''flags'') (get16 m ''permissions'')
         (get32 m ''uid'') (get32 m ''gid'') s) })"
      using serves_quiet [OF i directory_create_quiet] by simp
  qed
qed

lemma serves_process_handlers:
  assumes i: "inv R L {} s"
  shows "serves R L (api_kill_process m s)" "serves R L (api_get_process_command m s)"
    "serves R L (api_get_process_identity m s)" "serves R L (api_get_process_stdio m s)"
    "serves R L (api_get_process_state m s)"
proof -
  show "serves R L (api_kill_process m s)"
    unfolding api_kill_process_def
    by (rule serves_process [OF i], unfold serves_respond_code, rule serves_quiet [OF i process_kill_quiet])
  show "serves R L (api_get_process_command m s)"
    unfolding api_get_process_command_def
    by (rule serves_process_session [OF i], unfold serves_respond, rule process_references_serve [OF i])
  show "serves R L (api_get_process_stdio m s)"
    unfolding api_get_process_stdio_def
    by (rule serves_process_session [OF i], unfold serves_respond, rule process_references_serve [OF i])
  show "serves R L (api_get_process_identity m s)"
    unfolding api_get_process_identity_def by (rule serves_process [OF i]) (simp add: process_get_identity_def i)
  show "serves R L (api_get_process_state m s)"
    unfolding api_get_process_state_def by (rule serves_process [OF i]) (simp add: process_get_state_def i)
qed

lemma serves_program_handlers:
  assumes i: "inv R L {} s"
  shows "serves R L (api_purge_program env m s)" "serves R L (api_get_program_identifier env m s)"
    "serves R L (api_get_program_root_directory env m s)" "serves R L (api_set_program_command env m s)"
    "serves R L (api_get_program_command env m s)" "serves R L (api_set_program_stdio_redirection env m s)"
    "serves R L (api_get_program_stdio_redirection env m s)" "serves R L (api_set_program_schedule env m s)"
    "serves R L (api_get_program_schedule env m s)" "serves R L (api_get_program_scheduler_state env m s)"
    "serves R L (api_continue_program_schedule env m s)" "serves R L (api_start_program env m s)"
    "serves R L (api_get_last_spawned_program_process env m s)"
    "serves R L (api_get_custom_program_option_names env m s)"
    "serves R L (api_set_custom_program_option_value env m s)"
    "serves R L (api_get_custom_program_option_value env m s)"
    "serves R L (api_remove_custom_program_option env m s)" "serves R L (api_get_identity env m s)"
  unfolding api_purge_program_def api_get_program_identifier_def api_get_program_root_directory_def
    api_set_program_command_def api_get_program_command_def api_set_program_stdio_redirection_def
    api_get_program_stdio_redirection_def api_set_program_schedule_def api_get_program_schedule_def
    api_get_program_scheduler_state_def api_continue_program_schedule_def api_start_program_def
    api_get_last_spawned_program_process_def api_get_custom_program_option_names_def
    api_set_custom_program_option_value_def api_get_custom_program_option_value_def
    api_remove_custom_program_option_def
  by (rule serves_program [OF i])+ (simp add: api_get_identity_def CALL_FUNCTION_def i)

section \<open>The dispatcher\<close>

lemmas serves_handlers = serves_session_handlers serves_object_handlers serves_string_handlers serves_list_handlers
  serves_file_handlers serves_file_position_handlers serves_directory_handlers serves_process_handlers
  serves_program_handlers

lemma serves_table:
  assumes "inv R L {} s" "lists_locked R L s"
  shows "list_all (\<lambda>(f, l, h). f \<in> set making_functions \<or> serves R L (h m s)) (api_dispatch_table env)"
  by (simp only: api_dispatch_table_def list.pred_inject case_prod_conv making_functions_def list.set insert_iff refl
      serves_handlers [OF assms(1)] serves_list_handlers [OF assms] simp_thms)

definition answers_request :: "request \<Rightarrow> response option \<Rightarrow> bool" where
  "answers_request request r = (case r of
       None \<Rightarrow> \<not> request_response_expected request
     | Some r \<Rightarrow> response_uid r = request_uid request \<and>
         response_function_id r = request_function_id request \<and>
         response_sequence_number r = request_sequence_number request \<and> response_response_expected r)"

lemma send_if_expected_answers: "answers_request request (api_send_response_if_expected request e)"
  by (simp add: answers_request_def api_send_response_if_expected_def api_prepare_response_def)

lemma send_reply_answers: "answers_request request (send_reply request reply)"
  using send_if_expected_answers
  by (cases reply) (auto simp: send_reply_def answers_request_def api_prepare_response_def)

lemma handle_request_serves:
  assumes "inv R L {} s" "lists_locked R L s" "request_function_id request \<notin> set making_functions"
    and "unat (request_length request) = 8 + length (request_body request)"
  shows "\<exists>r s'. api_handle_request env request s = Some (r, s') \<and> inv R L {} s' \<and> answers_request request r"
proof (cases "map_of (api_dispatch_table env) (request_function_id request)")
  case None
  then show ?thesis using assms(1) send_if_expected_answers by (auto simp: api_handle_request_def)
next
  case (Some x)
  obtain l h where x: "x = (l, h)" by (cases x)
  show ?thesis
  proof (cases "unat (request_length request) = sizeof l")
    case False
    then show ?thesis using Some x assms(1) send_if_expected_answers by (auto simp: api_handle_request_def)
  next
    case True
    then have "length (request_body request) = body_size l" using assms(4) by (simp add: sizeof_def)
    then obtain m where m: "parse_body l (request_body request) = Some m" using parse_body_some by blast
    have "(request_function_id request, l, h) \<in> set (api_dispatch_table env)" using Some x map_of_SomeD by fastforce
    then have "serves R L (h m s)"
      using serves_table [OF assms(1,2), of m env] assms(3) by (auto simp: list_all_iff)
    then obtain reply s' where "h m s = Some (reply, s')" "inv R L {} s'"
      unfolding serves_def by (rule yields_pairE)
    then show ?thesis using Some x True m send_reply_answers by (simp add: api_handle_request_def)
  qed
qed

end
