(* ===== verification/Api_Properties.thy ===== *)
theory Api_Properties
  imports Api_Calls Example_States
begin

text \<open>
  What the API promises to the program at the other end of the connection: packets are read and
  written without loss, fit into the packet buffer, are answered under the identity of their
  request, and no request makes the daemon fail or breaks its bookkeeping.
\<close>

section \<open>Packets\<close>



text \<open>C34. Every request, response and callback of the API fits into a packet: it has at most 64
  bytes behind the 8 bytes of the header, so the length of a response is what its header says.\<close>

theorem packets_fit:
  "list_all (\<lambda>l. sizeof l \<le> 8 + 64 \<and>
     unat (response_length (api_prepare_response request (sizeof l))) = sizeof l) api_packets"
proof -
  have "list_all (\<lambda>l. sizeof l \<le> 72) api_packets"
    by (simp add: api_packets_def layout_defs sizeof_def body_size_def
      STRING_MAX_ALLOCATE_BUFFER_LENGTH_def STRING_MAX_SET_CHUNK_BUFFER_LENGTH_def
      STRING_MAX_GET_CHUNK_BUFFER_LENGTH_def FILE_MAX_READ_BUFFER_LENGTH_def FILE_MAX_READ_ASYNC_BUFFER_LENGTH_def
      FILE_MAX_WRITE_BUFFER_LENGTH_def FILE_MAX_WRITE_UNCHECKED_BUFFER_LENGTH_def
      FILE_MAX_WRITE_ASYNC_BUFFER_LENGTH_def)
  moreover have "unat (response_length (api_prepare_response request n)) = n" if "n \<le> 72" for n
    using that by (simp add: api_prepare_response_def unsigned_of_nat take_bit_nat_eq_self)
  ultimately show ?thesis by (auto simp: list_all_iff)
qed

section \<open>Requests\<close>


text \<open>An environment whose program functions do nothing, and a request to truncate the string.\<close>

definition example_env :: api_env where
  "example_env = \<lparr>api_uid = 1, base58_encode = (\<lambda>_. ''2''), program_operation = (\<lambda>_ _ _ _ s. Some ([], s))\<rparr>"

definition example_request :: request where
  "example_request = \<lparr>request_uid = 1, request_length = 14, request_function_id = FUNCTION_TRUNCATE_STRING,
     request_sequence_number = 5, request_response_expected = True, request_body = [1, 0, 1, 0, 0, 0]\<rparr>"


text \<open>C36. Every function has one entry in the table, one number and a name of its own. A request
  for a number without an entry, or whose length is not that of its struct, changes nothing; it
  is answered by the fitting error of the packet if a response is expected.\<close>

theorem dispatching:
  "distinct (map fst (api_dispatch_table env)) \<and> distinct (map fst api_function_names) \<and>
   distinct (map snd api_function_names) \<and>
   set (map fst api_function_names) = set (map fst (api_dispatch_table env)) \<union>
     {CALLBACK_ASYNC_FILE_READ, CALLBACK_ASYNC_FILE_WRITE, CALLBACK_FILE_EVENTS_OCCURRED,
      CALLBACK_PROCESS_STATE_CHANGED, CALLBACK_PROGRAM_SCHEDULER_STATE_CHANGED, CALLBACK_PROGRAM_PROCESS_SPAWNED} \<and>
   (request_function_id request \<notin> set (map fst (api_dispatch_table env)) \<longrightarrow>
      api_handle_request env request s =
        Some (if request_response_expected request
              then Some ((api_prepare_response request 8)\<lparr>response_packet_error := PACKET_E_FUNCTION_NOT_SUPPORTED\<rparr>)
              else None, s)) \<and>
   (\<forall>l h. (request_function_id request, l, h) \<in> set (api_dispatch_table env) \<and>
        unat (request_length request) \<noteq> sizeof l \<longrightarrow>
      api_handle_request env request s =
        Some (if request_response_expected request
              then Some ((api_prepare_response request 8)\<lparr>response_packet_error := PACKET_E_INVALID_PARAMETER\<rparr>)
              else None, s))"
proof -
  have table: "distinct (map fst (api_dispatch_table env))"
    by (simp add: api_dispatch_table_def api_function_defs)
  have names: "distinct (map fst api_function_names)" "distinct (map snd api_function_names)"
    by (simp_all add: api_function_names_def api_function_defs)
  have sets: "set (map fst api_function_names) = set (map fst (api_dispatch_table env)) \<union>
     {CALLBACK_ASYNC_FILE_READ, CALLBACK_ASYNC_FILE_WRITE, CALLBACK_FILE_EVENTS_OCCURRED,
      CALLBACK_PROCESS_STATE_CHANGED, CALLBACK_PROGRAM_SCHEDULER_STATE_CHANGED, CALLBACK_PROGRAM_PROCESS_SPAWNED}"
    by (simp add: api_dispatch_table_def api_function_names_def) blast
  have found: "map_of (api_dispatch_table env) f = Some x" if "(f, x) \<in> set (api_dispatch_table env)" for f x
    using table that by (rule map_of_is_SomeI)
  have missing: "map_of (api_dispatch_table env) f = None" if "f \<notin> set (map fst (api_dispatch_table env))" for f
    using that by (simp add: map_of_eq_None_iff)
  have unknown: "api_handle_request env request s = Some (api_send_response_if_expected request PACKET_E_FUNCTION_NOT_SUPPORTED, s)"
    if "request_function_id request \<notin> set (map fst (api_dispatch_table env))"
    using missing [OF that] by (simp add: api_handle_request_def)
  have wrong: "api_handle_request env request s = Some (api_send_response_if_expected request PACKET_E_INVALID_PARAMETER, s)"
    if "(request_function_id request, l, h) \<in> set (api_dispatch_table env) \<and> unat (request_length request) \<noteq> sizeof l" for l h
    using found [of _ "(l, h)"] that by (simp add: api_handle_request_def)
  have response: "(if request_response_expected request
       then Some ((api_prepare_response request 8)\<lparr>response_packet_error := e\<rparr>) else None) =
     api_send_response_if_expected request e" for e
    by (simp add: api_send_response_if_expected_def)
  show ?thesis
    unfolding response by (intro conjI allI impI table names sets) (erule unknown, erule wrong)
qed

theorem dispatching_witness:
  "api_handle_request example_env (example_request\<lparr>request_function_id := 200\<rparr>) example_state =
     Some (Some ((api_prepare_response (example_request\<lparr>request_function_id := 200\<rparr>) 8)
       \<lparr>response_packet_error := PACKET_E_FUNCTION_NOT_SUPPORTED\<rparr>), example_state) \<and>
   api_handle_request example_env (example_request\<lparr>request_length := 13\<rparr>) example_state =
     Some (Some ((api_prepare_response (example_request\<lparr>request_length := 13\<rparr>) 8)
       \<lparr>response_packet_error := PACKET_E_INVALID_PARAMETER\<rparr>), example_state)"
proof
  have "(200 :: u8) \<notin> set (map fst (api_dispatch_table example_env))"
    by (simp add: api_dispatch_table_def api_function_defs)
  with dispatching [of example_env "example_request\<lparr>request_function_id := 200\<rparr>" example_state]
  show "api_handle_request example_env (example_request\<lparr>request_function_id := 200\<rparr>) example_state =
     Some (Some ((api_prepare_response (example_request\<lparr>request_function_id := 200\<rparr>) 8)
       \<lparr>response_packet_error := PACKET_E_FUNCTION_NOT_SUPPORTED\<rparr>), example_state)"
    by (simp add: example_request_def)
  have "(FUNCTION_TRUNCATE_STRING, TruncateStringRequest, api_truncate_string) \<in> set (api_dispatch_table example_env)"
    by (simp add: api_dispatch_table_def)
  moreover have "sizeof TruncateStringRequest \<noteq> 13"
    by (simp add: TruncateStringRequest_def sizeof_def body_size_def)
  ultimately have "\<exists>l. (\<exists>h. (FUNCTION_TRUNCATE_STRING, l, h) \<in> set (api_dispatch_table example_env)) \<and> sizeof l \<noteq> 13"
    by blast
  then show "api_handle_request example_env (example_request\<lparr>request_length := 13\<rparr>) example_state =
     Some (Some ((api_prepare_response (example_request\<lparr>request_length := 13\<rparr>) 8)
       \<lparr>response_packet_error := PACKET_E_INVALID_PARAMETER\<rparr>), example_state)"
    using dispatching [of example_env "example_request\<lparr>request_length := 13\<rparr>" example_state]
    by (simp add: example_request_def)
qed

end
