(* ===== verification/Format.thy ===== *)
theory Format
  imports Directory_Object
begin

text \<open>
  Formatted text: the conversions of \<open>printf\<close> that the code uses, and \<open>robust_snprintf\<close> of
  daemonlib, which fails when the text does not fit.
\<close>

text \<open>\<open>%u\<close> and \<open>%d\<close>\<close>

fun decimal :: "nat \<Rightarrow> string" where
  "decimal n = (if n < 10 then [char_of (48 + n)] else decimal (n div 10) @ [char_of (48 + n mod 10)])"

declare decimal.simps [simp del]

definition decimal_int :: "int \<Rightarrow> string" where
  "decimal_int i = (if i < 0 then CHR ''-'' # decimal (nat (- i)) else decimal (nat i))"

text \<open>\<open>%02X\<close> of a byte\<close>

definition hex_digit :: "nat \<Rightarrow> char" where
  "hex_digit n = char_of (if n < 10 then 48 + n else 55 + n)"

definition hex2 :: "u8 \<Rightarrow> string" where
  "hex2 b = [hex_digit (unat b div 16), hex_digit (unat b mod 16)]"

text \<open>\<open>%s (%d)\<close> for an error code and for \<open>errno\<close>\<close>

definition apie_text :: "apie \<Rightarrow> string" where
  "apie_text e = api_get_error_code_name e @ '' ('' @ decimal (apie_code e) @ '')''"

definition errno_text :: "errno \<Rightarrow> apid \<Rightarrow> string" where
  "errno_text en s = get_errno_name (lib s) en @ '' ('' @ decimal_int (errno_number (lib s) en) @ '')''"

definition robust_snprintf :: "nat \<Rightarrow> string \<Rightarrow> apid \<Rightarrow> (errno + string) \<times> apid" where
  "robust_snprintf n text s = (case ask s of
       (Inl en, s) \<Rightarrow> (Inl en, s)
     | (Inr _, s) \<Rightarrow> (if length text < n then Inr text else Inl (errno_truncated (lib s)), s))"

lemma quiet_snprintf: "quiet s t \<Longrightarrow> robust_snprintf n x t = (r, u) \<Longrightarrow> quiet s u"
  by (auto simp: robust_snprintf_def split: prod.splits sum.splits if_splits dest: quiet_ask)

section \<open>Reading numbers back\<close>

definition digit_value :: "char \<Rightarrow> nat" where
  "digit_value c = of_char c - 48"

definition is_digit :: "char \<Rightarrow> bool" where
  "is_digit c \<longleftrightarrow> 48 \<le> (of_char c :: nat) \<and> (of_char c :: nat) < 58"

definition digits_value :: "string \<Rightarrow> nat" where
  "digits_value cs = foldl (\<lambda>n c. 10 * n + digit_value c) 0 cs"

lemma digit_char: "d < 10 \<Longrightarrow> is_digit (char_of (48 + d)) \<and> digit_value (char_of (48 + d)) = d"
  by (simp add: is_digit_def digit_value_def)

lemma digits_value_append: "digits_value (xs @ [c]) = 10 * digits_value xs + digit_value c"
  by (simp add: digits_value_def)

lemma decimal_value: "digits_value (decimal n) = n \<and> list_all is_digit (decimal n) \<and> decimal n \<noteq> []"
proof (induction n rule: decimal.induct)
  case (1 n)
  then show ?case
    using digit_char [of n] digit_char [of "n mod 10"]
    by (subst (1 2 3) decimal.simps) (auto simp: digits_value_append, simp add: digits_value_def)
qed

end
