(* ===== verification/Cron.thy ===== *)
theory Cron
  imports Format
begin

text \<open>
  The files in \<open>/etc/cron.d\<close> through which the cron daemon tells this daemon to start a program,
  and the entries behind them: \<open>cron.c\<close>. An entry is identified by the ID of its program; a
  notification is accepted only with the cookie of the running daemon. Operations that return 0
  or -1 return a Boolean here. The function an entry calls is always
  \<open>program_scheduler_handle_cron\<close>; an entry keeps its argument only.
\<close>

section \<open>State\<close>

record cron_entry =
  entry_program_id :: u16
  entry_opaque :: addr

record cron =
  cron_cookie :: u32
  cron_entries :: "cron_entry list"

record cron_notification =
  notification_cookie :: u32
  notification_program_id :: u16

definition FILENAME_PREFIX :: string where "FILENAME_PREFIX = ''redapid-schedule-program-''"

definition DT_REG :: int where "DT_REG = 8"

section \<open>Files\<close>

definition cron_format_filename :: "u16 \<Rightarrow> apid \<Rightarrow> (errno + string) \<times> apid" where
  "cron_format_filename program_id s =
     robust_snprintf 1024 (''/etc/cron.d/'' @ FILENAME_PREFIX @ decimal (unat program_id)) s"

definition cron_remove_file :: "u16 \<Rightarrow> apid \<Rightarrow> bool \<times> apid" where
  "cron_remove_file program_id s = (case cron_format_filename program_id s of
       (Inl _, s) \<Rightarrow> (False, s)
     | (Inr filename, s) \<Rightarrow> (case ask (emit (Ev_unlink filename) s) of (_, s) \<Rightarrow> (True, s)))"

text \<open>The loop over the directory; the result is \<open>success\<close>.\<close>

lemma robust_snprintf_length: "robust_snprintf n x s = (r, t) \<Longrightarrow> length (answers t) \<le> length (answers s)"
  by (auto simp: robust_snprintf_def ask_def split: list.splits sum.splits if_splits)

lemma ask_length: "ask s = (r, t) \<Longrightarrow> length (answers t) \<le> length (answers s)"
  by (auto simp: ask_def split: list.splits)

function cron_remove_all_files_loop :: "apid \<Rightarrow> bool \<times> apid" where
  "cron_remove_all_files_loop s = (case ask_dirent s of
       (Inl en, s) \<Rightarrow> (False, s)
     | (Inr Dirent_end, s) \<Rightarrow> (True, s)
     | (Inr (Dirent d_type name), s) \<Rightarrow>
         if d_type \<noteq> DT_REG \<or> take (length FILENAME_PREFIX) name \<noteq> FILENAME_PREFIX
         then cron_remove_all_files_loop s
         else (case robust_snprintf 1024 (''/etc/cron.d/'' @ name) s of
             (Inl _, s) \<Rightarrow> (False, s)
           | (Inr filename, s) \<Rightarrow>
               (case ask (emit (Ev_unlink filename) s) of (_, s) \<Rightarrow> cron_remove_all_files_loop s)))"
  by pat_completeness auto

termination
proof (relation "measure (\<lambda>s. length (answers s))", simp, goal_cases)
  case (1 s x u y d_type name)
  then show ?case by (auto dest: ask_dirent_length [OF sym])
next
  case (2 s x s1 y d_type name z s2 filename w s3)
  then have "length (answers s3) \<le> length (answers s2)" "length (answers s2) \<le> length (answers s1)"
    "length (answers s1) < length (answers s)"
    by (auto dest!: ask_length [OF sym] robust_snprintf_length [OF sym] dest: ask_dirent_length [OF sym])
  then show ?case by simp
qed

declare cron_remove_all_files_loop.simps [simp del]

definition cron_remove_all_files :: "apid \<Rightarrow> bool \<times> apid" where
  "cron_remove_all_files s = (case ask s of
       (Inl _, s) \<Rightarrow> (False, s)
     | (Inr dp, s) \<Rightarrow> (case cron_remove_all_files_loop s of (success, s) \<Rightarrow>
         (success, emit (Ev_closedir dp) s)))"

section \<open>Start and end\<close>

definition cron_init :: "apid \<Rightarrow> bool \<times> cron \<times> apid" where
  "cron_init s = (case ask s of
       (Inl _, s) \<Rightarrow> (False, \<lparr>cron_cookie = 0, cron_entries = []\<rparr>, s)
     | (Inr _, s) \<Rightarrow>
         (let (tv_sec, tv_usec, s) = (case ask s of
                 (Inl _, s) \<Rightarrow> (let (now, s) = ask_int s in (now, 0, s))
               | (Inr _, s) \<Rightarrow> (let (sec, s) = ask_int s; (usec, s) = ask_int s in (sec, usec, s)));
              (pid, s) = ask_int s;
              (success, s) = cron_remove_all_files s
          in (success, \<lparr>cron_cookie = of_int tv_sec XOR of_int tv_usec XOR of_int pid, cron_entries = []\<rparr>, s)))"

definition cron_exit :: "cron \<Rightarrow> apid \<Rightarrow> cron \<times> apid" where
  "cron_exit c s = (c\<lparr>cron_entries := []\<rparr>, snd (cron_remove_all_files s))"

section \<open>Entries\<close>

text \<open>The bytes of the two arguments of \<open>printf\<close> in a cron file.\<close>

definition cron_notification_bytes :: "u32 \<Rightarrow> u16 \<Rightarrow> u8 list" where
  "cron_notification_bytes cookie program_id =
     [ucast (cookie AND 0xFF), ucast (drop_bit 8 cookie AND 0xFF), ucast (drop_bit 16 cookie AND 0xFF),
      ucast (drop_bit 24 cookie AND 0xFF), ucast (program_id AND 0xFF), ucast (drop_bit 8 program_id AND 0xFF)]"

definition cron_content :: "u32 \<Rightarrow> u16 \<Rightarrow> string \<Rightarrow> string \<Rightarrow> string" where
  "cron_content cookie program_id identifier fields' =
     ''# send schedule notifications to redapid for program '' @ identifier @ [CHR 0x0A] @
     fields' @ '' root printf '' @ [CHR 0x27] @
     concat (map (\<lambda>b. [CHR 0x5C] @ ''x'' @ hex2 b) (cron_notification_bytes cookie program_id)) @ [CHR 0x27] @
     '' | socat - UNIX-CONNECT:/var/run/redapid-cron.socket &> /dev/null'' @ [CHR 0x0A]"

text \<open>
  The variable \<open>entry\<close> of \<open>cron_add_entry\<close> after the loop over the entries. It has no value when
  there are no entries: the declaration does not set it.
\<close>

datatype entry_pointer = Entry_unset | Entry_null | Entry_at nat

primrec cron_find_entry :: "u16 \<Rightarrow> nat \<Rightarrow> entry_pointer \<Rightarrow> cron_entry list \<Rightarrow> entry_pointer" where
  "cron_find_entry program_id i entry [] = entry"
| "cron_find_entry program_id i entry (e # es) =
     (if entry_program_id e = program_id then Entry_at i
      else cron_find_entry program_id (Suc i) Entry_null es)"

text \<open>
  The phases 1 to 3: the file is written under a temporary name, which \<open>mkostemp\<close> completes by
  six characters, and renamed. Cleaning up takes an entry away that was appended.
\<close>

definition cron_write_file :: "string \<Rightarrow> string \<Rightarrow> apid \<Rightarrow> apie \<times> apid" where
  "cron_write_file filename content s = (case ask s of
       (Inl en, s) \<Rightarrow> (api_get_error_code_from_errno en, s)
     | (Inr fd, s) \<Rightarrow>
         (let (suffix, s) = ask_bytes 6 s;
              template = ''/tmp/temporary-'' @ FILENAME_PREFIX @ suffix;
              failed = (\<lambda>en s. (api_get_error_code_from_errno en, emit (Ev_close fd) s))
          in case ask (emit (Ev_fchmod fd 0x1A4) s) of
               (Inl en, s) \<Rightarrow> failed en s
             | (Inr _, s) \<Rightarrow> (case ask (emit (Ev_write (Fd fd) content) s) of
               (Inl en, s) \<Rightarrow> failed en s
             | (Inr _, s) \<Rightarrow> (case ask s of
               (Inl en, s) \<Rightarrow> failed en s
             | (Inr _, s) \<Rightarrow> (API_E_SUCCESS, emit (Ev_close fd) (emit (Ev_rename template filename) s))))))"

definition cron_add_entry :: "u16 \<Rightarrow> string \<Rightarrow> string \<Rightarrow> addr \<Rightarrow> cron \<Rightarrow> apid \<Rightarrow> (apie \<times> cron \<times> apid) option" where
  "cron_add_entry program_id identifier fields' opaque c s = (case cron_format_filename program_id s of
       (Inl en, s) \<Rightarrow> Some (api_get_error_code_from_errno en, c, s)
     | (Inr filename, s) \<Rightarrow>
     (case robust_snprintf 1024 (cron_content (cron_cookie c) program_id identifier fields') s of
       (Inl en, s) \<Rightarrow> Some (api_get_error_code_from_errno en, c, s)
     | (Inr content, s) \<Rightarrow>
         let new = \<lparr>entry_program_id = program_id, entry_opaque = opaque\<rparr>
         in case cron_find_entry program_id 0 Entry_unset (cron_entries c) of
              Entry_unset \<Rightarrow> None
            | Entry_null \<Rightarrow> (case ask s of
                (Inl en, s) \<Rightarrow> Some (api_get_error_code_from_errno en, c, s)
              | (Inr _, s) \<Rightarrow> (case cron_write_file filename content s of (e, s) \<Rightarrow>
                  Some (e, if e = API_E_SUCCESS then c\<lparr>cron_entries := cron_entries c @ [new]\<rparr> else c, s)))
            | Entry_at i \<Rightarrow> (case cron_write_file filename content s of (e, s) \<Rightarrow>
                Some (e, c\<lparr>cron_entries := (cron_entries c)[i := new]\<rparr>, s))))"

primrec remove_first_entry :: "u16 \<Rightarrow> cron_entry list \<Rightarrow> cron_entry list" where
  "remove_first_entry program_id [] = []"
| "remove_first_entry program_id (e # es) =
     (if entry_program_id e = program_id then es else e # remove_first_entry program_id es)"

definition cron_remove_entry :: "u16 \<Rightarrow> cron \<Rightarrow> apid \<Rightarrow> cron \<times> apid" where
  "cron_remove_entry program_id c s =
     (c\<lparr>cron_entries := remove_first_entry program_id (cron_entries c)\<rparr>, snd (cron_remove_file program_id s))"

text \<open>
  The result of a notification is the argument of the function that is called at its end, if one
  is called.
\<close>

definition cron_handle_notification :: "cron_notification \<Rightarrow> cron \<Rightarrow> apid \<Rightarrow> addr option \<times> apid" where
  "cron_handle_notification notification c s =
     (if notification_cookie notification \<noteq> cron_cookie c
      then (None, snd (cron_remove_file (notification_program_id notification) s))
      else case filter (\<lambda>e. entry_program_id e = notification_program_id notification) (cron_entries c) of
          e # _ \<Rightarrow> (Some (entry_opaque e), s)
        | [] \<Rightarrow> (None, snd (cron_remove_file (notification_program_id notification) s)))"

end
