(* ===== verification/Daemon.thy ===== *)
theory Daemon
  imports Cron Process_Spawn
begin

text \<open>
  The state of the programs: the structs of \<open>program.h\<close>, \<open>program_config.h\<close>,
  \<open>program_scheduler.h\<close> and of \<open>process_monitor.c\<close>, beside the state of the objects. A program is
  found by its address. Its base is represented by what the code uses of it here, the object ID and
  the numbers of references; the references a program holds are roots of the object graph.
\<close>

section \<open>Enumerations\<close>

datatype program_stdio_redirection =
    PROGRAM_STDIO_REDIRECTION_DEV_NULL
  | PROGRAM_STDIO_REDIRECTION_PIPE
  | PROGRAM_STDIO_REDIRECTION_FILE
  | PROGRAM_STDIO_REDIRECTION_INDIVIDUAL_LOG
  | PROGRAM_STDIO_REDIRECTION_CONTINUOUS_LOG
  | PROGRAM_STDIO_REDIRECTION_STDOUT

datatype program_start_mode =
    PROGRAM_START_MODE_NEVER
  | PROGRAM_START_MODE_ALWAYS
  | PROGRAM_START_MODE_INTERVAL
  | PROGRAM_START_MODE_CRON

datatype program_scheduler_state = PROGRAM_SCHEDULER_STATE_STOPPED | PROGRAM_SCHEDULER_STATE_RUNNING

datatype process_observer_state =
    PROCESS_OBSERVER_STATE_PENDING | PROCESS_OBSERVER_STATE_WAITING | PROCESS_OBSERVER_STATE_FINISHED

section \<open>Structs\<close>

record program_custom_option =
  option_name :: addr
  option_value :: addr

record program_config =
  conf_filename :: string
  conf_executable :: addr
  conf_arguments :: addr
  conf_environment :: addr
  conf_working_directory :: addr
  stdin_redirection :: program_stdio_redirection
  stdin_file_name :: "addr option"
  stdout_redirection :: program_stdio_redirection
  stdout_file_name :: "addr option"
  stderr_redirection :: program_stdio_redirection
  stderr_file_name :: "addr option"
  start_mode :: program_start_mode
  continue_after_error :: bool
  start_interval :: u32
  start_fields :: "addr option"
  custom_options :: "program_custom_option list"

text \<open>
  The function pointers of the scheduler are always those that \<open>program.c\<close> sets; its observer and
  its timer are identified by the address of the program.
\<close>

record program_scheduler =
  absolute_working_directory :: "addr option"
  absolute_stdin_file_name :: "addr option"
  absolute_stdout_file_name :: "addr option"
  absolute_stderr_file_name :: "addr option"
  bin_directory :: string
  log_directory :: string
  dev_null_file_name :: addr
  observer_state :: process_observer_state
  shutdown :: bool
  waiting_for_brickd :: bool
  timer_active :: bool
  cron_active :: bool
  last_spawned_process :: "addr option"
  last_spawned_timestamp :: u64
  scheduler_state :: program_scheduler_state
  scheduler_timestamp :: u64
  scheduler_message :: "addr option"

record program =
  program_id :: u16
  program_internal_reference_count :: int
  program_external_reference_count :: int
  purged :: bool
  program_identifier :: addr
  root_directory :: addr
  config :: program_config
  scheduler :: program_scheduler
  none_message :: addr

record process_observation =
  cmdline_prefix :: string
  remaining_timeout :: u32
  waiting :: bool
  observers :: "addr list"

text \<open>
  The daemon: its objects, the static variables of \<open>cron.c\<close> and of \<open>process_monitor.c\<close>, the
  programs, whether X11 is enabled, and whether the Brick Daemon is connected.
\<close>

record daemon =
  core :: apid
  cron :: cron
  observations :: "process_observation list"
  programs :: "addr \<Rightarrow> program option"
  x11_enabled :: bool
  brickd_connected :: bool

section \<open>Access\<close>

definition put_program :: "addr \<Rightarrow> program \<Rightarrow> daemon \<Rightarrow> daemon" where
  "put_program a p d = d\<lparr>programs := (programs d)(a := Some p)\<rparr>"

definition change_scheduler :: "addr \<Rightarrow> (program_scheduler \<Rightarrow> program_scheduler) \<Rightarrow> daemon \<Rightarrow> daemon option" where
  "change_scheduler a f d = do {
     p \<leftarrow> programs d a;
     Some (put_program a (p\<lparr>scheduler := f (scheduler p)\<rparr>) d)
   }"

text \<open>An operation on the objects, run in the daemon.\<close>

definition run :: "(apid \<Rightarrow> ('r \<times> apid) option) \<Rightarrow> daemon \<Rightarrow> ('r \<times> daemon) option" where
  "run f d = do { (r, s) \<leftarrow> f (core d); Some (r, d\<lparr>core := s\<rparr>) }"

definition exec :: "(apid \<Rightarrow> apid option) \<Rightarrow> daemon \<Rightarrow> daemon option" where
  "exec f d = do { s \<leftarrow> f (core d); Some (d\<lparr>core := s\<rparr>) }"

definition call :: "(apid \<Rightarrow> 'r \<times> apid) \<Rightarrow> daemon \<Rightarrow> 'r \<times> daemon" where
  "call f d = (case f (core d) of (r, s) \<Rightarrow> (r, d\<lparr>core := s\<rparr>))"

definition tell :: "event \<Rightarrow> daemon \<Rightarrow> daemon" where
  "tell e d = d\<lparr>core := emit e (core d)\<rparr>"

text \<open>\<open>if (string != NULL) { string_unlock_and_release(string); }\<close>\<close>

primrec release_if_set :: "addr option \<Rightarrow> apid \<Rightarrow> apid option" where
  "release_if_set None s = Some s"
| "release_if_set (Some a) s = string_unlock_and_release a s"

lemma put_program_fields [simp]:
  "programs (put_program a p d) = (programs d)(a := Some p)" "core (put_program a p d) = core d"
  "cron (put_program a p d) = cron d" "observations (put_program a p d) = observations d"
  "x11_enabled (put_program a p d) = x11_enabled d" "brickd_connected (put_program a p d) = brickd_connected d"
  by (simp_all add: put_program_def)

lemma tell_fields [simp]:
  "programs (tell e d) = programs d" "core (tell e d) = emit e (core d)"
  "cron (tell e d) = cron d" "observations (tell e d) = observations d"
  "x11_enabled (tell e d) = x11_enabled d" "brickd_connected (tell e d) = brickd_connected d"
  by (simp_all add: tell_def)

end
