(* ===== verification/Process_Monitor.thy ===== *)
theory Process_Monitor
  imports Daemon
begin

text \<open>
  The search for a running process by the start of its command line: \<open>process_monitor.c\<close>. An
  observation searches \<open>/proc\<close> every two seconds until a process is found or its timeout is over;
  then it calls its observers. The argument \<open>notify\<close> of an operation is \<open>observer->function\<close>,
  applied to the argument of an observer. Operations that return 0 or -1 return a Boolean here.
\<close>

definition SERACH_INTERVAL :: u32 where "SERACH_INTERVAL = 2"

definition DT_DIR :: int where "DT_DIR = 4"

section \<open>The search\<close>

text \<open>-1 on error, 0 on not-found and 1 on found\<close>

datatype search_result = Search_error | Search_not_found | Search_found

definition process_monitor_search_proc_entry :: "string \<Rightarrow> string \<Rightarrow> apid \<Rightarrow> search_result \<times> apid" where
  "process_monitor_search_proc_entry entry_name prefix s =
     (if \<not> list_all is_digit entry_name then (Search_not_found, s)
      else case robust_snprintf 1024 (''/proc/'' @ entry_name @ ''/cmdline'') s of
          (Inl _, s) \<Rightarrow> (Search_error, s)
        | (Inr filename, s) \<Rightarrow> (case ask s of
          (Inl en, s) \<Rightarrow> (if en = ENOENT then Search_not_found else Search_error, s)
        | (Inr fp, s) \<Rightarrow> (case ask_read 1023 s of
          (Inl _, s) \<Rightarrow> (Search_error, s)
        | (Inr bytes, s) \<Rightarrow>
            (let cmdline = takeWhile (\<lambda>c. c \<noteq> CHR 0x00) bytes
             in (if take (length prefix) cmdline \<noteq> prefix then Search_not_found else Search_found, s)))))"

lemma ask_ints_answers: "ask_ints n s = (is, t) \<Longrightarrow> length (answers t) \<le> length (answers s)"
  by (rule ask_ints_length)

lemma search_proc_entry_length:
  "process_monitor_search_proc_entry name prefix s = (r, t) \<Longrightarrow> length (answers t) \<le> length (answers s)"
  by (auto simp: process_monitor_search_proc_entry_def ask_read_def ask_bytes_def Let_def
      split: if_splits sum.splits prod.splits
      dest!: ask_length robust_snprintf_length ask_ints_length)

function process_monitor_search_proc_loop :: "string \<Rightarrow> apid \<Rightarrow> search_result \<times> apid" where
  "process_monitor_search_proc_loop prefix s = (case ask_dirent s of
       (Inl en, s) \<Rightarrow> (Search_error, s)
     | (Inr Dirent_end, s) \<Rightarrow> (Search_not_found, s)
     | (Inr (Dirent d_type name), s) \<Rightarrow>
         if d_type \<noteq> DT_DIR then process_monitor_search_proc_loop prefix s
         else (case process_monitor_search_proc_entry name prefix s of
             (Search_error, s) \<Rightarrow> (Search_error, s)
           | (Search_not_found, s) \<Rightarrow> process_monitor_search_proc_loop prefix s
           | (Search_found, s) \<Rightarrow> (Search_found, s)))"
  by pat_completeness auto

termination
proof (relation "measure (\<lambda>(prefix, s). length (answers s))", simp, goal_cases)
  case (1 prefix s x u y d_type name)
  then show ?case by (auto dest: ask_dirent_length [OF sym])
next
  case (2 prefix s x s1 y d_type name z s2)
  then have "length (answers s2) \<le> length (answers s1)" "length (answers s1) < length (answers s)"
    by (auto dest!: search_proc_entry_length [OF sym] dest: ask_dirent_length [OF sym])
  then show ?case by simp
qed

declare process_monitor_search_proc_loop.simps [simp del]

definition process_monitor_search_proc :: "string \<Rightarrow> apid \<Rightarrow> search_result \<times> apid" where
  "process_monitor_search_proc prefix s = (case ask s of
       (Inl _, s) \<Rightarrow> (Search_error, s)
     | (Inr dp, s) \<Rightarrow> (case process_monitor_search_proc_loop prefix s of (r, s) \<Rightarrow>
         (r, emit (Ev_closedir dp) s)))"

section \<open>Observations\<close>

text \<open>An observation is found by its index; it has the timer with the same number.\<close>

definition put_observation :: "nat \<Rightarrow> process_observation \<Rightarrow> daemon \<Rightarrow> daemon" where
  "put_observation i ob d = d\<lparr>observations := (observations d)[i := ob]\<rparr>"

definition the_observation :: "daemon \<Rightarrow> nat \<Rightarrow> process_observation option" where
  "the_observation d i = (if i < length (observations d) then Some (observations d ! i) else None)"

text \<open>
  The loop over the observers, from the last to the first. An observer may take itself out of the
  array; reading behind the end of the array is not defined.
\<close>

primrec process_monitor_notify_observers ::
    "(addr \<Rightarrow> daemon \<Rightarrow> daemon option) \<Rightarrow> nat \<Rightarrow> nat \<Rightarrow> daemon \<Rightarrow> daemon option" where
  "process_monitor_notify_observers notify n 0 d = Some d"
| "process_monitor_notify_observers notify n (Suc i) d = do {
     ob \<leftarrow> the_observation d n;
     if i < length (observers ob) then do {
       d \<leftarrow> notify (observers ob ! i) d;
       process_monitor_notify_observers notify n i d
     } else None
   }"

definition process_monitor_update_observation ::
    "(addr \<Rightarrow> daemon \<Rightarrow> daemon option) \<Rightarrow> nat \<Rightarrow> daemon \<Rightarrow> daemon option" where
  "process_monitor_update_observation notify n d = do {
     ob \<leftarrow> the_observation d n;
     if \<not> waiting ob then
       Some (put_observation n (ob\<lparr>remaining_timeout := 0\<rparr>) (tell (Ev_observation_timer_destroy n) d))
     else do {
       let (r, d) = call (process_monitor_search_proc (cmdline_prefix ob)) d;
       let ob = (if r = Search_found then ob\<lparr>waiting := False\<rparr>
                 else (let remaining = (if remaining_timeout ob > SERACH_INTERVAL
                                        then remaining_timeout ob - SERACH_INTERVAL else 0)
                       in ob\<lparr>remaining_timeout := remaining, waiting := remaining \<noteq> 0\<rparr>));
       if waiting ob then Some (put_observation n ob d)
       else process_monitor_notify_observers notify n (length (observers ob))
              (put_observation n (ob\<lparr>remaining_timeout := 0\<rparr>) (tell (Ev_observation_timer_destroy n) d))
     }
   }"

definition process_monitor_init :: "daemon \<Rightarrow> bool \<times> daemon" where
  "process_monitor_init d = (case call ask d of
       (Inl _, d) \<Rightarrow> (False, d)
     | (Inr _, d) \<Rightarrow> (True, d\<lparr>observations := []\<rparr>))"

text \<open>Destroying the observations of the array: the timers of those that still wait go.\<close>

definition process_monitor_exit :: "daemon \<Rightarrow> daemon" where
  "process_monitor_exit d =
     (fold (\<lambda>n d. if waiting (observations d ! n) then tell (Ev_observation_timer_destroy n) d else d)
        [0..<length (observations d)] d)\<lparr>observations := []\<rparr>"

primrec find_observation :: "string \<Rightarrow> nat \<Rightarrow> process_observation list \<Rightarrow> nat option" where
  "find_observation prefix i [] = None"
| "find_observation prefix i (ob # obs) =
     (if cmdline_prefix ob = prefix then Some i else find_observation prefix (Suc i) obs)"

text \<open>
  The new observation of \<open>process_monitor_add_observer\<close>: the calls are \<open>array_append\<close>, \<open>strdup\<close>,
  \<open>array_create\<close> and \<open>array_append\<close>, and, when no process was found, those of the timer. What
  was appended is taken away again on failure.
\<close>

definition process_monitor_add_observation ::
    "(addr \<Rightarrow> daemon \<Rightarrow> daemon option) \<Rightarrow> string \<Rightarrow> u32 \<Rightarrow> addr \<Rightarrow> bool \<Rightarrow> daemon \<Rightarrow> (bool \<times> daemon) option" where
  "process_monitor_add_observation notify prefix timeout observer found d =
     (case call (calls_succeed 4) d of (e, d) \<Rightarrow>
        if e \<noteq> API_E_SUCCESS then Some (False, d)
        else
          let n = length (observations d);
              ob = \<lparr>cmdline_prefix = prefix, remaining_timeout = (if found then 0 else timeout),
                    waiting = \<not> found, observers = [observer]\<rparr>;
              added = d\<lparr>observations := observations d @ [ob]\<rparr>
          in if found then do { d \<leftarrow> notify observer added; Some (True, d) }
             else (case call ask (tell (Ev_observation_timer_create n) d) of
                 (Inl _, d) \<Rightarrow> Some (False, d)
               | (Inr _, d) \<Rightarrow> (case call ask (tell (Ev_observation_timer_start n 2000000 2000000) d) of
                 (Inl _, d) \<Rightarrow> Some (False, tell (Ev_observation_timer_destroy n) d)
               | (Inr _, d) \<Rightarrow> Some (True, d\<lparr>observations := observations d @ [ob]\<rparr>))))"

definition process_monitor_add_observer ::
    "(addr \<Rightarrow> daemon \<Rightarrow> daemon option) \<Rightarrow> string \<Rightarrow> u32 \<Rightarrow> addr \<Rightarrow> daemon \<Rightarrow> (bool \<times> daemon) option" where
  "process_monitor_add_observer notify prefix timeout observer d =
     (case find_observation prefix 0 (observations d) of
        Some n \<Rightarrow> (case call ask d of
            (Inl _, d) \<Rightarrow> Some (False, d)
          | (Inr _, d) \<Rightarrow> do {
              ob \<leftarrow> the_observation d n;
              let d = put_observation n (ob\<lparr>observers := observers ob @ [observer]\<rparr>) d;
              d \<leftarrow> (if \<not> waiting ob then notify observer d else Some d);
              Some (True, d)
            })
      | None \<Rightarrow> (case call (process_monitor_search_proc prefix) d of (r, d) \<Rightarrow>
          if r = Search_error then Some (False, d)
          else process_monitor_add_observation notify prefix timeout observer (r = Search_found) d))"

text \<open>
  The first observation with the prefix that has the observer: the inner loop goes on to the next
  observation when it does not find the observer.
\<close>

primrec remove_observer_from ::
    "string \<Rightarrow> addr \<Rightarrow> process_observation list \<Rightarrow> process_observation list" where
  "remove_observer_from prefix observer [] = []"
| "remove_observer_from prefix observer (ob # obs) =
     (if cmdline_prefix ob = prefix \<and> observer \<in> set (observers ob)
      then ob\<lparr>observers := remove1 observer (observers ob)\<rparr> # obs
      else ob # remove_observer_from prefix observer obs)"

definition process_monitor_remove_observer :: "string \<Rightarrow> addr \<Rightarrow> daemon \<Rightarrow> daemon" where
  "process_monitor_remove_observer prefix observer d =
     d\<lparr>observations := remove_observer_from prefix observer (observations d)\<rparr>"

end
