(* ===== verification/Program_Config.thy ===== *)
theory Program_Config
  imports Daemon
begin

text \<open>
  The configuration of a program and the file \<open>program.conf\<close> it is kept in: \<open>program_config.c\<close>.
  The functions of daemonlib for such files and for tables of names are a parameter; the file is
  one of its values.
\<close>

section \<open>Daemonlib\<close>

text \<open>
  \<open>conf_content\<close> is what \<open>conf_file_read\<close> reads; \<open>conf_get\<close>, \<open>conf_set\<close> and \<open>conf_remove\<close> are
  \<open>conf_file_get_option_value\<close>, \<open>conf_file_set_option_value\<close> and \<open>conf_file_remove_option\<close>, and
  \<open>conf_options\<close> is what \<open>conf_file_get_first_option\<close> and \<open>conf_file_get_next_option\<close> run over.
\<close>

record 'c conf_file =
  conf_empty :: 'c
  conf_content :: 'c
  conf_get :: "'c \<Rightarrow> string \<Rightarrow> string option"
  conf_set :: "string \<Rightarrow> string \<Rightarrow> 'c \<Rightarrow> 'c"
  conf_remove :: "string \<Rightarrow> bool \<Rightarrow> 'c \<Rightarrow> 'c"
  conf_options :: "'c \<Rightarrow> (string \<times> string) list"
  enum_get_name :: "(nat \<times> string) list \<Rightarrow> nat \<Rightarrow> string \<Rightarrow> string"
  enum_get_value :: "(nat \<times> string) list \<Rightarrow> string \<Rightarrow> bool \<Rightarrow> nat option"

text \<open>\<open>strcasecmp\<close> and \<open>strncasecmp\<close>\<close>

definition to_lower :: "char \<Rightarrow> char" where
  "to_lower c = (if 65 \<le> (of_char c :: nat) \<and> (of_char c :: nat) \<le> 90 then char_of ((of_char c :: nat) + 32) else c)"

definition equal_ignoring_case :: "string \<Rightarrow> string \<Rightarrow> bool" where
  "equal_ignoring_case x y \<longleftrightarrow> map to_lower x = map to_lower y"

text \<open>
  \<open>strtoll\<close> with base 0: the white space, the sign, the prefix of the base, and the digits. The
  result is whether the number is out of range, the number, and what follows it.
\<close>

definition is_space :: "char \<Rightarrow> bool" where
  "is_space c \<longleftrightarrow> c \<in> set [CHR '' '', CHR 0x0C, CHR 0x0A, CHR 0x0D, CHR 0x09, CHR 0x0B]"

definition digit_of :: "char \<Rightarrow> nat option" where
  "digit_of c = (let n = of_char c :: nat; l = of_char (to_lower c) :: nat
     in if 48 \<le> n \<and> n < 58 then Some (n - 48) else if 97 \<le> l \<and> l < 123 then Some (l - 87) else None)"

definition digit_in :: "nat \<Rightarrow> char \<Rightarrow> bool" where
  "digit_in base c = (case digit_of c of None \<Rightarrow> False | Some k \<Rightarrow> k < base)"

definition strtoll :: "string \<Rightarrow> bool \<times> int \<times> string" where
  "strtoll string = (
     let cs = dropWhile is_space string;
         (negative, cs) = (case cs of c # cs' \<Rightarrow>
              if c = CHR ''-'' then (True, cs') else if c = CHR ''+'' then (False, cs') else (False, cs)
            | [] \<Rightarrow> (False, cs));
         (base, cs) = (case cs of
              c # x # y # cs' \<Rightarrow>
                if c = CHR ''0'' \<and> to_lower x = CHR ''x'' \<and> digit_in 16 y then (16, y # cs')
                else if c = CHR ''0'' then (8, cs) else (10, cs)
            | c # _ \<Rightarrow> (if c = CHR ''0'' then 8 else 10, cs)
            | [] \<Rightarrow> (10, cs));
         digits = takeWhile (digit_in base) cs;
         n = foldl (\<lambda>n c. int base * n + int (the (digit_of c))) 0 digits;
         v = (if negative then - n else n)
     in if digits = [] then (False, 0, string)
        else if v > 2 ^ 63 - 1 then (True, 2 ^ 63 - 1, dropWhile (digit_in base) cs)
        else if v < - (2 ^ 63) then (True, - (2 ^ 63), dropWhile (digit_in base) cs)
        else (False, v, dropWhile (digit_in base) cs))"

section \<open>Names\<close>

fun stdio_redirection_code :: "program_stdio_redirection \<Rightarrow> nat" where
  "stdio_redirection_code PROGRAM_STDIO_REDIRECTION_DEV_NULL = 0"
| "stdio_redirection_code PROGRAM_STDIO_REDIRECTION_PIPE = 1"
| "stdio_redirection_code PROGRAM_STDIO_REDIRECTION_FILE = 2"
| "stdio_redirection_code PROGRAM_STDIO_REDIRECTION_INDIVIDUAL_LOG = 3"
| "stdio_redirection_code PROGRAM_STDIO_REDIRECTION_CONTINUOUS_LOG = 4"
| "stdio_redirection_code PROGRAM_STDIO_REDIRECTION_STDOUT = 5"

fun start_mode_code :: "program_start_mode \<Rightarrow> nat" where
  "start_mode_code PROGRAM_START_MODE_NEVER = 0"
| "start_mode_code PROGRAM_START_MODE_ALWAYS = 1"
| "start_mode_code PROGRAM_START_MODE_INTERVAL = 2"
| "start_mode_code PROGRAM_START_MODE_CRON = 3"

definition stdio_redirections :: "program_stdio_redirection list" where
  "stdio_redirections = [PROGRAM_STDIO_REDIRECTION_DEV_NULL, PROGRAM_STDIO_REDIRECTION_PIPE,
     PROGRAM_STDIO_REDIRECTION_FILE, PROGRAM_STDIO_REDIRECTION_INDIVIDUAL_LOG,
     PROGRAM_STDIO_REDIRECTION_CONTINUOUS_LOG, PROGRAM_STDIO_REDIRECTION_STDOUT]"

definition start_modes :: "program_start_mode list" where
  "start_modes = [PROGRAM_START_MODE_NEVER, PROGRAM_START_MODE_ALWAYS, PROGRAM_START_MODE_INTERVAL,
     PROGRAM_START_MODE_CRON]"

text \<open>The enumerator with a number, if there is one.\<close>

definition stdio_redirection_of_code :: "nat \<Rightarrow> program_stdio_redirection option" where
  "stdio_redirection_of_code n = find (\<lambda>r. stdio_redirection_code r = n) stdio_redirections"

definition start_mode_of_code :: "nat \<Rightarrow> program_start_mode option" where
  "start_mode_of_code n = find (\<lambda>m. start_mode_code m = n) start_modes"

definition stdio_redirection_enum_value_names :: "(nat \<times> string) list" where
  "stdio_redirection_enum_value_names = [(0, ''/dev/null''), (1, ''pipe''), (2, ''file''),
     (3, ''individual_log''), (4, ''continuous_log''), (5, ''stdout'')]"

definition start_mode_enum_value_names :: "(nat \<times> string) list" where
  "start_mode_enum_value_names = [(0, ''never''), (1, ''always''), (2, ''interval''), (3, ''cron'')]"

definition program_config_get_stdio_redirection_name :: "'c conf_file \<Rightarrow> nat \<Rightarrow> string" where
  "program_config_get_stdio_redirection_name cf redirection =
     enum_get_name cf stdio_redirection_enum_value_names redirection ''<unknown>''"

definition program_config_get_stdio_redirection_value :: "'c conf_file \<Rightarrow> string \<Rightarrow> nat option" where
  "program_config_get_stdio_redirection_value cf name =
     enum_get_value cf stdio_redirection_enum_value_names name True"

definition program_config_get_start_mode_name :: "'c conf_file \<Rightarrow> nat \<Rightarrow> string" where
  "program_config_get_start_mode_name cf mode = enum_get_name cf start_mode_enum_value_names mode ''<unknown>''"

definition program_config_get_start_mode_value :: "'c conf_file \<Rightarrow> string \<Rightarrow> nat option" where
  "program_config_get_start_mode_value cf name = enum_get_value cf start_mode_enum_value_names name True"

section \<open>Setting options\<close>

type_synonym 'c setter = "'c \<Rightarrow> apid \<Rightarrow> (apie \<times> 'c \<times> apid) option"

text \<open>\<open>conf_file_set_option_value\<close> and the translation of its failure.\<close>

definition set_option_value :: "'c conf_file \<Rightarrow> string \<Rightarrow> string \<Rightarrow> 'c setter" where
  "set_option_value cf name value c s = (case ask s of
       (Inl en, s) \<Rightarrow> Some (api_get_error_code_from_errno en, c, s)
     | (Inr _, s) \<Rightarrow> Some (API_E_SUCCESS, conf_set cf name value c, s))"

text \<open>\<open>if (error_code != API_E_SUCCESS) { goto cleanup; }\<close> after each step.\<close>

primrec set_all :: "'c setter list \<Rightarrow> 'c setter" where
  "set_all [] c s = Some (API_E_SUCCESS, c, s)"
| "set_all (f # fs) c s = do {
     (e, c, s) \<leftarrow> f c s;
     if e \<noteq> API_E_SUCCESS then Some (e, c, s) else set_all fs c s
   }"

definition program_config_set_empty :: "'c conf_file \<Rightarrow> string \<Rightarrow> 'c setter" where
  "program_config_set_empty cf name = set_option_value cf name ''''"

definition program_config_set_string :: "'c conf_file \<Rightarrow> string \<Rightarrow> addr \<Rightarrow> 'c setter" where
  "program_config_set_string cf name value c s = do {
     buffer \<leftarrow> string_chars s value;
     set_option_value cf name buffer c s
   }"

text \<open>The option of a file name or of the cron fields, which is empty when it is not used.\<close>

definition program_config_set_string_if :: "'c conf_file \<Rightarrow> bool \<Rightarrow> string \<Rightarrow> addr option \<Rightarrow> 'c setter" where
  "program_config_set_string_if cf used name value c s =
     (if used then (case value of None \<Rightarrow> None | Some a \<Rightarrow> program_config_set_string cf name a c s)
      else program_config_set_empty cf name c s)"

text \<open>Only base 10 is in use.\<close>

definition program_config_set_integer :: "'c conf_file \<Rightarrow> string \<Rightarrow> u64 \<Rightarrow> 'c setter" where
  "program_config_set_integer cf name value = set_option_value cf name (decimal (unat value))"

definition program_config_set_boolean :: "'c conf_file \<Rightarrow> string \<Rightarrow> bool \<Rightarrow> 'c setter" where
  "program_config_set_boolean cf name value = set_option_value cf name (if value then ''true'' else ''false'')"

definition program_config_set_symbol :: "'c conf_file \<Rightarrow> string \<Rightarrow> nat \<Rightarrow> (nat \<Rightarrow> string) \<Rightarrow> 'c setter" where
  "program_config_set_symbol cf name value get_name = set_option_value cf name (get_name value)"

definition with_name :: "string \<Rightarrow> (string \<Rightarrow> 'c setter) \<Rightarrow> 'c setter" where
  "with_name text f c s = (case robust_snprintf 1024 text s of
       (Inl en, s) \<Rightarrow> Some (api_get_error_code_from_errno en, c, s)
     | (Inr buffer, s) \<Rightarrow> f buffer c s)"

definition program_config_set_items :: "'c conf_file \<Rightarrow> string \<Rightarrow> addr list \<Rightarrow> 'c setter" where
  "program_config_set_items cf name items' =
     set_all (map (\<lambda>(i, item). with_name (name @ ''.item'' @ decimal i) (\<lambda>buffer.
        program_config_set_string cf buffer item)) (enumerate 0 items'))"

definition program_config_set_string_list :: "'c conf_file \<Rightarrow> string \<Rightarrow> addr \<Rightarrow> 'c setter" where
  "program_config_set_string_list cf name value c s = do {
     lo \<leftarrow> the_list s value;
     set_all [
       with_name (name @ ''.length'') (\<lambda>buffer.
         program_config_set_integer cf buffer (of_nat (length (items lo)))),
       with_name (name @ ''.item'') (\<lambda>buffer c s. Some (API_E_SUCCESS, conf_remove cf buffer True c, s)),
       program_config_set_items cf name (items lo)] c s
   }"

section \<open>Getting options\<close>

definition internal_and_locked :: u32 where
  "internal_and_locked = OBJECT_CREATE_FLAG_INTERNAL OR OBJECT_CREATE_FLAG_LOCKED"

definition program_config_get_string ::
    "'c conf_file \<Rightarrow> 'c \<Rightarrow> string \<Rightarrow> string \<Rightarrow> apid \<Rightarrow> ((apie + addr) \<times> apid) option" where
  "program_config_get_string cf c name default' s =
     string_wrap (case conf_get cf c name of None \<Rightarrow> default' | Some string \<Rightarrow> string) None
       internal_and_locked s"

text \<open>The digits of a binary number, from the last to the first; an invalid digit is an error.\<close>

primrec binary_value :: "u64 \<Rightarrow> u64 \<Rightarrow> string \<Rightarrow> u64 option" where
  "binary_value base value [] = Some value"
| "binary_value base value (c # cs) =
     (if c = CHR ''1'' then binary_value (base * 2) (value + base) cs
      else if c = CHR ''0'' then binary_value (base * 2) value cs else None)"

definition program_config_get_integer :: "'c conf_file \<Rightarrow> 'c \<Rightarrow> string \<Rightarrow> u64 \<Rightarrow> u64" where
  "program_config_get_integer cf c name default' = (case conf_get cf c name of
       None \<Rightarrow> default'
     | Some string \<Rightarrow>
         (let string = dropWhile is_space string
          in if take 1 string = ''0'' \<and> (take 1 (drop 1 string) = ''b'' \<or> take 1 (drop 1 string) = ''B'')
             then (let digits = drop 2 string
                   in if length digits > 64 then default'
                      else case binary_value 1 0 (rev digits) of None \<Rightarrow> default' | Some value \<Rightarrow> value)
             else (case strtoll string of (out_of_range, tmp, rest) \<Rightarrow>
                     if out_of_range then default' else if rest \<noteq> [] then default'
                     else if tmp < 0 then default' else of_int tmp)))"

definition program_config_get_boolean :: "'c conf_file \<Rightarrow> 'c \<Rightarrow> string \<Rightarrow> bool \<Rightarrow> bool" where
  "program_config_get_boolean cf c name default' = (case conf_get cf c name of
       None \<Rightarrow> default'
     | Some string \<Rightarrow>
         if equal_ignoring_case string ''true'' then True
         else if equal_ignoring_case string ''false'' then False else default')"

definition program_config_get_symbol ::
    "'c conf_file \<Rightarrow> 'c \<Rightarrow> string \<Rightarrow> nat \<Rightarrow> (string \<Rightarrow> nat option) \<Rightarrow> nat" where
  "program_config_get_symbol cf c name default' get_value = (case conf_get cf c name of
       None \<Rightarrow> default'
     | Some string \<Rightarrow> (case get_value string of None \<Rightarrow> default' | Some value \<Rightarrow> value))"

text \<open>
  The items of a list. When an item cannot be appended, the item is lost, the list is released,
  and the result is the error code of the call before, which is success.
\<close>

primrec program_config_get_items ::
    "'c conf_file \<Rightarrow> 'c \<Rightarrow> string \<Rightarrow> nat \<Rightarrow> nat \<Rightarrow> addr \<Rightarrow> apid \<Rightarrow> ((apie \<times> addr) \<times> apid) option" where
  "program_config_get_items cf c name i 0 value s = Some ((API_E_SUCCESS, value), s)"
| "program_config_get_items cf c name i (Suc n) value s = do {
     (r, s) \<leftarrow> program_config_get_string cf c (take 1023 (name @ ''.item'' @ decimal i)) '''' s;
     case r of
       Inl e \<Rightarrow> do { s \<leftarrow> list_unlock_and_release value s; Some ((e, value), s) }
     | Inr item \<Rightarrow> (case ask s of
         (Inl _, s) \<Rightarrow> do { s \<leftarrow> list_unlock_and_release value s; Some ((API_E_SUCCESS, value), s) }
       | (Inr _, s) \<Rightarrow> do {
           lo \<leftarrow> the_list s value;
           s \<leftarrow> put_list value (lo\<lparr>items := items lo @ [item]\<rparr>) s;
           program_config_get_items cf c name (Suc i) n value s
         })
   }"

definition program_config_get_string_list ::
    "'c conf_file \<Rightarrow> 'c \<Rightarrow> string \<Rightarrow> apid \<Rightarrow> ((apie + addr) \<times> apid) option" where
  "program_config_get_string_list cf c name s = do {
     let length' = program_config_get_integer cf c (take 1023 (name @ ''.length'')) 0;
     (r, s) \<leftarrow> list_allocate (ucast length') None internal_and_locked s;
     case r of
       Inl e \<Rightarrow> Some (Inl e, s)
     | Inr value \<Rightarrow> do {
         ((e, value), s) \<leftarrow> program_config_get_items cf c name 0
           (nat (sint (ucast length' :: u32))) value s;
         Some (if e = API_E_SUCCESS then Inr value else Inl e, s)
       }
   }"

section \<open>Taking and giving back\<close>

text \<open>
  What a phase takes is given back when a later phase fails, in the opposite order: the \<open>cleanup\<close>
  switches whose cases fall through.
\<close>

definition with_taken ::
    "((apie + 'a) \<times> 's) option \<Rightarrow> ('a \<Rightarrow> 's \<Rightarrow> 's option) \<Rightarrow>
     ('a \<Rightarrow> 's \<Rightarrow> ((apie + 'b) \<times> 's) option) \<Rightarrow> ((apie + 'b) \<times> 's) option" where
  "with_taken m release body = do {
     (r, s) \<leftarrow> m;
     case r of
       Inl e \<Rightarrow> Some (Inl e, s)
     | Inr a \<Rightarrow> do {
         (r, s) \<leftarrow> body a s;
         case r of
           Inl e \<Rightarrow> do { s \<leftarrow> release a s; Some (Inl e, s) }
         | Inr b \<Rightarrow> Some (Inr b, s)
       }
   }"

text \<open>A call that takes nothing: memory that is only freed, or a call of the kernel.\<close>

definition ask_or :: "apie \<Rightarrow> apid \<Rightarrow> ((apie + int) \<times> apid) option" where
  "ask_or e s = (case ask s of (Inl _, s) \<Rightarrow> Some (Inl e, s) | (Inr i, s) \<Rightarrow> Some (Inr i, s))"

definition ask_errno :: "apid \<Rightarrow> ((apie + int) \<times> apid) option" where
  "ask_errno s = (case ask s of
       (Inl en, s) \<Rightarrow> Some (Inl (api_get_error_code_from_errno en), s)
     | (Inr i, s) \<Rightarrow> Some (Inr i, s))"

definition nothing :: "'a \<Rightarrow> 's \<Rightarrow> 's option" where
  "nothing a s = Some s"

definition program_config_create :: "string \<Rightarrow> apid \<Rightarrow> ((apie + program_config) \<times> apid) option" where
  "program_config_create filename s =
     with_taken (inventory_get_stock_string '''' s) string_unlock_and_release (\<lambda>executable s.
     with_taken (list_allocate 0 None internal_and_locked s) list_unlock_and_release (\<lambda>arguments s.
     with_taken (list_allocate 0 None internal_and_locked s) list_unlock_and_release (\<lambda>environment s.
     with_taken (inventory_get_stock_string ''.'' s) string_unlock_and_release (\<lambda>working_directory s.
     with_taken (ask_or API_E_NO_FREE_MEMORY s) nothing (\<lambda>_ s.
     with_taken (ask_errno s) nothing (\<lambda>_ s.
     with_taken (ask_or API_E_NO_FREE_MEMORY s) nothing (\<lambda>_ s.
       Some (Inr \<lparr>conf_filename = filename, conf_executable = executable, conf_arguments = arguments,
         conf_environment = environment, conf_working_directory = working_directory,
         stdin_redirection = PROGRAM_STDIO_REDIRECTION_DEV_NULL, stdin_file_name = None,
         stdout_redirection = PROGRAM_STDIO_REDIRECTION_DEV_NULL, stdout_file_name = None,
         stderr_redirection = PROGRAM_STDIO_REDIRECTION_DEV_NULL, stderr_file_name = None,
         start_mode = PROGRAM_START_MODE_NEVER, continue_after_error = False, start_interval = 0,
         start_fields = None, custom_options = []\<rparr>, s))))))))"

text \<open>\<open>if (used) { string_unlock_and_release(string); }\<close>; a null pointer would be an access to it.\<close>

definition release_if :: "bool \<Rightarrow> addr option \<Rightarrow> apid \<Rightarrow> apid option" where
  "release_if used string s =
     (if used then (case string of None \<Rightarrow> None | Some a \<Rightarrow> string_unlock_and_release a s) else Some s)"

text \<open>The items of the array of custom options, each by \<open>program_custom_option_unlock_and_release\<close>.\<close>

definition program_custom_option_unlock_and_release :: "program_custom_option \<Rightarrow> apid \<Rightarrow> apid option" where
  "program_custom_option_unlock_and_release custom_option s = do {
     s \<leftarrow> string_unlock_and_release (option_name custom_option) s;
     string_unlock_and_release (option_value custom_option) s
   }"

primrec release_custom_options :: "program_custom_option list \<Rightarrow> apid \<Rightarrow> apid option" where
  "release_custom_options [] s = Some s"
| "release_custom_options (c # cs) s = do {
     s \<leftarrow> program_custom_option_unlock_and_release c s;
     release_custom_options cs s
   }"

definition program_config_destroy :: "program_config \<Rightarrow> apid \<Rightarrow> apid option" where
  "program_config_destroy c s = do {
     s \<leftarrow> release_custom_options (custom_options c) s;
     s \<leftarrow> release_if (start_mode c = PROGRAM_START_MODE_CRON) (start_fields c) s;
     s \<leftarrow> release_if (stderr_redirection c = PROGRAM_STDIO_REDIRECTION_FILE) (stderr_file_name c) s;
     s \<leftarrow> release_if (stdout_redirection c = PROGRAM_STDIO_REDIRECTION_FILE) (stdout_file_name c) s;
     s \<leftarrow> release_if (stdin_redirection c = PROGRAM_STDIO_REDIRECTION_FILE) (stdin_file_name c) s;
     s \<leftarrow> string_unlock_and_release (conf_working_directory c) s;
     s \<leftarrow> list_unlock_and_release (conf_environment c) s;
     s \<leftarrow> list_unlock_and_release (conf_arguments c) s;
     string_unlock_and_release (conf_executable c) s
   }"

section \<open>Loading\<close>

text \<open>
  A redirection and its file name. A redirection that is not allowed for the stream and an empty
  file name become the default. A number that is no enumerator does not come out of the table.
\<close>

definition program_config_get_redirection ::
    "'c conf_file \<Rightarrow> 'c \<Rightarrow> string \<Rightarrow> string \<Rightarrow> program_stdio_redirection list \<Rightarrow> apid \<Rightarrow>
     ((apie + program_stdio_redirection \<times> addr option) \<times> apid) option" where
  "program_config_get_redirection cf c name file_option invalid s =
     (case stdio_redirection_of_code (program_config_get_symbol cf c name
             (stdio_redirection_code PROGRAM_STDIO_REDIRECTION_DEV_NULL)
             (program_config_get_stdio_redirection_value cf)) of
        None \<Rightarrow> None
      | Some redirection \<Rightarrow>
          let redirection = (if redirection \<in> set invalid then PROGRAM_STDIO_REDIRECTION_DEV_NULL else redirection)
          in if redirection = PROGRAM_STDIO_REDIRECTION_FILE then do {
               (r, s) \<leftarrow> program_config_get_string cf c file_option '''' s;
               case r of
                 Inl e \<Rightarrow> Some (Inl e, s)
               | Inr a \<Rightarrow> do {
                   name \<leftarrow> string_chars s a;
                   if name = [] then do {
                     s \<leftarrow> string_unlock_and_release a s;
                     Some (Inr (PROGRAM_STDIO_REDIRECTION_DEV_NULL, Some a), s)
                   } else Some (Inr (redirection, Some a), s)
                 }
             } else Some (Inr (redirection, None), s))"

definition release_redirection :: "program_stdio_redirection \<times> addr option \<Rightarrow> apid \<Rightarrow> apid option" where
  "release_redirection r = release_if (fst r = PROGRAM_STDIO_REDIRECTION_FILE) (snd r)"

definition program_config_get_start ::
    "'c conf_file \<Rightarrow> 'c \<Rightarrow> apid \<Rightarrow> ((apie + program_start_mode \<times> addr option) \<times> apid) option" where
  "program_config_get_start cf c s =
     (case start_mode_of_code (program_config_get_symbol cf c ''start_mode''
             (start_mode_code PROGRAM_START_MODE_NEVER) (program_config_get_start_mode_value cf)) of
        None \<Rightarrow> None
      | Some mode \<Rightarrow>
          if mode = PROGRAM_START_MODE_CRON then do {
            (r, s) \<leftarrow> program_config_get_string cf c ''start_fields'' ''* * * * *'' s;
            case r of
              Inl e \<Rightarrow> Some (Inl e, s)
            | Inr a \<Rightarrow> do {
                fields' \<leftarrow> string_chars s a;
                if fields' = [] then do {
                  s \<leftarrow> string_unlock_and_release a s;
                  Some (Inr (PROGRAM_START_MODE_NEVER, Some a), s)
                } else Some (Inr (mode, Some a), s)
              }
          } else Some (Inr (mode, None), s))"

definition release_start :: "program_start_mode \<times> addr option \<Rightarrow> apid \<Rightarrow> apid option" where
  "release_start r = release_if (fst r = PROGRAM_START_MODE_CRON) (snd r)"

text \<open>
  The loop over the options of the file: those whose names start with \<open>custom.\<close> become custom
  options. On failure the options so far are released.
\<close>

definition custom_prefix :: string where "custom_prefix = ''custom.''"

primrec program_config_get_custom_options ::
    "(string \<times> string) list \<Rightarrow> program_custom_option list \<Rightarrow> apid \<Rightarrow>
     ((apie + program_custom_option list) \<times> apid) option" where
  "program_config_get_custom_options [] taken s = Some (Inr taken, s)"
| "program_config_get_custom_options (x # xs) taken s = (case x of (custom_name, custom_value) \<Rightarrow>
     if \<not> equal_ignoring_case (take (length custom_prefix) custom_name) custom_prefix
     then program_config_get_custom_options xs taken s
     else do {
       (r, s) \<leftarrow>
         with_taken (ask_errno s) nothing (\<lambda>_ s.
         with_taken (string_wrap (drop (length custom_prefix) custom_name) None internal_and_locked s)
           string_unlock_and_release (\<lambda>name s.
         with_taken (string_wrap custom_value None internal_and_locked s) string_unlock_and_release (\<lambda>value s.
           Some (Inr \<lparr>option_name = name, option_value = value\<rparr>, s))));
       case r of
         Inl e \<Rightarrow> do { s \<leftarrow> release_custom_options taken s; Some (Inl e, s) }
       | Inr custom_option \<Rightarrow> program_config_get_custom_options xs (taken @ [custom_option]) s
     })"

text \<open>The phases 2 to 12: the new configuration, with everything it holds taken.\<close>

definition program_config_read ::
    "'c conf_file \<Rightarrow> 'c \<Rightarrow> string \<Rightarrow> apid \<Rightarrow> ((apie + program_config) \<times> apid) option" where
  "program_config_read cf c filename s =
     with_taken (program_config_get_string cf c ''executable'' '''' s) string_unlock_and_release (\<lambda>executable s.
     with_taken (program_config_get_string_list cf c ''arguments'' s) list_unlock_and_release (\<lambda>arguments s.
     with_taken (program_config_get_string_list cf c ''environment'' s) list_unlock_and_release (\<lambda>environment s.
     with_taken (program_config_get_string cf c ''working_directory'' ''.'' s) string_unlock_and_release
       (\<lambda>working_directory s.
     with_taken (program_config_get_redirection cf c ''stdin_redirection'' ''stdin_file_name''
         [PROGRAM_STDIO_REDIRECTION_INDIVIDUAL_LOG, PROGRAM_STDIO_REDIRECTION_CONTINUOUS_LOG,
          PROGRAM_STDIO_REDIRECTION_STDOUT] s) release_redirection (\<lambda>stdin s.
     with_taken (program_config_get_redirection cf c ''stdout_redirection'' ''stdout_file_name''
         [PROGRAM_STDIO_REDIRECTION_PIPE, PROGRAM_STDIO_REDIRECTION_STDOUT] s) release_redirection (\<lambda>stdout s.
     with_taken (program_config_get_redirection cf c ''stderr_redirection'' ''stderr_file_name''
         [PROGRAM_STDIO_REDIRECTION_PIPE] s) release_redirection (\<lambda>stderr s.
     with_taken (program_config_get_start cf c s) release_start (\<lambda>start s.
     with_taken (ask_or API_E_NO_FREE_MEMORY s) nothing (\<lambda>_ s.
     with_taken (ask_errno s) nothing (\<lambda>_ s.
     with_taken (program_config_get_custom_options (conf_options cf c) [] s) release_custom_options (\<lambda>custom s.
       Some (Inr \<lparr>conf_filename = filename, conf_executable = executable, conf_arguments = arguments,
         conf_environment = environment, conf_working_directory = working_directory,
         stdin_redirection = fst stdin, stdin_file_name = snd stdin,
         stdout_redirection = fst stdout, stdout_file_name = snd stdout,
         stderr_redirection = fst stderr, stderr_file_name = snd stderr,
         start_mode = fst start,
         continue_after_error = program_config_get_boolean cf c ''continue_after_error'' False,
         start_interval = ucast (program_config_get_integer cf c ''start_interval'' 0),
         start_fields = snd start, custom_options = custom\<rparr>, s))))))))))))"

text \<open>
  The release of the old objects goes through the members in another order than
  \<open>program_config_destroy\<close>.
\<close>

definition program_config_release_old :: "program_config \<Rightarrow> apid \<Rightarrow> apid option" where
  "program_config_release_old c s = do {
     s \<leftarrow> string_unlock_and_release (conf_executable c) s;
     s \<leftarrow> list_unlock_and_release (conf_arguments c) s;
     s \<leftarrow> list_unlock_and_release (conf_environment c) s;
     s \<leftarrow> string_unlock_and_release (conf_working_directory c) s;
     s \<leftarrow> release_if (stdin_redirection c = PROGRAM_STDIO_REDIRECTION_FILE) (stdin_file_name c) s;
     s \<leftarrow> release_if (stdout_redirection c = PROGRAM_STDIO_REDIRECTION_FILE) (stdout_file_name c) s;
     s \<leftarrow> release_if (stderr_redirection c = PROGRAM_STDIO_REDIRECTION_FILE) (stderr_file_name c) s;
     s \<leftarrow> release_if (start_mode c = PROGRAM_START_MODE_CRON) (start_fields c) s;
     release_custom_options (custom_options c) s
   }"

text \<open>The calls are \<open>conf_file_create\<close> and \<open>conf_file_read\<close>.\<close>

definition program_config_load ::
    "'c conf_file \<Rightarrow> program_config \<Rightarrow> apid \<Rightarrow> ((apie + program_config) \<times> apid) option" where
  "program_config_load cf c s =
     with_taken (ask_errno s) nothing (\<lambda>_ s.
     with_taken (ask_errno s) nothing (\<lambda>_ s. do {
       (r, s) \<leftarrow> program_config_read cf (conf_content cf) (conf_filename c) s;
       case r of
         Inl e \<Rightarrow> Some (Inl e, s)
       | Inr c' \<Rightarrow> do { s \<leftarrow> program_config_release_old c s; Some (Inr c', s) }
     }))"

section \<open>Saving\<close>

definition program_config_set_custom_options :: "'c conf_file \<Rightarrow> program_custom_option list \<Rightarrow> 'c setter" where
  "program_config_set_custom_options cf cs =
     set_all (map (\<lambda>custom_option c s. do {
        name \<leftarrow> string_chars s (option_name custom_option);
        with_name (''custom.'' @ name) (\<lambda>buffer.
          program_config_set_string cf buffer (option_value custom_option)) c s }) cs)"

definition program_config_store :: "'c conf_file \<Rightarrow> program_config \<Rightarrow> 'c setter" where
  "program_config_store cf c = set_all [
     program_config_set_string cf ''executable'' (conf_executable c),
     program_config_set_string_list cf ''arguments'' (conf_arguments c),
     program_config_set_string_list cf ''environment'' (conf_environment c),
     program_config_set_string cf ''working_directory'' (conf_working_directory c),
     program_config_set_symbol cf ''stdin_redirection'' (stdio_redirection_code (stdin_redirection c))
       (program_config_get_stdio_redirection_name cf),
     program_config_set_string_if cf (stdin_redirection c = PROGRAM_STDIO_REDIRECTION_FILE)
       ''stdin_file_name'' (stdin_file_name c),
     program_config_set_symbol cf ''stdout_redirection'' (stdio_redirection_code (stdout_redirection c))
       (program_config_get_stdio_redirection_name cf),
     program_config_set_string_if cf (stdout_redirection c = PROGRAM_STDIO_REDIRECTION_FILE)
       ''stdout_file_name'' (stdout_file_name c),
     program_config_set_symbol cf ''stderr_redirection'' (stdio_redirection_code (stderr_redirection c))
       (program_config_get_stdio_redirection_name cf),
     program_config_set_string_if cf (stderr_redirection c = PROGRAM_STDIO_REDIRECTION_FILE)
       ''stderr_file_name'' (stderr_file_name c),
     program_config_set_symbol cf ''start_mode'' (start_mode_code (start_mode c))
       (program_config_get_start_mode_name cf),
     program_config_set_boolean cf ''continue_after_error'' (continue_after_error c),
     program_config_set_integer cf ''start_interval'' (ucast (start_interval c)),
     program_config_set_string_if cf (start_mode c = PROGRAM_START_MODE_CRON) ''start_fields'' (start_fields c),
     (\<lambda>cc s. Some (API_E_SUCCESS, conf_remove cf ''custom.'' True cc, s)),
     program_config_set_custom_options cf (custom_options c)]"

text \<open>
  The calls are \<open>conf_file_create\<close>, \<open>conf_file_read\<close>, which may find no file, and, after the
  options are set, \<open>conf_file_write\<close>. The result has the file that was written.
\<close>

definition program_config_save ::
    "'c conf_file \<Rightarrow> program_config \<Rightarrow> apid \<Rightarrow> ((apie + 'c) \<times> apid) option" where
  "program_config_save cf c s = (case ask s of
       (Inl en, s) \<Rightarrow> Some (Inl (api_get_error_code_from_errno en), s)
     | (Inr _, s) \<Rightarrow>
     (case ask s of (r, s) \<Rightarrow>
        (case (case r of Inr _ \<Rightarrow> Inr (conf_content cf)
               | Inl en \<Rightarrow> if en = ENOENT then Inr (conf_empty cf) else Inl en) of
           Inl en \<Rightarrow> Some (Inl (api_get_error_code_from_errno en), s)
         | Inr cc \<Rightarrow> do {
             (e, cc, s) \<leftarrow> program_config_store cf c cc s;
             if e \<noteq> API_E_SUCCESS then Some (Inl e, s)
             else (case ask (emit (Ev_conf_file_write (conf_filename c)) s) of
                 (Inl en, s) \<Rightarrow> Some (Inl (api_get_error_code_from_errno en), s)
               | (Inr _, s) \<Rightarrow> Some (Inr cc, s))
           })))"

end
