(* ===== verification/Program_Scheduler.thy ===== *)
theory Program_Scheduler
  imports Process_Monitor Program_Config
begin

text \<open>
  The scheduler of a program: \<open>program_scheduler.c\<close>, with the two functions of \<open>program.c\<close> it
  reports to. It decides when a program is started, prepares the directories, the standard files
  and the log files, and spawns the process. All operations take the address of the program.
\<close>

section \<open>Reports\<close>

definition program_report_process_process_spawn :: "addr \<Rightarrow> daemon \<Rightarrow> daemon option" where
  "program_report_process_process_spawn a d = do {
     p \<leftarrow> programs d a;
     Some (if program_external_reference_count p > 0
           then tell (Ev_program_process_spawned_callback (program_id p)) d else d)
   }"

definition program_report_scheduler_state_change :: "addr \<Rightarrow> daemon \<Rightarrow> daemon option" where
  "program_report_scheduler_state_change a d = do {
     p \<leftarrow> programs d a;
     Some (if program_external_reference_count p > 0
           then tell (Ev_program_scheduler_state_changed_callback (program_id p)) d else d)
   }"

section \<open>The state of the scheduler\<close>

definition program_scheduler_set_state ::
    "addr \<Rightarrow> program_scheduler_state \<Rightarrow> u64 \<Rightarrow> addr option \<Rightarrow> daemon \<Rightarrow> daemon option" where
  "program_scheduler_set_state a state timestamp message d = do {
     p \<leftarrow> programs d a;
     if scheduler_state (scheduler p) = state \<and> scheduler_message (scheduler p) = message then Some d
     else do {
       d \<leftarrow> (if scheduler_message (scheduler p) \<noteq> message
            then exec (release_if_set (scheduler_message (scheduler p))) d else Some d);
       d \<leftarrow> change_scheduler a (\<lambda>sc. sc\<lparr>scheduler_state := state, scheduler_timestamp := timestamp,
              scheduler_message := message\<rparr>) d;
       program_report_scheduler_state_change a d
     }
   }"

text \<open>The first half of \<open>program_scheduler_handle_error\<close>: the message, if it can be made.\<close>

definition program_scheduler_wrap_message :: "string \<Rightarrow> daemon \<Rightarrow> (addr option \<times> daemon) option" where
  "program_scheduler_wrap_message text d = do {
     (r, d) \<leftarrow> run (string_wrap (take 1023 text) None internal_and_locked) d;
     Some (case r of Inl _ \<Rightarrow> None | Inr message \<Rightarrow> Some message, d)
   }"

definition program_scheduler_abort_observer :: "addr \<Rightarrow> daemon \<Rightarrow> daemon option" where
  "program_scheduler_abort_observer a d = do {
     p \<leftarrow> programs d a;
     let d = (if observer_state (scheduler p) = PROCESS_OBSERVER_STATE_WAITING
              then process_monitor_remove_observer ''lxpanel'' a d else d);
     change_scheduler a (\<lambda>sc. sc\<lparr>observer_state := PROCESS_OBSERVER_STATE_FINISHED\<rparr>) d
   }"

text \<open>\<open>timer_configure\<close> of the timer of the program\<close>

definition configure_timer :: "addr \<Rightarrow> u64 \<Rightarrow> u64 \<Rightarrow> daemon \<Rightarrow> (errno + int) \<times> daemon" where
  "configure_timer a delay interval d = call ask (tell (Ev_timer_start a delay interval) d)"

text \<open>
  \<open>program_scheduler_stop\<close>. When the timer cannot be stopped, the error is handled in turn; the
  static variable \<open>recursive\<close> makes that inner call of \<open>program_scheduler_stop\<close> return at once, so
  that only the message it was given is left of it.
\<close>

definition program_scheduler_stop_timer :: "addr \<Rightarrow> daemon \<Rightarrow> daemon option" where
  "program_scheduler_stop_timer a d = (case configure_timer a 0 0 d of
       (Inl en, d) \<Rightarrow> do {
         (message, d) \<leftarrow> program_scheduler_wrap_message (''Could not stop timer: '' @ errno_text en (core d)) d;
         Some d
       }
     | (Inr _, d) \<Rightarrow> change_scheduler a (\<lambda>sc. sc\<lparr>timer_active := False\<rparr>) d)"

definition program_scheduler_remove_cron :: "addr \<Rightarrow> daemon \<Rightarrow> daemon option" where
  "program_scheduler_remove_cron a d = do {
     p \<leftarrow> programs d a;
     let (c, s) = cron_remove_entry (program_id p) (cron d) (core d);
     change_scheduler a (\<lambda>sc. sc\<lparr>cron_active := False\<rparr>) (d\<lparr>cron := c, core := s\<rparr>)
   }"

definition program_scheduler_stop :: "addr \<Rightarrow> addr option \<Rightarrow> daemon \<Rightarrow> daemon option" where
  "program_scheduler_stop a message d = do {
     d \<leftarrow> program_scheduler_abort_observer a d;
     p \<leftarrow> programs d a;
     d \<leftarrow> (if timer_active (scheduler p) then program_scheduler_stop_timer a d else Some d);
     d \<leftarrow> (if cron_active (scheduler p) then program_scheduler_remove_cron a d else Some d);
     let (now, d) = call ask_int d;
     program_scheduler_set_state a PROGRAM_SCHEDULER_STATE_STOPPED (of_int now) message d
   }"

definition program_scheduler_handle_error :: "addr \<Rightarrow> string \<Rightarrow> daemon \<Rightarrow> daemon option" where
  "program_scheduler_handle_error a text d = do {
     (message, d) \<leftarrow> program_scheduler_wrap_message text d;
     program_scheduler_stop a message d
   }"

text \<open>\<open>program_scheduler_handle_error(\<dots>); return NULL;\<close>\<close>

definition no_file :: "addr \<Rightarrow> string \<Rightarrow> daemon \<Rightarrow> (addr option \<times> daemon) option" where
  "no_file a text d = do { d \<leftarrow> program_scheduler_handle_error a text d; Some (None, d) }"

section \<open>Files\<close>

text \<open>The characters and the ID of a string object.\<close>

definition buffer_of :: "addr \<Rightarrow> daemon \<Rightarrow> string option" where
  "buffer_of a d = string_chars (core d) a"

definition id_of :: "addr \<Rightarrow> daemon \<Rightarrow> u16 option" where
  "id_of a d = map_option obj_id (objs (core d) a)"

text \<open>
  The absolute name of a file in the \<open>bin\<close> directory, if the stream is redirected to a file.
\<close>

definition program_scheduler_absolute_name ::
    "addr \<Rightarrow> string \<Rightarrow> program_stdio_redirection \<Rightarrow> addr option \<Rightarrow> daemon \<Rightarrow> ((apie + addr option) \<times> daemon) option" where
  "program_scheduler_absolute_name a stream redirection relative d =
     (if redirection = PROGRAM_STDIO_REDIRECTION_FILE then do {
        p \<leftarrow> programs d a;
        root \<leftarrow> buffer_of (root_directory p) d;
        name \<leftarrow> Option.bind relative (\<lambda>f. buffer_of f d);
        (r, d) \<leftarrow> run (string_asprintf None internal_and_locked (root @ ''/bin/'' @ name)) d;
        case r of
          Inl e \<Rightarrow> do {
            d \<leftarrow> program_scheduler_handle_error a
                  (''Could not wrap absolute '' @ stream @ '' file name into string object: '' @ apie_text e) d;
            Some (Inl e, d)
          }
        | Inr name \<Rightarrow> Some (Inr (Some name), d)
      } else Some (Inr None, d))"

text \<open>
  The directory of that name: the part before the last slash.
\<close>

definition program_scheduler_file_directory ::
    "addr \<Rightarrow> string \<Rightarrow> addr option \<Rightarrow> daemon \<Rightarrow> (apie \<times> daemon) option" where
  "program_scheduler_file_directory a stream file d = (case file of
       None \<Rightarrow> Some (API_E_SUCCESS, d)
     | Some f \<Rightarrow> do {
         name \<leftarrow> buffer_of f d;
         case strrchr name CHR ''/'' of
           None \<Rightarrow> Some (API_E_SUCCESS, d)
         | Some n \<Rightarrow> do {
             (e, d) \<leftarrow> run (directory_create (take n name) DIRECTORY_FLAG_RECURSIVE 0x1ED 1000 1000) d;
             if e \<noteq> API_E_SUCCESS then do {
               d \<leftarrow> program_scheduler_handle_error a
                     (''Could not create directory for '' @ stream @ '' file '' @ [CHR 0x27] @ name @ [CHR 0x27] @
                      '': '' @ apie_text e) d;
               Some (e, d)
             } else Some (e, d)
           }
       })"

text \<open>The last part: the stored names are replaced.\<close>

definition program_scheduler_store_names ::
    "addr \<Rightarrow> addr \<Rightarrow> addr option \<Rightarrow> addr option \<Rightarrow> addr option \<Rightarrow> daemon \<Rightarrow> daemon option" where
  "program_scheduler_store_names a directory stdin stdout stderr d = do {
     p \<leftarrow> programs d a;
     let sc = scheduler p;
     d \<leftarrow> exec (release_if_set (absolute_working_directory sc)) d;
     d \<leftarrow> exec (release_if_set (absolute_stdin_file_name sc)) d;
     d \<leftarrow> exec (release_if_set (absolute_stdout_file_name sc)) d;
     d \<leftarrow> exec (release_if_set (absolute_stderr_file_name sc)) d;
     change_scheduler a (\<lambda>sc. sc\<lparr>absolute_working_directory := Some directory,
       absolute_stdin_file_name := stdin, absolute_stdout_file_name := stdout,
       absolute_stderr_file_name := stderr\<rparr>) d
   }"

text \<open>
  \<open>program_scheduler_prepare_filesystem\<close>. When the working directory cannot be created, its name
  is released on the spot and again by the cleanup of phase 1. When the directory of the stderr
  file cannot be created, phase 4 is reached already: nothing is cleaned up or stored, and the
  result is success.
\<close>

definition program_scheduler_prepare_filesystem :: "addr \<Rightarrow> daemon \<Rightarrow> (apie \<times> daemon) option" where
  "program_scheduler_prepare_filesystem a d = do {
     p \<leftarrow> programs d a;
     root \<leftarrow> buffer_of (root_directory p) d;
     working_directory \<leftarrow> buffer_of (conf_working_directory (config p)) d;
     (r, d) \<leftarrow> run (string_asprintf None internal_and_locked (root @ ''/bin/'' @ working_directory)) d;
     case r of
       Inl e \<Rightarrow> do {
         d \<leftarrow> program_scheduler_handle_error a
               (''Could not wrap absolute program working directory name into string object: '' @ apie_text e) d;
         Some (e, d)
       }
     | Inr directory \<Rightarrow> do {
         name \<leftarrow> buffer_of directory d;
         (e, d) \<leftarrow> run (directory_create name DIRECTORY_FLAG_RECURSIVE 0x1ED 1000 1000) d;
         if e \<noteq> API_E_SUCCESS then do {
           d \<leftarrow> program_scheduler_handle_error a
                 (''Could not create absolute program working directory: '' @ apie_text e) d;
           d \<leftarrow> exec (string_unlock_and_release directory) d;
           d \<leftarrow> exec (string_unlock_and_release directory) d;
           Some (e, d)
         } else do {
           (r, d) \<leftarrow>
             with_taken (Some (Inr directory, d)) (\<lambda>directory. exec (string_unlock_and_release directory))
               (\<lambda>directory d.
             with_taken (program_scheduler_absolute_name a ''stdin'' (stdin_redirection (config p))
               (stdin_file_name (config p)) d) (\<lambda>stdin. exec (release_if_set stdin)) (\<lambda>stdin d.
             with_taken (program_scheduler_absolute_name a ''stdout'' (stdout_redirection (config p))
               (stdout_file_name (config p)) d) (\<lambda>stdout. exec (release_if_set stdout)) (\<lambda>stdout d. do {
               (e, d) \<leftarrow> program_scheduler_file_directory a ''stdout'' stdout d;
               if e \<noteq> API_E_SUCCESS then Some (Inl e, d)
               else do {
                 (r, d) \<leftarrow> program_scheduler_absolute_name a ''stderr'' (stderr_redirection (config p))
                            (stderr_file_name (config p)) d;
                 case r of
                   Inl e \<Rightarrow> Some (Inl e, d)
                 | Inr stderr \<Rightarrow> do {
                     (e, d) \<leftarrow> program_scheduler_file_directory a ''stderr'' stderr d;
                     if e \<noteq> API_E_SUCCESS then Some (Inr (), d)
                     else do {
                       d \<leftarrow> program_scheduler_store_names a directory stdin stdout stderr d;
                       Some (Inr (), d)
                     }
                   }
               }
             })));
           Some (case r of Inl e \<Rightarrow> e | Inr _ \<Rightarrow> API_E_SUCCESS, d)
         }
       }
   }"

text \<open>
  A file for one of the streams of the process, opened as the default user. \<open>what\<close> is the
  beginning of the message about a failure.
\<close>

definition program_scheduler_open ::
    "addr \<Rightarrow> addr \<Rightarrow> u32 \<Rightarrow> u16 \<Rightarrow> string \<Rightarrow> daemon \<Rightarrow> (addr option \<times> daemon) option" where
  "program_scheduler_open a name flags permissions what d = do {
     i \<leftarrow> id_of name d;
     (r, d) \<leftarrow> run (file_open i flags permissions 1000 1000 None OBJECT_CREATE_FLAG_INTERNAL) d;
     case r of
       Inl e \<Rightarrow> no_file a (what @ '': '' @ apie_text e) d
     | Inr file \<Rightarrow> Some (Some file, d)
   }"

text \<open>Opening the file a stream is redirected to.\<close>

definition program_scheduler_open_absolute ::
    "addr \<Rightarrow> addr option \<Rightarrow> string \<Rightarrow> u32 \<Rightarrow> u16 \<Rightarrow> string \<Rightarrow> string \<Rightarrow> daemon \<Rightarrow> (addr option \<times> daemon) option" where
  "program_scheduler_open_absolute a file stream flags permissions verb purpose d = (case file of
       None \<Rightarrow> no_file a (''Absolute '' @ stream @ '' file name not set'') d
     | Some f \<Rightarrow> do {
         name \<leftarrow> buffer_of f d;
         program_scheduler_open a f flags permissions
           (''Could not '' @ verb @ '' '' @ [CHR 0x27] @ name @ [CHR 0x27] @ '' for '' @ purpose) d
       })"

definition program_scheduler_prepare_stdin :: "addr \<Rightarrow> daemon \<Rightarrow> (addr option \<times> daemon) option" where
  "program_scheduler_prepare_stdin a d = do {
     p \<leftarrow> programs d a;
     case stdin_redirection (config p) of
       PROGRAM_STDIO_REDIRECTION_DEV_NULL \<Rightarrow>
         program_scheduler_open a (dev_null_file_name (scheduler p)) FILE_FLAG_READ_ONLY 0
           ''Could not open /dev/null for reading'' d
     | PROGRAM_STDIO_REDIRECTION_PIPE \<Rightarrow> do {
         (r, d) \<leftarrow> run (\<lambda>s. pipe_create_ops (PIPE_FLAG_NON_BLOCKING_WRITE (lib s)) 0 None
                      OBJECT_CREATE_FLAG_INTERNAL s) d;
         case r of
           Inl e \<Rightarrow> no_file a (''Could not create pipe: '' @ apie_text e) d
         | Inr file \<Rightarrow> Some (Some file, d)
       }
     | PROGRAM_STDIO_REDIRECTION_FILE \<Rightarrow>
         program_scheduler_open_absolute a (absolute_stdin_file_name (scheduler p)) ''stdin''
           FILE_FLAG_READ_ONLY 0 ''open'' ''reading'' d
     | PROGRAM_STDIO_REDIRECTION_INDIVIDUAL_LOG \<Rightarrow>
         no_file a ''Cannot redirect stdin to a individual log file'' d
     | PROGRAM_STDIO_REDIRECTION_CONTINUOUS_LOG \<Rightarrow>
         no_file a ''Cannot redirect stdin to a continuous log file'' d
     | PROGRAM_STDIO_REDIRECTION_STDOUT \<Rightarrow> no_file a ''Cannot redirect stdin to stdout'' d
   }"

section \<open>Log files\<close>

text \<open>
  \<open>localtime_r\<close> and \<open>strftime\<close> into a block of \<open>n\<close> bytes: no time, or the text.
\<close>

definition ask_localtime :: "apid \<Rightarrow> bool \<times> apid" where
  "ask_localtime s = (case ask s of (Inl _, s) \<Rightarrow> (False, s) | (Inr _, s) \<Rightarrow> (True, s))"

definition ask_strftime :: "nat \<Rightarrow> apid \<Rightarrow> string \<times> apid" where
  "ask_strftime n s = (let (k, s) = ask_int s; (cs, s) = ask_bytes (min (n - 1) (nat k)) s
     in (takeWhile (\<lambda>c. c \<noteq> CHR 0x00) cs, s))"

definition zero_padded :: "nat \<Rightarrow> nat \<Rightarrow> string" where
  "zero_padded n k = replicate (n - length (decimal k)) (CHR ''0'') @ decimal k"

text \<open>\<open>struct timeval\<close>\<close>

record timeval =
  tv_sec :: int
  tv_usec :: int

definition ask_timeval :: "apid \<Rightarrow> timeval \<times> apid" where
  "ask_timeval s = (case ask s of
       (Inl _, s) \<Rightarrow> (let (now, s) = ask_int s in (\<lparr>tv_sec = now, tv_usec = 0\<rparr>, s))
     | (Inr _, s) \<Rightarrow> (let (sec, s) = ask_int s; (usec, s) = ask_int s
                    in (\<lparr>tv_sec = sec, tv_usec = usec\<rparr>, s)))"

text \<open>
  The loop of \<open>program_scheduler_prepare_individual_log\<close>, with the number of attempts that are
  left: a name that exists is skipped, and a file that appeared meanwhile as well.
\<close>

primrec program_scheduler_try_individual_log ::
    "nat \<Rightarrow> addr \<Rightarrow> (nat \<Rightarrow> string) \<Rightarrow> string \<Rightarrow> nat \<Rightarrow> string \<Rightarrow> daemon \<Rightarrow> (addr option \<times> daemon) option" where
  "program_scheduler_try_individual_log 0 a numbered suffix counter buffer d =
     no_file a (''Could not create '' @ suffix @ '' log file within 1000 attempts'') d"
| "program_scheduler_try_individual_log (Suc n) a numbered suffix counter buffer d =
     (let again = (\<lambda>d. case call (robust_snprintf 1024 (numbered (Suc counter))) d of
              (Inl en, d) \<Rightarrow> no_file a (''Could not format '' @ suffix @ '' log file name: '' @ errno_text en (core d)) d
            | (Inr buffer, d) \<Rightarrow>
                program_scheduler_try_individual_log n a numbered suffix (Suc counter) buffer d)
      in case call ask d of
           (Inr _, d) \<Rightarrow> again d
         | (Inl _, d) \<Rightarrow> do {
             (r, d) \<leftarrow> run (string_wrap buffer None internal_and_locked) d;
             case r of
               Inl e \<Rightarrow> no_file a (''Could not wrap '' @ suffix @ '' log file name into string object: '' @ apie_text e) d
             | Inr name \<Rightarrow> do {
                 i \<leftarrow> id_of name d;
                 (r, d) \<leftarrow> run (file_open i (FILE_FLAG_WRITE_ONLY OR FILE_FLAG_CREATE OR FILE_FLAG_EXCLUSIVE)
                              0x1A4 1000 1000 None OBJECT_CREATE_FLAG_INTERNAL) d;
                 d \<leftarrow> exec (string_unlock_and_release name) d;
                 case r of
                   Inr file \<Rightarrow> Some (Some file, d)
                 | Inl e \<Rightarrow>
                     if e \<noteq> API_E_ALREADY_EXISTS
                     then no_file a (''Could not create '' @ suffix @ '' log file: '' @ apie_text e) d
                     else again d
               }
           })"

definition program_scheduler_prepare_individual_log ::
    "addr \<Rightarrow> timeval \<Rightarrow> string \<Rightarrow> daemon \<Rightarrow> (addr option \<times> daemon) option" where
  "program_scheduler_prepare_individual_log a timestamp suffix d = do {
     p \<leftarrow> programs d a;
     let microseconds = (of_int (tv_sec timestamp) * 1000000 + of_int (tv_usec timestamp) :: u64);
     let (known, d) = call ask_localtime d;
     let (iso8601, d) = (if known then call (ask_strftime 128) d else (''unknown'', d));
     let prefix = log_directory (scheduler p) @ ''/'' @ iso8601 @ ''_'' @ decimal (unat microseconds);
     case call (robust_snprintf 1024 (prefix @ ''_'' @ suffix @ ''.log'')) d of
       (Inl en, d) \<Rightarrow> no_file a (''Could not format '' @ suffix @ '' log file name: '' @ errno_text en (core d)) d
     | (Inr buffer, d) \<Rightarrow>
         program_scheduler_try_individual_log 1000 a
           (\<lambda>counter. prefix @ ''+'' @ zero_padded 3 counter @ ''_'' @ suffix @ ''.log'') suffix 0 buffer d
   }"

text \<open>The header that is written to a continuous log file.\<close>

definition program_scheduler_write_header ::
    "addr \<Rightarrow> addr \<Rightarrow> string \<Rightarrow> string \<Rightarrow> daemon \<Rightarrow> (addr option \<times> daemon) option" where
  "program_scheduler_write_header a file header suffix d =
     (case call (robust_snprintf 1024 header) d of
        (Inl en, d) \<Rightarrow> do {
          d \<leftarrow> program_scheduler_handle_error a
                (''Could not format timestamp for '' @ suffix @ '' log file: '' @ errno_text en (core d)) d;
          d \<leftarrow> exec (file_release file) d;
          Some (None, d)
        }
      | (Inr buffer, d) \<Rightarrow> do {
          f \<leftarrow> the_file (core d) file;
          case call ask (tell (Ev_write (Fd (file_fd f)) buffer) d) of
            (Inl en, d) \<Rightarrow> do {
              d \<leftarrow> program_scheduler_handle_error a
                    (''Could not write timestamp to '' @ suffix @ '' log file: '' @ errno_text en (core d)) d;
              d \<leftarrow> exec (file_release file) d;
              Some (None, d)
            }
          | (Inr _, d) \<Rightarrow> Some (Some file, d)
        })"

definition program_scheduler_prepare_continuous_log ::
    "addr \<Rightarrow> timeval \<Rightarrow> string \<Rightarrow> daemon \<Rightarrow> (addr option \<times> daemon) option" where
  "program_scheduler_prepare_continuous_log a timestamp suffix d = do {
     p \<leftarrow> programs d a;
     let (known, d) = call ask_localtime d;
     let (iso8601, d) =
       (if known then
          (let (dt, d) = call (ask_strftime 64) d; (tz, d) = call (ask_strftime 16) d
           in (dt @ ''.'' @ zero_padded 6 (nat (tv_usec timestamp)) @ tz, d))
        else (''unknown'', d));
     case call (robust_snprintf 1024 (log_directory (scheduler p) @ ''/continuous_'' @ suffix @ ''.log'')) d of
       (Inl en, d) \<Rightarrow> no_file a (''Could not format '' @ suffix @ '' log file name: '' @ errno_text en (core d)) d
     | (Inr buffer, d) \<Rightarrow> do {
         (r, d) \<leftarrow> run (string_wrap buffer None internal_and_locked) d;
         case r of
           Inl e \<Rightarrow> no_file a (''Could not wrap '' @ suffix @ '' log file name into string object: '' @ apie_text e) d
         | Inr name \<Rightarrow> do {
             i \<leftarrow> id_of name d;
             (r, d) \<leftarrow> run (file_open i (FILE_FLAG_WRITE_ONLY OR FILE_FLAG_CREATE OR FILE_FLAG_APPEND)
                          0x1A4 1000 1000 None OBJECT_CREATE_FLAG_INTERNAL) d;
             d \<leftarrow> exec (string_unlock_and_release name) d;
             case r of
               Inl e \<Rightarrow> no_file a (''Could not open/create '' @ suffix @ '' log file: '' @ apie_text e) d
             | Inr file \<Rightarrow>
                 program_scheduler_write_header a file
                   ([CHR 0x0A, CHR 0x0A] @ iso8601 @ [CHR 0x0A] @ replicate 79 (CHR ''-'') @ [CHR 0x0A]) suffix d
           }
       }
   }"

definition program_scheduler_prepare_stdout :: "addr \<Rightarrow> timeval \<Rightarrow> daemon \<Rightarrow> (addr option \<times> daemon) option" where
  "program_scheduler_prepare_stdout a timestamp d = do {
     p \<leftarrow> programs d a;
     case stdout_redirection (config p) of
       PROGRAM_STDIO_REDIRECTION_DEV_NULL \<Rightarrow>
         program_scheduler_open a (dev_null_file_name (scheduler p)) FILE_FLAG_WRITE_ONLY 0
           ''Could not open /dev/null for writing'' d
     | PROGRAM_STDIO_REDIRECTION_PIPE \<Rightarrow> no_file a ''Invalid stdout redirection 1'' d
     | PROGRAM_STDIO_REDIRECTION_FILE \<Rightarrow>
         program_scheduler_open_absolute a (absolute_stdout_file_name (scheduler p)) ''stdout''
           (FILE_FLAG_WRITE_ONLY OR FILE_FLAG_CREATE) 0x1A4 ''open/create'' ''writing'' d
     | PROGRAM_STDIO_REDIRECTION_INDIVIDUAL_LOG \<Rightarrow>
         program_scheduler_prepare_individual_log a timestamp ''stdout'' d
     | PROGRAM_STDIO_REDIRECTION_CONTINUOUS_LOG \<Rightarrow>
         program_scheduler_prepare_continuous_log a timestamp ''stdout'' d
     | PROGRAM_STDIO_REDIRECTION_STDOUT \<Rightarrow> no_file a ''Cannot redirect stdout to stdout'' d
   }"

definition program_scheduler_prepare_stderr ::
    "addr \<Rightarrow> timeval \<Rightarrow> addr \<Rightarrow> daemon \<Rightarrow> (addr option \<times> daemon) option" where
  "program_scheduler_prepare_stderr a timestamp stdout d = do {
     p \<leftarrow> programs d a;
     case stderr_redirection (config p) of
       PROGRAM_STDIO_REDIRECTION_DEV_NULL \<Rightarrow>
         program_scheduler_open a (dev_null_file_name (scheduler p)) FILE_FLAG_WRITE_ONLY 0
           ''Could not open /dev/null for writing'' d
     | PROGRAM_STDIO_REDIRECTION_PIPE \<Rightarrow> no_file a ''Invalid stderr redirection 1'' d
     | PROGRAM_STDIO_REDIRECTION_FILE \<Rightarrow>
         program_scheduler_open_absolute a (absolute_stderr_file_name (scheduler p)) ''stderr''
           (FILE_FLAG_WRITE_ONLY OR FILE_FLAG_CREATE) 0x1A4 ''open/create'' ''writing'' d
     | PROGRAM_STDIO_REDIRECTION_INDIVIDUAL_LOG \<Rightarrow>
         program_scheduler_prepare_individual_log a timestamp ''stderr'' d
     | PROGRAM_STDIO_REDIRECTION_CONTINUOUS_LOG \<Rightarrow>
         program_scheduler_prepare_continuous_log a timestamp ''stderr'' d
     | PROGRAM_STDIO_REDIRECTION_STDOUT \<Rightarrow> do {
         d \<leftarrow> exec (object_add_internal_reference stdout) d;
         Some (Some stdout, d)
       }
   }"

section \<open>Spawning\<close>

text \<open>
  A standard file for the spawn: without one the spawn ends, and it is released when the spawn
  fails. The result of the body is whether the process was spawned.
\<close>

definition with_file ::
    "(addr option \<times> daemon) option \<Rightarrow> (addr \<Rightarrow> daemon \<Rightarrow> (bool \<times> daemon) option) \<Rightarrow> (bool \<times> daemon) option" where
  "with_file m body = do {
     (r, d) \<leftarrow> m;
     case r of
       None \<Rightarrow> Some (False, d)
     | Some file \<Rightarrow> do {
         (spawned, d) \<leftarrow> body file d;
         if spawned then Some (True, d)
         else do { d \<leftarrow> exec (object_remove_internal_reference file) d; Some (False, d) }
       }
   }"

text \<open>
  The phases 3 and 4. When \<open>process_spawn\<close> reports success without a process, the variable
  \<open>process\<close> has no value.
\<close>

definition program_scheduler_spawn_with ::
    "addr \<Rightarrow> timeval \<Rightarrow> addr \<Rightarrow> addr \<Rightarrow> addr \<Rightarrow> daemon \<Rightarrow> (bool \<times> daemon) option" where
  "program_scheduler_spawn_with a timestamp stdin stdout stderr d = do {
     p \<leftarrow> programs d a;
     executable_id \<leftarrow> id_of (conf_executable (config p)) d;
     arguments_id \<leftarrow> id_of (conf_arguments (config p)) d;
     environment_id \<leftarrow> id_of (conf_environment (config p)) d;
     directory \<leftarrow> absolute_working_directory (scheduler p);
     directory_id \<leftarrow> id_of directory d;
     stdin_id \<leftarrow> id_of stdin d;
     stdout_id \<leftarrow> id_of stdout d;
     stderr_id \<leftarrow> id_of stderr d;
     (r, d) \<leftarrow> run (process_spawn executable_id arguments_id environment_id directory_id 1000 1000
                 stdin_id stdout_id stderr_id None OBJECT_CREATE_FLAG_INTERNAL False (Some a)) d;
     case r of
       Inl e \<Rightarrow>
         if e = API_E_SUCCESS then None
         else do {
           d \<leftarrow> program_scheduler_handle_error a (''Could not spawn process: '' @ apie_text e) d;
           Some (False, d)
         }
     | Inr process \<Rightarrow> do {
         p \<leftarrow> programs d a;
         d \<leftarrow> (case last_spawned_process (scheduler p) of
                None \<Rightarrow> Some d
              | Some old \<Rightarrow> exec (object_remove_internal_reference old) d);
         d \<leftarrow> change_scheduler a (\<lambda>sc. sc\<lparr>last_spawned_process := Some process,
                last_spawned_timestamp := of_int (tv_sec timestamp)\<rparr>) d;
         d \<leftarrow> program_report_process_process_spawn a d;
         d \<leftarrow> exec (object_remove_internal_reference stdin) d;
         d \<leftarrow> exec (object_remove_internal_reference stdout) d;
         d \<leftarrow> exec (object_remove_internal_reference stderr) d;
         Some (True, d)
       }
   }"

definition last_process_is_alive :: "addr \<Rightarrow> daemon \<Rightarrow> bool option" where
  "last_process_is_alive a d = do {
     p \<leftarrow> programs d a;
     case last_spawned_process (scheduler p) of
       None \<Rightarrow> Some False
     | Some process \<Rightarrow> do { po \<leftarrow> the_process (core d) process; Some (process_is_alive po) }
   }"

definition program_scheduler_spawn_process :: "addr \<Rightarrow> daemon \<Rightarrow> daemon option" where
  "program_scheduler_spawn_process a d = do {
     d \<leftarrow> program_scheduler_abort_observer a d;
     alive \<leftarrow> last_process_is_alive a d;
     if alive then Some d
     else do {
       (_, d) \<leftarrow>
         with_file (program_scheduler_prepare_stdin a d) (\<lambda>stdin d.
           let (timestamp, d) = call ask_timeval d
           in with_file (program_scheduler_prepare_stdout a timestamp d) (\<lambda>stdout d.
              with_file (program_scheduler_prepare_stderr a timestamp stdout d) (\<lambda>stderr d.
                program_scheduler_spawn_with a timestamp stdin stdout stderr d)));
       Some d
     }
   }"

section \<open>Starting\<close>

text \<open>The four start modes of \<open>program_scheduler_start\<close>.\<close>

definition program_scheduler_start_mode :: "addr \<Rightarrow> daemon \<Rightarrow> daemon option" where
  "program_scheduler_start_mode a d = do {
     p \<leftarrow> programs d a;
     case start_mode (config p) of
       PROGRAM_START_MODE_NEVER \<Rightarrow> program_scheduler_stop a None d
     | PROGRAM_START_MODE_ALWAYS \<Rightarrow> program_scheduler_spawn_process a d
     | PROGRAM_START_MODE_INTERVAL \<Rightarrow>
         (case configure_timer a 0 (ucast (start_interval (config p)) * 1000000) d of
            (Inl en, d) \<Rightarrow> program_scheduler_handle_error a (''Could not start timer: '' @ errno_text en (core d)) d
          | (Inr _, d) \<Rightarrow> change_scheduler a (\<lambda>sc. sc\<lparr>timer_active := True\<rparr>) d)
     | PROGRAM_START_MODE_CRON \<Rightarrow> do {
         name \<leftarrow> buffer_of (program_identifier p) d;
         fields' \<leftarrow> Option.bind (start_fields (config p)) (\<lambda>f. buffer_of f d);
         (e, c, s) \<leftarrow> cron_add_entry (program_id p) name fields' a (cron d) (core d);
         let d = d\<lparr>cron := c, core := s\<rparr>;
         if e \<noteq> API_E_SUCCESS
         then program_scheduler_handle_error a (''Could not add cron entry: '' @ apie_text e) d
         else change_scheduler a (\<lambda>sc. sc\<lparr>cron_active := True\<rparr>) d
       }
   }"

definition program_scheduler_start :: "addr \<Rightarrow> daemon \<Rightarrow> daemon option" where
  "program_scheduler_start a d = do {
     p \<leftarrow> programs d a;
     if shutdown (scheduler p) then Some d
     else do {
       d \<leftarrow> program_scheduler_abort_observer a d;
       let (now, d) = call ask_int d;
       d \<leftarrow> program_scheduler_set_state a PROGRAM_SCHEDULER_STATE_RUNNING (of_int now) None d;
       program_scheduler_start_mode a d
     }
   }"

section \<open>Events\<close>

definition process_ended_well :: "process_obj \<Rightarrow> bool" where
  "process_ended_well po \<longleftrightarrow> proc_state po = PROCESS_STATE_EXITED \<and> proc_exit_code po = 0"

definition process_ended_badly :: "process_obj \<Rightarrow> bool" where
  "process_ended_badly po \<longleftrightarrow> proc_state po = PROCESS_STATE_EXITED \<and> proc_exit_code po \<noteq> 0 \<or>
     proc_state po = PROCESS_STATE_ERROR \<or> proc_state po = PROCESS_STATE_KILLED"

definition program_scheduler_handle_process_state_change :: "addr \<Rightarrow> daemon \<Rightarrow> daemon option" where
  "program_scheduler_handle_process_state_change a d = do {
     p \<leftarrow> programs d a;
     if scheduler_state (scheduler p) \<noteq> PROGRAM_SCHEDULER_STATE_RUNNING then Some d
     else do {
       process \<leftarrow> last_spawned_process (scheduler p);
       po \<leftarrow> the_process (core d) process;
       let stop = process_ended_badly po \<and> \<not> continue_after_error (config p);
       let spawn = (process_ended_well po \<or> process_ended_badly po \<and> continue_after_error (config p)) \<and>
                   start_mode (config p) = PROGRAM_START_MODE_ALWAYS;
       d \<leftarrow> (if stop then program_scheduler_stop a None d else Some d);
       if spawn then
         (case configure_timer a 1000000 0 d of
            (Inl en, d) \<Rightarrow> program_scheduler_handle_error a (''Could not start timer: '' @ errno_text en (core d)) d
          | (Inr _, d) \<Rightarrow> change_scheduler a (\<lambda>sc. sc\<lparr>timer_active := True\<rparr>) d)
       else Some d
     }
   }"

definition program_scheduler_handle_observer :: "addr \<Rightarrow> daemon \<Rightarrow> daemon option" where
  "program_scheduler_handle_observer a d = do {
     p \<leftarrow> programs d a;
     if observer_state (scheduler p) = PROCESS_OBSERVER_STATE_WAITING then do {
       let d = process_monitor_remove_observer ''lxpanel'' a d;
       d \<leftarrow> change_scheduler a (\<lambda>sc. sc\<lparr>observer_state := PROCESS_OBSERVER_STATE_FINISHED\<rparr>) d;
       program_scheduler_start a d
     } else Some d
   }"

definition program_scheduler_handle_timer :: "addr \<Rightarrow> daemon \<Rightarrow> daemon option" where
  "program_scheduler_handle_timer a d = do {
     p \<leftarrow> programs d a;
     if scheduler_state (scheduler p) = PROGRAM_SCHEDULER_STATE_RUNNING \<and>
        (start_mode (config p) = PROGRAM_START_MODE_ALWAYS \<or> start_mode (config p) = PROGRAM_START_MODE_INTERVAL)
     then program_scheduler_spawn_process a d else Some d
   }"

definition program_scheduler_handle_cron :: "addr \<Rightarrow> daemon \<Rightarrow> daemon option" where
  "program_scheduler_handle_cron a d = do {
     p \<leftarrow> programs d a;
     if scheduler_state (scheduler p) = PROGRAM_SCHEDULER_STATE_RUNNING \<and>
        start_mode (config p) = PROGRAM_START_MODE_CRON
     then program_scheduler_spawn_process a d else Some d
   }"

section \<open>Creation and destruction\<close>

text \<open>
  The loop over the environment: whether one of its strings starts with \<open>DISPLAY=\<close>.
\<close>

primrec sets_display :: "addr list \<Rightarrow> apid \<Rightarrow> bool option" where
  "sets_display [] s = Some False"
| "sets_display (a # as) s = do {
     cs \<leftarrow> string_chars s a;
     if take 8 cs = ''DISPLAY='' then Some True else sets_display as s
   }"

definition program_scheduler_create ::
    "addr \<Rightarrow> addr \<Rightarrow> program_config \<Rightarrow> daemon \<Rightarrow> ((apie + program_scheduler) \<times> daemon) option" where
  "program_scheduler_create a root conf d = do {
     root \<leftarrow> buffer_of root d;
     with_taken (run ask_errno d) nothing (\<lambda>_ d.
     with_taken (do {
         (e, d) \<leftarrow> run (directory_create (root @ ''/bin'') DIRECTORY_FLAG_RECURSIVE 0x1ED 1000 1000) d;
         Some (if e \<noteq> API_E_SUCCESS then Inl e else Inr (), d) }) nothing (\<lambda>_ d.
     with_taken (run ask_errno d) nothing (\<lambda>_ d.
     with_taken (do {
         (e, d) \<leftarrow> run (directory_create (root @ ''/log'') DIRECTORY_FLAG_RECURSIVE 0x1ED 1000 1000) d;
         Some (if e \<noteq> API_E_SUCCESS then Inl e else Inr (), d) }) nothing (\<lambda>_ d.
     with_taken (run (inventory_get_stock_string ''/dev/null'') d) (\<lambda>name. exec (string_unlock_and_release name))
       (\<lambda>dev_null d. do {
         let (now, d) = call ask_int d;
         el \<leftarrow> the_list (core d) (conf_environment conf);
         display \<leftarrow> (if x11_enabled d then sets_display (items el) (core d) else Some False);
         let sc = \<lparr>absolute_working_directory = None, absolute_stdin_file_name = None,
           absolute_stdout_file_name = None, absolute_stderr_file_name = None,
           bin_directory = root @ ''/bin'', log_directory = root @ ''/log'', dev_null_file_name = dev_null,
           observer_state = (if display then PROCESS_OBSERVER_STATE_PENDING else PROCESS_OBSERVER_STATE_FINISHED),
           shutdown = False, waiting_for_brickd = \<not> brickd_connected d, timer_active = False,
           cron_active = False, last_spawned_process = None, last_spawned_timestamp = 0,
           scheduler_state = PROGRAM_SCHEDULER_STATE_STOPPED, scheduler_timestamp = of_int now,
           scheduler_message = None\<rparr>;
         (r, d) \<leftarrow> run ask_errno (tell (Ev_timer_create a) d);
         Some (case r of Inl e \<Rightarrow> Inl e | Inr _ \<Rightarrow> Inr sc, d)
       })))))
   }"

definition program_scheduler_shutdown :: "addr \<Rightarrow> daemon \<Rightarrow> daemon option" where
  "program_scheduler_shutdown a d = do {
     p \<leftarrow> programs d a;
     if shutdown (scheduler p) then Some d
     else do {
       d \<leftarrow> change_scheduler a (\<lambda>sc. sc\<lparr>shutdown := True\<rparr>) d;
       d \<leftarrow> program_scheduler_stop a None d;
       p \<leftarrow> programs d a;
       alive \<leftarrow> last_process_is_alive a d;
       if alive then do {
         process \<leftarrow> last_spawned_process (scheduler p);
         (_, d) \<leftarrow> run (process_kill process 9) d;
         Some d
       } else Some d
     }
   }"

definition program_scheduler_destroy :: "addr \<Rightarrow> daemon \<Rightarrow> daemon option" where
  "program_scheduler_destroy a d = do {
     d \<leftarrow> program_scheduler_shutdown a d;
     p \<leftarrow> programs d a;
     let sc = scheduler p;
     d \<leftarrow> (case last_spawned_process sc of
            None \<Rightarrow> Some d
          | Some process \<Rightarrow> exec (object_remove_internal_reference process) d);
     d \<leftarrow> exec (release_if_set (scheduler_message sc)) d;
     let d = tell (Ev_timer_destroy a) d;
     d \<leftarrow> exec (string_unlock_and_release (dev_null_file_name sc)) d;
     d \<leftarrow> exec (release_if_set (absolute_stderr_file_name sc)) d;
     d \<leftarrow> exec (release_if_set (absolute_stdout_file_name sc)) d;
     d \<leftarrow> exec (release_if_set (absolute_stdin_file_name sc)) d;
     exec (release_if_set (absolute_working_directory sc)) d
   }"

section \<open>Updates\<close>

text \<open>
  The last part of \<open>program_scheduler_update\<close>. The observer may be called while it is added; it
  then starts the scheduler by itself, and the scheduler is started a second time below.
\<close>

definition program_scheduler_try_start :: "addr \<Rightarrow> daemon \<Rightarrow> daemon option" where
  "program_scheduler_try_start a d = do {
     p \<leftarrow> programs d a;
     d \<leftarrow> (if observer_state (scheduler p) = PROCESS_OBSERVER_STATE_PENDING then do {
            d \<leftarrow> change_scheduler a (\<lambda>sc. sc\<lparr>observer_state := PROCESS_OBSERVER_STATE_WAITING\<rparr>) d;
            (added, d) \<leftarrow> process_monitor_add_observer program_scheduler_handle_observer ''lxpanel'' 30 a d;
            if added then Some d
            else change_scheduler a (\<lambda>sc. sc\<lparr>observer_state := PROCESS_OBSERVER_STATE_FINISHED\<rparr>) d
          } else Some d);
     p \<leftarrow> programs d a;
     if observer_state (scheduler p) = PROCESS_OBSERVER_STATE_FINISHED \<and> \<not> waiting_for_brickd (scheduler p)
     then program_scheduler_start a d else Some d
   }"

definition program_scheduler_update :: "addr \<Rightarrow> bool \<Rightarrow> daemon \<Rightarrow> daemon option" where
  "program_scheduler_update a try_start d = do {
     p \<leftarrow> programs d a;
     if shutdown (scheduler p) then Some d
     else do {
       d \<leftarrow> (if waiting_for_brickd (scheduler p) \<and> brickd_connected d
            then change_scheduler a (\<lambda>sc. sc\<lparr>waiting_for_brickd := False\<rparr>) d else Some d);
       (e, d) \<leftarrow> program_scheduler_prepare_filesystem a d;
       if e \<noteq> API_E_SUCCESS then Some d
       else if \<not> try_start then Some d
       else do {
         p \<leftarrow> programs d a;
         if start_mode (config p) = PROGRAM_START_MODE_NEVER
         then program_scheduler_stop a (scheduler_message (scheduler p)) d
         else program_scheduler_try_start a d
       }
     }
   }"

definition program_scheduler_continue :: "addr \<Rightarrow> daemon \<Rightarrow> daemon option" where
  "program_scheduler_continue a d = do {
     p \<leftarrow> programs d a;
     if shutdown (scheduler p) then Some d
     else if scheduler_state (scheduler p) = PROGRAM_SCHEDULER_STATE_STOPPED \<and>
             start_mode (config p) \<noteq> PROGRAM_START_MODE_NEVER
     then program_scheduler_start a d else Some d
   }"

end
