(* ===== verification/Program_Object.thy ===== *)
theory Program_Object
  imports Program_Scheduler
begin

text \<open>
  The operations on a program: \<open>program.c\<close>, without the two functions that make a program object.
  A request carries the enumerators as numbers; those that name no enumerator are refused.
\<close>

section \<open>Identifiers and custom options\<close>

definition identifier_alphabet :: string where
  "identifier_alphabet = ''abcdefghijklmnopqrstuvwxyzABCDEFGHIJKLMNOPQRSTUVWXYZ0123456789_.-''"

definition program_is_valid_identifier :: "string \<Rightarrow> bool" where
  "program_is_valid_identifier name \<longleftrightarrow>
     \<not> (take 1 name = ''-'' \<or> take 1 name = ''.'') \<and> 3 \<le> length name \<and>
     dropWhile (\<lambda>c. c \<in> set identifier_alphabet) name = []"

definition program_is_valid_stdio_redirection :: "u8 \<Rightarrow> bool" where
  "program_is_valid_stdio_redirection redirection \<longleftrightarrow> stdio_redirection_of_code (unat redirection) \<noteq> None"

definition program_is_valid_start_mode :: "u8 \<Rightarrow> bool" where
  "program_is_valid_start_mode mode \<longleftrightarrow> start_mode_of_code (unat mode) \<noteq> None"

text \<open>The index of the first custom option whose name matches.\<close>

primrec program_find_custom_option ::
    "(string \<Rightarrow> bool) \<Rightarrow> nat \<Rightarrow> program_custom_option list \<Rightarrow> apid \<Rightarrow> nat option option" where
  "program_find_custom_option matches i [] s = Some None"
| "program_find_custom_option matches i (c # cs) s = do {
     name \<leftarrow> string_chars s (option_name c);
     if matches name then Some (Some i) else program_find_custom_option matches (Suc i) cs s
   }"

section \<open>Destruction\<close>

definition program_destroy :: "addr \<Rightarrow> daemon \<Rightarrow> daemon option" where
  "program_destroy a d = do {
     d \<leftarrow> program_scheduler_destroy a d;
     p \<leftarrow> programs d a;
     d \<leftarrow> exec (program_config_destroy (config p)) d;
     d \<leftarrow> exec (string_unlock_and_release (root_directory p)) d;
     d \<leftarrow> exec (string_unlock_and_release (program_identifier p)) d;
     d \<leftarrow> exec (string_unlock_and_release (none_message p)) d;
     Some (d\<lparr>programs := (programs d)(a := None)\<rparr>)
   }"

text \<open>\<open>object_remove_internal_reference(&program->base)\<close>\<close>

definition program_remove_internal_reference :: "addr \<Rightarrow> daemon \<Rightarrow> daemon option" where
  "program_remove_internal_reference a d = do {
     p \<leftarrow> programs d a;
     if program_internal_reference_count p = 0 then Some d
     else do {
       let p = p\<lparr>program_internal_reference_count := program_internal_reference_count p - 1\<rparr>;
       let d = put_program a p d;
       if program_internal_reference_count p = 0 \<and> program_external_reference_count p = 0
       then program_destroy a d else Some d
     }
   }"

section \<open>Purging\<close>

definition purge_cookie :: "string \<Rightarrow> u32" where
  "purge_cookie name = foldl (\<lambda>n c. n + of_nat (of_char c)) 0 name"

text \<open>The loop that renames the directory, with the number of attempts that are left.\<close>

primrec program_purge_rename ::
    "nat \<Rightarrow> addr \<Rightarrow> string \<Rightarrow> (nat \<Rightarrow> string) \<Rightarrow> nat \<Rightarrow> string \<Rightarrow> daemon \<Rightarrow> (apie \<times> daemon) option" where
  "program_purge_rename 0 a root numbered counter tmp d = Some (API_E_INTERNAL_ERROR, d)"
| "program_purge_rename (Suc n) a root numbered counter tmp d = (case call ask d of
       (Inr _, d) \<Rightarrow> do {
         p \<leftarrow> programs d a;
         let d = put_program a (p\<lparr>purged := True\<rparr>) (tell (Ev_rename root tmp) d);
         d \<leftarrow> program_remove_internal_reference a d;
         Some (API_E_SUCCESS, d)
       }
     | (Inl en, d) \<Rightarrow>
         if en = ENOTEMPTY \<or> en = EEXIST then
           (case call (robust_snprintf 1024 (numbered (Suc counter))) d of
              (Inl en, d) \<Rightarrow> Some (api_get_error_code_from_errno en, d)
            | (Inr tmp, d) \<Rightarrow> program_purge_rename n a root numbered (Suc counter) tmp d)
         else Some (api_get_error_code_from_errno en, d))"

definition program_purge :: "addr \<Rightarrow> u32 \<Rightarrow> daemon \<Rightarrow> (apie \<times> daemon) option" where
  "program_purge a cookie d = do {
     p \<leftarrow> programs d a;
     if purged p then Some (API_E_PROGRAM_IS_PURGED, d)
     else do {
       name \<leftarrow> buffer_of (program_identifier p) d;
       if cookie \<noteq> purge_cookie name then Some (API_E_INVALID_PARAMETER, d)
       else do {
         d \<leftarrow> program_scheduler_shutdown a d;
         let (r, d) = call ask d;
         let (sec, d) = call ask_int d;
         let (usec, d) = call ask_int d;
         let timestamp = decimal (unat (of_int sec :: u64)) @ zero_padded 6 (unat (of_int usec :: u64));
         root \<leftarrow> buffer_of (root_directory p) d;
         case call (robust_snprintf 1024 (''/tmp/purged-program-'' @ name @ ''-'' @ timestamp)) d of
           (Inl en, d) \<Rightarrow> Some (api_get_error_code_from_errno en, d)
         | (Inr tmp, d) \<Rightarrow> program_purge_rename 1000 a root
             (\<lambda>counter. ''/tmp/purged-'' @ name @ ''-'' @ timestamp @ ''-'' @ decimal counter) 0 tmp d
       }
     }
   }"

section \<open>Reading\<close>

text \<open>Every operation but two refuses a purged program.\<close>

definition unless_purged ::
    "addr \<Rightarrow> daemon \<Rightarrow> (program \<Rightarrow> ((apie + 'r) \<times> daemon) option) \<Rightarrow> ((apie + 'r) \<times> daemon) option" where
  "unless_purged a d body = do {
     p \<leftarrow> programs d a;
     if purged p then Some (Inl API_E_PROGRAM_IS_PURGED, d) else body p
   }"

text \<open>An external reference to one object, and its ID.\<close>

definition get_id :: "addr \<Rightarrow> addr \<Rightarrow> daemon \<Rightarrow> ((apie + u16) \<times> daemon) option" where
  "get_id object session d = do {
     (e, d) \<leftarrow> run (object_add_external_reference object session) d;
     if e \<noteq> API_E_SUCCESS then Some (Inl e, d)
     else do { i \<leftarrow> id_of object d; Some (Inr i, d) }
   }"

definition program_get_identifier :: "addr \<Rightarrow> addr \<Rightarrow> daemon \<Rightarrow> ((apie + u16) \<times> daemon) option" where
  "program_get_identifier a session d = unless_purged a d (\<lambda>p. get_id (program_identifier p) session d)"

definition program_get_root_directory :: "addr \<Rightarrow> addr \<Rightarrow> daemon \<Rightarrow> ((apie + u16) \<times> daemon) option" where
  "program_get_root_directory a session d = unless_purged a d (\<lambda>p. get_id (root_directory p) session d)"

definition program_get_command :: "addr \<Rightarrow> addr \<Rightarrow> daemon \<Rightarrow> ((apie + u16 list) \<times> daemon) option" where
  "program_get_command a session d = unless_purged a d (\<lambda>p.
     run (get_referenced_ids [conf_executable (config p), conf_arguments (config p),
       conf_environment (config p), conf_working_directory (config p)] session) d)"

text \<open>A file name that is in use.\<close>

definition used_name :: "program_stdio_redirection \<Rightarrow> addr option \<Rightarrow> addr list option" where
  "used_name redirection name =
     (if redirection = PROGRAM_STDIO_REDIRECTION_FILE then map_option (\<lambda>a. [a]) name else Some [])"

definition used_id :: "program_stdio_redirection \<Rightarrow> addr option \<Rightarrow> daemon \<Rightarrow> u16 option" where
  "used_id redirection name d =
     (if redirection = PROGRAM_STDIO_REDIRECTION_FILE then Option.bind name (\<lambda>a. id_of a d)
      else Some OBJECT_ID_ZERO)"

definition program_get_stdio_redirection ::
    "addr \<Rightarrow> addr \<Rightarrow> daemon \<Rightarrow> ((apie + (u8 \<times> u16) list) \<times> daemon) option" where
  "program_get_stdio_redirection a session d = unless_purged a d (\<lambda>p. do {
     let c = config p;
     stdin \<leftarrow> used_name (stdin_redirection c) (stdin_file_name c);
     stdout \<leftarrow> used_name (stdout_redirection c) (stdout_file_name c);
     stderr \<leftarrow> used_name (stderr_redirection c) (stderr_file_name c);
     (r, d) \<leftarrow> run (get_referenced_ids (stdin @ stdout @ stderr) session) d;
     case r of
       Inl e \<Rightarrow> Some (Inl e, d)
     | Inr _ \<Rightarrow> do {
         stdin_id \<leftarrow> used_id (stdin_redirection c) (stdin_file_name c) d;
         stdout_id \<leftarrow> used_id (stdout_redirection c) (stdout_file_name c) d;
         stderr_id \<leftarrow> used_id (stderr_redirection c) (stderr_file_name c) d;
         Some (Inr [(of_nat (stdio_redirection_code (stdin_redirection c)), stdin_id),
                    (of_nat (stdio_redirection_code (stdout_redirection c)), stdout_id),
                    (of_nat (stdio_redirection_code (stderr_redirection c)), stderr_id)], d)
       }
   })"

definition program_get_schedule ::
    "addr \<Rightarrow> addr \<Rightarrow> daemon \<Rightarrow> ((apie + u8 \<times> bool \<times> u32 \<times> u16) \<times> daemon) option" where
  "program_get_schedule a session d = unless_purged a d (\<lambda>p. do {
     let c = config p;
     (r, d) \<leftarrow> (if start_mode c = PROGRAM_START_MODE_CRON then do {
                 fields' \<leftarrow> start_fields c;
                 get_id fields' session d
               } else Some (Inr OBJECT_ID_ZERO, d));
     Some (case r of Inl e \<Rightarrow> Inl e
       | Inr i \<Rightarrow> Inr (of_nat (start_mode_code (start_mode c)), continue_after_error c, start_interval c, i), d)
   })"

definition program_get_scheduler_state ::
    "addr \<Rightarrow> addr \<Rightarrow> daemon \<Rightarrow> ((apie + program_scheduler_state \<times> u64 \<times> u16) \<times> daemon) option" where
  "program_get_scheduler_state a session d = unless_purged a d (\<lambda>p. do {
     let sc = scheduler p;
     (r, d) \<leftarrow> get_id (case scheduler_message sc of None \<Rightarrow> none_message p | Some message \<Rightarrow> message) session d;
     Some (case r of Inl e \<Rightarrow> Inl e
       | Inr i \<Rightarrow> Inr (scheduler_state sc, scheduler_timestamp sc, i), d)
   })"

definition program_get_last_spawned_process ::
    "addr \<Rightarrow> addr \<Rightarrow> daemon \<Rightarrow> ((apie + u16 \<times> u64) \<times> daemon) option" where
  "program_get_last_spawned_process a session d = unless_purged a d (\<lambda>p.
     case last_spawned_process (scheduler p) of
       None \<Rightarrow> Some (Inl API_E_DOES_NOT_EXIST, d)
     | Some process \<Rightarrow> do {
         (r, d) \<leftarrow> get_id process session d;
         Some (case r of Inl e \<Rightarrow> Inl e | Inr i \<Rightarrow> Inr (i, last_spawned_timestamp (scheduler p)), d)
       })"

section \<open>Changing the configuration\<close>

text \<open>
  The end of an operation that changes the configuration: the new one is saved; when that fails
  the old one is still there. \<open>finish'\<close> is what follows a success.
\<close>

definition save_and ::
    "'c conf_file \<Rightarrow> addr \<Rightarrow> program_config \<Rightarrow> (daemon \<Rightarrow> daemon option) \<Rightarrow> daemon \<Rightarrow>
     ((apie + unit) \<times> daemon) option" where
  "save_and cf a c finish' d = do {
     (r, d) \<leftarrow> run (program_config_save cf c) d;
     case r of
       Inl e \<Rightarrow> Some (Inl e, d)
     | Inr _ \<Rightarrow> do {
         p \<leftarrow> programs d a;
         d \<leftarrow> finish' (put_program a (p\<lparr>config := c\<rparr>) d);
         Some (Inr (), d)
       }
   }"

text \<open>
  \<open>program_set_command\<close>. When the working directory is empty, phase 4 is not reached yet, and the
  cleanup does not release it.
\<close>

definition program_set_command ::
    "'c conf_file \<Rightarrow> addr \<Rightarrow> u16 \<Rightarrow> u16 \<Rightarrow> u16 \<Rightarrow> u16 \<Rightarrow> daemon \<Rightarrow> ((apie + unit) \<times> daemon) option" where
  "program_set_command cf a executable_id arguments_id environment_id working_directory_id d =
   unless_purged a d (\<lambda>p.
     with_taken (run (string_get_acquired_and_locked executable_id) d)
       (\<lambda>x. exec (string_unlock_and_release x)) (\<lambda>executable d. do {
       name \<leftarrow> buffer_of executable d;
       if name = [] then Some (Inl API_E_INVALID_PARAMETER, d)
       else
         with_taken (run (list_get_acquired_and_locked arguments_id OBJECT_TYPE_STRING) d)
           (\<lambda>x. exec (list_unlock_and_release x)) (\<lambda>arguments d.
         with_taken (run (list_get_acquired_and_locked environment_id OBJECT_TYPE_STRING) d)
           (\<lambda>x. exec (list_unlock_and_release x)) (\<lambda>environment d. do {
           (r, d) \<leftarrow> run (string_get_acquired_and_locked working_directory_id) d;
           case r of
             Inl e \<Rightarrow> Some (Inl e, d)
           | Inr working_directory \<Rightarrow> do {
               name \<leftarrow> buffer_of working_directory d;
               if name = [] then Some (Inl API_E_INVALID_PARAMETER, d)
               else do {
                 p \<leftarrow> programs d a;
                 let old = config p;
                 with_taken (Some (Inr working_directory, d)) (\<lambda>x. exec (string_unlock_and_release x)) (\<lambda>_ d.
                   save_and cf a (old\<lparr>conf_executable := executable, conf_arguments := arguments,
                     conf_environment := environment, conf_working_directory := working_directory\<rparr>)
                     (\<lambda>d. do {
                        d \<leftarrow> exec (string_unlock_and_release (conf_executable old)) d;
                        d \<leftarrow> exec (list_unlock_and_release (conf_arguments old)) d;
                        d \<leftarrow> exec (list_unlock_and_release (conf_environment old)) d;
                        d \<leftarrow> exec (string_unlock_and_release (conf_working_directory old)) d;
                        program_scheduler_update a False d
                      }) d)
               }
             }
         }))
     }))"

text \<open>The new file name of a stream, if it is redirected to a file.\<close>

definition acquire_file_name ::
    "program_stdio_redirection \<Rightarrow> u16 \<Rightarrow> daemon \<Rightarrow> ((apie + addr option) \<times> daemon) option" where
  "acquire_file_name redirection i d =
     (if redirection = PROGRAM_STDIO_REDIRECTION_FILE then do {
        (r, d) \<leftarrow> run (string_get_acquired_and_locked i) d;
        Some (case r of Inl e \<Rightarrow> Inl e | Inr name \<Rightarrow> Inr (Some name), d)
      } else Some (Inr None, d))"

definition with_file_name ::
    "program_stdio_redirection \<Rightarrow> u16 \<Rightarrow> daemon \<Rightarrow> (addr option \<Rightarrow> daemon \<Rightarrow> ((apie + unit) \<times> daemon) option) \<Rightarrow>
     ((apie + unit) \<times> daemon) option" where
  "with_file_name redirection i d body =
     with_taken (acquire_file_name redirection i d) (\<lambda>name. exec (release_if_set name)) (\<lambda>name d. do {
       empty \<leftarrow> (case name of None \<Rightarrow> Some False | Some f \<Rightarrow> do { cs \<leftarrow> buffer_of f d; Some (cs = []) });
       if empty then Some (Inl API_E_INVALID_PARAMETER, d) else body name d
     })"

text \<open>
  \<open>program_set_stdio_redirection\<close>. The check of stderr looks at the redirection of stdout, which was
  checked before.
\<close>

definition program_set_stdio_redirection ::
    "'c conf_file \<Rightarrow> addr \<Rightarrow> u8 \<Rightarrow> u16 \<Rightarrow> u8 \<Rightarrow> u16 \<Rightarrow> u8 \<Rightarrow> u16 \<Rightarrow> daemon \<Rightarrow> ((apie + unit) \<times> daemon) option" where
  "program_set_stdio_redirection cf a stdin_code stdin_id stdout_code stdout_id stderr_code stderr_id d =
   unless_purged a d (\<lambda>p.
     case stdio_redirection_of_code (unat stdin_code) of None \<Rightarrow> Some (Inl API_E_INVALID_PARAMETER, d)
     | Some stdin \<Rightarrow>
     if stdin \<in> {PROGRAM_STDIO_REDIRECTION_INDIVIDUAL_LOG, PROGRAM_STDIO_REDIRECTION_CONTINUOUS_LOG,
                 PROGRAM_STDIO_REDIRECTION_STDOUT} then Some (Inl API_E_INVALID_PARAMETER, d)
     else case stdio_redirection_of_code (unat stdout_code) of None \<Rightarrow> Some (Inl API_E_INVALID_PARAMETER, d)
     | Some stdout \<Rightarrow>
     if stdout \<in> {PROGRAM_STDIO_REDIRECTION_PIPE, PROGRAM_STDIO_REDIRECTION_STDOUT}
     then Some (Inl API_E_INVALID_PARAMETER, d)
     else case stdio_redirection_of_code (unat stderr_code) of None \<Rightarrow> Some (Inl API_E_INVALID_PARAMETER, d)
     | Some stderr \<Rightarrow>
     if stdout = PROGRAM_STDIO_REDIRECTION_PIPE then Some (Inl API_E_INVALID_PARAMETER, d)
     else
       with_file_name stdin stdin_id d (\<lambda>stdin_name d.
       with_file_name stdout stdout_id d (\<lambda>stdout_name d.
       with_file_name stderr stderr_id d (\<lambda>stderr_name d. do {
         p \<leftarrow> programs d a;
         let old = config p;
         save_and cf a (old\<lparr>stdin_redirection := stdin, stdin_file_name := stdin_name,
           stdout_redirection := stdout, stdout_file_name := stdout_name,
           stderr_redirection := stderr, stderr_file_name := stderr_name\<rparr>)
           (\<lambda>d. do {
              d \<leftarrow> exec (release_if (stdin_redirection old = PROGRAM_STDIO_REDIRECTION_FILE) (stdin_file_name old)) d;
              d \<leftarrow> exec (release_if (stdout_redirection old = PROGRAM_STDIO_REDIRECTION_FILE) (stdout_file_name old)) d;
              d \<leftarrow> exec (release_if (stderr_redirection old = PROGRAM_STDIO_REDIRECTION_FILE) (stderr_file_name old)) d;
              program_scheduler_update a False d
            }) d
       }))))"

definition program_set_schedule ::
    "'c conf_file \<Rightarrow> addr \<Rightarrow> u8 \<Rightarrow> bool \<Rightarrow> u32 \<Rightarrow> u16 \<Rightarrow> daemon \<Rightarrow> ((apie + unit) \<times> daemon) option" where
  "program_set_schedule cf a mode_code continue_after_error' interval fields_id d =
   unless_purged a d (\<lambda>p.
     case start_mode_of_code (unat mode_code) of None \<Rightarrow> Some (Inl API_E_INVALID_PARAMETER, d)
     | Some mode \<Rightarrow>
     if interval < 1 then Some (Inl API_E_INVALID_PARAMETER, d)
     else
       with_taken (if mode = PROGRAM_START_MODE_CRON then do {
             (r, d) \<leftarrow> run (string_get_acquired_and_locked fields_id) d;
             Some (case r of Inl e \<Rightarrow> Inl e | Inr f \<Rightarrow> Inr (Some f), d)
           } else Some (Inr None, d)) (\<lambda>f. exec (release_if_set f)) (\<lambda>fields' d. do {
         empty \<leftarrow> (case fields' of None \<Rightarrow> Some False | Some f \<Rightarrow> do { cs \<leftarrow> buffer_of f d; Some (cs = []) });
         if empty then Some (Inl API_E_INVALID_PARAMETER, d)
         else do {
           p \<leftarrow> programs d a;
           let old = config p;
           save_and cf a (old\<lparr>start_mode := mode, continue_after_error := continue_after_error',
             start_interval := interval, start_fields := fields'\<rparr>)
             (\<lambda>d. do {
                d \<leftarrow> exec (release_if (start_mode old = PROGRAM_START_MODE_CRON) (start_fields old)) d;
                program_scheduler_update a True d
              }) d
         }
       }))"

definition program_continue_schedule :: "addr \<Rightarrow> daemon \<Rightarrow> (apie \<times> daemon) option" where
  "program_continue_schedule a d = do {
     d \<leftarrow> program_scheduler_continue a d;
     Some (API_E_SUCCESS, d)
   }"

definition program_start :: "addr \<Rightarrow> daemon \<Rightarrow> (apie \<times> daemon) option" where
  "program_start a d = do {
     d \<leftarrow> program_scheduler_spawn_process a d;
     Some (API_E_SUCCESS, d)
   }"

section \<open>Custom options\<close>

primrec append_names :: "addr \<Rightarrow> program_custom_option list \<Rightarrow> daemon \<Rightarrow> (apie \<times> daemon) option" where
  "append_names names [] d = Some (API_E_SUCCESS, d)"
| "append_names names (c # cs) d = do {
     i \<leftarrow> id_of (option_name c) d;
     (e, d) \<leftarrow> run (list_append_to names i) d;
     if e \<noteq> API_E_SUCCESS then Some (e, d) else append_names names cs d
   }"

definition program_get_custom_option_names :: "addr \<Rightarrow> addr \<Rightarrow> daemon \<Rightarrow> ((apie + u16) \<times> daemon) option" where
  "program_get_custom_option_names a session d = unless_purged a d (\<lambda>p. do {
     (r, d) \<leftarrow> run (list_allocate (of_nat (length (custom_options (config p)))) (Some session)
                  OBJECT_CREATE_FLAG_EXTERNAL) d;
     case r of
       Inl e \<Rightarrow> Some (Inl e, d)
     | Inr names \<Rightarrow> do {
         (e, d) \<leftarrow> append_names names (custom_options (config p)) d;
         if e \<noteq> API_E_SUCCESS then do {
           d \<leftarrow> exec (object_remove_external_reference names session) d;
           Some (Inl e, d)
         } else do { i \<leftarrow> id_of names d; Some (Inr i, d) }
       }
   })"

definition program_get_custom_option_value ::
    "addr \<Rightarrow> addr \<Rightarrow> u16 \<Rightarrow> daemon \<Rightarrow> ((apie + u16) \<times> daemon) option" where
  "program_get_custom_option_value a session name_id d = unless_purged a d (\<lambda>p. do {
     r \<leftarrow> string_get name_id (core d);
     case r of
       Inl e \<Rightarrow> Some (Inl e, d)
     | Inr n \<Rightarrow> do {
         name \<leftarrow> buffer_of n d;
         found \<leftarrow> program_find_custom_option (equal_ignoring_case name) 0 (custom_options (config p)) (core d);
         case found of
           None \<Rightarrow> Some (Inl API_E_DOES_NOT_EXIST, d)
         | Some i \<Rightarrow> get_id (option_value (custom_options (config p) ! i)) session d
       }
   })"

text \<open>The access rights of the web server, whose failure is not an error.\<close>

definition set_web_interface_acl :: "addr \<Rightarrow> program_custom_option \<Rightarrow> daemon \<Rightarrow> daemon option" where
  "set_web_interface_acl a c d = do {
     p \<leftarrow> programs d a;
     name \<leftarrow> buffer_of (option_name c) d;
     value \<leftarrow> buffer_of (option_value c) d;
     Some (if string_ends_with (lib (core d)) name ''.start_mode'' False \<and>
              equal_ignoring_case value ''web_interface''
           then snd (call ask (tell (Ev_acl_add_user (bin_directory (scheduler p)) ''www-data'' ''rwx'') d)) else d)
   }"

definition program_set_custom_option_value ::
    "'c conf_file \<Rightarrow> addr \<Rightarrow> u16 \<Rightarrow> u16 \<Rightarrow> daemon \<Rightarrow> ((apie + unit) \<times> daemon) option" where
  "program_set_custom_option_value cf a name_id value_id d = unless_purged a d (\<lambda>p. do {
     r \<leftarrow> string_get name_id (core d);
     case r of
       Inl e \<Rightarrow> Some (Inl e, d)
     | Inr n \<Rightarrow>
         with_taken (run (string_get_acquired_and_locked value_id) d) (\<lambda>x. exec (string_unlock_and_release x))
         (\<lambda>value d. do {
           name \<leftarrow> buffer_of n d;
           let c = config p;
           found \<leftarrow> program_find_custom_option (equal_ignoring_case name) 0 (custom_options c) (core d);
           case found of
             None \<Rightarrow>
               with_taken (run ask_errno d) nothing (\<lambda>_ d. do {
                 d \<leftarrow> exec (string_acquire_and_lock n) d;
                 let new = \<lparr>option_name = n, option_value = value\<rparr>;
                 with_taken (Some (Inr n, d)) (\<lambda>x. exec (string_unlock_and_release x)) (\<lambda>_ d.
                   save_and cf a (c\<lparr>custom_options := custom_options c @ [new]\<rparr>) (set_web_interface_acl a new) d)
               })
           | Some i \<Rightarrow> do {
               let old = custom_options c ! i;
               let new = old\<lparr>option_value := value\<rparr>;
               save_and cf a (c\<lparr>custom_options := (custom_options c)[i := new]\<rparr>) (\<lambda>d. do {
                 d \<leftarrow> exec (string_unlock_and_release (option_value old)) d;
                 set_web_interface_acl a new d
               }) d
             }
         })
   })"

text \<open>
  \<open>program_remove_custom_option\<close>. When the configuration cannot be saved, the option is appended
  again, at the end; when that fails too, it is lost.
\<close>

definition program_remove_custom_option ::
    "'c conf_file \<Rightarrow> addr \<Rightarrow> u16 \<Rightarrow> daemon \<Rightarrow> ((apie + unit) \<times> daemon) option" where
  "program_remove_custom_option cf a name_id d = unless_purged a d (\<lambda>p. do {
     r \<leftarrow> string_get name_id (core d);
     case r of
       Inl e \<Rightarrow> Some (Inl e, d)
     | Inr n \<Rightarrow> do {
         name \<leftarrow> buffer_of n d;
         let c = config p;
         found \<leftarrow> program_find_custom_option (equal_ignoring_case name) 0 (custom_options c) (core d);
         case found of
           None \<Rightarrow> Some (Inl API_E_DOES_NOT_EXIST, d)
         | Some i \<Rightarrow> do {
             let old = custom_options c ! i;
             let remaining = take i (custom_options c) @ drop (Suc i) (custom_options c);
             (r, d) \<leftarrow> save_and cf a (c\<lparr>custom_options := remaining\<rparr>)
               (exec (program_custom_option_unlock_and_release old)) d;
             case r of
               Inr u \<Rightarrow> Some (Inr u, d)
             | Inl e \<Rightarrow> (case call ask d of
                 (Inl _, d) \<Rightarrow> Some (Inl e, put_program a (p\<lparr>config := c\<lparr>custom_options := remaining\<rparr>\<rparr>) d)
               | (Inr _, d) \<Rightarrow>
                   Some (Inl e, put_program a (p\<lparr>config := c\<lparr>custom_options := remaining @ [old]\<rparr>\<rparr>) d))
           }
       }
   })"

definition program_handle_brickd_connection :: "addr \<Rightarrow> daemon \<Rightarrow> daemon option" where
  "program_handle_brickd_connection a d = do {
     p \<leftarrow> programs d a;
     if waiting_for_brickd (scheduler p) then program_scheduler_update a True d else Some d
   }"

end
