(* ===== verification/Spec2Isabelle.thy ===== *)
theory Spec2Isabelle
  imports Process_Properties Api_Properties Program_Object
begin

text \<open>
  This development models the RED Brick API daemon (redapid, in \<open>src/src/redapid\<close>): the process
  on a Tinkerforge RED Brick that lets remote clients work with the strings, lists, files,
  directories and child processes of the brick over a packet protocol.

  Parts of the program. Every client opens a session (\<open>session.c\<close>). Everything a client works
  with is an object (\<open>object.c\<close>) with an ID, a type and two kinds of references: internal ones
  of the daemon itself, some of which also lock the object, and external ones of the sessions.
  An object is destroyed with its last reference, and its destruction releases the objects it
  holds. The inventory (\<open>inventory.c\<close>) allocates the IDs and finds sessions and objects by ID.
  Strings (\<open>string.c\<close>), lists (\<open>list.c\<close>), files and pipes (\<open>file.c\<close>), directories
  (\<open>directory.c\<close>) and processes (\<open>process.c\<close>) are the object types that are modelled; a file
  holds its name, a list its items, a process its command and its standard files.

  Theories. \<open>Prelude\<close> has the integer types and \<open>yields\<close>. \<open>Api_Error\<close> is \<open>api_error.[hc]\<close>.
  \<open>State\<close> has the structs of the headers as records, the C heap as three partial functions
  (\<open>objs\<close>, \<open>refs\<close>, \<open>sess\<close>) and the static variables of \<open>inventory.c\<close>. \<open>Object\<close> is \<open>object.c\<close> with
  the destroy functions of all types; \<open>Session\<close> is \<open>session.c\<close>; \<open>String_Object\<close>, \<open>Inventory\<close>,
  \<open>List_Object\<close>, \<open>File_Object\<close> and \<open>File_Open\<close>, \<open>Directory_Object\<close>, \<open>Process_Object\<close> and
  \<open>Process_Spawn\<close> are the files of these names; \<open>System\<close> has the calls of the kernel they share.
  \<open>Api_Packet\<close> has every struct of \<open>api_packet.h\<close> as a layout, \<open>Api_Function\<close> the function IDs
  and their names, and \<open>Api_Dispatch\<close> the macros, the handlers and the dispatcher of \<open>api.c\<close>,
  which call the operations of all other parts; what the functions of \<open>program.c\<close> do is a
  parameter of the dispatcher, since its state has no programs. The members of a response are zero when its error code is not
  success. Callbacks are events of the trace, so they precede the response of the call.
  Programs have a state of their own beside the objects: \<open>Daemon\<close> has the structs of programs,
  their configuration and scheduler, and a record of the whole; \<open>Cron\<close>, \<open>Process_Monitor\<close>,
  \<open>Program_Config\<close>, \<open>Program_Scheduler\<close> and \<open>Program_Object\<close> are the files of these names, and
  \<open>Format\<close> has the formatted text they use. The objects a program refers to are objects of the
  heap like all others; the references of the program are references held outside of the heap.
  Definitions have the names of the C functions; a definition whose name is longer is a loop or
  a phase of the function it is named after.

  Facts. \<open>Invariant\<close> defines \<open>inv R L D s\<close>: heap, inventory, both ends of every external
  reference and all counters agree, where \<open>R\<close> and \<open>L\<close> count the references and locks held
  outside of the objects and \<open>D\<close> is the set of objects under destruction. \<open>Release\<close> and
  \<open>References\<close> show that the reference counting code keeps it, \<open>Object_Contract\<close> sums up the
  contract of \<open>object.c\<close>. \<open>Identifiers\<close> states the allocation loop of both kinds of IDs as a
  locale, interpreted for sessions and objects. \<open>Create\<close> and \<open>New_Object\<close> are about objects under
  construction. \<open>String_Facts\<close> refines string objects to lists of characters, \<open>List_Facts\<close> shows
  that lists stay free of cycles, \<open>Creation\<close> is a calculus for operations that take several
  references, then create an object, and undo everything on failure; \<open>File_Facts\<close> and
  \<open>Process_Facts\<close> use it. \<open>Process_Changes\<close> is about the changes of the state of a child.
  \<open>Api_Facts\<close> and \<open>Api_Calls\<close> put the operations together: handler by handler, every call that
  makes no object and writes into no string returns and keeps the invariant. \<open>Example_States\<close> has small concrete states for the witnesses. The
  properties are in this theory and in the theories whose names end in \<open>Properties\<close>.

  Results. An operation returns \<open>None\<close> for behaviour C leaves undefined: access to freed memory
  or outside a buffer. Otherwise it returns the error code, or \<open>Inl\<close> an error code or \<open>Inr\<close> a
  result, with the state after it. Machine integers are words of their C width, except the \<open>int\<close>
  members that count references and locks: they are unbounded here, their overflow after
  \<open>2 ^ 31\<close> references is not modelled.

  The world outside. Each call of the kernel, the C library or daemonlib that can fail takes its
  answer from the list \<open>answers\<close> of the state; theorems hold for every list. Functions of
  daemonlib whose results matter (rounding up of sizes, classification of \<open>errno\<close>, copying of
  strings into fixed buffers) are fields of the parameter \<open>daemonlib\<close>; \<open>lib_ok\<close> names what the
  code relies on. Effects on the outside are events of the list \<open>trace\<close>. Forked children and
  the waiting thread are functions of their own; they share no memory the model has.

  Fuel and termination. The recursive destruction has fuel \<open>Suc (next_addr s)\<close>: each step frees
  an object and every address is below \<open>next_addr\<close> (property C1 shows that it is enough). The
  loops over the references of a session and of an object take as many rounds as the list has
  entries; ID allocation tries 65535 candidates as the code does. Loops that end with the
  answers of the kernel are functions with a termination proof on the number of answers.

  Not modelled: log output; the functions that format a description of an object for the log;
  \<open>program_load\<close> and \<open>program_define\<close>, which make a program object, because the base of a program
  is not in the heap of the model; sockets (\<open>network.c\<close>, \<open>brickd.c\<close>, \<open>socat.c\<close>), which do nothing
  but input and output on the event loop of daemonlib; the calls of libacl in \<open>acl.c\<close>; start-up in
  \<open>main.c\<close> and \<open>config_options.c\<close>.
\<close>

section \<open>Objects and references\<close>

text \<open>
  C1. Giving back an internal reference that the caller holds and that is not locked always
  comes to an end without touching freed memory, however deep the destruction it sets off; the
  caller's reference is gone, every counter still equals the number of references there are,
  and only counters and destroyed objects differ from before.
\<close>

theorem release_returns:
  assumes "inv R L {} s" and "L a < R a"
  shows "\<exists>s'. object_remove_internal_reference a s = Some s' \<and> inv (R(a := R a - 1)) L {} s' \<and>
     releases {} s s'"
  using remove_internal_reference_spec [OF assms] by (simp add: yields_iff_ex)

theorem release_returns_witness:
  "\<exists>s'. object_remove_internal_reference 0 example_state = Some s' \<and>
     inv (example_refs(0 := example_refs 0 - 1)) (\<lambda>_. 0) {} s' \<and> releases {} example_state s'"
  by (rule release_returns [OF inv_example]) (simp add: example_refs_def)

text \<open>
  C2. Releasing an object on behalf of a client: an object without external references refuses;
  otherwise exactly one reference of this session to this object goes, if it has one, and every
  other session keeps the number of references it had. The invariant is kept, so an object goes
  exactly when its last reference does.
\<close>

theorem object_release_counts:
  assumes "inv R L {} s" and "objs s a = Some ob"
  shows "\<exists>e s'. object_release a sa s = Some (e, s') \<and> inv R L {} s' \<and>
     (if external_reference_count ob = 0 then e = API_E_INVALID_OPERATION \<and> s' = s
      else e = API_E_SUCCESS \<and> (\<forall>b sb. ext_count s' b sb =
        ext_count s b sb - (if b = a \<and> sb = sa \<and> 0 < ext_count s a sa then 1 else 0)))"
proof -
  have "a \<notin> {}" by simp
  from remove_external_reference_spec [OF assms this, of sa] show ?thesis
    using assms by (auto simp: object_release_def elim!: yieldsE)
qed

theorem object_release_counts_witness:
  "\<exists>e s'. object_release 0 1 example_state = Some (e, s') \<and> inv example_refs (\<lambda>_. 0) {} s' \<and>
     (if external_reference_count example_string = 0 then e = API_E_INVALID_OPERATION \<and> s' = example_state
      else e = API_E_SUCCESS \<and> (\<forall>b sb. ext_count s' b sb = ext_count example_state b sb -
        (if b = 0 \<and> sb = 1 \<and> 0 < ext_count example_state 0 1 then 1 else 0)))"
  by (rule object_release_counts [OF inv_example]) (simp add: example_state_def)

text \<open>
  C3. Allocation of object IDs: the daemon finds an ID that is not zero and that no object
  uses whenever there is one, wherever its counter stands; it reports that there is none only
  when all 65535 IDs are in use.
\<close>

theorem object_id_allocation:
  assumes "inv R L {} s"
  shows "\<exists>r i. inventory_get_next_object_id s = Some (r, s\<lparr>next_object_id := i\<rparr>) \<and> (case r of
       Inr j \<Rightarrow> j \<noteq> 0 \<and> (\<forall>a ob. objs s a = Some ob \<longrightarrow> obj_id ob \<noteq> j)
     | Inl e \<Rightarrow> e = API_E_NO_FREE_OBJECT_ID \<and> (\<forall>j. j \<noteq> 0 \<longrightarrow> (\<exists>a ob. objs s a = Some ob \<and> obj_id ob = j)))"
  by (rule object_id_allocation_live [OF assms])

theorem object_id_allocation_witness:
  "\<exists>r i. inventory_get_next_object_id example_state = Some (r, example_state\<lparr>next_object_id := i\<rparr>) \<and> (case r of
       Inr j \<Rightarrow> j \<noteq> 0 \<and> (\<forall>a ob. objs example_state a = Some ob \<longrightarrow> obj_id ob \<noteq> j)
     | Inl e \<Rightarrow> e = API_E_NO_FREE_OBJECT_ID \<and>
         (\<forall>j. j \<noteq> 0 \<longrightarrow> (\<exists>a ob. objs example_state a = Some ob \<and> obj_id ob = j)))"
  by (rule object_id_allocation [OF inv_example])

section \<open>Sessions\<close>

text \<open>
  C4. When a session expires, by itself or on request, it and exactly its references go: every
  other session keeps the number of references it had to every object, the session is no longer
  in the inventory, and objects that stay keep their contents.
\<close>

theorem session_expiry:
  assumes "inv R L {} s" and "sess s sa = Some se"
  shows "\<exists>s'. session_expire sa s = Some (API_E_SUCCESS, s') \<and> inv R L {} s' \<and>
     sess s' sa = None \<and> sa \<notin> set (sessions s') \<and> (\<forall>sb. sb \<noteq> sa \<longrightarrow> sess s' sb = sess s sb) \<and>
     (\<forall>b sb. ext_count s' b sb = (if sb = sa then 0 else ext_count s b sb)) \<and>
     (\<forall>a ob'. objs s' a = Some ob' \<longrightarrow> (\<exists>ob. objs s a = Some ob \<and> payload ob' = payload ob))"
  using session_expire_helper_spec [OF assms] by (auto simp: session_expire_def elim!: yieldsE)

theorem session_expiry_witness:
  "\<exists>s'. session_expire 1 example_state = Some (API_E_SUCCESS, s') \<and> inv example_refs (\<lambda>_. 0) {} s' \<and>
     sess s' 1 = None \<and> 1 \<notin> set (sessions s') \<and> (\<forall>sb. sb \<noteq> 1 \<longrightarrow> sess s' sb = sess example_state sb) \<and>
     (\<forall>b sb. ext_count s' b sb = (if sb = 1 then 0 else ext_count example_state b sb)) \<and>
     (\<forall>a ob'. objs s' a = Some ob' \<longrightarrow> (\<exists>ob. objs example_state a = Some ob \<and> payload ob' = payload ob))"
  by (rule session_expiry [OF inv_example, where se = example_session]) (simp add: example_state_def)

text \<open>
  C5. A new session has a non-zero ID that no other session has, no references and the lifetime
  that was asked for; when it cannot be created no session and no object changes.
\<close>

theorem session_creation:
  assumes "inv R L {} s"
  shows "\<exists>r s'. session_create lifetime s = Some (r, s') \<and> inv R L {} s' \<and> objs s' = objs s \<and>
     (case r of
        Inl e \<Rightarrow> sess s' = sess s \<and> sessions s' = sessions s
      | Inr i \<Rightarrow> lifetime \<le> SESSION_MAX_LIFETIME \<and> i \<noteq> 0 \<and>
          (\<forall>sb se. sess s sb = Some se \<longrightarrow> session_id se \<noteq> i) \<and>
          (\<exists>sa. sess s sa = None \<and> sessions s' = sessions s @ [sa] \<and>
             sess s' = (sess s)(sa \<mapsto> \<lparr>session_id = i, session_timer_delay = session_delay lifetime,
               session_references = [], session_reference_count = 0\<rparr>)))"
  using session_create_spec [OF assms, of lifetime] by (elim yieldsE) (simp split: prod.splits)

theorem session_creation_witness:
  "\<exists>r s'. session_create 60 example_state = Some (r, s') \<and> inv example_refs (\<lambda>_. 0) {} s' \<and>
     objs s' = objs example_state \<and>
     (case r of
        Inl e \<Rightarrow> sess s' = sess example_state \<and> sessions s' = sessions example_state
      | Inr i \<Rightarrow> 60 \<le> SESSION_MAX_LIFETIME \<and> i \<noteq> 0 \<and>
          (\<forall>sb se. sess example_state sb = Some se \<longrightarrow> session_id se \<noteq> i) \<and>
          (\<exists>sa. sess example_state sa = None \<and> sessions s' = sessions example_state @ [sa] \<and>
             sess s' = (sess example_state)(sa \<mapsto> \<lparr>session_id = i, session_timer_delay = session_delay 60,
               session_references = [], session_reference_count = 0\<rparr>)))"
  by (rule session_creation [OF inv_example])

section \<open>Strings\<close>

text \<open>
  C6. Setting a chunk refines an operation on plain character lists: unless the chunk ends
  exactly at the end of the allocated memory, the string afterwards is the old one with the chunk
  in its place and the gap before it filled with spaces, and a failure leaves the string as it
  was.
\<close>

theorem set_chunk_refines_splice:
  assumes "inv R L {} s" and "objs s a = Some ob" and "payload ob = P_String so" and "lib_ok (lib s)"
    and "\<not> (0 < strnlen buffer 58 \<and> unat offset + strnlen buffer 58 = unat (str_allocated so))"
  shows "\<exists>e s'. string_set_chunk a offset buffer s = Some (e, s') \<and> inv R L {} s' \<and>
     (if lock_count ob > 0 then e = API_E_OBJECT_IS_LOCKED \<and> s' = s
      else if unat offset + strnlen buffer 58 \<ge> 2 ^ 31 then e = API_E_OUT_OF_RANGE \<and> s' = s
      else if strnlen buffer 58 = 0 then e = API_E_SUCCESS \<and> s' = s
      else e = API_E_SUCCESS \<and>
             string_is s' a (splice (unat offset) (take (strnlen buffer 58) buffer) (string_value so)) \<or>
           e = API_E_NO_FREE_MEMORY \<and> string_is s' a (string_value so))"
  by (rule yields_pair_mono [OF string_set_chunk_spec [OF assms(1-3) _ assms(4) refl assms(5)]]) simp_all

theorem set_chunk_refines_splice_witness:
  "\<exists>e s'. string_set_chunk 0 5 ''abc'' example_state = Some (e, s') \<and> inv example_refs (\<lambda>_. 0) {} s' \<and>
     (if lock_count example_string > 0 then e = API_E_OBJECT_IS_LOCKED \<and> s' = example_state
      else if unat (5 :: u32) + strnlen ''abc'' 58 \<ge> 2 ^ 31 then e = API_E_OUT_OF_RANGE \<and> s' = example_state
      else if strnlen ''abc'' 58 = 0 then e = API_E_SUCCESS \<and> s' = example_state
      else e = API_E_SUCCESS \<and>
             string_is s' 0 (splice (unat (5 :: u32)) (take (strnlen ''abc'' 58) ''abc'')
               (string_value (the_string_obj example_string))) \<or>
           e = API_E_NO_FREE_MEMORY \<and> string_is s' 0 (string_value (the_string_obj example_string)))"
  by (rule set_chunk_refines_splice [OF inv_example _ _ lib_ok_example])
    (simp_all add: example_defs the_string_obj_def strnlen_def)

text \<open>
  C7. What was set can be read back: after a chunk was set, getting the chunk at the same offset
  gives the characters that were set, followed by what the string had there, filled up with null
  bytes to the 63 bytes of the response.
\<close>

theorem set_get_chunk:
  assumes "inv R L {} s" and "objs s a = Some ob" and "payload ob = P_String so" and "lib_ok (lib s)"
    and "\<not> (0 < strnlen buffer 58 \<and> unat offset + strnlen buffer 58 = unat (str_allocated so))"
    and "string_set_chunk a offset buffer s = Some (API_E_SUCCESS, s')"
    and "0 < strnlen buffer 58"
  shows "\<exists>cs. string_get_chunk a offset s' = Some (API_E_SUCCESS, cs) \<and> length cs = 63 \<and>
     take (strnlen buffer 58) cs = take (strnlen buffer 58) buffer"
proof -
  let ?n = "strnlen buffer 58"
  let ?v = "splice (unat offset) (take ?n buffer) (string_value so)"
  have n: "?n \<le> 58" "length (take ?n buffer) = ?n"
    using strnlen_le [of buffer 58] by simp_all
  have "string_is s' a ?v"
    using string_set_chunk_spec [OF assms(1-3) _ assms(4) refl assms(5)] assms(6,7)
    by (auto elim!: yieldsE split: if_splits)
  moreover have "take ?n (take 63 (drop (unat offset) ?v)) = take ?n buffer"
    using take_drop_splice [of "take ?n buffer" "unat offset" "string_value so"] n by (simp add: min_def)
  moreover have "unat offset + ?n \<le> length ?v" using n(2) by simp
  ultimately show ?thesis
    using string_get_chunk_spec [of s' a ?v offset] n by simp
qed

theorem set_get_chunk_witness:
  "\<exists>cs. string_get_chunk 0 5 (snd (the (string_set_chunk 0 5 ''abc'' example_state))) = Some (API_E_SUCCESS, cs) \<and>
     length cs = 63 \<and> take (strnlen ''abc'' 58) cs = take (strnlen ''abc'' 58) ''abc''"
proof (rule set_get_chunk [OF inv_example _ _ lib_ok_example])
  show "objs example_state 0 = Some example_string" by (simp add: example_state_def)
  show "payload example_string = P_String (the_string_obj example_string)"
    by (simp add: example_string_def the_string_obj_def)
  show "\<not> (0 < strnlen ''abc'' 58 \<and>
      unat (5 :: u32) + strnlen ''abc'' 58 = unat (str_allocated (the_string_obj example_string)))"
    by (simp add: example_string_def the_string_obj_def strnlen_def)
  show "string_set_chunk 0 5 ''abc'' example_state =
      Some (API_E_SUCCESS, snd (the (string_set_chunk 0 5 ''abc'' example_state)))"
  proof -
    have "map_option fst (string_set_chunk 0 5 ''abc'' example_state) = Some API_E_SUCCESS" by code_simp
    then show ?thesis by (cases "string_set_chunk 0 5 ''abc'' example_state") auto
  qed
  show "0 < strnlen ''abc'' 58" by (simp add: strnlen_def)
qed

text \<open>
  C8. A chunk that ends exactly at the end of the allocated memory writes the terminating null
  byte behind the block: the code compares \<open>offset + length\<close> with the allocated bytes without
  counting the terminator.
\<close>

theorem set_chunk_overflow:
  assumes "inv R L {} s" and "objs s a = Some ob" and "payload ob = P_String so" and "lock_count ob \<le> 0"
    and "0 < strnlen buffer 58" and "unat offset + strnlen buffer 58 = unat (str_allocated so)"
    and "unat offset + strnlen buffer 58 < 2 ^ 31"
  shows "string_set_chunk a offset buffer s = None"
  using string_set_chunk_overflow [OF assms(1-3) _ assms(4) refl assms(5-7)] by simp

theorem set_chunk_overflow_witness: "string_set_chunk 0 2 ''!'' example_state = None"
  by (rule set_chunk_overflow [OF inv_example, where ob = example_string and so = "the_string_obj example_string"])
    (simp_all add: example_defs the_string_obj_def strnlen_def)

text \<open>
  C9. Truncating keeps a prefix of the string of at most the given length, and a locked string
  is refused.
\<close>

theorem truncation:
  assumes "inv R L {} s" and "objs s a = Some ob" and "payload ob = P_String so"
  shows "\<exists>e s'. string_truncate a n s = Some (e, s') \<and> inv R L {} s' \<and>
     (if lock_count ob > 0 then e = API_E_OBJECT_IS_LOCKED \<and> s' = s
      else e = API_E_SUCCESS \<and> string_is s' a (take (unat n) (string_value so)))"
  by (rule yields_pair_mono [OF string_truncate_spec [OF assms, of n]]) (simp_all split: if_splits)

theorem truncation_witness:
  "\<exists>e s'. string_truncate 0 1 example_state = Some (e, s') \<and> inv example_refs (\<lambda>_. 0) {} s' \<and>
     (if lock_count example_string > 0 then e = API_E_OBJECT_IS_LOCKED \<and> s' = example_state
      else e = API_E_SUCCESS \<and> string_is s' 0 (take (unat (1 :: u32)) (string_value (the_string_obj example_string))))"
  by (rule truncation [OF inv_example]) (simp_all add: example_defs the_string_obj_def)

text \<open>
  C10. A string that a client allocates is new, holds the characters of the request up to its
  first null byte, and has exactly one reference, of this session; everything else stays as it is.
\<close>

theorem allocation:
  assumes "inv R L {} s" and "lib_ok (lib s)" and "sess s session \<noteq> None" and "reserve \<le> INT32_MAX"
    and "string_allocate reserve buffer session s = Some (Inr i, s')"
  shows "\<exists>a ob. objs s a = None \<and> objs s' a = Some ob \<and> obj_id ob = i \<and>
     string_is s' a (take (strnlen buffer 58) buffer) \<and> inv (R(a := 0)) (L(a := 0)) {} s' \<and>
     (\<forall>b. b \<noteq> a \<longrightarrow> objs s' b = objs s b) \<and>
     (\<forall>b sb. ext_count s' b sb = ext_count s b sb + (if b = a \<and> sb = session then 1 else 0))"
proof -
  have flags: "created_refs OBJECT_CREATE_FLAG_EXTERNAL = 0" "created_locks OBJECT_CREATE_FLAG_EXTERNAL = 0"
    "created_externals OBJECT_CREATE_FLAG_EXTERNAL (Some session) sb = (if sb = session then 1 else 0)" for sb
    by (simp_all add: created_refs_def created_locks_def created_externals_def OBJECT_CREATE_FLAG_EXTERNAL_def
        OBJECT_CREATE_FLAG_INTERNAL_def OBJECT_CREATE_FLAG_LOCKED_def)
  show ?thesis
    using string_allocate_spec [OF assms(1-4) refl, of buffer] unfolding assms(5)
    by (auto simp: new_string_def create_frame_def flags)
qed

theorem allocation_witness:
  "\<exists>a ob. objs example_state a = None \<and> objs (snd (the (string_allocate 0 ''ab'' 1 example_state))) a = Some ob \<and>
     obj_id ob = 2 \<and>
     string_is (snd (the (string_allocate 0 ''ab'' 1 example_state))) a (take (strnlen ''ab'' 58) ''ab'') \<and>
     inv (example_refs(a := 0)) ((\<lambda>_. 0)(a := 0)) {} (snd (the (string_allocate 0 ''ab'' 1 example_state))) \<and>
     (\<forall>b. b \<noteq> a \<longrightarrow> objs (snd (the (string_allocate 0 ''ab'' 1 example_state))) b = objs example_state b) \<and>
     (\<forall>b sb. ext_count (snd (the (string_allocate 0 ''ab'' 1 example_state))) b sb =
        ext_count example_state b sb + (if b = a \<and> sb = 1 then 1 else 0))"
proof (rule allocation [OF inv_example lib_ok_example])
  show "sess example_state 1 \<noteq> None" by (simp add: example_state_def)
  show "(0 :: u32) \<le> INT32_MAX" by simp
  have "map_option fst (string_allocate 0 ''ab'' 1 example_state) = Some (Inr 2)" by code_simp
  then show "string_allocate 0 ''ab'' 1 example_state =
      Some (Inr 2, snd (the (string_allocate 0 ''ab'' 1 example_state)))"
    by (cases "string_allocate 0 ''ab'' 1 example_state") auto
qed


section \<open>Lists\<close>

text \<open>
  C12. Appending to a list that is not in use adds the object with the given ID at its end; a
  list cannot be appended to itself, a locked list and an unknown ID are refused, and a failure
  changes nothing. No object ever comes to contain itself, directly or through other lists.
\<close>

theorem append:
  assumes "inv R L {} s" and "objs s a = Some ob" and "payload ob = P_List lo" and "R a = L a"
    and "acyclic (contains s)"
  shows "\<exists>e s'. list_append_to a n s = Some (e, s') \<and> inv R L {} s' \<and> acyclic (contains s') \<and>
     (if e = API_E_SUCCESS
      then lock_count ob = 0 \<and> length (items lo) < 65535 \<and>
        (\<exists>x ox. objs s x = Some ox \<and> obj_id ox = n \<and> x \<noteq> a \<and>
           the_list s' a = Some (lo\<lparr>items := items lo @ [x]\<rparr>))
      else s' = s\<lparr>answers := answers s'\<rparr> \<and>
        (n = obj_id ob \<longrightarrow> e = API_E_NOT_SUPPORTED) \<and>
        (n \<noteq> obj_id ob \<and> lock_count ob > 0 \<longrightarrow> e = API_E_OBJECT_IS_LOCKED))"
proof (rule yields_pair_mono [OF list_append_to_spec [OF assms(1-4)]])
  fix e s'
  assume run: "list_append_to a n s = Some (e, s')"
    and post: "inv R L {} s' \<and> (refs_linked s \<longrightarrow> refs_linked s') \<and>
     (if e = API_E_SUCCESS
      then lock_count ob = 0 \<and> length (items lo) < 65535 \<and>
        (\<exists>x ox. objs s x = Some ox \<and> obj_id ox = n \<and> x \<noteq> a \<and> held s {} a = 0 \<and>
           the_list s' a = Some (lo\<lparr>items := items lo @ [x]\<rparr>) \<and> same_payloads_but a s s')
      else s' = s\<lparr>answers := answers s'\<rparr> \<and>
        (n = obj_id ob \<longrightarrow> e = API_E_NOT_SUPPORTED) \<and>
        (n \<noteq> obj_id ob \<and> lock_count ob > 0 \<longrightarrow> e = API_E_OBJECT_IS_LOCKED))"
  have "acyclic (contains s')" by (rule append_acyclic [OF assms run])
  show "inv R L {} s' \<and> acyclic (contains s') \<and>
     (if e = API_E_SUCCESS
      then lock_count ob = 0 \<and> length (items lo) < 65535 \<and>
        (\<exists>x ox. objs s x = Some ox \<and> obj_id ox = n \<and> x \<noteq> a \<and>
           the_list s' a = Some (lo\<lparr>items := items lo @ [x]\<rparr>))
      else s' = s\<lparr>answers := answers s'\<rparr> \<and>
        (n = obj_id ob \<longrightarrow> e = API_E_NOT_SUPPORTED) \<and>
        (n \<noteq> obj_id ob \<and> lock_count ob > 0 \<longrightarrow> e = API_E_OBJECT_IS_LOCKED))"
  proof (cases "e = API_E_SUCCESS")
    case True
    show ?thesis
      using post unfolding if_P [OF True] using \<open>acyclic (contains s')\<close> by blast
  next
    case False
    show ?thesis
      using post unfolding if_not_P [OF False] using \<open>acyclic (contains s')\<close> by blast
  qed
qed

theorem append_witness:
  "\<exists>e s'. list_append_to 3 1 example_list_state = Some (e, s') \<and> inv example_refs (\<lambda>_. 0) {} s' \<and>
     acyclic (contains s') \<and>
     (if e = API_E_SUCCESS
      then lock_count example_list = 0 \<and> length (items \<lparr>items = [0]\<rparr>) < 65535 \<and>
        (\<exists>x ox. objs example_list_state x = Some ox \<and> obj_id ox = 1 \<and> x \<noteq> 3 \<and>
           the_list s' 3 = Some (\<lparr>items = [0]\<rparr>\<lparr>items := items \<lparr>items = [0]\<rparr> @ [x]\<rparr>))
      else s' = example_list_state\<lparr>answers := answers s'\<rparr> \<and>
        (1 = obj_id example_list \<longrightarrow> e = API_E_NOT_SUPPORTED) \<and>
        (1 \<noteq> obj_id example_list \<and> lock_count example_list > 0 \<longrightarrow> e = API_E_OBJECT_IS_LOCKED))"
proof (rule append [OF inv_example_list])
  have "contains example_list_state = {(3, 0)}"
    by (auto simp: contains_def example_list_defs split: if_splits)
  then show "acyclic (contains example_list_state)" by (simp add: acyclic_insert wf_acyclic)
qed (simp_all add: example_list_defs example_refs_def)

text \<open>
  C13. Removing takes exactly the item at the index out of an unlocked list and gives back the
  reference and the lock the list had on it; an index behind the end is refused.
\<close>

theorem removal:
  assumes "inv R L {} s" and "objs s a = Some ob" and "payload ob = P_List lo" and "R a = L a"
  shows "\<exists>e s'. list_remove_from a n s = Some (e, s') \<and> inv R L {} s' \<and>
     (if lock_count ob > 0 then e = API_E_OBJECT_IS_LOCKED \<and> s' = s
      else if unat n \<ge> length (items lo) then e = API_E_OUT_OF_RANGE \<and> s' = s
      else e = API_E_SUCCESS \<and>
        the_list s' a = Some (lo\<lparr>items := take (unat n) (items lo) @ drop (Suc (unat n)) (items lo)\<rparr>))"
  by (rule yields_pair_mono [OF list_remove_from_spec [OF assms, of n]]) (simp split: if_splits)

theorem removal_witness:
  "\<exists>e s'. list_remove_from 3 0 example_list_state = Some (e, s') \<and> inv example_refs (\<lambda>_. 0) {} s' \<and>
     (if lock_count example_list > 0 then e = API_E_OBJECT_IS_LOCKED \<and> s' = example_list_state
      else if unat (0 :: u16) \<ge> length (items \<lparr>items = [0]\<rparr>) then e = API_E_OUT_OF_RANGE \<and> s' = example_list_state
      else e = API_E_SUCCESS \<and>
        the_list s' 3 = Some (\<lparr>items = [0]\<rparr>\<lparr>items := take (unat (0 :: u16)) (items \<lparr>items = [0]\<rparr>) @
          drop (Suc (unat (0 :: u16))) (items \<lparr>items = [0]\<rparr>)\<rparr>))"
  by (rule removal [OF inv_example_list]) (simp_all add: example_list_defs example_refs_def)

text \<open>
  C14. Getting an item gives the client the ID and the type of the item at the index and one
  reference to it; without memory nothing changes.
\<close>

theorem item_access:
  assumes "inv R L {} s" and "the_list s a = Some lo" and "sess s session \<noteq> None"
    and "unat index < length (items lo)"
  shows "\<exists>r s'. list_get_item a index session s = Some (r, s') \<and> inv R L {} s' \<and>
     (r = Inl API_E_NO_FREE_MEMORY \<and> (\<forall>b sb. ext_count s' b sb = ext_count s b sb) \<or>
      (\<exists>ob. objs s (items lo ! unat index) = Some ob \<and> r = Inr (obj_id ob, obj_type ob) \<and>
         (\<forall>b sb. ext_count s' b sb = ext_count s b sb +
            (if b = items lo ! unat index \<and> sb = session then 1 else 0))))"
  using assms(4) by (intro yields_pair_mono [OF list_get_item_spec [OF assms(1-3), of index]]) (simp add: Let_def)

theorem item_access_witness:
  "\<exists>r s'. list_get_item 3 0 1 example_list_state = Some (r, s') \<and> inv example_refs (\<lambda>_. 0) {} s' \<and>
     (r = Inl API_E_NO_FREE_MEMORY \<and> (\<forall>b sb. ext_count s' b sb = ext_count example_list_state b sb) \<or>
      (\<exists>ob. objs example_list_state (items \<lparr>items = [0]\<rparr> ! unat (0 :: u16)) = Some ob \<and>
         r = Inr (obj_id ob, obj_type ob) \<and>
         (\<forall>b sb. ext_count s' b sb = ext_count example_list_state b sb +
            (if b = items \<lparr>items = [0]\<rparr> ! unat (0 :: u16) \<and> sb = 1 then 1 else 0))))"
  by (rule item_access [OF inv_example_list]) (simp_all add: example_list_defs the_list_def)

text \<open>
  C15. A list is acquired for its items' type, as the arguments and the environment of a process
  are, only when every item has that type; then the list has one more reference and one more lock.
\<close>

theorem typed_list:
  assumes "inv R L {} s"
  shows "\<exists>r s'. list_get_acquired_and_locked i t s = Some (r, s') \<and> (case r of
       Inr a \<Rightarrow> (\<exists>ob lo. objs s a = Some ob \<and> obj_id ob = i \<and> payload ob = P_List lo \<and>
           (\<forall>x\<in>set (items lo). is_type s t x)) \<and> inv (R(a := R a + 1)) (L(a := L a + 1)) {} s'
     | Inl e \<Rightarrow> s' = s \<and> (e = API_E_UNKNOWN_OBJECT_ID \<or>
         e = API_E_WRONG_LIST_ITEM_TYPE \<and> (\<exists>a ob lo. objs s a = Some ob \<and> obj_id ob = i \<and>
           payload ob = P_List lo \<and> \<not> (\<forall>x\<in>set (items lo). is_type s t x))))"
  using list_get_acquired_and_locked_spec [OF assms, of i t]
  by (elim yieldsE) (auto split: prod.splits sum.splits)

theorem typed_list_witness:
  "\<exists>r s'. list_get_acquired_and_locked 2 OBJECT_TYPE_STRING example_list_state = Some (r, s') \<and> (case r of
       Inr a \<Rightarrow> (\<exists>ob lo. objs example_list_state a = Some ob \<and> obj_id ob = 2 \<and> payload ob = P_List lo \<and>
           (\<forall>x\<in>set (items lo). is_type example_list_state OBJECT_TYPE_STRING x)) \<and>
         inv (example_refs(a := example_refs a + 1)) ((\<lambda>_. 0)(a := 0 + 1)) {} s'
     | Inl e \<Rightarrow> s' = example_list_state \<and> (e = API_E_UNKNOWN_OBJECT_ID \<or>
         e = API_E_WRONG_LIST_ITEM_TYPE \<and> (\<exists>a ob lo. objs example_list_state a = Some ob \<and> obj_id ob = 2 \<and>
           payload ob = P_List lo \<and> \<not> (\<forall>x\<in>set (items lo). is_type example_list_state OBJECT_TYPE_STRING x))))"
  by (rule typed_list [OF inv_example_list])

section \<open>Inventory\<close>

text \<open>
  C16. Looking up an ID finds the one object with that ID and the wanted type, and fails only
  when there is none.
\<close>

theorem lookup:
  assumes "inv R L {} s"
  shows "\<exists>r. inventory_get_object t i s = Some r \<and> (case r of
       Inr a \<Rightarrow> \<exists>ob. objs s a = Some ob \<and> obj_id ob = i \<and> has_type t ob
     | Inl e \<Rightarrow> e = API_E_UNKNOWN_OBJECT_ID \<and>
         (\<forall>a ob. objs s a = Some ob \<and> has_type t ob \<longrightarrow> obj_id ob \<noteq> i))"
  using inventory_get_object_spec [OF assms, of t i] by (simp add: yields_iff_ex)

theorem lookup_witness:
  "\<exists>r. inventory_get_object OBJECT_TYPE_ANY 2 example_list_state = Some r \<and> (case r of
       Inr a \<Rightarrow> \<exists>ob. objs example_list_state a = Some ob \<and> obj_id ob = 2 \<and> has_type OBJECT_TYPE_ANY ob
     | Inl e \<Rightarrow> e = API_E_UNKNOWN_OBJECT_ID \<and>
         (\<forall>a ob. objs example_list_state a = Some ob \<and> has_type OBJECT_TYPE_ANY ob \<longrightarrow> obj_id ob \<noteq> 2))"
  by (rule lookup [OF inv_example_list])



text \<open>
  C18. Whoever takes a string or a list for a while and gives it back leaves all counters as
  they were.
\<close>

theorem acquired_and_released:
  assumes "inv R L {} s" and "objs s a \<noteq> None"
  shows "yields (do { s \<leftarrow> string_acquire_and_lock a s; string_unlock_and_release a s })
      (\<lambda>s'. inv R L {} s' \<and> releases {} s s') \<and>
    yields (do { s \<leftarrow> list_acquire_and_lock a s; list_unlock_and_release a s })
      (\<lambda>s'. inv R L {} s' \<and> releases {} s s')"
  using strings.acquire_release [OF assms] lists.acquire_release [OF assms] by blast

theorem acquired_and_released_witness:
  "yields (do { s \<leftarrow> string_acquire_and_lock 0 example_list_state; string_unlock_and_release 0 s })
      (\<lambda>s'. inv example_refs (\<lambda>_. 0) {} s' \<and> releases {} example_list_state s') \<and>
    yields (do { s \<leftarrow> list_acquire_and_lock 0 example_list_state; list_unlock_and_release 0 s })
      (\<lambda>s'. inv example_refs (\<lambda>_. 0) {} s' \<and> releases {} example_list_state s')"
  by (rule acquired_and_released [OF inv_example_list]) (simp add: example_list_defs)

end
